(* ===== verification/Prelude.thy ===== *)
theory Prelude
  imports Main "HOL-Library.Word"
begin

text \<open>
  Shared vocabulary of the libcgt development: the machine types of the C++ code
  (bytes, \<open>int\<close>, \<open>uint32_t\<close>, \<open>int64_t\<close> as words), the little-endian byte layout
  in which the binary streams store every integer field, the fact collection
  \<open>stream_simps\<close> that the stream component proofs share, and generic lemmas on
  lists and on the bits of words.
\<close>

unbundle bit_operations_syntax

named_theorems stream_simps "characteristic equations of the stream reads and writes"

type_synonym byte = "8 word"
type_synonym int32 = "32 word"   \<comment> \<open>the bit pattern of a C++ \<open>int\<close>; read signed by \<open>sint\<close>\<close>
type_synonym uint32 = "32 word"
type_synonym int64 = "64 word"

subsection \<open>Little-endian layout of integers\<close>

text \<open>
  \<open>le_bytes n k\<close> is the \<open>n\<close>-byte little-endian image of the natural number \<open>k\<close>
  (taken modulo \<open>256 ^ n\<close>); \<open>le_value\<close> reads a byte list back.
  A \<open>w\<close>-bit word occupies \<open>w div 8\<close> bytes, as it does in memory on the
  little-endian platforms the file format is written on.
\<close>

fun le_bytes :: "nat \<Rightarrow> nat \<Rightarrow> byte list" where
  "le_bytes 0 k = []"
| "le_bytes (Suc n) k = of_nat (k mod 256) # le_bytes n (k div 256)"

fun le_value :: "byte list \<Rightarrow> nat" where
  "le_value [] = 0"
| "le_value (b # bs) = unat b + 256 * le_value bs"

definition word_bytes :: "'a::len word \<Rightarrow> byte list" where
  "word_bytes w = le_bytes (LENGTH('a) div 8) (unat w)"

definition bytes_word :: "byte list \<Rightarrow> 'a::len word" where
  "bytes_word bs = of_nat (le_value bs)"

definition char_byte :: "char \<Rightarrow> byte" where
  "char_byte c = of_nat (of_char c)"

subsection \<open>Lemmas on the byte layout\<close>

lemma length_le_bytes [simp]: "length (le_bytes n k) = n"
  by (induction n arbitrary: k) simp_all

lemma le_value_le_bytes: "le_value (le_bytes n k) = k mod 256 ^ n"
proof (induction n arbitrary: k)
  case 0
  then show ?case by simp
next
  case (Suc n)
  have "unat (of_nat (k mod 256) :: byte) = k mod 256"
    by (simp add: unat_of_nat)
  then show ?case
    using Suc.IH by (simp add: mod_mult2_eq)
qed

lemma length_word_bytes [simp]: "length (word_bytes (w :: 'a::len word)) = LENGTH('a) div 8"
  by (simp add: word_bytes_def)

lemma bytes_word_word_bytes [simp]:
  assumes "LENGTH('a::len) mod 8 = 0"
  shows "bytes_word (word_bytes (w :: 'a word)) = w"
proof -
  have "(256::nat) ^ (LENGTH('a) div 8) = 2 ^ (8 * (LENGTH('a) div 8))"
    by (simp add: power_mult)
  also have "8 * (LENGTH('a) div 8) = LENGTH('a)"
    using assms by presburger
  finally have "unat w mod 256 ^ (LENGTH('a) div 8) = unat w"
    by simp
  then show ?thesis
    by (simp add: bytes_word_def word_bytes_def le_value_le_bytes)
qed

lemma word_bytes_inj:
  assumes "LENGTH('a::len) mod 8 = 0" and "word_bytes (v :: 'a word) = word_bytes w"
  shows "v = w"
  by (metis assms bytes_word_word_bytes)

lemma le_value_less: "le_value bs < 256 ^ length bs"
proof (induction bs)
  case Nil
  then show ?case by simp
next
  case (Cons b bs)
  have "unat b < 256"
    using unsigned_less [of b] by simp
  with Cons.IH show ?case by simp
qed

lemma le_bytes_le_value: "le_bytes (length bs) (le_value bs) = bs"
proof (induction bs)
  case Nil
  then show ?case by simp
next
  case (Cons b bs)
  have "unat b < 256"
    using unsigned_less [of b] by simp
  then have "(unat b + 256 * le_value bs) mod 256 = unat b"
    and "(unat b + 256 * le_value bs) div 256 = le_value bs"
    by simp_all
  with Cons.IH show ?case by simp
qed

lemma word_bytes_bytes_word [simp]:
  assumes "LENGTH('a::len) mod 8 = 0" and "length bs = LENGTH('a) div 8"
  shows "word_bytes (bytes_word bs :: 'a word) = bs"
proof -
  have "(256::nat) ^ length bs = 2 ^ (8 * (LENGTH('a) div 8))"
    using assms(2) by (simp add: power_mult)
  also have "8 * (LENGTH('a) div 8) = LENGTH('a)"
    using assms(1) by presburger
  finally have "le_value bs < 2 ^ LENGTH('a)"
    using le_value_less [of bs] by simp
  then have "unat (of_nat (le_value bs) :: 'a word) = le_value bs"
    by (simp add: unat_of_nat)
  then show ?thesis
    using assms(2) le_bytes_le_value [of bs] by (simp add: word_bytes_def bytes_word_def)
qed

lemma sint_of_nat_small:
  assumes "n < 2 ^ (LENGTH('a) - 1)"
  shows "sint (word_of_nat n :: 'a::len word) = int n"
proof -
  have "int n < int (2 ^ (LENGTH('a) - 1))"
    using assms by (simp only: of_nat_less_iff)
  then have lt: "int n < 2 ^ (LENGTH('a) - Suc 0)"
    by simp
  have "- (2 ^ (LENGTH('a) - Suc 0)) \<le> int n"
    by (rule order_trans [of _ 0]) simp_all
  then have "signed_take_bit (LENGTH('a) - Suc 0) (int n) = int n"
    using lt by (rule signed_take_bit_int_eq_self)
  then show ?thesis
    by (simp add: signed_of_nat)
qed

subsection \<open>Lists\<close>

lemma take_prefix [simp]: "length xs = n \<Longrightarrow> take n (xs @ ys) = xs"
  by simp

lemma drop_prefix [simp]: "length xs = n \<Longrightarrow> drop n (xs @ ys) = ys"
  by simp

subsection \<open>Bits of words\<close>

text \<open>
  A bit at or above the width of a word is never set. The explicit lists of bit
  positions turn a statement about every bit of a 16-, 32- or 64-bit word into
  one closed goal per position, which the simplifier evaluates against the masks
  of the bit-twiddling code.
\<close>

lemma word_bit_high [simp]: "LENGTH('a) \<le> n \<Longrightarrow> \<not> bit (w :: 'a::len word) n"
  by (auto dest: bit_imp_le_length)

lemma bit_word_times_2 [simp]:
  "bit ((v :: 'a::len word) * 2) n \<longleftrightarrow> 0 < n \<and> n < LENGTH('a) \<and> bit v (n - 1)"
  using bit_push_bit_iff [of 1 v n] by (auto simp: push_bit_eq_mult bit_simps)

lemma upt_8: "[0..<8] = [0,1,2,3,4,5,6,7::nat]"
  by code_simp

lemma upt_2: "[0..<2] = [0, 1::nat]"
  by code_simp

lemma upt_4: "[0..<4] = [0, 1, 2, 3::nat]"
  by code_simp

lemma upt_16: "[0..<16] = [0,1,2,3,4,5,6,7::nat] @ [8,9,10,11,12,13,14,15]"
  by code_simp

lemma upt_32: "[0..<32] = [0..<16] @ [16,17,18,19,20,21,22,23] @ [24,25,26,27,28,29,30,31]"
  by code_simp

lemma upt_64: "[0..<64] = [0..<32] @ [32,33,34,35,36,37,38,39] @ [40,41,42,43,44,45,46,47] @ [48,49,50,51,52,53,54,55] @ [56,57,58,59,60,61,62,63]"
  by code_simp

lemma less_upt_cases: "(n::nat) < k \<Longrightarrow> n \<in> set [0..<k]"
  by simp

text \<open>
  A bitwise characterisation of a word is proved position by position: the
  premise, over an explicit list of positions, is a conjunction of closed goals.
\<close>

lemma bit_by_positions:
  assumes "LENGTH('a::len) = k" and "\<forall>n \<in> set [0..<k]. bit (a :: 'a word) n \<longleftrightarrow> P n"
  shows "bit a n \<longleftrightarrow> n < k \<and> P n"
  using assms by (cases "n < k") auto

lemma list_eq_by_positions:
  assumes "length xs = k" and "length ys = k" and "\<forall>i \<in> set [0..<k]. xs ! i = ys ! i"
  shows "xs = ys"
  using assms by (intro nth_equalityI) simp_all

lemma word_eq_by_positions:
  assumes "LENGTH('a::len) = k" and "\<forall>n \<in> set [0..<k]. bit (a :: 'a word) n \<longleftrightarrow> bit b n"
  shows "a = b"
  using assms by (intro bit_word_eqI) simp

subsection \<open>Bits of the byte layout\<close>

lemma bit_le_bytes_nth: "i < n \<Longrightarrow> bit (le_bytes n k ! i) j \<longleftrightarrow> j < 8 \<and> bit k (8 * i + j)"
proof (induction n arbitrary: k i)
  case 0
  then show ?case by simp
next
  case (Suc n)
  have mod: "k mod 256 = take_bit 8 k" and dv: "k div 256 = drop_bit 8 k"
    by (simp_all add: take_bit_eq_mod drop_bit_eq_div)
  show ?case
  proof (cases i)
    case 0
    then show ?thesis by (simp add: mod bit_simps bit_of_nat_iff)
  next
    case (Suc i')
    then show ?thesis using Suc.IH [of i' "k div 256"] Suc.prems by (simp add: dv bit_simps add.assoc)
  qed
qed

lemma bit_word_bytes_nth:
  "i < LENGTH('a) div 8 \<Longrightarrow> bit (word_bytes (w :: 'a::len word) ! i) j \<longleftrightarrow> j < 8 \<and> bit w (8 * i + j)"
  by (simp add: word_bytes_def bit_le_bytes_nth bit_simps)

lemma byte_eq_by_bits:
  assumes "\<forall>j \<in> set [0..<8]. bit (a :: byte) j \<longleftrightarrow> bit b j"
  shows "a = b"
  using assms by (intro word_eq_by_positions) simp_all

subsection \<open>Signed 32-bit values\<close>

lemma sint_word_of_int_small:
  assumes "- (2 ^ 31) \<le> k" and "k < 2 ^ 31"
  shows "sint (word_of_int k :: int32) = k"
proof -
  have "signed_take_bit 31 k = k"
    using assms by (intro signed_take_bit_int_eq_self) simp_all
  then show ?thesis
    by (simp add: sint_sbintrunc')
qed

lemma sint_count_pos:
  "0 < sint (word_of_nat n :: int32) \<longleftrightarrow> 0 < n mod 2 ^ 32 \<and> n mod 2 ^ 32 < 2 ^ 31"
proof -
  have "sint (word_of_nat n :: int32) = (int n + 2 ^ 31) mod 2 ^ 32 - 2 ^ 31"
    using int_word_sint [where x = "int n" and 'a = 32] by simp
  also have "(int n + 2 ^ 31) mod 2 ^ 32 = (int (n mod 2 ^ 32) + 2 ^ 31) mod 2 ^ 32"
    by (simp add: zmod_int mod_add_left_eq)
  finally have s: "sint (word_of_nat n :: int32) = (int (n mod 2 ^ 32) + 2 ^ 31) mod 2 ^ 32 - 2 ^ 31" .
  have lt: "n mod 2 ^ 32 < 2 ^ 32"
    by simp
  show ?thesis
  proof (cases "n mod 2 ^ 32 < 2 ^ 31")
    case True
    then show ?thesis
      unfolding s by (simp add: mod_pos_pos_trivial)
  next
    case False
    have "(int (n mod 2 ^ 32) + 2 ^ 31) mod 2 ^ 32 = (int (n mod 2 ^ 32) - 2 ^ 31 + 2 ^ 32) mod (2 ^ 32 :: int)"
      by (simp add: add.commute)
    also have "\<dots> = (int (n mod 2 ^ 32) - 2 ^ 31) mod 2 ^ 32"
      by (rule mod_add_self2)
    also have "\<dots> = int (n mod 2 ^ 32) - 2 ^ 31"
      using False lt by (intro mod_pos_pos_trivial) simp_all
    finally show ?thesis
      unfolding s using False lt by simp
  qed
qed

end
