(* ===== verification/BinaryStream.thy ===== *)
theory BinaryStream
  imports Prelude
begin

text \<open>
  The binary file streams the RGBD container is written and read through
  (\<open>BinaryFileInputStream\<close>, \<open>BinaryFileOutputStream\<close> of libcgt's core/io; their
  sources are not in this repository, so they are modelled from the specification).
  An input stream is an open flag and the bytes not yet read; a read of \<open>n\<close>
  bytes either returns them and advances, or fails and leaves the stream at end of
  file, as a short \<open>fread\<close> does. An output stream is an open flag, the bytes
  written so far to its file, and the room the file system still has for it
  (\<open>None\<close>: no limit). A write appends; it fails when the file is not open, and a
  write that does not fit is a short write: the bytes that fit reach the file and
  the write fails (section 7 of the specification: no rollback of partial bytes).
  Integers are read and written in their in-memory little-endian layout.
\<close>

record BinaryFileInputStream =
  in_open :: bool
  in_rest :: "byte list"

record BinaryFileOutputStream =
  out_open :: bool
  out_file :: "byte list"
  out_space :: "nat option"

definition openInput :: "byte list option \<Rightarrow> BinaryFileInputStream" where
  "openInput f = (case f of
       None \<Rightarrow> \<lparr>in_open = False, in_rest = []\<rparr>
     | Some bs \<Rightarrow> \<lparr>in_open = True, in_rest = bs\<rparr>)"

definition readBytes :: "nat \<Rightarrow> BinaryFileInputStream \<Rightarrow> byte list option \<times> BinaryFileInputStream" where
  "readBytes n s =
     (if in_open s \<and> n \<le> length (in_rest s)
      then (Some (take n (in_rest s)), s\<lparr>in_rest := drop n (in_rest s)\<rparr>)
      else (None, s\<lparr>in_rest := []\<rparr>))"

definition readWord :: "BinaryFileInputStream \<Rightarrow> 'a::len word option \<times> BinaryFileInputStream" where
  "readWord s = (case readBytes (LENGTH('a) div 8) s of (r, s') \<Rightarrow> (map_option bytes_word r, s'))"

definition closedOutput :: BinaryFileOutputStream where
  "closedOutput = \<lparr>out_open = False, out_file = [], out_space = None\<rparr>"

definition openOutput :: "bool \<Rightarrow> BinaryFileOutputStream" where
  "openOutput canOpen = \<lparr>out_open = canOpen, out_file = [], out_space = None\<rparr>"

definition writeBytes :: "byte list \<Rightarrow> BinaryFileOutputStream \<Rightarrow> bool \<times> BinaryFileOutputStream" where
  "writeBytes bs s =
     (if \<not> out_open s then (False, s) else
      case out_space s of
        None \<Rightarrow> (True, s\<lparr>out_file := out_file s @ bs\<rparr>)
      | Some n \<Rightarrow>
          if length bs \<le> n then (True, s\<lparr>out_file := out_file s @ bs, out_space := Some (n - length bs)\<rparr>)
          else (False, s\<lparr>out_file := out_file s @ take n bs, out_space := Some 0\<rparr>))"

definition writeWord :: "'a::len word \<Rightarrow> BinaryFileOutputStream \<Rightarrow> bool \<times> BinaryFileOutputStream" where
  "writeWord w s = writeBytes (word_bytes w) s"

definition closeOutput :: "BinaryFileOutputStream \<Rightarrow> bool \<times> BinaryFileOutputStream" where
  "closeOutput s = (True, s\<lparr>out_open := False\<rparr>)"

text \<open>A sequence of writes whose results are not inspected.\<close>

definition writeAll :: "byte list list \<Rightarrow> BinaryFileOutputStream \<Rightarrow> BinaryFileOutputStream" where
  "writeAll chunks s = foldl (\<lambda>t bs. snd (writeBytes bs t)) s chunks"

subsection \<open>Reading\<close>

lemma readBytes_prefix [stream_simps]:
  "length bs = n \<Longrightarrow>
   readBytes n \<lparr>in_open = True, in_rest = bs @ rest\<rparr> = (Some bs, \<lparr>in_open = True, in_rest = rest\<rparr>)"
  by (simp add: readBytes_def)

lemma readBytes_short:
  "\<not> (in_open s \<and> n \<le> length (in_rest s)) \<Longrightarrow> readBytes n s = (None, s\<lparr>in_rest := []\<rparr>)"
  by (simp add: readBytes_def)

lemma readBytes_Some:
  assumes "readBytes n s = (Some bs, s')"
  shows "in_open s \<and> length bs = n \<and> in_rest s = bs @ in_rest s' \<and> in_open s' = in_open s"
  using assms by (auto simp: readBytes_def split: if_splits)

lemma readBytes_open [simp]: "in_open (snd (readBytes n s)) = in_open s"
  by (simp add: readBytes_def)

lemma readBytes_rest_le: "readBytes n s = (r, s') \<Longrightarrow> length (in_rest s') \<le> length (in_rest s)"
  by (auto simp: readBytes_def split: if_splits)

lemma readWord_prefix [stream_simps]:
  assumes "LENGTH('a::len) mod 8 = 0"
  shows "readWord \<lparr>in_open = True, in_rest = word_bytes (w :: 'a word) @ rest\<rparr>
         = (Some w, \<lparr>in_open = True, in_rest = rest\<rparr>)"
  using assms by (simp add: readWord_def readBytes_prefix)

lemma readWord_eq:
  "(readWord s :: 'a::len word option \<times> BinaryFileInputStream) =
     (map_option bytes_word (fst (readBytes (LENGTH('a) div 8) s)), snd (readBytes (LENGTH('a) div 8) s))"
  by (simp add: readWord_def split: prod.splits)

lemma readWord_SomeD:
  assumes "readWord s = (Some (w :: 'a::len word), s')" and "LENGTH('a) mod 8 = 0"
  shows "in_open s \<and> in_open s' \<and> in_rest s = word_bytes w @ in_rest s'"
proof -
  obtain bs where rb: "readBytes (LENGTH('a) div 8) s = (Some bs, s')" and w: "w = bytes_word bs"
    using assms(1) by (cases "readBytes (LENGTH('a) div 8) s") (auto simp: readWord_eq)
  from rb have "in_open s \<and> length bs = LENGTH('a) div 8 \<and> in_rest s = bs @ in_rest s' \<and> in_open s' = in_open s"
    by (rule readBytes_Some)
  with w assms(2) show ?thesis
    by simp
qed

lemma readWord_None:
  "readWord s = (None :: 'a::len word option, s') \<Longrightarrow> s' = s\<lparr>in_rest := []\<rparr>"
  by (simp add: readWord_eq readBytes_def split: if_splits)

lemma readWord_open:
  "readWord s = (r :: 'a::len word option, s') \<Longrightarrow> in_open s' = in_open s"
  by (simp add: readWord_eq readBytes_def split: if_splits) auto

lemma readWord_rest_le:
  "readWord s = (r :: 'a::len word option, s') \<Longrightarrow> length (in_rest s') \<le> length (in_rest s)"
  by (simp add: readWord_eq readBytes_def split: if_splits) auto

subsection \<open>Writing\<close>

lemma writeBytes_open [stream_simps]:
  "out_open s \<Longrightarrow> out_space s = None \<Longrightarrow> writeBytes bs s = (True, s\<lparr>out_file := out_file s @ bs\<rparr>)"
  by (simp add: writeBytes_def)

lemma writeBytes_closed [stream_simps]:
  "\<not> out_open s \<Longrightarrow> writeBytes bs s = (False, s)"
  by (simp add: writeBytes_def)

lemma writeAll_open [stream_simps]:
  "out_open s \<Longrightarrow> out_space s = None \<Longrightarrow> writeAll chunks s = s\<lparr>out_file := out_file s @ concat chunks\<rparr>"
  by (induction chunks arbitrary: s) (simp_all add: writeAll_def writeBytes_def)

lemma writeAll_closed [stream_simps]:
  "\<not> out_open s \<Longrightarrow> writeAll chunks s = s"
  by (induction chunks arbitrary: s) (simp_all add: writeAll_def writeBytes_def)

text \<open>Every write appends a prefix of its bytes, all of them when it succeeds; it
  never reopens the stream.\<close>

lemma writeBytes_prefix:
  assumes "writeBytes bs s = (ok, s')"
  shows "\<exists>k. out_file s' = out_file s @ take k bs \<and> (ok \<longrightarrow> k = length bs) \<and> out_open s' = out_open s"
  using assms by (auto simp: writeBytes_def split: if_splits option.splits intro: exI [of _ 0] exI [of _ "length bs"])

lemma writeBytes_ok_open: "writeBytes bs s = (True, s') \<Longrightarrow> out_open s"
  by (simp add: writeBytes_def split: if_splits)

lemma writeAll_append: "writeAll (xs @ ys) s = writeAll ys (writeAll xs s)"
  by (simp add: writeAll_def)

end
