(* ===== verification/PixelFormat.thy ===== *)
theory PixelFormat
  imports Prelude
begin

text \<open>
  Stream metadata of the RGBD container (camera_wrappers/RGBDStream): the
  \<open>StreamType\<close> and \<open>PixelFormat\<close> enumerations, the per-pixel size table
  \<open>pixelSizeBytes\<close>, the on-disk metadata records in their current and legacy (V1)
  layouts, the payload size computed from a record as RGBDStream.cpp computes it
  (in 32-bit \<open>int\<close> arithmetic), and the V1 format-to-type classification.
  The enumerations and the size table live in headers that are not part of this
  repository: their constructors are those the code and the specification name,
  their numeric codes are the declaration order. On disk and in memory an enum
  field is a raw 32-bit code, so the metadata records keep raw codes: a file may
  hold any code, and the code compares codes, not enum values.
\<close>

datatype StreamType = COLOR | DEPTH | INFRARED

datatype PixelFormat =
    INVALID
  | DEPTH_MM_U16 | DEPTH_M_F32
  | RGBA_U8888 | RGB_U888 | BGRA_U8888 | BGR_U888
  | GRAY_U8 | GRAY_U16 | GRAY_F32

primrec streamTypeCode :: "StreamType \<Rightarrow> int32" where
  "streamTypeCode COLOR = 0"
| "streamTypeCode DEPTH = 1"
| "streamTypeCode INFRARED = 2"

primrec pixelFormatCode :: "PixelFormat \<Rightarrow> int32" where
  "pixelFormatCode INVALID = 0"
| "pixelFormatCode DEPTH_MM_U16 = 1"
| "pixelFormatCode DEPTH_M_F32 = 2"
| "pixelFormatCode RGBA_U8888 = 3"
| "pixelFormatCode RGB_U888 = 4"
| "pixelFormatCode BGRA_U8888 = 5"
| "pixelFormatCode BGR_U888 = 6"
| "pixelFormatCode GRAY_U8 = 7"
| "pixelFormatCode GRAY_U16 = 8"
| "pixelFormatCode GRAY_F32 = 9"

primrec formatPixelSize :: "PixelFormat \<Rightarrow> int" where
  "formatPixelSize INVALID = 0"
| "formatPixelSize DEPTH_MM_U16 = 2"
| "formatPixelSize DEPTH_M_F32 = 4"
| "formatPixelSize RGBA_U8888 = 4"
| "formatPixelSize RGB_U888 = 3"
| "formatPixelSize BGRA_U8888 = 4"
| "formatPixelSize BGR_U888 = 3"
| "formatPixelSize GRAY_U8 = 1"
| "formatPixelSize GRAY_U16 = 2"
| "formatPixelSize GRAY_F32 = 4"

definition allPixelFormats :: "PixelFormat list" where
  "allPixelFormats = [INVALID, DEPTH_MM_U16, DEPTH_M_F32, RGBA_U8888, RGB_U888, BGRA_U8888,
                      BGR_U888, GRAY_U8, GRAY_U16, GRAY_F32]"

definition decodePixelFormat :: "int32 \<Rightarrow> PixelFormat option" where
  "decodePixelFormat c = find (\<lambda>f. pixelFormatCode f = c) allPixelFormats"

text \<open>\<open>pixelSizeBytes\<close> on a raw code: the table's \<open>switch\<close>, with 0 for a code outside the enumeration.\<close>

definition pixelSizeBytes :: "int32 \<Rightarrow> int" where
  "pixelSizeBytes c = (case decodePixelFormat c of None \<Rightarrow> 0 | Some f \<Rightarrow> formatPixelSize f)"

record StreamMetadata =
  sm_type :: int32
  sm_format :: int32
  sm_size :: "int32 \<times> int32"

record StreamMetadataV1 =
  v1_format :: int32
  v1_size :: "int32 \<times> int32"

text \<open>The in-memory layout of the two structs, read and written as raw bytes by the streams.\<close>

definition encodeMetadata :: "StreamMetadata \<Rightarrow> byte list" where
  "encodeMetadata m = word_bytes (sm_type m) @ word_bytes (sm_format m) @
     word_bytes (fst (sm_size m)) @ word_bytes (snd (sm_size m))"

definition decodeMetadata :: "byte list \<Rightarrow> StreamMetadata" where
  "decodeMetadata bs = \<lparr>sm_type = bytes_word (take 4 bs), sm_format = bytes_word (take 4 (drop 4 bs)),
     sm_size = (bytes_word (take 4 (drop 8 bs)), bytes_word (drop 12 bs))\<rparr>"

definition encodeMetadataV1 :: "StreamMetadataV1 \<Rightarrow> byte list" where
  "encodeMetadataV1 m = word_bytes (v1_format m) @ word_bytes (fst (v1_size m)) @ word_bytes (snd (v1_size m))"

definition decodeMetadataV1 :: "byte list \<Rightarrow> StreamMetadataV1" where
  "decodeMetadataV1 bs = \<lparr>v1_format = bytes_word (take 4 bs),
     v1_size = (bytes_word (take 4 (drop 4 bs)), bytes_word (drop 8 bs))\<rparr>"

text \<open>
  RGBDStream.cpp, \<open>bufferSize = pixelSizeBytes( format ) * size.x * size.y\<close>: a product
  of C++ \<open>int\<close>s, evaluated left to right in 32-bit two's complement.
\<close>

definition bufferSize :: "int32 \<Rightarrow> int32 \<times> int32 \<Rightarrow> int" where
  "bufferSize fmt sz = sint (word_of_int (pixelSizeBytes fmt) * fst sz * snd sz)"

text \<open>The V1 post-pass of the \<open>RGBDInputStream\<close> constructor: type derived from format.\<close>

definition v1StreamType :: "int32 \<Rightarrow> int32" where
  "v1StreamType fmt =
     (if fmt = pixelFormatCode DEPTH_MM_U16 \<or> fmt = pixelFormatCode DEPTH_M_F32
      then streamTypeCode DEPTH
      else if fmt = pixelFormatCode RGBA_U8888 \<or> fmt = pixelFormatCode RGB_U888 \<or>
              fmt = pixelFormatCode BGRA_U8888 \<or> fmt = pixelFormatCode BGR_U888
      then streamTypeCode COLOR
      else streamTypeCode INFRARED)"

definition convertV1 :: "StreamMetadataV1 \<Rightarrow> StreamMetadata" where
  "convertV1 m = \<lparr>sm_type = v1StreamType (v1_format m), sm_format = v1_format m, sm_size = v1_size m\<rparr>"

subsection \<open>The enumerations\<close>

lemma pixelFormatCode_inj: "pixelFormatCode f = pixelFormatCode g \<longleftrightarrow> f = g"
  by (cases f; cases g) simp_all

lemma streamTypeCode_inj: "streamTypeCode s = streamTypeCode t \<longleftrightarrow> s = t"
  by (cases s; cases t) simp_all

lemma decodePixelFormat_code [simp]: "decodePixelFormat (pixelFormatCode f) = Some f"
  by (cases f) (simp_all add: decodePixelFormat_def allPixelFormats_def)

lemma pixelSizeBytes_code [simp]: "pixelSizeBytes (pixelFormatCode f) = formatPixelSize f"
  by (simp add: pixelSizeBytes_def)

lemma formatPixelSize_range: "0 \<le> formatPixelSize f \<and> formatPixelSize f \<le> 4"
  by (cases f) simp_all

lemma pixelSizeBytes_range: "0 \<le> pixelSizeBytes c \<and> pixelSizeBytes c \<le> 4"
  by (simp add: pixelSizeBytes_def formatPixelSize_range split: option.splits)

subsection \<open>The metadata layouts\<close>

lemma length_encodeMetadata [simp]: "length (encodeMetadata m) = 16"
  by (simp add: encodeMetadata_def)

lemma length_encodeMetadataV1 [simp]: "length (encodeMetadataV1 m) = 12"
  by (simp add: encodeMetadataV1_def)

lemma decodeMetadata_encodeMetadata [simp]: "decodeMetadata (encodeMetadata m) = m"
  by (simp add: decodeMetadata_def encodeMetadata_def)

lemma decodeMetadataV1_encodeMetadataV1 [simp]: "decodeMetadataV1 (encodeMetadataV1 m) = m"
  by (simp add: decodeMetadataV1_def encodeMetadataV1_def)

subsection \<open>Stream types and buffer sizes\<close>

lemma decodePixelFormat_Some: "decodePixelFormat c = Some f \<longleftrightarrow> c = pixelFormatCode f"
  by (cases f) (auto simp: decodePixelFormat_def allPixelFormats_def find_Some_iff less_Suc_eq nth_Cons' split: if_splits)

text \<open>
  (V1 type derivation). The constructor's V1 post-pass gives a stream the
  type DEPTH exactly when its format code is one of the two depth formats, COLOR exactly
  when it is one of the four colour formats, and INFRARED otherwise: also for the
  INVALID format, the gray formats and any code outside the enumeration.
\<close>

theorem v1StreamType_classifies:
  "v1StreamType c =
     streamTypeCode (if decodePixelFormat c \<in> {Some DEPTH_MM_U16, Some DEPTH_M_F32} then DEPTH
                     else if decodePixelFormat c \<in> {Some RGBA_U8888, Some RGB_U888, Some BGRA_U8888, Some BGR_U888} then COLOR
                     else INFRARED)"
  by (auto simp: v1StreamType_def decodePixelFormat_Some)

text \<open>
  (No overflow.) When the product of the pixel size and the two extents fits in
  a C++ \<open>int\<close>, the constructor's buffer size is that product.
\<close>

theorem bufferSize_exact:
  assumes "- (2 ^ 31) \<le> pixelSizeBytes fmt * sint x * sint y" and "pixelSizeBytes fmt * sint x * sint y < 2 ^ 31"
  shows "bufferSize fmt (x, y) = pixelSizeBytes fmt * sint x * sint y"
proof -
  have "word_of_int (pixelSizeBytes fmt) * x * y = (word_of_int (pixelSizeBytes fmt * sint x * sint y) :: int32)"
    by (simp add: of_int_sint)
  then have "bufferSize fmt (x, y) = sint (word_of_int (pixelSizeBytes fmt * sint x * sint y) :: int32)"
    unfolding bufferSize_def by (simp only: fst_conv snd_conv)
  also have "\<dots> = pixelSizeBytes fmt * sint x * sint y"
    using assms by (rule sint_word_of_int_small)
  finally show ?thesis .
qed


end
