(* ===== verification/RGBDInput.thy ===== *)
theory RGBDInput
  imports BinaryStream PixelFormat
begin

text \<open>
  The reader of the RGBD container, \<open>RGBDInputStream\<close> of
  src/camera_wrappers/RGBDStream.cpp: its state (the input stream, the parsed
  metadata, one scratch buffer per stream, the validity flag), the constructor that
  parses the header, \<open>isValid\<close>, and \<open>read\<close>. The constructor is a function of
  the file's bytes (\<open>None\<close> when the file cannot be opened) and of the \<open>useV1\<close>
  flag; \<open>read\<close> returns the frame it decoded, or \<open>None\<close> for the null view, with
  the new reader state. Allocating a scratch buffer of negative size (which a
  metadata record with a negative width or an overflowing product produces) is
  behaviour the repository does not define (\<open>Array1D\<close> is not part of it): it is
  the error value \<open>NegativeBufferSize\<close>.
\<close>

datatype InputError = NegativeBufferSize

record RGBDInputStream =
  m_stream :: BinaryFileInputStream
  m_metadata :: "StreamMetadata list"
  m_buffers :: "byte list list"
  m_valid :: bool

record Frame =
  f_streamId :: uint32
  f_frameIndex :: int32
  f_timestamp :: int64
  f_data :: "byte list"

definition FORMAT_VERSION :: int32 where
  "FORMAT_VERSION = 1"

definition rgbdMagic :: "byte list" where
  "rgbdMagic = map char_byte ''rgbd''"

definition readMetadata :: "BinaryFileInputStream \<Rightarrow> StreamMetadata option \<times> BinaryFileInputStream" where
  "readMetadata s = (case readBytes 16 s of (r, s') \<Rightarrow> (map_option decodeMetadata r, s'))"

definition readMetadataV1 :: "BinaryFileInputStream \<Rightarrow> StreamMetadataV1 option \<times> BinaryFileInputStream" where
  "readMetadataV1 s = (case readBytes 12 s of (r, s') \<Rightarrow> (map_option decodeMetadataV1 r, s'))"

text \<open>\<open>m_buffers.emplace_back( bufferSize )\<close>: a zero-filled buffer of that many bytes.\<close>

definition allocBuffer :: "int \<Rightarrow> InputError + byte list" where
  "allocBuffer n = (if n < 0 then Inl NegativeBufferSize else Inr (replicate (nat n) 0))"

text \<open>
  The constructor's loop over the \<open>nStreams\<close> metadata records: read one record
  in the selected schema, allocate its buffer, go on; a failed read stops the loop
  with \<open>ok = false\<close>. Result: \<open>ok\<close>, the records read in the current and in the
  V1 schema, the buffers allocated, and the stream.
\<close>

fun readStreams :: "bool \<Rightarrow> nat \<Rightarrow> BinaryFileInputStream \<Rightarrow>
    InputError + bool \<times> StreamMetadata list \<times> StreamMetadataV1 list \<times> byte list list \<times> BinaryFileInputStream" where
  "readStreams useV1 0 s = Inr (True, [], [], [], s)"
| "readStreams useV1 (Suc k) s =
     (if useV1 then
        (case readMetadataV1 s of
           (None, s1) \<Rightarrow> Inr (False, [], [], [], s1)
         | (Some m, s1) \<Rightarrow>
             (case allocBuffer (bufferSize (v1_format m) (v1_size m)) of
                Inl e \<Rightarrow> Inl e
              | Inr buf \<Rightarrow>
                  (case readStreams useV1 k s1 of
                     Inl e \<Rightarrow> Inl e
                   | Inr (ok, ms, m1s, bufs, s2) \<Rightarrow> Inr (ok, ms, m # m1s, buf # bufs, s2))))
      else
        (case readMetadata s of
           (None, s1) \<Rightarrow> Inr (False, [], [], [], s1)
         | (Some m, s1) \<Rightarrow>
             (case allocBuffer (bufferSize (sm_format m) (sm_size m)) of
                Inl e \<Rightarrow> Inl e
              | Inr buf \<Rightarrow>
                  (case readStreams useV1 k s1 of
                     Inl e \<Rightarrow> Inl e
                   | Inr (ok, ms, m1s, bufs, s2) \<Rightarrow> Inr (ok, m # ms, m1s, buf # bufs, s2)))))"

text \<open>\<open>char magic[ 5 ] = {}\<close> and four one-byte reads: a failed read leaves its \<open>'\0'\<close>.\<close>

definition magicChar :: "byte list option \<Rightarrow> byte" where
  "magicChar r = (case r of None \<Rightarrow> 0 | Some bs \<Rightarrow> hd bs)"

definition readMagic :: "BinaryFileInputStream \<Rightarrow> byte list \<times> BinaryFileInputStream" where
  "readMagic s0 =
     (case readBytes 1 s0 of (c0, s1) \<Rightarrow>
      case readBytes 1 s1 of (c1, s2) \<Rightarrow>
      case readBytes 1 s2 of (c2, s3) \<Rightarrow>
      case readBytes 1 s3 of (c3, s4) \<Rightarrow> (map magicChar [c0, c1, c2, c3], s4))"

text \<open>
  The constructor. \<open>ok\<close> is the result of the last read performed: the version read
  when the magic or the version does not match, the stream count read when the
  count is not positive, the last metadata read otherwise. \<open>m_valid = ok\<close>.
  After a failed metadata read \<open>m_metadata\<close> and \<open>metadataV1\<close> are cleared (so
  the V1 post-pass does nothing); \<open>m_buffers\<close> keeps what was allocated.
\<close>

definition rgbdInputStream :: "byte list option \<Rightarrow> bool \<Rightarrow> InputError + RGBDInputStream" where
  "rgbdInputStream file useV1 =
     (case readMagic (openInput file) of (magic, s1) \<Rightarrow>
      case (readWord s1 :: int32 option \<times> BinaryFileInputStream) of (version, s2) \<Rightarrow>
      if version \<noteq> None \<and> magic = rgbdMagic \<and> version = Some FORMAT_VERSION then
        (case (readWord s2 :: int32 option \<times> BinaryFileInputStream) of
           (None, s3) \<Rightarrow> Inr \<lparr>m_stream = s3, m_metadata = [], m_buffers = [], m_valid = False\<rparr>
         | (Some nStreams, s3) \<Rightarrow>
             if 0 < sint nStreams then
               (case readStreams useV1 (nat (sint nStreams)) s3 of
                  Inl e \<Rightarrow> Inl e
                | Inr (ok, ms, m1s, bufs, s4) \<Rightarrow>
                    Inr \<lparr>m_stream = s4,
                         m_metadata = (if \<not> ok then [] else if useV1 then map convertV1 m1s else ms),
                         m_buffers = bufs, m_valid = ok\<rparr>)
             else Inr \<lparr>m_stream = s3, m_metadata = [], m_buffers = [], m_valid = True\<rparr>)
      else Inr \<lparr>m_stream = s2, m_metadata = [], m_buffers = [], m_valid = (version \<noteq> None)\<rparr>)"

definition isValidIn :: "RGBDInputStream \<Rightarrow> bool" where
  "isValidIn r \<longleftrightarrow> m_valid r \<and> in_open (m_stream r)"

text \<open>\<open>metadata()\<close> returns the records read by the constructor.\<close>

definition metadataIn :: "RGBDInputStream \<Rightarrow> StreamMetadata list" where
  "metadataIn r = m_metadata r"

text \<open>
  \<open>read\<close>: each field read in turn; the stream id is checked against the number of
  buffers before anything else is read; the payload is read into the stream's own
  buffer, whose length fixes how many bytes are read. A failure at any point
  returns the null view (\<open>None\<close>) with the stream advanced as far as it got.
\<close>

definition rgbdRead :: "RGBDInputStream \<Rightarrow> Frame option \<times> RGBDInputStream" where
  "rgbdRead r =
     (if \<not> isValidIn r then (None, r) else
      case (readWord (m_stream r) :: uint32 option \<times> BinaryFileInputStream) of
        (None, s1) \<Rightarrow> (None, r\<lparr>m_stream := s1\<rparr>)
      | (Some sid, s1) \<Rightarrow>
          if \<not> unat sid < length (m_buffers r) then (None, r\<lparr>m_stream := s1\<rparr>) else
          (case (readWord s1 :: int32 option \<times> BinaryFileInputStream) of
             (None, s2) \<Rightarrow> (None, r\<lparr>m_stream := s2\<rparr>)
           | (Some fi, s2) \<Rightarrow>
               (case (readWord s2 :: int64 option \<times> BinaryFileInputStream) of
                  (None, s3) \<Rightarrow> (None, r\<lparr>m_stream := s3\<rparr>)
                | (Some ts, s3) \<Rightarrow>
                    (case readBytes (length (m_buffers r ! unat sid)) s3 of
                       (None, s4) \<Rightarrow> (None, r\<lparr>m_stream := s4\<rparr>)
                     | (Some data, s4) \<Rightarrow>
                         (Some \<lparr>f_streamId = sid, f_frameIndex = fi, f_timestamp = ts, f_data = data\<rparr>,
                          r\<lparr>m_stream := s4, m_buffers := (m_buffers r)[unat sid := data]\<rparr>)))))"

text \<open>
  The byte layout the reader decodes (and the writer produces): the header of a
  file in the current or the legacy schema, and one frame record. The payload
  follows its record header with no length field.
\<close>

definition encodeHeader :: "StreamMetadata list \<Rightarrow> byte list" where
  "encodeHeader md = rgbdMagic @ word_bytes FORMAT_VERSION @ word_bytes (word_of_nat (length md) :: int32) @
     concat (map encodeMetadata md)"

definition encodeHeaderV1 :: "StreamMetadataV1 list \<Rightarrow> byte list" where
  "encodeHeaderV1 md = rgbdMagic @ word_bytes FORMAT_VERSION @ word_bytes (word_of_nat (length md) :: int32) @
     concat (map encodeMetadataV1 md)"

definition encodeFrame :: "Frame \<Rightarrow> byte list" where
  "encodeFrame f = word_bytes (f_streamId f) @ word_bytes (f_frameIndex f) @ word_bytes (f_timestamp f) @ f_data f"

definition initialBuffer :: "StreamMetadata \<Rightarrow> byte list" where
  "initialBuffer m = replicate (nat (bufferSize (sm_format m) (sm_size m))) 0"

text \<open>
  The reader's invariant: a valid reader has one buffer per metadata record, each
  exactly as long as the payload size its record determines.
\<close>

definition inputInv :: "RGBDInputStream \<Rightarrow> bool" where
  "inputInv r \<longleftrightarrow>
     (m_valid r \<longrightarrow> length (m_buffers r) = length (m_metadata r) \<and>
        (\<forall>i < length (m_buffers r).
           int (length (m_buffers r ! i)) = bufferSize (sm_format (m_metadata r ! i)) (sm_size (m_metadata r ! i))))"

text \<open>
  What a correct producer supplies: at least one and fewer than \<open>2 ^ 31\<close> streams,
  each with a non-negative payload size, and frames whose stream id is in range and
  whose payload has exactly the size of its stream.
\<close>

definition validMetadata :: "StreamMetadata list \<Rightarrow> bool" where
  "validMetadata md \<longleftrightarrow>
     0 < length md \<and> length md < 2 ^ 31 \<and> (\<forall>m \<in> set md. 0 \<le> bufferSize (sm_format m) (sm_size m))"

definition framesFit :: "StreamMetadata list \<Rightarrow> Frame list \<Rightarrow> bool" where
  "framesFit md fs \<longleftrightarrow>
     (\<forall>f \<in> set fs. unat (f_streamId f) < length md \<and>
        int (length (f_data f)) = bufferSize (sm_format (md ! unat (f_streamId f))) (sm_size (md ! unat (f_streamId f))))"

text \<open>
  The reader objects of a program run: constructed from a file (in either schema),
  then read from any number of times.
\<close>

inductive inputReach :: "RGBDInputStream \<Rightarrow> bool" where
  reach_open: "rgbdInputStream file useV1 = Inr r \<Longrightarrow> inputReach r"
| reach_read: "inputReach r \<Longrightarrow> inputReach (snd (rgbdRead r))"

subsection \<open>Parsing the header\<close>

lemma readMagic_prefix:
  "readMagic \<lparr>in_open = True, in_rest = rgbdMagic @ rest\<rparr> = (rgbdMagic, \<lparr>in_open = True, in_rest = rest\<rparr>)"
  by (simp add: readMagic_def rgbdMagic_def char_byte_def readBytes_def magicChar_def)

lemma readMetadata_prefix [stream_simps]:
  "readMetadata \<lparr>in_open = True, in_rest = encodeMetadata m @ rest\<rparr> = (Some m, \<lparr>in_open = True, in_rest = rest\<rparr>)"
  by (simp add: readMetadata_def readBytes_prefix)

lemma readMetadataV1_prefix [stream_simps]:
  "readMetadataV1 \<lparr>in_open = True, in_rest = encodeMetadataV1 m @ rest\<rparr> = (Some m, \<lparr>in_open = True, in_rest = rest\<rparr>)"
  by (simp add: readMetadataV1_def readBytes_prefix)

lemma readStreams_encoded:
  assumes "\<forall>m \<in> set md. 0 \<le> bufferSize (sm_format m) (sm_size m)"
  shows "readStreams False (length md) \<lparr>in_open = True, in_rest = concat (map encodeMetadata md) @ rest\<rparr>
         = Inr (True, md, [], map initialBuffer md, \<lparr>in_open = True, in_rest = rest\<rparr>)"
  using assms
  by (induction md) (simp_all add: readMetadata_prefix allocBuffer_def initialBuffer_def)

lemma readStreams_encodedV1:
  assumes "\<forall>m \<in> set md. 0 \<le> bufferSize (v1_format m) (v1_size m)"
  shows "readStreams True (length md) \<lparr>in_open = True, in_rest = concat (map encodeMetadataV1 md) @ rest\<rparr>
         = Inr (True, [], md, map (initialBuffer \<circ> convertV1) md, \<lparr>in_open = True, in_rest = rest\<rparr>)"
  using assms
  by (induction md) (simp_all add: readMetadataV1_prefix allocBuffer_def initialBuffer_def convertV1_def)

lemma openInput_Some [simp]: "openInput (Some bs) = \<lparr>in_open = True, in_rest = bs\<rparr>"
  by (simp add: openInput_def)

lemma sint_stream_count:
  "length md < 2 ^ 31 \<Longrightarrow> sint (word_of_nat (length md) :: int32) = int (length md)"
  by (simp add: sint_of_nat_small)

lemma rgbdInputStream_encodeHeader:
  assumes "0 < length md" and "length md < 2 ^ 31"
    and "\<forall>m \<in> set md. 0 \<le> bufferSize (sm_format m) (sm_size m)"
  shows "rgbdInputStream (Some (encodeHeader md @ rest)) False =
         Inr \<lparr>m_stream = \<lparr>in_open = True, in_rest = rest\<rparr>, m_metadata = md,
              m_buffers = map initialBuffer md, m_valid = True\<rparr>"
  using assms
  by (simp add: rgbdInputStream_def encodeHeader_def readMagic_prefix readWord_prefix
      readStreams_encoded sint_stream_count FORMAT_VERSION_def)

lemma rgbdInputStream_encodeHeaderV1:
  assumes "0 < length md" and "length md < 2 ^ 31"
    and "\<forall>m \<in> set md. 0 \<le> bufferSize (v1_format m) (v1_size m)"
  shows "rgbdInputStream (Some (encodeHeaderV1 md @ rest)) True =
         Inr \<lparr>m_stream = \<lparr>in_open = True, in_rest = rest\<rparr>, m_metadata = map convertV1 md,
              m_buffers = map (initialBuffer \<circ> convertV1) md, m_valid = True\<rparr>"
  using assms
  by (simp add: rgbdInputStream_def encodeHeaderV1_def readMagic_prefix readWord_prefix
      readStreams_encodedV1 sint_stream_count FORMAT_VERSION_def)

subsection \<open>The reader's invariant\<close>

lemma readStreams_sizes:
  "readStreams useV1 k s = Inr (True, ms, m1s, bufs, s') \<Longrightarrow>
   (if useV1
    then ms = [] \<and> list_all2 (\<lambda>m b. int (length b) = bufferSize (v1_format m) (v1_size m)) m1s bufs
    else m1s = [] \<and> list_all2 (\<lambda>m b. int (length b) = bufferSize (sm_format m) (sm_size m)) ms bufs)"
proof (induction useV1 k s arbitrary: ms m1s bufs s' rule: readStreams.induct)
  case (1 useV1 s)
  then show ?case by simp
next
  case (2 useV1 k s)
  then show ?case
    by (auto simp: allocBuffer_def split: if_splits prod.splits option.splits sum.splits)
qed

lemma inputInv_sizes:
  assumes "list_all2 (\<lambda>m b. int (length b) = bufferSize (sm_format m) (sm_size m)) ms bufs"
  shows "inputInv \<lparr>m_stream = s, m_metadata = ms, m_buffers = bufs, m_valid = v\<rparr>"
  using assms by (simp add: inputInv_def list_all2_conv_all_nth)

lemma list_all2_convertV1:
  "list_all2 (\<lambda>m b. int (length b) = bufferSize (v1_format m) (v1_size m)) m1s bufs \<Longrightarrow>
   list_all2 (\<lambda>m b. int (length b) = bufferSize (sm_format m) (sm_size m)) (map convertV1 m1s) bufs"
  by (simp add: list_all2_map1 convertV1_def)

lemma rgbdInputStream_inputInv:
  assumes "rgbdInputStream file useV1 = Inr r"
  shows "inputInv r"
proof -
  have empty: "inputInv \<lparr>m_stream = s, m_metadata = [], m_buffers = bufs, m_valid = False\<rparr>"
    "inputInv \<lparr>m_stream = s, m_metadata = [], m_buffers = [], m_valid = v\<rparr>" for s bufs v
    by (simp_all add: inputInv_def)
  have ok: "inputInv \<lparr>m_stream = s', m_metadata = (if useV1 then map convertV1 m1s else ms),
              m_buffers = bufs, m_valid = True\<rparr>"
    if "readStreams useV1 k s = Inr (True, ms, m1s, bufs, s')" for k s ms m1s bufs s'
    using readStreams_sizes [OF that] by (auto intro: inputInv_sizes list_all2_convertV1 split: if_splits)
  show ?thesis
    using assms empty ok
    by (auto simp: rgbdInputStream_def split: prod.splits option.splits if_splits sum.splits)
qed

subsection \<open>Reading a frame\<close>

lemma rgbdRead_SomeD:
  assumes "rgbdRead r = (Some f, r')"
  shows "isValidIn r \<and> unat (f_streamId f) < length (m_buffers r) \<and>
         length (f_data f) = length (m_buffers r ! unat (f_streamId f)) \<and>
         in_rest (m_stream r) = encodeFrame f @ in_rest (m_stream r') \<and> in_open (m_stream r') \<and>
         r' = r\<lparr>m_stream := m_stream r', m_buffers := (m_buffers r)[unat (f_streamId f) := f_data f]\<rparr>"
  using assms
  by (auto simp: rgbdRead_def encodeFrame_def isValidIn_def
      split: if_splits prod.splits option.splits dest!: readWord_SomeD readBytes_Some)

lemma length_encodeFrame [simp]: "length (encodeFrame f) = 16 + length (f_data f)"
  by (simp add: encodeFrame_def)

lemma m_stream_open_eq:
  "in_open (m_stream r) \<Longrightarrow> in_rest (m_stream r) = bs \<Longrightarrow> m_stream r = \<lparr>in_open = True, in_rest = bs\<rparr>"
  by simp

lemma rgbdRead_encodeFrame:
  assumes "isValidIn r" and "in_rest (m_stream r) = encodeFrame f @ rest"
    and "unat (f_streamId f) < length (m_buffers r)"
    and "length (f_data f) = length (m_buffers r ! unat (f_streamId f))"
  shows "rgbdRead r = (Some f, r\<lparr>m_stream := \<lparr>in_open = True, in_rest = rest\<rparr>,
                                 m_buffers := (m_buffers r)[unat (f_streamId f) := f_data f]\<rparr>)"
proof -
  have "m_stream r = \<lparr>in_open = True, in_rest = encodeFrame f @ rest\<rparr>"
    using assms(1,2) by (simp add: isValidIn_def)
  then show ?thesis
    using assms by (simp add: rgbdRead_def encodeFrame_def readWord_prefix readBytes_prefix)
qed

lemma rgbdRead_None:
  assumes "rgbdRead r = (None, r')"
  shows "m_buffers r' = m_buffers r \<and> m_metadata r' = m_metadata r \<and> m_valid r' = m_valid r"
  using assms
  by (auto simp: rgbdRead_def split: if_splits prod.splits option.splits)

text \<open>
  (rejected stream id). When the next record names a stream id with no
  buffer, \<open>read\<close> returns the null view, consumes only the id, and leaves buffers,
  metadata and validity unchanged.
\<close>

theorem rgbdRead_out_of_range:
  assumes "isValidIn r" and "in_rest (m_stream r) = word_bytes sid @ rest"
    and "length (m_buffers r) \<le> unat (sid :: uint32)"
  shows "rgbdRead r = (None, r\<lparr>m_stream := \<lparr>in_open = True, in_rest = rest\<rparr>\<rparr>)"
proof -
  have "m_stream r = \<lparr>in_open = True, in_rest = word_bytes sid @ rest\<rparr>"
    using assms(1,2) by (simp add: isValidIn_def)
  then show ?thesis
    using assms by (simp add: rgbdRead_def readWord_prefix)
qed

lemma rgbdRead_no_buffers: "m_buffers r = [] \<Longrightarrow> fst (rgbdRead r) = None"
  by (simp add: rgbdRead_def split: prod.splits option.splits)

lemma rgbdRead_shrinks:
  "rgbdRead r = (Some f, r') \<Longrightarrow> length (in_rest (m_stream r')) + 16 \<le> length (in_rest (m_stream r))"
  by (drule rgbdRead_SomeD) simp

lemma inputInv_update:
  assumes "inputInv r" and "m_valid r \<Longrightarrow> i < length (m_buffers r) \<and> length bs = length (m_buffers r ! i)"
  shows "inputInv (r\<lparr>m_stream := s, m_buffers := (m_buffers r)[i := bs]\<rparr>)"
  using assms by (auto simp: inputInv_def nth_list_update)

lemma rgbdRead_inputInv:
  assumes "inputInv r"
  shows "inputInv (snd (rgbdRead r))"
proof (cases "rgbdRead r")
  case (Pair res r')
  show ?thesis
  proof (cases res)
    case None
    with Pair have "m_buffers r' = m_buffers r \<and> m_metadata r' = m_metadata r \<and> m_valid r' = m_valid r"
      by (auto dest: rgbdRead_None)
    with assms Pair show ?thesis by (simp add: inputInv_def)
  next
    case (Some f)
    with Pair have "isValidIn r \<and> unat (f_streamId f) < length (m_buffers r) \<and>
         length (f_data f) = length (m_buffers r ! unat (f_streamId f)) \<and>
         r' = r\<lparr>m_stream := m_stream r', m_buffers := (m_buffers r)[unat (f_streamId f) := f_data f]\<rparr>"
      by (auto dest: rgbdRead_SomeD)
    with assms Pair show ?thesis
      by (metis inputInv_update snd_conv)
  qed
qed

text \<open>
  C7 (payload size). A frame returned by \<open>read\<close> on a reader satisfying the
  invariant names a stream of the metadata, and its payload has exactly the size the
  stream's metadata determines.
\<close>

theorem rgbdRead_payload_size:
  assumes "inputInv r" and "rgbdRead r = (Some f, r')"
  shows "unat (f_streamId f) < length (m_metadata r) \<and>
         int (length (f_data f)) =
           bufferSize (sm_format (m_metadata r ! unat (f_streamId f))) (sm_size (m_metadata r ! unat (f_streamId f)))"
  using rgbdRead_SomeD [OF assms(2)] assms(1) by (auto simp: inputInv_def isValidIn_def)

subsection \<open>Headers the constructor accepts\<close>

lemma readMagic_long:
  "4 \<le> length bs \<Longrightarrow> readMagic \<lparr>in_open = True, in_rest = bs\<rparr> = (take 4 bs, \<lparr>in_open = True, in_rest = drop 4 bs\<rparr>)"
  by (cases bs rule: remdups_adj.cases; cases "tl (tl bs)" rule: remdups_adj.cases)
     (auto simp: readMagic_def readBytes_def magicChar_def)

lemma readWord32_long:
  "4 \<le> length bs \<Longrightarrow> (readWord \<lparr>in_open = True, in_rest = bs\<rparr> :: int32 option \<times> _) =
     (Some (bytes_word (take 4 bs)), \<lparr>in_open = True, in_rest = drop 4 bs\<rparr>)"
  by (simp add: readWord_def readBytes_def)

text \<open>
  C8 (bad magic or version accepted). A file of at least 8 bytes whose magic
  is not \<open>rgbd\<close> or whose version is not 1 yields a reader that \<open>isValid\<close> reports
  as valid, with no metadata and no buffers: \<open>m_valid\<close> is the result of the version
  read, not of the header check.
\<close>

theorem rgbdInputStream_rejected_header:
  assumes "8 \<le> length bs"
    and "take 4 bs \<noteq> rgbdMagic \<or> bytes_word (take 4 (drop 4 bs)) \<noteq> FORMAT_VERSION"
  shows "rgbdInputStream (Some bs) useV1 =
         Inr \<lparr>m_stream = \<lparr>in_open = True, in_rest = drop 8 bs\<rparr>, m_metadata = [], m_buffers = [], m_valid = True\<rparr>"
  using assms by (auto simp: rgbdInputStream_def readMagic_long readWord32_long)

text \<open>
  C9 (non-positive stream count accepted). A correct magic and version
  followed by a stream count that is zero or negative also yields a valid reader with
  no metadata and no buffers.
\<close>

theorem rgbdInputStream_nonpositive_count:
  assumes "12 \<le> length bs" and "take 4 bs = rgbdMagic" and "bytes_word (take 4 (drop 4 bs)) = FORMAT_VERSION"
    and "sint (bytes_word (take 4 (drop 8 bs)) :: int32) \<le> 0"
  shows "rgbdInputStream (Some bs) useV1 =
         Inr \<lparr>m_stream = \<lparr>in_open = True, in_rest = drop 12 bs\<rparr>, m_metadata = [], m_buffers = [], m_valid = True\<rparr>"
  using assms by (simp add: rgbdInputStream_def readMagic_long readWord32_long)

subsection \<open>The invariant over a run\<close>

text \<open>
  C3 (reader invariant). Every reader a program can obtain, by constructing it
  from any file in either schema and reading from it any number of times, has one
  scratch buffer per metadata record, each exactly as long as that stream's payload,
  whenever the reader is valid.
\<close>

theorem inputReach_inputInv:
  assumes "inputReach r"
  shows "inputInv r"
  using assms
proof (induction rule: inputReach.induct)
  case (reach_open f useV1 r)
  then show ?case by (rule rgbdInputStream_inputInv)
next
  case (reach_read r)
  then show ?case by (intro rgbdRead_inputInv)
qed

end
