(* ===== verification/RGBDOutput.thy ===== *)
theory RGBDOutput
  imports RGBDInput
begin

text \<open>
  The writer of the RGBD container, \<open>RGBDOutputStream\<close> of
  src/camera_wrappers/RGBDStream.cpp: its state (the output stream and the metadata
  it was constructed with), the constructor that writes the header, \<open>write\<close>,
  \<open>close\<close>, \<open>isValid\<close>, and the two moves. Whether the destination file can be
  created is the constructor's argument \<open>canOpen\<close>; a new file has no limit on its
  room, which the file system may later restrict (a full disk), so that a write
  may be short. The \<open>assert( nStreams > 0 )\<close>
  is compiled out in release builds and is not modelled; the guard after it is.
\<close>

record RGBDOutputStream =
  o_stream :: BinaryFileOutputStream
  o_metadata :: "StreamMetadata list"

text \<open>
  The constructor: \<open>nStreams = static_cast< int >( metadata.size() )\<close> (a 32-bit
  wrap of the count); with a positive count the file is opened and the magic, the
  version, the count and every metadata record are written, one \<open>write\<close> call each.
\<close>

definition rgbdOutputStream :: "StreamMetadata list \<Rightarrow> bool \<Rightarrow> RGBDOutputStream" where
  "rgbdOutputStream metadata canOpen =
     (let nStreams = (word_of_nat (length metadata) :: int32) in
      if 0 < sint nStreams then
        \<lparr>o_stream = writeAll ([[char_byte CHR ''r''], [char_byte CHR ''g''], [char_byte CHR ''b''],
                               [char_byte CHR ''d''], word_bytes FORMAT_VERSION, word_bytes nStreams] @
                              map encodeMetadata metadata) (openOutput canOpen),
         o_metadata = metadata\<rparr>
      else \<lparr>o_stream = closedOutput, o_metadata = metadata\<rparr>)"

definition isValidOut :: "RGBDOutputStream \<Rightarrow> bool" where
  "isValidOut w \<longleftrightarrow> out_open (o_stream w)"

definition closeOut :: "RGBDOutputStream \<Rightarrow> bool \<times> RGBDOutputStream" where
  "closeOut w = (case closeOutput (o_stream w) of (ok, s) \<Rightarrow> (ok, w\<lparr>o_stream := s\<rparr>))"

text \<open>The destructor calls \<open>close()\<close> and drops its result.\<close>

definition destroyOut :: "RGBDOutputStream \<Rightarrow> RGBDOutputStream" where
  "destroyOut w = snd (closeOut w)"

text \<open>A sequence of \<open>write\<close> calls that stops at the first one returning \<open>false\<close>.\<close>

fun writeChunks :: "byte list list \<Rightarrow> BinaryFileOutputStream \<Rightarrow> bool \<times> BinaryFileOutputStream" where
  "writeChunks [] s = (True, s)"
| "writeChunks (c # cs) s = (case writeBytes c s of (False, s1) \<Rightarrow> (False, s1) | (True, s1) \<Rightarrow> writeChunks cs s1)"

text \<open>\<open>write\<close>: the stream id is checked against the metadata, then each field is written; the first failed write returns \<open>false\<close>.\<close>

definition rgbdWrite :: "uint32 \<Rightarrow> int32 \<Rightarrow> int64 \<Rightarrow> byte list \<Rightarrow> RGBDOutputStream \<Rightarrow> bool \<times> RGBDOutputStream" where
  "rgbdWrite streamId frameIndex timestamp data w =
     (if length (o_metadata w) \<le> unat streamId then (False, w) else
      case writeWord streamId (o_stream w) of
        (False, s1) \<Rightarrow> (False, w\<lparr>o_stream := s1\<rparr>)
      | (True, s1) \<Rightarrow>
          (case writeWord frameIndex s1 of
             (False, s2) \<Rightarrow> (False, w\<lparr>o_stream := s2\<rparr>)
           | (True, s2) \<Rightarrow>
               (case writeWord timestamp s2 of
                  (False, s3) \<Rightarrow> (False, w\<lparr>o_stream := s3\<rparr>)
                | (True, s3) \<Rightarrow>
                    (case writeBytes data s3 of (ok, s4) \<Rightarrow> (ok, w\<lparr>o_stream := s4\<rparr>)))))"

text \<open>
  The move constructor: the new object closes its own (default, closed) stream,
  takes the source's stream and metadata, and leaves the source default-constructed.
  The move assignment does the same unless source and target are one object
  (\<open>this != &move\<close>, the flag \<open>same\<close>). Results: (target, source).
\<close>

definition defaultOutput :: RGBDOutputStream where
  "defaultOutput = \<lparr>o_stream = closedOutput, o_metadata = []\<rparr>"

definition rgbdOutputMove :: "RGBDOutputStream \<Rightarrow> RGBDOutputStream \<times> RGBDOutputStream" where
  "rgbdOutputMove src =
     (let fresh = snd (closeOut defaultOutput)
      in (fresh\<lparr>o_stream := o_stream src, o_metadata := o_metadata src\<rparr>,
          src\<lparr>o_stream := closedOutput, o_metadata := []\<rparr>))"

definition rgbdOutputMoveAssign ::
    "bool \<Rightarrow> RGBDOutputStream \<Rightarrow> RGBDOutputStream \<Rightarrow> RGBDOutputStream \<times> RGBDOutputStream" where
  "rgbdOutputMoveAssign same dst src =
     (if same then (dst, src)
      else (let closed = snd (closeOut dst)
            in (closed\<lparr>o_stream := o_stream src, o_metadata := o_metadata src\<rparr>,
                src\<lparr>o_stream := closedOutput, o_metadata := []\<rparr>)))"

text \<open>Writing a sequence of frames, the results not inspected (as the converter does).\<close>

definition writeFrames :: "Frame list \<Rightarrow> RGBDOutputStream \<Rightarrow> RGBDOutputStream" where
  "writeFrames fs w = foldl (\<lambda>w f. snd (rgbdWrite (f_streamId f) (f_frameIndex f) (f_timestamp f) (f_data f) w)) w fs"

text \<open>
  The writer's objects over a program run: constructed, then any sequence of
  \<open>write\<close>, \<open>close\<close>, moves and move assignments (both the target and the emptied
  source live on), while the file system may change the room left for the file at
  any time. The flag records whether every \<open>write\<close> so far returned true or was
  rejected before writing (a stream id out of range, or a writer that is not valid):
  what a caller that stops at the first failed write observes.
\<close>

inductive outputReach :: "bool \<Rightarrow> RGBDOutputStream \<Rightarrow> bool" where
  reach_construct: "outputReach True (rgbdOutputStream md canOpen)"
| reach_write: "outputReach c w \<Longrightarrow> rgbdWrite streamId frameIndex timestamp data w = (ok, w') \<Longrightarrow>
    outputReach (c \<and> (ok \<or> length (o_metadata w) \<le> unat streamId \<or> \<not> isValidOut w)) w'"
| reach_close: "outputReach c w \<Longrightarrow> outputReach c (snd (closeOut w))"
| reach_move_target: "outputReach c w \<Longrightarrow> outputReach c (fst (rgbdOutputMove w))"
| reach_move_source: "outputReach c w \<Longrightarrow> outputReach c (snd (rgbdOutputMove w))"
| reach_moveAssign_target: "outputReach c w \<Longrightarrow> outputReach c' d \<Longrightarrow> outputReach c (fst (rgbdOutputMoveAssign False d w))"
| reach_moveAssign_source: "outputReach c w \<Longrightarrow> outputReach c' d \<Longrightarrow> outputReach c (snd (rgbdOutputMoveAssign False d w))"
| reach_space: "outputReach c w \<Longrightarrow> outputReach c (w\<lparr>o_stream := (o_stream w)\<lparr>out_space := room\<rparr>\<rparr>)"

text \<open>
  The bytes after the header are pieces, each a prefix of the record of a frame of a
  stream in range: a whole record for a successful write, a torn one for a short write.
\<close>

definition outputFramed :: "RGBDOutputStream \<Rightarrow> bool" where
  "outputFramed w \<longleftrightarrow>
     (\<exists>ps. out_file (o_stream w) = encodeHeader (o_metadata w) @ concat ps \<and>
           (\<forall>p \<in> set ps. \<exists>f k. unat (f_streamId f) < length (o_metadata w) \<and> p = take k (encodeFrame f))) \<or>
     (\<not> out_open (o_stream w) \<and> out_file (o_stream w) = [])"

text \<open>
  The writer's file is well formed: the header of its metadata followed by whole
  frame records of streams in range, or nothing at all when the file was never opened.
\<close>

definition outputWellFormed :: "RGBDOutputStream \<Rightarrow> bool" where
  "outputWellFormed w \<longleftrightarrow>
     (\<exists>fs. out_file (o_stream w) = encodeHeader (o_metadata w) @ concat (map encodeFrame fs) \<and>
           (\<forall>f \<in> set fs. unat (f_streamId f) < length (o_metadata w))) \<or>
     (\<not> out_open (o_stream w) \<and> out_file (o_stream w) = [])"

subsection \<open>The header\<close>

lemma magic_chunks: "concat [[char_byte CHR ''r''], [char_byte CHR ''g''], [char_byte CHR ''b''], [char_byte CHR ''d'']] = rgbdMagic"
  by (simp add: rgbdMagic_def)

lemma rgbdOutputStream_header:
  assumes "0 < length md" and "length md < 2 ^ 31"
  shows "rgbdOutputStream md True = \<lparr>o_stream = \<lparr>out_open = True, out_file = encodeHeader md, out_space = None\<rparr>, o_metadata = md\<rparr>"
  using assms
  by (simp add: rgbdOutputStream_def sint_stream_count writeAll_open openOutput_def encodeHeader_def rgbdMagic_def)

lemma rgbdOutputStream_no_streams:
  "rgbdOutputStream [] canOpen = \<lparr>o_stream = closedOutput, o_metadata = []\<rparr>"
  by (simp add: rgbdOutputStream_def)

lemma rgbdOutputStream_cannot_open:
  "\<not> isValidOut (rgbdOutputStream md False)"
  by (simp add: rgbdOutputStream_def isValidOut_def Let_def writeAll_closed openOutput_def closedOutput_def)

subsection \<open>Writing frames\<close>

lemma rgbdWrite_appends:
  assumes "isValidOut w" and "out_space (o_stream w) = None" and "unat streamId < length (o_metadata w)"
  shows "rgbdWrite streamId frameIndex timestamp data w =
         (True, w\<lparr>o_stream := (o_stream w)\<lparr>out_file := out_file (o_stream w) @
            encodeFrame \<lparr>f_streamId = streamId, f_frameIndex = frameIndex, f_timestamp = timestamp, f_data = data\<rparr>\<rparr>\<rparr>)"
  using assms by (simp add: rgbdWrite_def isValidOut_def writeWord_def writeBytes_open encodeFrame_def)

text \<open>
  (Rejected stream id.) \<open>write\<close> with a stream id outside the metadata
  returns false and writes nothing.
\<close>

theorem rgbdWrite_out_of_range:
  "length (o_metadata w) \<le> unat streamId \<Longrightarrow> rgbdWrite streamId frameIndex timestamp data w = (False, w)"
  by (simp add: rgbdWrite_def)

text \<open>
  (closed writer). \<open>write\<close> on a writer whose file is not open returns false
  and changes nothing.
\<close>

theorem rgbdWrite_closed:
  "\<not> isValidOut w \<Longrightarrow> rgbdWrite streamId frameIndex timestamp data w = (False, w)"
  by (simp add: rgbdWrite_def isValidOut_def writeWord_def writeBytes_closed)

lemma rgbdWrite_metadata [simp]: "o_metadata (snd (rgbdWrite streamId frameIndex timestamp data w)) = o_metadata w"
  by (simp add: rgbdWrite_def split: prod.splits bool.splits)

lemma writeFrames_Cons:
  "writeFrames (f # fs) w = writeFrames fs (snd (rgbdWrite (f_streamId f) (f_frameIndex f) (f_timestamp f) (f_data f) w))"
  by (simp add: writeFrames_def)

lemma frame_fields [simp]:
  "\<lparr>f_streamId = f_streamId f, f_frameIndex = f_frameIndex f, f_timestamp = f_timestamp f, f_data = f_data f\<rparr> = f"
  by simp

lemma writeFrames_appends:
  assumes "isValidOut w" and "out_space (o_stream w) = None" and "\<forall>f \<in> set fs. unat (f_streamId f) < length (o_metadata w)"
  shows "writeFrames fs w = w\<lparr>o_stream := (o_stream w)\<lparr>out_file := out_file (o_stream w) @ concat (map encodeFrame fs)\<rparr>\<rparr>"
  using assms
proof (induction fs arbitrary: w)
  case Nil
  then show ?case by (simp add: writeFrames_def)
next
  case (Cons f fs)
  let ?w' = "snd (rgbdWrite (f_streamId f) (f_frameIndex f) (f_timestamp f) (f_data f) w)"
  have w': "?w' = w\<lparr>o_stream := (o_stream w)\<lparr>out_file := out_file (o_stream w) @ encodeFrame f\<rparr>\<rparr>"
    using Cons.prems by (simp add: rgbdWrite_appends)
  have "isValidOut ?w'" and "out_space (o_stream ?w') = None" and "\<forall>g \<in> set fs. unat (f_streamId g) < length (o_metadata ?w')"
    using Cons.prems by (simp_all add: isValidOut_def w')
  then have "writeFrames fs ?w' = ?w'\<lparr>o_stream := (o_stream ?w')\<lparr>out_file := out_file (o_stream ?w') @ concat (map encodeFrame fs)\<rparr>\<rparr>"
    by (rule Cons.IH)
  then show ?case
    by (simp add: writeFrames_Cons w')
qed

subsection \<open>Close and move\<close>

text \<open>
  (close). \<open>close\<close> succeeds, keeps the bytes written, leaves the writer
  invalid, and closing again changes nothing.
\<close>

theorem closeOut_idempotent:
  "closeOut (snd (closeOut w)) = (True, snd (closeOut w)) \<and> fst (closeOut w) = True \<and>
   out_file (o_stream (snd (closeOut w))) = out_file (o_stream w) \<and> \<not> isValidOut (snd (closeOut w))"
  by (simp add: closeOut_def closeOutput_def isValidOut_def)

text \<open>
  (move constructor). The new writer takes over the source's stream and
  metadata; the source is left closed, with no metadata and an empty file.
\<close>

theorem rgbdOutputMove_transfers:
  "rgbdOutputMove src = (t, s') \<Longrightarrow>
   o_stream t = o_stream src \<and> o_metadata t = o_metadata src \<and>
   \<not> isValidOut s' \<and> o_metadata s' = [] \<and> out_file (o_stream s') = []"
  by (auto simp: rgbdOutputMove_def isValidOut_def closedOutput_def Let_def)

text \<open>
  (move assignment). Between distinct objects, the target takes over the
  source's stream and metadata and the source is left closed and empty.
\<close>

theorem rgbdOutputMoveAssign_transfers:
  "rgbdOutputMoveAssign False dst src = (t, s') \<Longrightarrow>
   o_stream t = o_stream src \<and> o_metadata t = o_metadata src \<and>
   \<not> isValidOut s' \<and> o_metadata s' = [] \<and> out_file (o_stream s') = []"
  by (auto simp: rgbdOutputMoveAssign_def isValidOut_def closedOutput_def Let_def)

lemma rgbdOutputMoveAssign_self: "rgbdOutputMoveAssign True w w = (w, w)"
  by (simp add: rgbdOutputMoveAssign_def)

subsection \<open>Every writer's file is framed\<close>

text \<open>A sequence of writes appends a prefix of its chunks, all of them when it succeeds.\<close>

lemma writeChunks_prefix:
  "writeChunks cs s = (ok, s') \<Longrightarrow>
   \<exists>k. out_file s' = out_file s @ take k (concat cs) \<and> (ok \<longrightarrow> k = length (concat cs)) \<and> out_open s' = out_open s"
proof (induction cs arbitrary: s)
  case Nil
  then show ?case by (intro exI [of _ 0]) auto
next
  case (Cons c cs)
  obtain ok1 s1 where w1: "writeBytes c s = (ok1, s1)"
    by (cases "writeBytes c s") auto
  obtain k1 where k1: "out_file s1 = out_file s @ take k1 c" "ok1 \<longrightarrow> k1 = length c" "out_open s1 = out_open s"
    using writeBytes_prefix [OF w1] by blast
  show ?case
  proof (cases ok1)
    case False
    then have "ok = False" "s' = s1"
      using Cons.prems w1 by simp_all
    moreover have "take k1 c = take (min k1 (length c)) (c @ concat cs)"
      by (simp add: min_def)
    ultimately show ?thesis
      using k1 by (intro exI [of _ "min k1 (length c)"]) simp
  next
    case True
    then have "writeChunks cs s1 = (ok, s')"
      using Cons.prems w1 by simp
    then obtain k2 where "out_file s' = out_file s1 @ take k2 (concat cs)" "ok \<longrightarrow> k2 = length (concat cs)"
      "out_open s' = out_open s1"
      using Cons.IH by blast
    then show ?thesis
      using k1 True by (intro exI [of _ "length c + k2"]) simp
  qed
qed

text \<open>A write that does not fit in the room left writes what fits and fails.\<close>

lemma writeChunks_short:
  "out_open s \<Longrightarrow> out_space s = Some n \<Longrightarrow> n < length (concat cs) \<Longrightarrow>
   writeChunks cs s = (False, s\<lparr>out_file := out_file s @ take n (concat cs), out_space := Some 0\<rparr>)"
proof (induction cs arbitrary: s n)
  case Nil
  then show ?case by simp
next
  case (Cons c cs)
  show ?case
  proof (cases "length c \<le> n")
    case True
    let ?s1 = "s\<lparr>out_file := out_file s @ c, out_space := Some (n - length c)\<rparr>"
    have "writeChunks cs ?s1 = (False, ?s1\<lparr>out_file := out_file ?s1 @ take (n - length c) (concat cs), out_space := Some 0\<rparr>)"
      using Cons.prems True by (intro Cons.IH) simp_all
    then show ?thesis
      using Cons.prems True by (simp add: writeBytes_def)
  next
    case False
    then show ?thesis
      using Cons.prems by (simp add: writeBytes_def)
  qed
qed

lemma rgbdWrite_chunks:
  "unat streamId < length (o_metadata w) \<Longrightarrow>
   rgbdWrite streamId frameIndex timestamp data w =
     (case writeChunks [word_bytes streamId, word_bytes frameIndex, word_bytes timestamp, data] (o_stream w) of
        (ok, s) \<Rightarrow> (ok, w\<lparr>o_stream := s\<rparr>))"
  by (simp add: rgbdWrite_def writeWord_def split: prod.splits bool.splits)

lemma encodeFrame_chunks:
  "concat [word_bytes streamId, word_bytes frameIndex, word_bytes timestamp, data] =
   encodeFrame \<lparr>f_streamId = streamId, f_frameIndex = frameIndex, f_timestamp = timestamp, f_data = data\<rparr>"
  by (simp add: encodeFrame_def)

text \<open>A write appends a prefix of its record: the whole record when it returns true,
  nothing when the stream id is out of range or the writer is not valid.\<close>

lemma rgbdWrite_prefix:
  assumes "rgbdWrite streamId frameIndex timestamp data w = (ok, w')"
  shows "o_metadata w' = o_metadata w \<and> out_open (o_stream w') = out_open (o_stream w) \<and>
    (\<exists>k. out_file (o_stream w') = out_file (o_stream w) @
           take k (encodeFrame \<lparr>f_streamId = streamId, f_frameIndex = frameIndex, f_timestamp = timestamp, f_data = data\<rparr>) \<and>
         (ok \<longrightarrow> k = length (encodeFrame \<lparr>f_streamId = streamId, f_frameIndex = frameIndex, f_timestamp = timestamp, f_data = data\<rparr>)) \<and>
         ((length (o_metadata w) \<le> unat streamId \<or> \<not> isValidOut w) \<longrightarrow> k = 0))"
proof (cases "length (o_metadata w) \<le> unat streamId \<or> \<not> isValidOut w")
  case True
  then have "\<not> ok \<and> w' = w"
    using assms by (auto simp: rgbdWrite_out_of_range rgbdWrite_closed)
  then show ?thesis
    by (intro conjI exI [of _ 0]) simp_all
next
  case False
  obtain ok1 s where c: "writeChunks [word_bytes streamId, word_bytes frameIndex, word_bytes timestamp, data] (o_stream w) = (ok1, s)"
    by (cases "writeChunks [word_bytes streamId, word_bytes frameIndex, word_bytes timestamp, data] (o_stream w)") auto
  let ?f = "\<lparr>f_streamId = streamId, f_frameIndex = frameIndex, f_timestamp = timestamp, f_data = data\<rparr>"
  have ok: "ok = ok1" and w': "w' = w\<lparr>o_stream := s\<rparr>"
    using assms False c by (simp_all add: rgbdWrite_chunks del: writeChunks.simps)
  obtain k where "out_file s = out_file (o_stream w) @ take k (encodeFrame ?f)" "ok1 \<longrightarrow> k = length (encodeFrame ?f)"
    "out_open s = out_open (o_stream w)"
    using writeChunks_prefix [OF c] unfolding encodeFrame_chunks by blast
  then show ?thesis
    using ok w' False by (intro conjI exI [of _ k]) simp_all
qed

lemma rgbdWrite_framed:
  assumes "outputFramed w" and "rgbdWrite streamId frameIndex timestamp data w = (ok, w')"
  shows "outputFramed w'"
proof (cases "length (o_metadata w) \<le> unat streamId \<or> \<not> isValidOut w")
  case True
  then have "w' = w"
    using assms(2) by (auto simp: rgbdWrite_out_of_range rgbdWrite_closed)
  then show ?thesis
    using assms(1) by simp
next
  case False
  let ?f = "\<lparr>f_streamId = streamId, f_frameIndex = frameIndex, f_timestamp = timestamp, f_data = data\<rparr>"
  from False assms(1) obtain ps where ps: "out_file (o_stream w) = encodeHeader (o_metadata w) @ concat ps"
    and pieces: "\<forall>p \<in> set ps. \<exists>f k. unat (f_streamId f) < length (o_metadata w) \<and> p = take k (encodeFrame f)"
    by (auto simp: outputFramed_def isValidOut_def)
  obtain k where md: "o_metadata w' = o_metadata w" and k: "out_file (o_stream w') = out_file (o_stream w) @ take k (encodeFrame ?f)"
    using rgbdWrite_prefix [OF assms(2)] by blast
  have "\<exists>f k'. unat (f_streamId f) < length (o_metadata w') \<and> take k (encodeFrame ?f) = take k' (encodeFrame f)"
    using False md by (intro exI [of _ ?f] exI [of _ k]) simp
  then have "\<forall>p \<in> set (ps @ [take k (encodeFrame ?f)]). \<exists>f k. unat (f_streamId f) < length (o_metadata w') \<and> p = take k (encodeFrame f)"
    using pieces md by auto
  then show ?thesis
    unfolding outputFramed_def using ps k md by (intro disjI1 exI [of _ "ps @ [take k (encodeFrame ?f)]"]) simp
qed

lemma rgbdWrite_wellFormed:
  assumes "outputWellFormed w" and "rgbdWrite streamId frameIndex timestamp data w = (ok, w')"
    and "ok \<or> length (o_metadata w) \<le> unat streamId \<or> \<not> isValidOut w"
  shows "outputWellFormed w'"
proof (cases "length (o_metadata w) \<le> unat streamId \<or> \<not> isValidOut w")
  case True
  then have "w' = w"
    using assms(2) by (auto simp: rgbdWrite_out_of_range rgbdWrite_closed)
  then show ?thesis
    using assms(1) by simp
next
  case False
  let ?f = "\<lparr>f_streamId = streamId, f_frameIndex = frameIndex, f_timestamp = timestamp, f_data = data\<rparr>"
  from False assms(1) obtain fs where fs: "out_file (o_stream w) = encodeHeader (o_metadata w) @ concat (map encodeFrame fs)"
    and ids: "\<forall>f \<in> set fs. unat (f_streamId f) < length (o_metadata w)"
    by (auto simp: outputWellFormed_def isValidOut_def)
  have "ok"
    using assms(3) False by simp
  then have md: "o_metadata w' = o_metadata w" and k: "out_file (o_stream w') = out_file (o_stream w) @ encodeFrame ?f"
    using rgbdWrite_prefix [OF assms(2)] by auto
  have "\<forall>f \<in> set (fs @ [?f]). unat (f_streamId f) < length (o_metadata w')"
    using ids False md by simp
  then show ?thesis
    unfolding outputWellFormed_def using fs k md by (intro disjI1 exI [of _ "fs @ [?f]"]) simp
qed

lemma rgbdOutputStream_wellFormed: "outputWellFormed (rgbdOutputStream md canOpen)"
proof (cases "canOpen \<and> 0 < sint (word_of_nat (length md) :: int32)")
  case True
  then have "rgbdOutputStream md canOpen = \<lparr>o_stream = \<lparr>out_open = True, out_file = encodeHeader md, out_space = None\<rparr>, o_metadata = md\<rparr>"
    by (simp add: rgbdOutputStream_def writeAll_open openOutput_def encodeHeader_def rgbdMagic_def)
  then show ?thesis
    unfolding outputWellFormed_def by (intro disjI1 exI [of _ "[]"]) simp
next
  case False
  then have "\<not> out_open (o_stream (rgbdOutputStream md canOpen)) \<and> out_file (o_stream (rgbdOutputStream md canOpen)) = []"
    by (auto simp: rgbdOutputStream_def Let_def writeAll_closed openOutput_def closedOutput_def)
  then show ?thesis
    by (simp add: outputWellFormed_def)
qed

lemma wellFormed_framed:
  assumes "outputWellFormed w"
  shows "outputFramed w"
proof (cases "\<exists>fs. out_file (o_stream w) = encodeHeader (o_metadata w) @ concat (map encodeFrame fs) \<and>
                   (\<forall>f \<in> set fs. unat (f_streamId f) < length (o_metadata w))")
  case True
  then obtain fs where fs: "out_file (o_stream w) = encodeHeader (o_metadata w) @ concat (map encodeFrame fs)"
    and ids: "\<forall>f \<in> set fs. unat (f_streamId f) < length (o_metadata w)"
    by blast
  have "\<exists>g k. unat (f_streamId g) < length (o_metadata w) \<and> encodeFrame f = take k (encodeFrame g)" if "f \<in> set fs" for f
    using ids that by (intro exI [of _ f] exI [of _ "length (encodeFrame f)"]) simp
  then show ?thesis
    unfolding outputFramed_def using fs by (intro disjI1 exI [of _ "map encodeFrame fs"]) auto
next
  case False
  then show ?thesis
    using assms unfolding outputWellFormed_def outputFramed_def by blast
qed

lemma closeOut_wellFormed: "outputWellFormed w \<Longrightarrow> outputWellFormed (snd (closeOut w))"
  by (auto simp: outputWellFormed_def closeOut_def closeOutput_def)

lemma writeFrames_wellFormed:
  "outputWellFormed w \<Longrightarrow> out_space (o_stream w) = None \<Longrightarrow> outputWellFormed (writeFrames fs w)"
proof (induction fs arbitrary: w)
  case Nil
  then show ?case by (simp add: writeFrames_def)
next
  case (Cons f fs)
  obtain ok w' where r: "rgbdWrite (f_streamId f) (f_frameIndex f) (f_timestamp f) (f_data f) w = (ok, w')"
    by (cases "rgbdWrite (f_streamId f) (f_frameIndex f) (f_timestamp f) (f_data f) w") auto
  have "ok \<or> length (o_metadata w) \<le> unat (f_streamId f) \<or> \<not> isValidOut w"
    using r Cons.prems(2) by (auto simp: rgbdWrite_appends)
  then have "outputWellFormed w'"
    using rgbdWrite_wellFormed [OF Cons.prems(1) r] by blast
  moreover have "out_space (o_stream w') = None"
    using r Cons.prems(2) by (auto simp: rgbdWrite_def writeWord_def writeBytes_def split: if_splits prod.splits bool.splits)
  ultimately show ?case
    using Cons.IH r by (simp add: writeFrames_Cons)
qed

text \<open>
  C4 (writer invariant). Whatever sequence of writes, closes, moves and move
  assignments a program performs on a writer, with the file system's room for the
  file changing at any time, every writer object's file is its header followed by
  pieces, each a prefix of the record of a frame of a stream in range (a short write
  leaves a torn record), or is empty and closed; and as long as every write returned
  true or was rejected before writing, the pieces are whole records.
\<close>

theorem outputReach_wellFormed:
  assumes "outputReach c w"
  shows "outputFramed w \<and> (c \<longrightarrow> outputWellFormed w)"
  using assms
proof (induction rule: outputReach.induct)
  case (reach_construct md canOpen)
  then show ?case using rgbdOutputStream_wellFormed wellFormed_framed by blast
next
  case (reach_write c w streamId frameIndex timestamp data ok w')
  then show ?case
    using rgbdWrite_framed rgbdWrite_wellFormed by blast
next
  case (reach_close c w)
  have "outputFramed (snd (closeOut w))"
    using reach_close.IH by (auto simp: outputFramed_def closeOut_def closeOutput_def)
  then show ?case
    using reach_close.IH closeOut_wellFormed by blast
next
  case (reach_move_target c w)
  then show ?case
    by (simp add: outputFramed_def outputWellFormed_def rgbdOutputMove_def Let_def)
next
  case (reach_move_source c w)
  then show ?case
    by (simp add: outputFramed_def outputWellFormed_def rgbdOutputMove_def Let_def closedOutput_def)
next
  case (reach_moveAssign_target c w c' d)
  then show ?case
    by (simp add: outputFramed_def outputWellFormed_def rgbdOutputMoveAssign_def Let_def)
next
  case (reach_moveAssign_source c w c' d)
  then show ?case
    by (simp add: outputFramed_def outputWellFormed_def rgbdOutputMoveAssign_def Let_def closedOutput_def)
next
  case (reach_space c w room)
  then show ?case
    by (simp add: outputFramed_def outputWellFormed_def)
qed

text \<open>
  C10 (short write). A write into a valid writer whose file has room for
  fewer bytes than the record writes the part that fits and returns false, and the
  writer stays valid: once room is available again, the next write returns true and
  appends a whole record after the torn one, which a reader then misparses.
\<close>

theorem rgbdWrite_short:
  assumes "isValidOut w" and "unat streamId < length (o_metadata w)" and "out_space (o_stream w) = Some n"
    and "n < length (encodeFrame \<lparr>f_streamId = streamId, f_frameIndex = frameIndex, f_timestamp = timestamp, f_data = data\<rparr>)"
    and "rgbdWrite streamId frameIndex timestamp data w = (ok, w')"
  shows "\<not> ok \<and> out_file (o_stream w') = out_file (o_stream w) @
           take n (encodeFrame \<lparr>f_streamId = streamId, f_frameIndex = frameIndex, f_timestamp = timestamp, f_data = data\<rparr>) \<and>
         isValidOut w' \<and>
         (unat sid2 < length (o_metadata w) \<longrightarrow>
          rgbdWrite sid2 fi2 ts2 data2 (w'\<lparr>o_stream := (o_stream w')\<lparr>out_space := None\<rparr>\<rparr>) =
            (True, w'\<lparr>o_stream := \<lparr>out_open = True, out_file = out_file (o_stream w') @
               encodeFrame \<lparr>f_streamId = sid2, f_frameIndex = fi2, f_timestamp = ts2, f_data = data2\<rparr>, out_space = None\<rparr>\<rparr>))"
proof -
  let ?f = "\<lparr>f_streamId = streamId, f_frameIndex = frameIndex, f_timestamp = timestamp, f_data = data\<rparr>"
  have "n < length (concat [word_bytes streamId, word_bytes frameIndex, word_bytes timestamp, data])"
    using assms(4) by (simp only: encodeFrame_chunks)
  then have c: "writeChunks [word_bytes streamId, word_bytes frameIndex, word_bytes timestamp, data] (o_stream w) =
      (False, (o_stream w)\<lparr>out_file := out_file (o_stream w) @ take n (encodeFrame ?f), out_space := Some 0\<rparr>)"
    unfolding encodeFrame_chunks [symmetric]
    using assms(1,3) by (intro writeChunks_short) (simp_all add: isValidOut_def)
  have w': "\<not> ok" "w' = w\<lparr>o_stream := (o_stream w)\<lparr>out_file := out_file (o_stream w) @ take n (encodeFrame ?f), out_space := Some 0\<rparr>\<rparr>"
    using assms(2,5) c by (simp_all add: rgbdWrite_chunks del: writeChunks.simps)
  moreover have "isValidOut w'"
    using w' assms(1) by (simp add: isValidOut_def)
  moreover have "rgbdWrite sid2 fi2 ts2 data2 (w'\<lparr>o_stream := (o_stream w')\<lparr>out_space := None\<rparr>\<rparr>) =
            (True, w'\<lparr>o_stream := \<lparr>out_open = True, out_file = out_file (o_stream w') @
               encodeFrame \<lparr>f_streamId = sid2, f_frameIndex = fi2, f_timestamp = ts2, f_data = data2\<rparr>, out_space = None\<rparr>\<rparr>)"
    if "unat sid2 < length (o_metadata w)"
    using that w' assms(1) by (simp add: rgbdWrite_appends isValidOut_def)
  ultimately show ?thesis
    by simp
qed

text \<open>
  (constructor validity). A writer is valid exactly when its file could be
  created and the stream count, \<open>static_cast< int >( metadata.size() )\<close>, is positive:
  the count is taken modulo \<open>2 ^ 32\<close> and read signed, so \<open>2 ^ 32\<close> streams give an
  invalid writer and \<open>2 ^ 32 + 1\<close> a valid one.
\<close>

theorem rgbdOutputStream_valid_iff:
  "isValidOut (rgbdOutputStream md canOpen) \<longleftrightarrow>
   canOpen \<and> 0 < length md mod 2 ^ 32 \<and> length md mod 2 ^ 32 < 2 ^ 31"
  by (cases canOpen) (simp_all add: rgbdOutputStream_def isValidOut_def Let_def writeAll_open writeAll_closed
      openOutput_def closedOutput_def sint_count_pos)

end
