(* ===== verification/Converter.thy ===== *)
theory Converter
  imports RGBDOutput
begin

text \<open>
  The stream converter, src/apps/rgbd_stream_converter/src/main.cpp: it opens the
  source with the legacy (V1) schema, creates a destination with the source's
  metadata (written in the current schema), and copies every record until the
  reader returns the null view. The copy loop is a \<^theory_text>\<open>function\<close> whose
  termination follows from the reader: every successful \<open>read\<close> consumes at least
  the 16 bytes of a record header. \<open>readFrames\<close> is the same loop without the
  writes: the list of frames a reader yields until its first null view.
\<close>

function readFrames :: "RGBDInputStream \<Rightarrow> Frame list \<times> RGBDInputStream" where
  "readFrames r =
     (case rgbdRead r of
        (None, r') \<Rightarrow> ([], r')
      | (Some f, r') \<Rightarrow> (case readFrames r' of (fs, r'') \<Rightarrow> (f # fs, r'')))"
  by pat_completeness auto
termination
  by (relation "measure (\<lambda>r. length (in_rest (m_stream r)))") (auto dest: rgbdRead_shrinks [OF sym])

text \<open>
  \<open>data = inputStream.read( ... ); while( data.notNull() ) { outputStream.write( ... );
  data = inputStream.read( ... ); }\<close>
\<close>

function convertLoop :: "RGBDInputStream \<Rightarrow> RGBDOutputStream \<Rightarrow> RGBDInputStream \<times> RGBDOutputStream" where
  "convertLoop r w =
     (case rgbdRead r of
        (None, r') \<Rightarrow> (r', w)
      | (Some f, r') \<Rightarrow>
          convertLoop r' (snd (rgbdWrite (f_streamId f) (f_frameIndex f) (f_timestamp f) (f_data f) w)))"
  by pat_completeness auto
termination
  by (relation "measure (\<lambda>(r, w). length (in_rest (m_stream r)))") (auto dest: rgbdRead_shrinks [OF sym])

text \<open>
  \<open>main\<close>: the exit code and the destination stream as the destructor leaves it
  (closed; \<open>None\<close> when no destination object was created). \<open>argc\<close> counts the
  program name; the source file is \<open>None\<close> when it cannot be opened, and
  \<open>dstCanOpen\<close> says whether the destination can be created.
\<close>

definition rgbdStreamConverter ::
    "nat \<Rightarrow> byte list option \<Rightarrow> bool \<Rightarrow> InputError + int \<times> RGBDOutputStream option" where
  "rgbdStreamConverter argc src dstCanOpen =
     (if argc < 3 then Inr (1, None) else
      case rgbdInputStream src True of
        Inl e \<Rightarrow> Inl e
      | Inr r \<Rightarrow>
          if \<not> isValidIn r then Inr (2, None) else
          (let w = rgbdOutputStream (m_metadata r) dstCanOpen in
           if \<not> isValidOut w then Inr (2, Some (snd (closeOut w))) else
           (case convertLoop r w of (r', w') \<Rightarrow> Inr (0, Some (snd (closeOut w'))))))"

text \<open>\<open>toZeroFilledString( x, width )\<close> (defined in main.cpp, not called): \<open>x\<close> in decimal
  through \<open>std::setw( width )\<close>, \<open>std::setfill( '0' )\<close> and \<open>std::internal\<close>, which puts
  the fill between the sign and the digits. \<open>T\<close> is an integral type, here \<open>int\<close>.
  \<open>readDecimal\<close> and \<open>readSigned\<close> read such a string back.\<close>

fun decimalDigits :: "nat \<Rightarrow> string" where
  "decimalDigits n = (if n < 10 then [char_of (48 + n)] else decimalDigits (n div 10) @ [char_of (48 + n mod 10)])"




declare readFrames.simps [simp del] convertLoop.simps [simp del] decimalDigits.simps [simp del]

subsection \<open>The loops\<close>

lemma readFrames_None: "rgbdRead r = (None, r') \<Longrightarrow> readFrames r = ([], r')"
  by (simp add: readFrames.simps [of r])

lemma readFrames_Some: "rgbdRead r = (Some f, r') \<Longrightarrow> readFrames r = (f # fst (readFrames r'), snd (readFrames r'))"
  by (simp add: readFrames.simps [of r] split: prod.splits)

lemma convertLoop_readFrames:
  "convertLoop r w = (snd (readFrames r), writeFrames (fst (readFrames r)) w)"
proof (induction r w rule: convertLoop.induct)
  case (1 r w)
  show ?case
  proof (cases "rgbdRead r")
    case (Pair res r')
    show ?thesis
    proof (cases res)
      case None
      with Pair show ?thesis
        by (simp add: convertLoop.simps [of r w] readFrames_None writeFrames_def)
    next
      case (Some f)
      with Pair "1" show ?thesis
        by (simp add: convertLoop.simps [of r w] readFrames_Some writeFrames_Cons)
    qed
  qed
qed

lemma map_length_update:
  "i < length xs \<Longrightarrow> length d = length (xs ! i) \<Longrightarrow> map length (xs[i := d]) = map length xs"
  by (simp add: map_update list_update_same_conv)

lemma readFrames_encoded:
  assumes "isValidIn r" and "in_rest (m_stream r) = concat (map encodeFrame fs)"
    and "\<forall>f \<in> set fs. unat (f_streamId f) < length (m_buffers r) \<and>
                      length (f_data f) = length (m_buffers r ! unat (f_streamId f))"
  shows "fst (readFrames r) = fs"
  using assms
proof (induction fs arbitrary: r)
  case Nil
  then have "rgbdRead r = (None, r\<lparr>m_stream := (m_stream r)\<lparr>in_rest := []\<rparr>\<rparr>)"
    by (simp add: rgbdRead_def readWord_def readBytes_def)
  then show ?case by (simp add: readFrames_None)
next
  case (Cons f fs)
  let ?r' = "r\<lparr>m_stream := \<lparr>in_open = True, in_rest = concat (map encodeFrame fs)\<rparr>,
                m_buffers := (m_buffers r)[unat (f_streamId f) := f_data f]\<rparr>"
  have rd: "rgbdRead r = (Some f, ?r')"
    using Cons.prems by (intro rgbdRead_encodeFrame) simp_all
  have lens: "map length (m_buffers ?r') = map length (m_buffers r)"
    using Cons.prems(3) by (simp add: map_length_update)
  have "isValidIn ?r'"
    using Cons.prems(1) by (simp add: isValidIn_def)
  moreover have "\<forall>g \<in> set fs. unat (f_streamId g) < length (m_buffers ?r') \<and>
                      length (f_data g) = length (m_buffers ?r' ! unat (f_streamId g))"
    using Cons.prems(3) lens by (auto simp: nth_list_update)
  ultimately have "fst (readFrames ?r') = fs"
    by (intro Cons.IH) simp_all
  with rd show ?case
    by (simp add: readFrames_Some)
qed

subsection \<open>Files written by a correct producer\<close>

lemma length_initialBuffer: "length (initialBuffer m) = nat (bufferSize (sm_format m) (sm_size m))"
  by (simp add: initialBuffer_def)

lemma framesFit_buffers:
  assumes "framesFit md fs"
  shows "\<forall>f \<in> set fs. unat (f_streamId f) < length (map initialBuffer md) \<and>
           length (f_data f) = length (map initialBuffer md ! unat (f_streamId f))"
  using assms by (auto simp: framesFit_def length_initialBuffer)

lemma writeFrames_file:
  assumes "validMetadata md" and "framesFit md fs"
  shows "writeFrames fs (rgbdOutputStream md True) =
         \<lparr>o_stream = \<lparr>out_open = True, out_file = encodeHeader md @ concat (map encodeFrame fs), out_space = None\<rparr>, o_metadata = md\<rparr>"
  using assms
  by (simp add: validMetadata_def framesFit_def rgbdOutputStream_header writeFrames_appends isValidOut_def)

lemma read_encoded_file:
  assumes "validMetadata md" and "framesFit md fs"
  shows "\<exists>r. rgbdInputStream (Some (encodeHeader md @ concat (map encodeFrame fs))) False = Inr r \<and>
             isValidIn r \<and> m_metadata r = md \<and> fst (readFrames r) = fs"
proof -
  let ?r = "\<lparr>m_stream = \<lparr>in_open = True, in_rest = concat (map encodeFrame fs)\<rparr>, m_metadata = md,
              m_buffers = map initialBuffer md, m_valid = True\<rparr>"
  have "rgbdInputStream (Some (encodeHeader md @ concat (map encodeFrame fs))) False = Inr ?r"
    using assms(1) by (simp add: validMetadata_def rgbdInputStream_encodeHeader)
  moreover have "fst (readFrames ?r) = fs"
    using framesFit_buffers [OF assms(2)] by (intro readFrames_encoded) (simp_all add: isValidIn_def)
  ultimately show ?thesis
    by (simp add: isValidIn_def)
qed

lemma bufferSize_convertV1 [simp]:
  "bufferSize (sm_format (convertV1 m)) (sm_size (convertV1 m)) = bufferSize (v1_format m) (v1_size m)"
  by (simp add: convertV1_def)

lemma read_encoded_fileV1:
  assumes "validMetadata (map convertV1 md)" and "framesFit (map convertV1 md) fs"
  shows "\<exists>r. rgbdInputStream (Some (encodeHeaderV1 md @ concat (map encodeFrame fs))) True = Inr r \<and>
             isValidIn r \<and> m_metadata r = map convertV1 md \<and> fst (readFrames r) = fs"
proof -
  let ?r = "\<lparr>m_stream = \<lparr>in_open = True, in_rest = concat (map encodeFrame fs)\<rparr>, m_metadata = map convertV1 md,
              m_buffers = map (initialBuffer \<circ> convertV1) md, m_valid = True\<rparr>"
  have "rgbdInputStream (Some (encodeHeaderV1 md @ concat (map encodeFrame fs))) True = Inr ?r"
    using assms(1) by (simp add: validMetadata_def rgbdInputStream_encodeHeaderV1)
  moreover have "fst (readFrames ?r) = fs"
    using framesFit_buffers [OF assms(2)] by (intro readFrames_encoded) (simp_all add: isValidIn_def)
  ultimately show ?thesis
    by (simp add: isValidIn_def)
qed

lemma rgbdStreamConverter_encoded:
  assumes "3 \<le> argc" and "validMetadata (map convertV1 md)" and "framesFit (map convertV1 md) fs"
  shows "\<exists>w. rgbdStreamConverter argc (Some (encodeHeaderV1 md @ concat (map encodeFrame fs))) True = Inr (0, Some w) \<and>
             out_file (o_stream w) = encodeHeader (map convertV1 md) @ concat (map encodeFrame fs)"
proof -
  obtain r where r: "rgbdInputStream (Some (encodeHeaderV1 md @ concat (map encodeFrame fs))) True = Inr r"
    and valid: "isValidIn r" and md: "m_metadata r = map convertV1 md" and fs: "fst (readFrames r) = fs"
    using read_encoded_fileV1 [OF assms(2,3)] by blast
  let ?w = "rgbdOutputStream (map convertV1 md) True"
  have out: "writeFrames fs ?w = \<lparr>o_stream = \<lparr>out_open = True,
               out_file = encodeHeader (map convertV1 md) @ concat (map encodeFrame fs), out_space = None\<rparr>, o_metadata = map convertV1 md\<rparr>"
    using assms(2,3) by (rule writeFrames_file)
  have "isValidOut ?w"
    using assms(2) by (simp add: validMetadata_def rgbdOutputStream_header isValidOut_def)
  moreover have "convertLoop r ?w = (snd (readFrames r), writeFrames fs ?w)"
    using fs by (simp add: convertLoop_readFrames)
  ultimately show ?thesis
    using assms(1) r valid md out
    by (simp add: rgbdStreamConverter_def closeOut_def closeOutput_def)
qed

subsection \<open>Termination bound and exit codes\<close>

text \<open>
  C24 (loop bound). The read loop yields at most one frame per 16 unread bytes:
  every successful \<open>read\<close> consumes a whole record header, so the loops over records end.
\<close>

theorem readFrames_bound: "16 * length (fst (readFrames r)) \<le> length (in_rest (m_stream r))"
proof (induction r rule: readFrames.induct)
  case (1 r)
  show ?case
  proof (cases "rgbdRead r")
    case (Pair res r')
    show ?thesis
    proof (cases res)
      case None
      with Pair show ?thesis by (simp add: readFrames_None)
    next
      case (Some f)
      with Pair "1" [of "Some f" r' f] have "16 * length (fst (readFrames r')) \<le> length (in_rest (m_stream r'))"
        by simp
      moreover have "length (in_rest (m_stream r')) + 16 \<le> length (in_rest (m_stream r))"
        using Pair Some by (intro rgbdRead_shrinks) simp
      ultimately show ?thesis
        using Pair Some by (simp add: readFrames_Some)
    qed
  qed
qed


text \<open>
  C26 (rejected source). A source file that does not start with the magic is
  accepted by the reader as a valid stream with no metadata; the converter then creates
  a writer with no streams, which is invalid, and exits with 2 through its output
  error path, never opening the destination.
\<close>

theorem rgbdStreamConverter_bad_magic:
  assumes "3 \<le> argc" and "8 \<le> length bs" and "take 4 bs \<noteq> rgbdMagic"
  shows "rgbdStreamConverter argc (Some bs) dstCanOpen = Inr (2, Some \<lparr>o_stream = closedOutput, o_metadata = []\<rparr>)"
  using assms
  by (simp add: rgbdStreamConverter_def rgbdInputStream_def readMagic_long readWord32_long isValidIn_def
      rgbdOutputStream_no_streams isValidOut_def closedOutput_def closeOut_def closeOutput_def)

subsection \<open>Zero-filled decimal strings\<close>







end
