(* ===== verification/BitPacking.thy ===== *)
theory BitPacking
  imports Prelude
begin

text \<open>
  src/core/src/math/BitPacking.inl: byte swaps of 16-, 32- and 64-bit words (also
  lane-wise, two or four lanes per word), the byte swap of an array of 16-bit
  values with its fast path over 64-bit words, and Morton (Z-order) codes in two
  and three dimensions. Every \<open>uintN_t\<close> is an \<open>N word\<close>; \<open><<\<close> is \<open>push_bit\<close>,
  \<open>>>\<close> is \<open>drop_bit\<close>, \<open>&\<close>, \<open>|\<close> are \<open>AND\<close>, \<open>OR\<close>. C++ promotes a
  \<open>uint16_t\<close> operand of a shift to \<open>int\<close> and truncates on return; \<open>byteSwap16\<close>
  writes that out. The array routine reinterprets the 16-bit arrays as 64-bit words;
  on the little-endian targets of the library, 64-bit word \<open>i\<close> holds elements
  \<open>4i .. 4i+3\<close>, lowest first: \<open>pack16x4\<close> and \<open>unpack16x4\<close> are that
  reinterpretation. Arrays are lists; \<open>packed()\<close> is a flag of each view.
\<close>

unbundle bit_operations_syntax

definition byteSwap16 :: "16 word \<Rightarrow> 16 word" where
  "byteSwap16 x = ucast (drop_bit 8 (ucast x :: int32) OR push_bit 8 (ucast x :: int32))"

definition byteSwap16x2 :: "32 word \<Rightarrow> 32 word" where
  "byteSwap16x2 x = (push_bit 8 x AND 0xff00ff00) OR (drop_bit 8 x AND 0x00ff00ff)"

definition byteSwap16x4 :: "64 word \<Rightarrow> 64 word" where
  "byteSwap16x4 x = (push_bit 8 x AND 0xff00ff00ff00ff00) OR (drop_bit 8 x AND 0x00ff00ff00ff00ff)"

definition byteSwap32 :: "32 word \<Rightarrow> 32 word" where
  "byteSwap32 x =
     drop_bit 24 x OR (drop_bit 8 x AND 0x0000ff00) OR
     (push_bit 8 x AND 0x00ff0000) OR (push_bit 24 x AND 0xff000000)"

definition byteSwap32x2 :: "64 word \<Rightarrow> 64 word" where
  "byteSwap32x2 x =
     (drop_bit 24 x AND 0x000000ff000000ff) OR (drop_bit 8 x AND 0x0000ff000000ff00) OR
     (push_bit 8 x AND 0x00ff000000ff0000) OR (push_bit 24 x AND 0xff000000ff000000)"

definition byteSwap64 :: "64 word \<Rightarrow> 64 word" where
  "byteSwap64 x =
     drop_bit 56 x OR (drop_bit 40 x AND 0x000000000000ff00) OR
     (drop_bit 24 x AND 0x0000000000ff0000) OR (drop_bit 8 x AND 0x00000000ff000000) OR
     (push_bit 8 x AND 0x000000ff00000000) OR (push_bit 24 x AND 0x0000ff0000000000) OR
     (push_bit 40 x AND 0x00ff000000000000) OR (push_bit 56 x AND 0xff00000000000000)"

subsection \<open>The array byte swap\<close>

definition pack16x4 :: "16 word \<Rightarrow> 16 word \<Rightarrow> 16 word \<Rightarrow> 16 word \<Rightarrow> 64 word" where
  "pack16x4 a b c d = ucast a OR push_bit 16 (ucast b) OR push_bit 32 (ucast c) OR push_bit 48 (ucast d)"

definition unpack16x4 :: "64 word \<Rightarrow> nat \<Rightarrow> 16 word" where
  "unpack16x4 w k = ucast (drop_bit (16 * k) w)"

text \<open>\<open>src64[ i ]\<close> and \<open>dst64[ i ] = v\<close> on the reinterpreted arrays.\<close>

definition read64 :: "16 word list \<Rightarrow> nat \<Rightarrow> 64 word" where
  "read64 xs i = pack16x4 (xs ! (4 * i)) (xs ! (4 * i + 1)) (xs ! (4 * i + 2)) (xs ! (4 * i + 3))"

definition write64 :: "16 word list \<Rightarrow> nat \<Rightarrow> 64 word \<Rightarrow> 16 word list" where
  "write64 xs i v =
     xs[4 * i := unpack16x4 v 0, 4 * i + 1 := unpack16x4 v 1, 4 * i + 2 := unpack16x4 v 2,
        4 * i + 3 := unpack16x4 v 3]"

text \<open>\<open>for( i = lo; i < hi; ++i ) dst[ i ] = byteSwap16( src[ i ] )\<close>.\<close>

definition swapLoop :: "16 word list \<Rightarrow> nat \<Rightarrow> nat \<Rightarrow> 16 word list \<Rightarrow> 16 word list" where
  "swapLoop src lo hi dst = foldl (\<lambda>d i. d[i := byteSwap16 (src ! i)]) dst [lo..<hi]"

definition byteSwap16Array :: "bool \<Rightarrow> bool \<Rightarrow> 16 word list \<Rightarrow> 16 word list \<Rightarrow> bool \<times> 16 word list" where
  "byteSwap16Array srcPacked dstPacked src dst =
     (if length src \<noteq> length dst then (False, dst)
      else if srcPacked \<and> dstPacked then
        (let nWords64 = length src div 4;
             dst = foldl (\<lambda>d i. write64 d i (byteSwap16x4 (read64 src i))) dst [0..<nWords64];
             dst = (if nWords64 * 4 < length src then swapLoop src (nWords64 * 4) (length src) dst else dst)
         in (True, dst))
      else (True, swapLoop src 0 (length src) dst))"

subsection \<open>Morton codes\<close>

text \<open>\<open>mortonPack2D\<close>: the tables \<open>B\<close> and \<open>S\<close>, one spreading step per table entry, applied to \<open>x\<close> and to \<open>y\<close>.\<close>

definition mortonB :: "32 word list" where
  "mortonB = [0x55555555, 0x33333333, 0x0f0f0f0f, 0x00ff00ff]"

definition mortonS :: "nat list" where
  "mortonS = [1, 2, 4, 8]"

definition spreadStep :: "nat \<Rightarrow> 32 word \<Rightarrow> 32 word" where
  "spreadStep k v = (v OR push_bit (mortonS ! k) v) AND mortonB ! k"

definition mortonPack2D :: "16 word \<Rightarrow> 16 word \<Rightarrow> 32 word" where
  "mortonPack2D x y =
     (let x32 = (ucast x :: 32 word);
          y32 = (ucast y :: 32 word);
          x32 = spreadStep 3 x32; x32 = spreadStep 2 x32; x32 = spreadStep 1 x32; x32 = spreadStep 0 x32;
          y32 = spreadStep 3 y32; y32 = spreadStep 2 y32; y32 = spreadStep 1 y32; y32 = spreadStep 0 y32
      in x32 OR push_bit 1 y32)"

definition mortonUnpack2D :: "32 word \<Rightarrow> 16 word \<times> 16 word" where
  "mortonUnpack2D index =
     (let index64 = (ucast index :: 64 word);
          w = push_bit 31 (index64 AND 0xAAAAAAAA) OR (index64 AND 0x55555555);
          w = (w OR drop_bit 1 w) AND 0x3333333333333333;
          w = (w OR drop_bit 2 w) AND 0x0f0f0f0f0f0f0f0f;
          w = (w OR drop_bit 4 w) AND 0x00ff00ff00ff00ff;
          w = (w OR drop_bit 8 w) AND 0x0000ffff0000ffff
      in (ucast (w AND 0x000000000000ffff), ucast (drop_bit 32 (w AND 0x0000ffff00000000))))"

text \<open>
  The 3D codes treat the three coordinates with the same sequence of statements;
  \<open>spread5\<close>, \<open>compact5\<close>, \<open>spread10\<close>, \<open>compact10\<close> are that sequence for one
  coordinate (\<open>index0\<close>, \<open>value0\<close>, ...). The 5-bit spread uses two wrapping
  32-bit multiplications.
\<close>

definition spread5 :: "32 word \<Rightarrow> 32 word" where
  "spread5 v =
     (let v = v AND 0x0000001f; v = v * 0x01041041; v = v AND 0x10204081;
          v = v * 0x00011111; v = v AND 0x12490000 in v)"

text \<open>The same spreading written with shifts: bit \<open>i\<close> of the low five moves to bit \<open>16 + 3 i\<close>.\<close>

definition spread5Shifts :: "32 word \<Rightarrow> 32 word" where
  "spread5Shifts v = push_bit 16 (v AND 1) OR push_bit 18 (v AND 2) OR push_bit 20 (v AND 4) OR
     push_bit 22 (v AND 8) OR push_bit 24 (v AND 16)"

definition mortonPack3D_5bit :: "8 word \<Rightarrow> 8 word \<Rightarrow> 8 word \<Rightarrow> 16 word" where
  "mortonPack3D_5bit x y z =
     (let index0 = spread5 (ucast x); index1 = spread5 (ucast y); index2 = spread5 (ucast z)
      in ucast (drop_bit 16 index0 OR drop_bit 15 index1 OR drop_bit 14 index2))"

definition compact5 :: "32 word \<Rightarrow> 32 word" where
  "compact5 v =
     (let v = v AND 0x00001249; v = v OR drop_bit 2 v; v = v AND 0x000010c3;
          v = v OR drop_bit 4 v; v = v AND 0x0000100f; v = v OR drop_bit 8 v;
          v = v AND 0x0000001f in v)"

definition mortonUnpack3D_5bit :: "16 word \<Rightarrow> 8 word \<times> 8 word \<times> 8 word" where
  "mortonUnpack3D_5bit index =
     (let value0 = (ucast index :: 32 word); value1 = drop_bit 1 value0; value2 = drop_bit 2 value0
      in (ucast (compact5 value0), ucast (compact5 value1), ucast (compact5 value2)))"

definition spread10 :: "32 word \<Rightarrow> 32 word" where
  "spread10 v =
     (let v = v AND 0x000003ff; v = v OR push_bit 16 v; v = v AND 0x030000ff;
          v = v OR push_bit 8 v; v = v AND 0x0300f00f; v = v OR push_bit 4 v;
          v = v AND 0x030c30c3; v = v OR push_bit 2 v; v = v AND 0x09249249 in v)"

definition mortonPack3D_10bit :: "16 word \<Rightarrow> 16 word \<Rightarrow> 16 word \<Rightarrow> 32 word" where
  "mortonPack3D_10bit x y z =
     (let index0 = spread10 (ucast x); index1 = spread10 (ucast y); index2 = spread10 (ucast z)
      in index0 OR push_bit 1 index1 OR push_bit 2 index2)"

definition compact10 :: "32 word \<Rightarrow> 32 word" where
  "compact10 v =
     (let v = v AND 0x09249249; v = v OR drop_bit 2 v; v = v AND 0x030c30c3;
          v = v OR drop_bit 4 v; v = v AND 0x0300f00f; v = v OR drop_bit 8 v;
          v = v AND 0x030000ff; v = v OR drop_bit 16 v; v = v AND 0x000003ff in v)"

definition mortonUnpack3D_10bit :: "32 word \<Rightarrow> 16 word \<times> 16 word \<times> 16 word" where
  "mortonUnpack3D_10bit index =
     (let value0 = index; value1 = drop_bit 1 value0; value2 = drop_bit 2 value0
      in (ucast (compact10 value0), ucast (compact10 value1), ucast (compact10 value2)))"

subsection \<open>Byte swaps, bit by bit\<close>

text \<open>Bit \<open>n\<close> of each result is the bit of the argument at the mirrored position within its byte lane.\<close>

lemma bit_byteSwap16: "bit (byteSwap16 x) n \<longleftrightarrow> n < 16 \<and> bit x (if n < 8 then n + 8 else n - 8)"
  by (rule bit_by_positions) (simp, simp add: upt_16 byteSwap16_def bit_simps)

lemma bit_byteSwap16x2: "bit (byteSwap16x2 x) n \<longleftrightarrow> n < 32 \<and> bit x (if n mod 16 < 8 then n + 8 else n - 8)"
  by (rule bit_by_positions) (simp, simp add: upt_32 upt_16 byteSwap16x2_def bit_simps)

lemma bit_byteSwap16x4: "bit (byteSwap16x4 x) n \<longleftrightarrow> n < 64 \<and> bit x (if n mod 16 < 8 then n + 8 else n - 8)"
  by (rule bit_by_positions) (simp, simp add: upt_64 upt_32 upt_16 byteSwap16x4_def bit_simps)

lemma bit_byteSwap32: "bit (byteSwap32 x) n \<longleftrightarrow> n < 32 \<and> bit x (8 * (3 - n div 8) + n mod 8)"
  by (rule bit_by_positions) (simp, simp add: upt_32 upt_16 byteSwap32_def bit_simps, simp add: eval_nat_numeral)

lemma bit_byteSwap32x2:
  "bit (byteSwap32x2 x) n \<longleftrightarrow> n < 64 \<and> bit x (32 * (n div 32) + 8 * (3 - n mod 32 div 8) + n mod 8)"
  by (rule bit_by_positions) (simp, simp add: upt_64 upt_32 upt_16 byteSwap32x2_def bit_simps, simp add: eval_nat_numeral)

lemma bit_byteSwap64: "bit (byteSwap64 x) n \<longleftrightarrow> n < 64 \<and> bit x (8 * (7 - n div 8) + n mod 8)"
  by (rule bit_by_positions) (simp, simp add: upt_64 upt_32 upt_16 byteSwap64_def bit_simps, simp add: eval_nat_numeral)

lemmas bit_byteSwaps = bit_byteSwap16 bit_byteSwap16x2 bit_byteSwap16x4 bit_byteSwap32 bit_byteSwap32x2 bit_byteSwap64

subsection \<open>The fast path of the array swap\<close>

lemma bit_pack16x4:
  "bit (pack16x4 a b c d) n \<longleftrightarrow> n < 64 \<and>
     (if n < 16 then bit a n else if n < 32 then bit b (n - 16) else if n < 48 then bit c (n - 32) else bit d (n - 48))"
  by (rule bit_by_positions) (simp, simp add: upt_64 upt_32 upt_16 pack16x4_def bit_simps)

lemma unpack16x4_pack16x4:
  "unpack16x4 (pack16x4 a b c d) 0 = a" "unpack16x4 (pack16x4 a b c d) 1 = b"
  "unpack16x4 (pack16x4 a b c d) 2 = c" "unpack16x4 (pack16x4 a b c d) 3 = d"
  by (rule bit_word_eqI; simp add: unpack16x4_def bit_simps bit_pack16x4)+

lemma byteSwap16x4_pack16x4:
  "byteSwap16x4 (pack16x4 a b c d) = pack16x4 (byteSwap16 a) (byteSwap16 b) (byteSwap16 c) (byteSwap16 d)"
  by (rule word_eq_by_positions) (simp, simp add: upt_64 upt_32 upt_16 bit_byteSwap16x4 bit_byteSwap16 bit_pack16x4)

lemma write64_pack16x4:
  "write64 xs i (pack16x4 a b c d) = xs[4 * i := a, 4 * i + 1 := b, 4 * i + 2 := c, 4 * i + 3 := d]"
  unfolding write64_def by (simp only: unpack16x4_pack16x4)

text \<open>After position \<open>j\<close>, the destination is the swapped prefix of the source and the untouched rest.\<close>

lemma update_swapped_prefix:
  assumes "j < length src" and "length dst = length src"
  shows "(map f (take j src) @ drop j dst)[j := f (src ! j)] = map f (take (Suc j) src) @ drop (Suc j) dst"
  using assms by (intro nth_equalityI) (auto simp: nth_append nth_list_update take_Suc_conv_app_nth)

lemma fold64_prefix:
  assumes "4 * k \<le> length src" and "length dst = length src"
  shows "foldl (\<lambda>d i. write64 d i (byteSwap16x4 (read64 src i))) dst [0..<k] =
         map byteSwap16 (take (4 * k) src) @ drop (4 * k) dst"
  using assms(1)
proof (induction k)
  case 0
  then show ?case by simp
next
  case (Suc k)
  let ?F = "\<lambda>d i. write64 d i (byteSwap16x4 (read64 src i))"
  have IH: "foldl ?F dst [0..<k] = map byteSwap16 (take (4 * k) src) @ drop (4 * k) dst"
    using Suc by simp
  have idx: "4 * k + 1 = Suc (4 * k)" "4 * k + 2 = Suc (Suc (4 * k))" "4 * k + 3 = Suc (Suc (Suc (4 * k)))"
    "4 * Suc k = Suc (Suc (Suc (Suc (4 * k))))"
    by simp_all
  have "foldl ?F dst [0..<Suc k] = ?F (foldl ?F dst [0..<k]) k"
    by simp
  also have "\<dots> = ?F (map byteSwap16 (take (4 * k) src) @ drop (4 * k) dst) k"
    by (simp only: IH)
  also have "\<dots> = map byteSwap16 (take (4 * Suc k) src) @ drop (4 * Suc k) dst"
    using Suc.prems assms(2)
    by (simp only: read64_def byteSwap16x4_pack16x4 write64_pack16x4 idx)
       (simp add: update_swapped_prefix)
  finally show ?case .
qed

lemma swapLoop_prefix:
  assumes "lo \<le> hi" and "hi \<le> length src" and "length dst = length src"
  shows "swapLoop src lo hi (map byteSwap16 (take lo src) @ drop lo dst) = map byteSwap16 (take hi src) @ drop hi dst"
  using assms(1,2)
proof (induction hi)
  case 0
  then show ?case by (simp add: swapLoop_def)
next
  case (Suc hi)
  show ?case
  proof (cases "lo \<le> hi")
    case True
    with Suc have "swapLoop src lo hi (map byteSwap16 (take lo src) @ drop lo dst) =
                   map byteSwap16 (take hi src) @ drop hi dst"
      by simp
    with True Suc.prems assms(3) show ?thesis
      by (simp add: swapLoop_def update_swapped_prefix)
  next
    case False
    with Suc.prems have "lo = Suc hi" by simp
    then show ?thesis by (simp add: swapLoop_def)
  qed
qed

text \<open>
  C14 (equivalence of the fast path). \<open>byteSwap16\<close> on arrays fails, leaving the
  destination as it was, exactly when the lengths differ; otherwise it succeeds and
  the destination holds every source element byte-swapped, whether both views are
  packed (64-bit words, then a scalar tail) or not (one element at a time).
\<close>

theorem byteSwap16Array_eq_map:
  "byteSwap16Array srcPacked dstPacked src dst =
     (if length src = length dst then (True, map byteSwap16 src) else (False, dst))"
proof (cases "length src = length dst")
  case False
  then show ?thesis by (simp add: byteSwap16Array_def)
next
  case True
  let ?n = "length src"
  let ?P = "map byteSwap16 (take (4 * (?n div 4)) src) @ drop (4 * (?n div 4)) dst"
  have len: "length dst = length src" and le: "4 * (?n div 4) \<le> ?n" and dr: "drop ?n dst = []"
    using True by simp_all
  have fast: "foldl (\<lambda>d i. write64 d i (byteSwap16x4 (read64 src i))) dst [0..<?n div 4] = ?P"
    using le len by (rule fold64_prefix)
  have tail: "swapLoop src (4 * (?n div 4)) ?n ?P = map byteSwap16 src"
    using swapLoop_prefix [OF le order_refl len] by (simp only: dr take_all [OF order_refl] append_Nil2)
  have slow: "swapLoop src 0 ?n dst = map byteSwap16 src"
    using swapLoop_prefix [OF _ order_refl len, of 0] by (simp only: dr take_all [OF order_refl] append_Nil2 take_0 drop_0 list.map append_Nil zero_le)
  have k: "\<And>m :: nat. m div 4 * 4 = 4 * (m div 4)"
    by simp
  show ?thesis
  proof (cases "?n div 4 * 4 < ?n")
    case True
    then show ?thesis
      using \<open>length src = length dst\<close> fast tail slow by (simp add: byteSwap16Array_def Let_def k)
  next
    case False
    then have "4 * (?n div 4) = ?n"
      by simp
    then show ?thesis
      using \<open>length src = length dst\<close> fast slow by (simp add: byteSwap16Array_def Let_def k)
  qed
qed

subsection \<open>Morton codes, bit by bit\<close>

lemma bit_mortonPack2D:
  "bit (mortonPack2D x y) n \<longleftrightarrow> n < 32 \<and> (if even n then bit x (n div 2) else bit y (n div 2))"
  by (rule bit_by_positions) (simp, simp add: upt_32 upt_16 mortonPack2D_def Let_def spreadStep_def mortonS_def mortonB_def bit_simps)

lemma bit_mortonUnpack2D:
  "bit (fst (mortonUnpack2D i)) n \<longleftrightarrow> n < 16 \<and> bit i (2 * n)"
  "bit (snd (mortonUnpack2D i)) n \<longleftrightarrow> n < 16 \<and> bit i (2 * n + 1)"
  by (rule bit_by_positions, simp, simp add: upt_16 mortonUnpack2D_def Let_def bit_simps, simp add: eval_nat_numeral)+

lemma spread5_mask: "spread5 v = spread5 (v AND 0x1f)"
  by (simp add: spread5_def Let_def)

lemma spread5Shifts_mask: "spread5Shifts v = spread5Shifts (v AND 0x1f)"
  by (rule word_eq_by_positions) (simp, simp add: upt_32 upt_16 spread5Shifts_def bit_simps)

lemma spread5_table: "\<forall>k \<in> set [0..<32]. spread5 (word_of_nat k) = spread5Shifts (word_of_nat k)"
  by code_simp

lemma spread5_eq_shifts: "spread5 v = spread5Shifts v"
proof -
  have "v AND 0x1f \<le> 0x1f" by (rule word_and_le1)
  then have lt: "unat (v AND 0x1f) < 32" by (simp add: word_le_nat_alt)
  then have "unat (v AND 0x1f) \<in> set [0..<32]"
    by simp
  from bspec [OF spread5_table this] have "spread5 (v AND 0x1f) = spread5Shifts (v AND 0x1f)"
    by simp
  then show ?thesis
    by (simp add: spread5_mask [of v] spread5Shifts_mask [of v])
qed

lemma bit_spread5:
  "bit (spread5 v) n \<longleftrightarrow> n < 32 \<and> 16 \<le> n \<and> (n - 16) mod 3 = 0 \<and> (n - 16) div 3 < 5 \<and> bit v ((n - 16) div 3)"
  unfolding spread5_eq_shifts
  apply (rule bit_by_positions)
   apply simp
  apply (simp add: upt_32 upt_16)
  apply (simp add: spread5Shifts_def bit_simps)
  done

lemma bit_mortonPack3D_5bit_pos:
  "bit (mortonPack3D_5bit x y z) n \<longleftrightarrow>
   n < 16 \<and> n < 15 \<and> bit (if n mod 3 = 0 then x else if n mod 3 = 1 then y else z) (n div 3)"
  apply (rule bit_by_positions)
   apply simp
  apply (simp add: upt_16)
  apply (simp add: mortonPack3D_5bit_def Let_def bit_simps bit_spread5)
  done

lemma bit_compact5:
  "bit (compact5 v) n \<longleftrightarrow> n < 32 \<and> n < 5 \<and> bit v (3 * n)"
  apply (rule bit_by_positions)
   apply simp
  apply (simp add: upt_32 upt_16)
  apply (simp add: compact5_def bit_simps)
  done

lemma bit_spread10:
  "bit (spread10 v) n \<longleftrightarrow> n < 32 \<and> n mod 3 = 0 \<and> n div 3 < 10 \<and> bit v (n div 3)"
  apply (rule bit_by_positions)
   apply simp
  apply (simp add: upt_32 upt_16)
  apply (simp add: spread10_def bit_simps)
  done

lemma bit_compact10:
  "bit (compact10 v) n \<longleftrightarrow> n < 32 \<and> n < 10 \<and> bit v (3 * n)"
  apply (rule bit_by_positions)
   apply simp
  apply (simp add: upt_32 upt_16)
  apply (simp add: compact10_def bit_simps)
  done


lemma bit_mortonUnpack3D_5bit:
  "bit (fst (mortonUnpack3D_5bit i)) n \<longleftrightarrow> n < 8 \<and> n < 5 \<and> bit i (3 * n)"
  "bit (fst (snd (mortonUnpack3D_5bit i))) n \<longleftrightarrow> n < 8 \<and> n < 5 \<and> bit i (3 * n + 1)"
  "bit (snd (snd (mortonUnpack3D_5bit i))) n \<longleftrightarrow> n < 8 \<and> n < 5 \<and> bit i (3 * n + 2)"
  by (rule bit_by_positions, simp, simp add: upt_8, simp add: mortonUnpack3D_5bit_def Let_def bit_simps bit_compact5 numeral_2_eq_2 [symmetric])+

lemma bit_mortonPack3D_10bit:
  "bit (mortonPack3D_10bit x y z) n \<longleftrightarrow>
   n < 32 \<and> n < 30 \<and> bit (if n mod 3 = 0 then x else if n mod 3 = 1 then y else z) (n div 3)"
  apply (rule bit_by_positions)
   apply simp
  apply (simp add: upt_32 upt_16)
  apply (simp add: mortonPack3D_10bit_def Let_def bit_simps bit_spread10)
  done

lemma bit_mortonUnpack3D_10bit:
  "bit (fst (mortonUnpack3D_10bit i)) n \<longleftrightarrow> n < 16 \<and> n < 10 \<and> bit i (3 * n)"
  "bit (fst (snd (mortonUnpack3D_10bit i))) n \<longleftrightarrow> n < 16 \<and> n < 10 \<and> bit i (3 * n + 1)"
  "bit (snd (snd (mortonUnpack3D_10bit i))) n \<longleftrightarrow> n < 16 \<and> n < 10 \<and> bit i (3 * n + 2)"
  by (rule bit_by_positions, simp, simp add: upt_16, simp add: mortonUnpack3D_10bit_def Let_def bit_simps bit_compact10 numeral_2_eq_2 [symmetric])+

text \<open>
  C15 (round trip). Unpacking the 2D Morton code of \<open>(x, y)\<close> gives back \<open>(x, y)\<close>:
  the bits of \<open>x\<close> sit at the even positions, those of \<open>y\<close> at the odd ones, and the
  unpacking compacts them again.
\<close>

theorem mortonUnpack2D_mortonPack2D: "mortonUnpack2D (mortonPack2D x y) = (x, y)"
proof -
  have "fst (mortonUnpack2D (mortonPack2D x y)) = x"
    by (rule word_eq_by_positions) (simp, simp add: upt_16, simp add: bit_mortonUnpack2D bit_mortonPack2D)
  moreover have "snd (mortonUnpack2D (mortonPack2D x y)) = y"
    by (rule word_eq_by_positions) (simp, simp add: upt_16, simp add: bit_mortonUnpack2D bit_mortonPack2D)
  ultimately show ?thesis
    by (simp add: prod_eq_iff)
qed

text \<open>
  (round trip). Every 32-bit index is the 2D Morton code of the pair its
  unpacking returns.
\<close>

theorem mortonPack2D_mortonUnpack2D:
  "mortonPack2D (fst (mortonUnpack2D i)) (snd (mortonUnpack2D i)) = i"
  by (rule word_eq_by_positions) (simp, simp add: upt_32 upt_16, simp add: bit_mortonUnpack2D bit_mortonPack2D)

text \<open>
  (round trip). Unpacking the 15-bit 3D Morton code of \<open>(x, y, z)\<close> gives back
  the low five bits of each coordinate; the magic multiplications of the packing spread
  the bits exactly as the shifts of \<open>spread5Shifts\<close> do.
\<close>

theorem mortonUnpack3D_5bit_mortonPack3D_5bit:
  "mortonUnpack3D_5bit (mortonPack3D_5bit x y z) = (take_bit 5 x, take_bit 5 y, take_bit 5 z)"
proof -
  have "fst (mortonUnpack3D_5bit (mortonPack3D_5bit x y z)) = take_bit 5 x"
    by (rule word_eq_by_positions) (simp, simp add: upt_8, simp add: bit_mortonUnpack3D_5bit bit_mortonPack3D_5bit_pos bit_simps)
  moreover have "fst (snd (mortonUnpack3D_5bit (mortonPack3D_5bit x y z))) = take_bit 5 y"
    by (rule word_eq_by_positions) (simp, simp add: upt_8, simp add: bit_mortonUnpack3D_5bit bit_mortonPack3D_5bit_pos bit_simps)
  moreover have "snd (snd (mortonUnpack3D_5bit (mortonPack3D_5bit x y z))) = take_bit 5 z"
    by (rule word_eq_by_positions) (simp, simp add: upt_8, simp add: bit_mortonUnpack3D_5bit bit_mortonPack3D_5bit_pos bit_simps)
  ultimately show ?thesis
    by (simp add: prod_eq_iff)
qed

text \<open>
  The reverse round trip. Packing the coordinates unpacked from a 16-bit index gives back
  its low 15 bits: bit 15 is ignored.
\<close>

theorem mortonPack3D_5bit_mortonUnpack3D_5bit:
  "mortonPack3D_5bit (fst (mortonUnpack3D_5bit i)) (fst (snd (mortonUnpack3D_5bit i))) (snd (snd (mortonUnpack3D_5bit i))) =
   take_bit 15 i"
  by (rule word_eq_by_positions) (simp, simp add: upt_16, simp add: bit_mortonUnpack3D_5bit bit_mortonPack3D_5bit_pos bit_simps numeral_2_eq_2 [symmetric])


text \<open>
  C16 (round trip). Unpacking the 30-bit 3D Morton code of \<open>(x, y, z)\<close> gives back
  the low ten bits of each coordinate.
\<close>

theorem mortonUnpack3D_10bit_mortonPack3D_10bit:
  "mortonUnpack3D_10bit (mortonPack3D_10bit x y z) = (take_bit 10 x, take_bit 10 y, take_bit 10 z)"
proof -
  have "fst (mortonUnpack3D_10bit (mortonPack3D_10bit x y z)) = take_bit 10 x"
    by (rule word_eq_by_positions) (simp, simp add: upt_16, simp add: bit_mortonUnpack3D_10bit bit_mortonPack3D_10bit bit_simps)
  moreover have "fst (snd (mortonUnpack3D_10bit (mortonPack3D_10bit x y z))) = take_bit 10 y"
    by (rule word_eq_by_positions) (simp, simp add: upt_16, simp add: bit_mortonUnpack3D_10bit bit_mortonPack3D_10bit bit_simps)
  moreover have "snd (snd (mortonUnpack3D_10bit (mortonPack3D_10bit x y z))) = take_bit 10 z"
    by (rule word_eq_by_positions) (simp, simp add: upt_16, simp add: bit_mortonUnpack3D_10bit bit_mortonPack3D_10bit bit_simps)
  ultimately show ?thesis
    by (simp add: prod_eq_iff)
qed

text \<open>
  (round trip). Packing the coordinates unpacked from a 32-bit index gives back
  its low 30 bits.
\<close>

theorem mortonPack3D_10bit_mortonUnpack3D_10bit:
  "mortonPack3D_10bit (fst (mortonUnpack3D_10bit i)) (fst (snd (mortonUnpack3D_10bit i))) (snd (snd (mortonUnpack3D_10bit i))) =
   take_bit 30 i"
  by (rule word_eq_by_positions) (simp, simp add: upt_32 upt_16, simp add: bit_mortonUnpack3D_10bit bit_mortonPack3D_10bit bit_simps numeral_2_eq_2 [symmetric])


subsection \<open>Byte swaps and the byte layout\<close>

text \<open>
  (byte reversal). In the little-endian layout of the files, the byte image of
  \<open>byteSwap16\<close>, \<open>byteSwap32\<close> and \<open>byteSwap64\<close> of a value is the byte image of the
  value reversed: the three routines convert between little- and big-endian.
\<close>

theorem word_bytes_byteSwap:
  "word_bytes (byteSwap16 a) = rev (word_bytes a) \<and> word_bytes (byteSwap32 b) = rev (word_bytes b) \<and>
   word_bytes (byteSwap64 c) = rev (word_bytes c)"
  by (intro conjI; rule list_eq_by_positions, simp, simp, simp add: upt_2 upt_4 upt_8 rev_nth,
      (intro conjI byte_eq_by_bits; simp add: bit_word_bytes_nth upt_8 bit_byteSwaps numeral_2_eq_2 [symmetric]))

text \<open>
  (involution). Every byte swap, scalar or lane-wise, undoes itself.
\<close>

theorem byteSwap_involutive:
  "byteSwap16 (byteSwap16 a) = a \<and> byteSwap16x2 (byteSwap16x2 b) = b \<and> byteSwap16x4 (byteSwap16x4 c) = c \<and>
   byteSwap32 (byteSwap32 d) = d \<and> byteSwap32x2 (byteSwap32x2 e) = e \<and> byteSwap64 (byteSwap64 f) = f"
  by (intro conjI; rule word_eq_by_positions, simp, simp add: upt_64 upt_32 upt_16,
      simp add: bit_byteSwaps numeral_2_eq_2 [symmetric])

text \<open>
  Lane-wise swaps. \<open>byteSwap16x2\<close> swaps the bytes of each 16-bit half of
  its argument and \<open>byteSwap32x2\<close> those of each 32-bit half, as the scalar routines would.
\<close>

theorem byteSwap_lanes:
  "byteSwap16x2 (ucast a OR push_bit 16 (ucast b)) = ucast (byteSwap16 a) OR push_bit 16 (ucast (byteSwap16 b)) \<and>
   byteSwap32x2 (ucast c OR push_bit 32 (ucast d)) = ucast (byteSwap32 c) OR push_bit 32 (ucast (byteSwap32 d))"
  by (intro conjI; rule word_eq_by_positions, simp, simp add: upt_64 upt_32 upt_16,
      simp add: bit_byteSwaps bit_simps numeral_2_eq_2 [symmetric])

end
