(* ===== verification/Vecmath.thy ===== *)
theory Vecmath
  imports Complex_Main
begin

text \<open>
  The small vectors of libcgt's vecmath library that the modelled code uses:
  \<open>Vector2f\<close>, \<open>Vector3f\<close> and \<open>Quat4f\<close> as records of reals, and the operators of
  \<open>Vector2f.h\<close> and \<open>Vector3f.h\<close> (component-wise arithmetic, \<open>dot\<close>, \<open>cross\<close>,
  \<open>normSquared\<close>, \<open>norm\<close>, \<open>normalized\<close>, \<open>normal\<close>). Those headers are not in this
  repository: the operators are modelled from their declarations and their use in
  \<open>Matrix3f.cpp\<close> and \<open>GeometryUtils.cpp\<close>; \<open>float\<close> is modelled by exact real
  arithmetic and \<open>sqrt\<close> by the real square root. The lemma bundle \<open>vec_defs\<close>
  unfolds every operator to its components.
\<close>

record Vector2f =
  v2x :: real
  v2y :: real

record Vector3f =
  v3x :: real
  v3y :: real
  v3z :: real

record Quat4f =
  qx :: real
  qy :: real
  qz :: real
  qw :: real

subsection \<open>Vector2f\<close>

definition add2 :: "Vector2f \<Rightarrow> Vector2f \<Rightarrow> Vector2f" where
  "add2 u v = \<lparr>v2x = v2x u + v2x v, v2y = v2y u + v2y v\<rparr>"

definition sub2 :: "Vector2f \<Rightarrow> Vector2f \<Rightarrow> Vector2f" where
  "sub2 u v = \<lparr>v2x = v2x u - v2x v, v2y = v2y u - v2y v\<rparr>"

text \<open>\<open>f * v\<close>, and \<open>v / f\<close>.\<close>

definition scale2 :: "real \<Rightarrow> Vector2f \<Rightarrow> Vector2f" where
  "scale2 f v = \<lparr>v2x = f * v2x v, v2y = f * v2y v\<rparr>"

definition div2 :: "Vector2f \<Rightarrow> real \<Rightarrow> Vector2f" where
  "div2 v f = \<lparr>v2x = v2x v / f, v2y = v2y v / f\<rparr>"

definition dot2 :: "Vector2f \<Rightarrow> Vector2f \<Rightarrow> real" where
  "dot2 u v = v2x u * v2x v + v2y u * v2y v"

text \<open>\<open>Vector2f::cross( v0, v1 )\<close>: the 3D cross product of the two vectors in the
  plane \<open>z = 0\<close>.\<close>

definition cross2 :: "Vector2f \<Rightarrow> Vector2f \<Rightarrow> Vector3f" where
  "cross2 u v = \<lparr>v3x = 0, v3y = 0, v3z = v2x u * v2y v - v2y u * v2x v\<rparr>"

definition normSquared2 :: "Vector2f \<Rightarrow> real" where
  "normSquared2 v = v2x v * v2x v + v2y v * v2y v"

definition norm2 :: "Vector2f \<Rightarrow> real" where
  "norm2 v = sqrt (normSquared2 v)"

definition normalized2 :: "Vector2f \<Rightarrow> Vector2f" where
  "normalized2 v = div2 v (norm2 v)"

text \<open>\<open>Vector2f::normal()\<close>: the vector turned a quarter turn counter-clockwise.\<close>

definition normal2 :: "Vector2f \<Rightarrow> Vector2f" where
  "normal2 v = \<lparr>v2x = - v2y v, v2y = v2x v\<rparr>"

subsection \<open>Vector3f\<close>

definition add3 :: "Vector3f \<Rightarrow> Vector3f \<Rightarrow> Vector3f" where
  "add3 u v = \<lparr>v3x = v3x u + v3x v, v3y = v3y u + v3y v, v3z = v3z u + v3z v\<rparr>"

definition sub3 :: "Vector3f \<Rightarrow> Vector3f \<Rightarrow> Vector3f" where
  "sub3 u v = \<lparr>v3x = v3x u - v3x v, v3y = v3y u - v3y v, v3z = v3z u - v3z v\<rparr>"

definition scale3 :: "real \<Rightarrow> Vector3f \<Rightarrow> Vector3f" where
  "scale3 f v = \<lparr>v3x = f * v3x v, v3y = f * v3y v, v3z = f * v3z v\<rparr>"

definition div3 :: "Vector3f \<Rightarrow> real \<Rightarrow> Vector3f" where
  "div3 v f = \<lparr>v3x = v3x v / f, v3y = v3y v / f, v3z = v3z v / f\<rparr>"

definition dot3 :: "Vector3f \<Rightarrow> Vector3f \<Rightarrow> real" where
  "dot3 u v = v3x u * v3x v + v3y u * v3y v + v3z u * v3z v"

definition cross3 :: "Vector3f \<Rightarrow> Vector3f \<Rightarrow> Vector3f" where
  "cross3 u v =
     \<lparr>v3x = v3y u * v3z v - v3z u * v3y v,
      v3y = v3z u * v3x v - v3x u * v3z v,
      v3z = v3x u * v3y v - v3y u * v3x v\<rparr>"

definition normSquared3 :: "Vector3f \<Rightarrow> real" where
  "normSquared3 v = v3x v * v3x v + v3y v * v3y v + v3z v * v3z v"

definition norm3 :: "Vector3f \<Rightarrow> real" where
  "norm3 v = sqrt (normSquared3 v)"

definition normalized3 :: "Vector3f \<Rightarrow> Vector3f" where
  "normalized3 v = div3 v (norm3 v)"

text \<open>The clamp of a segment parameter to \<open>[0, 1]\<close>, as the closest-point routines
  write it with two \<open>if\<close>s.\<close>

definition clamp01 :: "real \<Rightarrow> real" where
  "clamp01 t = (if t < 0 then 0 else if t > 1 then 1 else t)"

lemmas vec_defs = add2_def sub2_def scale2_def div2_def dot2_def cross2_def normSquared2_def normal2_def
  add3_def sub3_def scale3_def div3_def dot3_def cross3_def normSquared3_def

subsection \<open>Lemmas\<close>

lemma normSquared2_nonneg [simp]: "0 \<le> normSquared2 v"
  by (simp add: normSquared2_def)

lemma normSquared3_nonneg [simp]: "0 \<le> normSquared3 v"
  by (simp add: normSquared3_def)

lemma normSquared2_eq_0 [simp]: "normSquared2 v = 0 \<longleftrightarrow> v2x v = 0 \<and> v2y v = 0"
  by (simp add: normSquared2_def add_nonneg_eq_0_iff)

lemma normSquared3_eq_0 [simp]: "normSquared3 v = 0 \<longleftrightarrow> v3x v = 0 \<and> v3y v = 0 \<and> v3z v = 0"
  by (simp add: normSquared3_def add_nonneg_eq_0_iff)

lemma dot2_self: "dot2 v v = normSquared2 v"
  by (simp add: dot2_def normSquared2_def)

lemma dot3_self: "dot3 v v = normSquared3 v"
  by (simp add: dot3_def normSquared3_def)

lemma norm3_sq: "norm3 v * norm3 v = normSquared3 v"
  by (simp add: norm3_def)

lemma norm2_sq: "norm2 v * norm2 v = normSquared2 v"
  by (simp add: norm2_def)

lemma Vector2f_eqI: "v2x u = v2x v \<Longrightarrow> v2y u = v2y v \<Longrightarrow> u = (v :: Vector2f)"
  by simp

lemma Vector3f_eqI: "v3x u = v3x v \<Longrightarrow> v3y u = v3y v \<Longrightarrow> v3z u = v3z v \<Longrightarrow> u = (v :: Vector3f)"
  by simp

text \<open>The squared distance between two points, the quantity the closest-point and
  distance routines compare.\<close>

lemma normSquared3_sub_expand:
  "normSquared3 (sub3 u v) = normSquared3 u - 2 * dot3 u v + normSquared3 v"
  by (simp add: vec_defs algebra_simps)

lemma normSquared2_sub_expand:
  "normSquared2 (sub2 u v) = normSquared2 u - 2 * dot2 u v + normSquared2 v"
  by (simp add: vec_defs algebra_simps)


lemma normSquared2_sub_commute: "normSquared2 (sub2 a b) = normSquared2 (sub2 b a)"
  by (simp add: vec_defs algebra_simps)

text \<open>Minimising the quadratic \<open>s\<^sup>2 E - 2 s W\<close> over \<open>[0, 1]\<close> by clamping \<open>W / E\<close>:
the optimality argument of every closest-point routine.\<close>

lemma clamp01_bounds: "0 \<le> clamp01 t \<and> clamp01 t \<le> 1"
  by (simp add: clamp01_def)

lemma clamp01_quadratic_min:
  fixes E W s :: real
  assumes "0 < E" "0 \<le> s" "s \<le> 1"
  shows "clamp01 (W / E) * clamp01 (W / E) * E - 2 * clamp01 (W / E) * W \<le> s * s * E - 2 * s * W"
proof -
  let ?t = "clamp01 (W / E)"
  have diff: "(s * s * E - 2 * s * W) - (?t * ?t * E - 2 * ?t * W) = (s - ?t) * (E * (s + ?t) - 2 * W)"
    by (simp add: algebra_simps)
  consider (neg) "W / E < 0" | (big) "\<not> W / E < 0" "W / E > 1" | (mid) "\<not> W / E < 0" "\<not> W / E > 1"
    by blast
  then have "0 \<le> (s - ?t) * (E * (s + ?t) - 2 * W)"
  proof cases
    case neg
    then have "W < 0"
      using assms(1) by (simp add: divide_less_0_iff)
    moreover have "0 \<le> E * s"
      using assms by simp
    ultimately have "0 \<le> s * (E * s - 2 * W)"
      using assms(2) by simp
    then show ?thesis
      using neg by (simp add: clamp01_def)
  next
    case big
    then have "E < W"
      using assms(1) by (simp add: less_divide_eq)
    moreover have "E * (s + 1) \<le> E * 2"
      using assms by (intro mult_left_mono) simp_all
    ultimately have "E * (s + 1) - 2 * W \<le> 0"
      by linarith
    moreover have "?t = 1"
      using big by (simp add: clamp01_def)
    ultimately show ?thesis
      using mult_nonpos_nonpos [of "s - 1" "E * (s + 1) - 2 * W"] assms(3) by simp
  next
    case mid
    then have t: "?t = W / E"
      by (simp add: clamp01_def)
    have eq: "(s - ?t) * (E * (s + ?t) - 2 * W) = E * ((s - ?t) * (s - ?t))"
      using assms(1) unfolding t by (simp add: field_simps)
    show ?thesis
      unfolding eq using assms(1) by simp
  qed
  then show ?thesis
    using diff by linarith
qed

text \<open>Identities of the 3D operators: cancellation, the products of \<open>cross\<close>, Lagrange's identity and Cramer's rule in triple-product form.\<close>

lemma norm3_pos_iff: "0 < norm3 v \<longleftrightarrow> \<not> (v3x v = 0 \<and> v3y v = 0 \<and> v3z v = 0)"
proof -
  have "0 < normSquared3 v \<longleftrightarrow> normSquared3 v \<noteq> 0"
    using normSquared3_nonneg [of v] by linarith
  then show ?thesis
    by (simp add: norm3_def)
qed

lemma normSquared3_sub_pos:
  assumes "s0 \<noteq> (s1 :: Vector3f)"
  shows "0 < normSquared3 (sub3 s1 s0)"
proof -
  have "normSquared3 (sub3 s1 s0) \<noteq> 0"
  proof
    assume "normSquared3 (sub3 s1 s0) = 0"
    then have "s0 = s1"
      by (intro Vector3f_eqI) (simp_all add: sub3_def)
    with assms show False
      by simp
  qed
  then show ?thesis
    using normSquared3_nonneg [of "sub3 s1 s0"] by linarith
qed

lemma dot3_commute: "dot3 u v = dot3 v u"
  by (simp add: dot3_def algebra_simps)

lemma add3_sub3_cancel: "add3 a (sub3 b a) = b"
  by (simp add: vec_defs)

lemma scale3_one: "scale3 1 v = v"
  by (simp add: vec_defs)

lemma normSquared3_sub_commute: "normSquared3 (sub3 a b) = normSquared3 (sub3 b a)"
  by (simp add: vec_defs algebra_simps)

lemma add3_scale3_zero: "add3 a (scale3 0 v) = a"
  by (simp add: vec_defs)

lemma normSquared3_div3: "normSquared3 (div3 v k) = normSquared3 v / (k * k)"
  by (simp add: vec_defs add_divide_distrib)

lemma normSquared3_normalized3: "normSquared3 v \<noteq> 0 \<Longrightarrow> normSquared3 (normalized3 v) = 1"
  by (simp add: normalized3_def normSquared3_div3 norm3_sq)

lemma dot3_div3_right: "dot3 u (div3 v k) = dot3 u v / k"
  by (simp add: vec_defs add_divide_distrib)

lemma dot3_cross3_left: "dot3 u (cross3 u v) = 0"
  by (simp add: vec_defs algebra_simps)

lemma dot3_cross3_right: "dot3 v (cross3 u v) = 0"
  by (simp add: vec_defs algebra_simps)

lemma lagrange3: "normSquared3 (cross3 u v) = normSquared3 u * normSquared3 v - dot3 u v * dot3 u v"
  by (simp add: vec_defs algebra_simps)

lemma cramer3:
  "scale3 (dot3 b (cross3 a c)) w =
     add3 (add3 (scale3 (- dot3 c (cross3 w b)) a) (scale3 (dot3 w (cross3 a c)) b)) (scale3 (dot3 a (cross3 w b)) c)"
  by (simp add: vec_defs algebra_simps)

lemma triple_cross_cross: "dot3 x (cross3 (cross3 a x) a) = normSquared3 x * normSquared3 a - dot3 x a * dot3 x a"
  by (simp add: vec_defs algebra_simps)

end
