(* ===== verification/Matrix3f.thy ===== *)
theory Matrix3f
  imports Vecmath
begin

text \<open>
  src/core/src/vecmath/Matrix3f.cpp: a 3 x 3 matrix stored as the array
  \<open>m_elements[ 9 ]\<close> in column-major order (element \<open>(i, j)\<close> at index \<open>3 j + i\<close>).
  The array is a list of nine reals; the loops over the elements, rows and columns
  are folds over the index ranges of the \<open>for\<close> statements, updating the list as the
  assignments do. \<open>float\<close> arithmetic is modelled by exact real arithmetic: the
  lemmas are statements about the algorithms, not about rounding. \<open>Vector2f\<close>,
  \<open>Vector3f\<close> and \<open>Quat4f\<close> are the records of \<open>Vecmath\<close>; \<open>Matrix2f\<close> is not in this
  repository and is modelled from its use here (indexing, the 2 x 2 determinant). Storage that a
  constructor leaves uninitialised before overwriting every element is a list of
  zeros. Indices are natural numbers below 3, as every caller passes.
\<close>

type_synonym Matrix3f = "real list"
type_synonym Matrix2f = "real list"

text \<open>\<open>Vector3f::operator[]\<close> and the element assignment through it.\<close>

definition vec3Nth :: "Vector3f \<Rightarrow> nat \<Rightarrow> real" where
  "vec3Nth v i = (if i = 0 then v3x v else if i = 1 then v3y v else v3z v)"

definition vec3Upd :: "Vector3f \<Rightarrow> nat \<Rightarrow> real \<Rightarrow> Vector3f" where
  "vec3Upd v i a = (if i = 0 then v\<lparr>v3x := a\<rparr> else if i = 1 then v\<lparr>v3y := a\<rparr> else v\<lparr>v3z := a\<rparr>)"

text \<open>\<open>Matrix2f::determinant2x2( m00, m01, m10, m11 )\<close>.\<close>

definition determinant2x2 :: "real \<Rightarrow> real \<Rightarrow> real \<Rightarrow> real \<Rightarrow> real" where
  "determinant2x2 m00 m01 m10 m11 = m00 * m11 - m01 * m10"

subsection \<open>Construction and element access\<close>

text \<open>\<open>Matrix3f( float fill )\<close>; \<open>Matrix3f()\<close> is \<open>Matrix3f( 0.0f )\<close>.\<close>

definition fillMatrix :: "real \<Rightarrow> Matrix3f" where
  "fillMatrix fill = foldl (\<lambda>m i. m[i := fill]) (replicate 9 0) [0..<9]"

definition zeroMatrix :: Matrix3f where
  "zeroMatrix = fillMatrix 0"

text \<open>The nine-argument constructor, arguments in row-major order.\<close>

definition mk3 :: "real \<Rightarrow> real \<Rightarrow> real \<Rightarrow> real \<Rightarrow> real \<Rightarrow> real \<Rightarrow> real \<Rightarrow> real \<Rightarrow> real \<Rightarrow> Matrix3f" where
  "mk3 m00 m01 m02 m10 m11 m12 m20 m21 m22 = [m00, m10, m20, m01, m11, m21, m02, m12, m22]"

text \<open>\<open>operator ()( i, j )\<close>, read and assigned.\<close>

definition elem :: "Matrix3f \<Rightarrow> nat \<Rightarrow> nat \<Rightarrow> real" where
  "elem m i j = m ! (j * 3 + i)"

definition setElem :: "Matrix3f \<Rightarrow> nat \<Rightarrow> nat \<Rightarrow> real \<Rightarrow> Matrix3f" where
  "setElem m i j a = m[j * 3 + i := a]"

definition getRow :: "Matrix3f \<Rightarrow> nat \<Rightarrow> Vector3f" where
  "getRow m i = \<lparr>v3x = m ! i, v3y = m ! (i + 3), v3z = m ! (i + 6)\<rparr>"

definition setRow :: "Matrix3f \<Rightarrow> nat \<Rightarrow> Vector3f \<Rightarrow> Matrix3f" where
  "setRow m i v = m[i := v3x v, i + 3 := v3y v, i + 6 := v3z v]"

definition getCol :: "Matrix3f \<Rightarrow> nat \<Rightarrow> Vector3f" where
  "getCol m j = (let colStart = 3 * j in \<lparr>v3x = m ! colStart, v3y = m ! (colStart + 1), v3z = m ! (colStart + 2)\<rparr>)"

definition setCol :: "Matrix3f \<Rightarrow> nat \<Rightarrow> Vector3f \<Rightarrow> Matrix3f" where
  "setCol m j v = (let colStart = 3 * j in m[colStart := v3x v, colStart + 1 := v3y v, colStart + 2 := v3z v])"

text \<open>\<open>Matrix3f( v0, v1, v2, setColumns )\<close>.\<close>

definition fromVectors :: "Vector3f \<Rightarrow> Vector3f \<Rightarrow> Vector3f \<Rightarrow> bool \<Rightarrow> Matrix3f" where
  "fromVectors v0 v1 v2 setColumns =
     (if setColumns then setCol (setCol (setCol (replicate 9 0) 0 v0) 1 v1) 2 v2
      else setRow (setRow (setRow (replicate 9 0) 0 v0) 1 v1) 2 v2)"

text \<open>\<open>Matrix2f\<close> elements, column-major like \<open>Matrix3f\<close>; \<open>Matrix2f()\<close> is zero.\<close>

definition elem2 :: "Matrix2f \<Rightarrow> nat \<Rightarrow> nat \<Rightarrow> real" where
  "elem2 m i j = m ! (j * 2 + i)"

definition getSubmatrix2x2 :: "Matrix3f \<Rightarrow> nat \<Rightarrow> nat \<Rightarrow> Matrix2f" where
  "getSubmatrix2x2 m i0 j0 =
     foldl (\<lambda>out i. foldl (\<lambda>out j. out[j * 2 + i := elem m (i + i0) (j + j0)]) out [0..<2])
       (replicate 4 0) [0..<2]"

definition setSubmatrix2x2 :: "Matrix3f \<Rightarrow> nat \<Rightarrow> nat \<Rightarrow> Matrix2f \<Rightarrow> Matrix3f" where
  "setSubmatrix2x2 m i0 j0 s =
     foldl (\<lambda>m i. foldl (\<lambda>m j. setElem m (i + i0) (j + j0) (elem2 s i j)) m [0..<2]) m [0..<2]"

subsection \<open>Determinant, inverse, transpose\<close>

definition determinant3x3 ::
    "real \<Rightarrow> real \<Rightarrow> real \<Rightarrow> real \<Rightarrow> real \<Rightarrow> real \<Rightarrow> real \<Rightarrow> real \<Rightarrow> real \<Rightarrow> real" where
  "determinant3x3 m00 m01 m02 m10 m11 m12 m20 m21 m22 =
     m00 * (m11 * m22 - m12 * m21) - m01 * (m10 * m22 - m12 * m20) + m02 * (m10 * m21 - m11 * m20)"

definition determinant :: "Matrix3f \<Rightarrow> real" where
  "determinant m =
     determinant3x3 (elem m 0 0) (elem m 0 1) (elem m 0 2) (elem m 1 0) (elem m 1 1) (elem m 1 2)
       (elem m 2 0) (elem m 2 1) (elem m 2 2)"

text \<open>\<open>inverse( isSingular, epsilon )\<close>: the inverse and the flag \<open>isSingular\<close>.\<close>

definition inverseEps :: "Matrix3f \<Rightarrow> real \<Rightarrow> Matrix3f \<times> bool" where
  "inverseEps m epsilon =
     (let m00 = elem m 0 0; m01 = elem m 0 1; m02 = elem m 0 2;
          m10 = elem m 1 0; m11 = elem m 1 1; m12 = elem m 1 2;
          m20 = elem m 2 0; m21 = elem m 2 1; m22 = elem m 2 2;
          cofactor00 = determinant2x2 m11 m12 m21 m22;
          cofactor01 = - determinant2x2 m10 m12 m20 m22;
          cofactor02 = determinant2x2 m10 m11 m20 m21;
          cofactor10 = - determinant2x2 m01 m02 m21 m22;
          cofactor11 = determinant2x2 m00 m02 m20 m22;
          cofactor12 = - determinant2x2 m00 m01 m20 m21;
          cofactor20 = determinant2x2 m01 m02 m11 m12;
          cofactor21 = - determinant2x2 m00 m02 m10 m12;
          cofactor22 = determinant2x2 m00 m01 m10 m11;
          det = m00 * cofactor00 + m01 * cofactor01 + m02 * cofactor02;
          isSingular = (\<bar>det\<bar> < epsilon)
      in if isSingular then (zeroMatrix, True)
         else (let r = 1 / det in
               (mk3 (cofactor00 * r) (cofactor10 * r) (cofactor20 * r)
                    (cofactor01 * r) (cofactor11 * r) (cofactor21 * r)
                    (cofactor02 * r) (cofactor12 * r) (cofactor22 * r), False)))"

text \<open>\<open>inverse()\<close>: \<open>inverse( isSingular )\<close> with the default \<open>epsilon\<close> of \<open>Matrix3f.h\<close>
  (not in this repository, a parameter here), the flag discarded.\<close>

definition inverseM :: "real \<Rightarrow> Matrix3f \<Rightarrow> Matrix3f" where
  "inverseM epsilon m = fst (inverseEps m epsilon)"

text \<open>\<open>transpose()\<close> (\<open>transposeM\<close>, the name \<open>transpose\<close> being taken by lists): in place, swapping \<open>(i, j)\<close> and \<open>(j, i)\<close> for \<open>i < j\<close>.\<close>

definition transposeM :: "Matrix3f \<Rightarrow> Matrix3f" where
  "transposeM m0 =
     foldl (\<lambda>m i. foldl (\<lambda>m j. let temp = elem m i j; m = setElem m i j (elem m j i) in setElem m j i temp)
                   m [i + 1..<3])
       m0 [0..<2]"

definition transposed :: "Matrix3f \<Rightarrow> Matrix3f" where
  "transposed m =
     foldl (\<lambda>out i. foldl (\<lambda>out j. setElem out j i (elem m i j)) out [0..<3]) zeroMatrix [0..<3]"

subsection \<open>Arithmetic operators\<close>

definition addM :: "Matrix3f \<Rightarrow> Matrix3f \<Rightarrow> Matrix3f" where
  "addM x y = foldl (\<lambda>sum k. sum[k := x ! k + y ! k]) zeroMatrix [0..<9]"

definition subM :: "Matrix3f \<Rightarrow> Matrix3f \<Rightarrow> Matrix3f" where
  "subM x y = foldl (\<lambda>difference k. difference[k := x ! k - y ! k]) zeroMatrix [0..<9]"

definition negM :: "Matrix3f \<Rightarrow> Matrix3f" where
  "negM x = foldl (\<lambda>output k. output[k := - (x ! k)]) zeroMatrix [0..<9]"

text \<open>\<open>f * m\<close>; \<open>m * f\<close> is \<open>f * m\<close> and \<open>m / f\<close> is \<open>( 1.0f / f ) * m\<close>.\<close>

definition scaleM :: "real \<Rightarrow> Matrix3f \<Rightarrow> Matrix3f" where
  "scaleM f m = foldl (\<lambda>output k. output[k := f * m ! k]) zeroMatrix [0..<9]"

definition mulScalarM :: "Matrix3f \<Rightarrow> real \<Rightarrow> Matrix3f" where
  "mulScalarM m f = scaleM f m"

definition divM :: "Matrix3f \<Rightarrow> real \<Rightarrow> Matrix3f" where
  "divM m f = scaleM (1 / f) m"

text \<open>\<open>m * v\<close>: \<open>output[ i ] += m( i, j ) * v[ j ]\<close> from the zero vector.\<close>

definition mulVec :: "Matrix3f \<Rightarrow> Vector3f \<Rightarrow> Vector3f" where
  "mulVec m v =
     foldl (\<lambda>output i. foldl (\<lambda>output j. vec3Upd output i (vec3Nth output i + elem m i j * vec3Nth v j)) output [0..<3])
       \<lparr>v3x = 0, v3y = 0, v3z = 0\<rparr> [0..<3]"

text \<open>\<open>x * y\<close>: \<open>product( i, k ) += x( i, j ) * y( j, k )\<close> from the zero matrix.\<close>

definition mulM :: "Matrix3f \<Rightarrow> Matrix3f \<Rightarrow> Matrix3f" where
  "mulM x y =
     foldl (\<lambda>product i. foldl (\<lambda>product j. foldl (\<lambda>product k.
         setElem product i k (elem product i k + elem x i j * elem y j k)) product [0..<3]) product [0..<3])
       zeroMatrix [0..<3]"

definition transformPoint :: "Matrix3f \<Rightarrow> Vector2f \<Rightarrow> Vector2f" where
  "transformPoint m p = (let r = mulVec m \<lparr>v3x = v2x p, v3y = v2y p, v3z = 1\<rparr> in \<lparr>v2x = v3x r, v2y = v3y r\<rparr>)"

definition transformVector :: "Matrix3f \<Rightarrow> Vector2f \<Rightarrow> Vector2f" where
  "transformVector m v = (let r = mulVec m \<lparr>v3x = v2x v, v3y = v2y v, v3z = 0\<rparr> in \<lparr>v2x = v3x r, v2y = v3y r\<rparr>)"

subsection \<open>Static constructors\<close>

definition ones :: Matrix3f where
  "ones = fillMatrix 1"

definition identity :: Matrix3f where
  "identity = setElem (setElem (setElem zeroMatrix 0 0 1) 1 1 1) 2 2 1"

definition rotateX :: "real \<Rightarrow> Matrix3f" where
  "rotateX radians = (let c = cos radians; s = sin radians in mk3 1 0 0 0 c (- s) 0 s c)"

definition rotateY :: "real \<Rightarrow> Matrix3f" where
  "rotateY radians = (let c = cos radians; s = sin radians in mk3 c 0 s 0 1 0 (- s) 0 c)"

definition rotateZ :: "real \<Rightarrow> Matrix3f" where
  "rotateZ radians = (let c = cos radians; s = sin radians in mk3 c (- s) 0 s c 0 0 0 1)"

text \<open>\<open>rotation( axis, radians )\<close>: rotation about a unit axis (Rodrigues' formula).\<close>

definition rotation :: "Vector3f \<Rightarrow> real \<Rightarrow> Matrix3f" where
  "rotation axis radians =
     (let c = cos radians; s = sin radians; omc = 1 - c; x = v3x axis; y = v3y axis; z = v3z axis
      in mk3 (x * x * omc + c) (y * x * omc - z * s) (z * x * omc + y * s)
             (x * y * omc + z * s) (y * y * omc + c) (z * y * omc - x * s)
             (x * z * omc - y * s) (y * z * omc + x * s) (z * z * omc + c))"

text \<open>\<open>rotation( axisAngle )\<close>: \<open>axisAngle.normalized( radians )\<close> returns the unit axis
  and stores the length in \<open>radians\<close>.\<close>

definition rotationAxisAngle :: "Vector3f \<Rightarrow> Matrix3f" where
  "rotationAxisAngle axisAngle = (let radians = norm3 axisAngle; axis = normalized3 axisAngle in rotation axis radians)"

definition scaling :: "Vector3f \<Rightarrow> Matrix3f" where
  "scaling xyz = mk3 (v3x xyz) 0 0 0 (v3y xyz) 0 0 0 (v3z xyz)"

definition uniformScaling :: "real \<Rightarrow> Matrix3f" where
  "uniformScaling s = mk3 s 0 0 0 s 0 0 0 s"

definition translation :: "Vector2f \<Rightarrow> Matrix3f" where
  "translation xy = mk3 1 0 (v2x xy) 0 1 (v2y xy) 0 0 1"

definition scaleTranslate :: "Vector2f \<Rightarrow> Vector2f \<Rightarrow> Vector2f \<Rightarrow> Vector2f \<Rightarrow> Matrix3f" where
  "scaleTranslate srcOrigin srcSize dstOrigin dstSize =
     (let t0 = translation \<lparr>v2x = - v2x srcOrigin, v2y = - v2y srcOrigin\<rparr>;
          s = scaling \<lparr>v3x = v2x dstSize / v2x srcSize, v3y = v2y dstSize / v2y srcSize, v3z = 1\<rparr>;
          t1 = translation dstOrigin
      in mulM (mulM t1 s) t0)"

definition fromQuat :: "Quat4f \<Rightarrow> Matrix3f" where
  "fromQuat q =
     (let xx = qx q * qx q; yy = qy q * qy q; zz = qz q * qz q;
          xy = qx q * qy q; zw = qz q * qw q;
          xz = qx q * qz q; yw = qy q * qw q;
          yz = qy q * qz q; xw = qx q * qw q
      in mk3 (1 - 2 * (yy + zz)) (2 * (xy - zw)) (2 * (xz + yw))
             (2 * (xy + zw)) (1 - 2 * (xx + zz)) (2 * (yz - xw))
             (2 * (xz - yw)) (2 * (yz + xw)) (1 - 2 * (xx + yy)))"

subsection \<open>Evaluating the loops\<close>

lemma upt3: "[0..<3] = [0, 1, 2::nat]" by code_simp
lemma upt9: "[0..<9] = [0, 1, 2, 3, 4, 5, 6, 7, 8::nat]" by code_simp

lemma list_update_Cons_numeral [simp]: "(x # xs)[numeral n := y] = x # xs[pred_numeral n := y]"
  by (simp add: numeral_eq_Suc)

lemma zeroMatrix_mk3: "zeroMatrix = mk3 0 0 0 0 0 0 0 0 0"
  by (simp add: zeroMatrix_def fillMatrix_def mk3_def upt9 numeral_eq_Suc)

lemma transposeM_mk3: "transposeM (mk3 a b c d e f g h i) = mk3 a d g b e h c f i"
  by (simp add: transposeM_def mk3_def elem_def setElem_def upt_conv_Cons)

lemma mulM_mk3:
  "mulM (mk3 a b c d e f g h i) (mk3 a' b' c' d' e' f' g' h' i') =
   mk3 (a * a' + b * d' + c * g') (a * b' + b * e' + c * h') (a * c' + b * f' + c * i')
       (d * a' + e * d' + f * g') (d * b' + e * e' + f * h') (d * c' + e * f' + f * i')
       (g * a' + h * d' + i * g') (g * b' + h * e' + i * h') (g * c' + h * f' + i * i')"
  by (simp add: mulM_def zeroMatrix_mk3 upt3 elem_def setElem_def mk3_def)


lemma identity_mk3: "identity = mk3 1 0 0 0 1 0 0 0 1"
  by (simp add: identity_def zeroMatrix_mk3 setElem_def mk3_def)

lemma mulM_eq:
  "mulM x y =
   mk3 (elem x 0 0 * elem y 0 0 + elem x 0 1 * elem y 1 0 + elem x 0 2 * elem y 2 0)
       (elem x 0 0 * elem y 0 1 + elem x 0 1 * elem y 1 1 + elem x 0 2 * elem y 2 1)
       (elem x 0 0 * elem y 0 2 + elem x 0 1 * elem y 1 2 + elem x 0 2 * elem y 2 2)
       (elem x 1 0 * elem y 0 0 + elem x 1 1 * elem y 1 0 + elem x 1 2 * elem y 2 0)
       (elem x 1 0 * elem y 0 1 + elem x 1 1 * elem y 1 1 + elem x 1 2 * elem y 2 1)
       (elem x 1 0 * elem y 0 2 + elem x 1 1 * elem y 1 2 + elem x 1 2 * elem y 2 2)
       (elem x 2 0 * elem y 0 0 + elem x 2 1 * elem y 1 0 + elem x 2 2 * elem y 2 0)
       (elem x 2 0 * elem y 0 1 + elem x 2 1 * elem y 1 1 + elem x 2 2 * elem y 2 1)
       (elem x 2 0 * elem y 0 2 + elem x 2 1 * elem y 1 2 + elem x 2 2 * elem y 2 2)"
  unfolding mulM_def zeroMatrix_mk3 upt3
  by (simp add: setElem_def mk3_def elem_def numeral_2_eq_2 [symmetric])

lemma sum_lessThan_3: "(\<Sum>j < (3::nat). f j) = f 0 + f 1 + f 2"
  by (simp add: numeral_3_eq_3 numeral_2_eq_2 add.commute add.left_commute)

text \<open>
  C17 (matrix product). The triple loop of \<open>operator *\<close> computes entry \<open>(i, k)\<close> of
  the product as the sum over \<open>j\<close> of \<open>x(i, j) * y(j, k)\<close>.
\<close>

theorem mulM_elem:
  assumes "i < 3" and "k < 3"
  shows "elem (mulM x y) i k = (\<Sum>j < 3. elem x i j * elem y j k)"
proof -
  have "i \<in> {0, 1, 2}" "k \<in> {0, 1, 2}"
    using assms by auto
  then show ?thesis
    by (auto simp: sum_lessThan_3 mulM_eq elem_def mk3_def numeral_2_eq_2 [symmetric])
qed

lemma determinant_mk3: "determinant (mk3 a b c d e f g h i) = determinant3x3 a b c d e f g h i"
  by (simp add: determinant_def elem_def mk3_def)

text \<open>
  (determinant). \<open>determinant()\<close>, the cofactor expansion of \<open>determinant3x3\<close>,
  is multiplicative over the product computed by \<open>operator *\<close>.
\<close>

theorem determinant_mulM: "determinant (mulM x y) = determinant x * determinant y"
  unfolding mulM_eq determinant_mk3 by (simp add: determinant_def determinant3x3_def algebra_simps)


lemma transposed_eq:
  "transposed m = mk3 (elem m 0 0) (elem m 1 0) (elem m 2 0) (elem m 0 1) (elem m 1 1) (elem m 2 1)
                      (elem m 0 2) (elem m 1 2) (elem m 2 2)"
  unfolding transposed_def zeroMatrix_mk3 upt3
  by (simp add: setElem_def mk3_def elem_def numeral_2_eq_2 [symmetric])

text \<open>
  (in-place transpose). The in-place \<open>transpose()\<close>, swapping the entries
  above the diagonal with those below, gives the same matrix as the out-of-place
  \<open>transposed()\<close>.
\<close>

theorem transposeM_eq_transposed:
  "transposeM (mk3 a b c d e f g h i) = transposed (mk3 a b c d e f g h i)"
  unfolding transposeM_mk3 transposed_eq by (simp add: elem_def mk3_def)

lemma inverseEps_mk3:
  "inverseEps (mk3 a b c d e f g h i) epsilon =
     (if \<bar>determinant3x3 a b c d e f g h i\<bar> < epsilon then (zeroMatrix, True)
      else (mk3 ((e * i - f * h) / determinant3x3 a b c d e f g h i) (- (b * i - c * h) / determinant3x3 a b c d e f g h i)
                ((b * f - c * e) / determinant3x3 a b c d e f g h i)
                (- (d * i - f * g) / determinant3x3 a b c d e f g h i) ((a * i - c * g) / determinant3x3 a b c d e f g h i)
                (- (a * f - c * d) / determinant3x3 a b c d e f g h i)
                ((d * h - e * g) / determinant3x3 a b c d e f g h i) (- (a * h - b * g) / determinant3x3 a b c d e f g h i)
                ((a * e - b * d) / determinant3x3 a b c d e f g h i), False))"
proof -
  have "a * determinant2x2 e f h i + b * - determinant2x2 d f g i + c * determinant2x2 d e g h =
        determinant3x3 a b c d e f g h i"
    by (simp add: determinant2x2_def determinant3x3_def algebra_simps)
  then show ?thesis
    by (simp add: inverseEps_def Let_def elem_def mk3_def determinant2x2_def divide_inverse)
qed

text \<open>
  C18 (inverse). With a positive \<open>epsilon\<close>, when \<open>inverse( isSingular, epsilon )\<close>
  reports the matrix non-singular, the result is a two-sided inverse: both products
  with the matrix are \<open>identity()\<close>.
\<close>

theorem inverseEps_correct:
  assumes "0 < epsilon" and "inverseEps (mk3 a b c d e f g h i) epsilon = (mi, False)"
  shows "mulM mi (mk3 a b c d e f g h i) = identity \<and> mulM (mk3 a b c d e f g h i) mi = identity"
proof -
  have d: "determinant3x3 a b c d e f g h i \<noteq> 0"
    using assms by (auto simp: inverseEps_mk3 split: if_splits)
  have mi: "mi = mk3 ((e * i - f * h) / determinant3x3 a b c d e f g h i) (- (b * i - c * h) / determinant3x3 a b c d e f g h i)
                ((b * f - c * e) / determinant3x3 a b c d e f g h i)
                (- (d * i - f * g) / determinant3x3 a b c d e f g h i) ((a * i - c * g) / determinant3x3 a b c d e f g h i)
                (- (a * f - c * d) / determinant3x3 a b c d e f g h i)
                ((d * h - e * g) / determinant3x3 a b c d e f g h i) (- (a * h - b * g) / determinant3x3 a b c d e f g h i)
                ((a * e - b * d) / determinant3x3 a b c d e f g h i)"
    using assms(2) by (simp add: inverseEps_mk3 split: if_splits)
  show ?thesis
    using d unfolding mi mulM_mk3 identity_mk3 unfolding mk3_def list.inject
    by (intro conjI; simp add: divide_simps; simp add: determinant3x3_def algebra_simps)
qed


lemma rotation_mk3:
  "rotation axis radians =
     mk3 (v3x axis * v3x axis * (1 - cos radians) + cos radians)
         (v3y axis * v3x axis * (1 - cos radians) - v3z axis * sin radians)
         (v3z axis * v3x axis * (1 - cos radians) + v3y axis * sin radians)
         (v3x axis * v3y axis * (1 - cos radians) + v3z axis * sin radians)
         (v3y axis * v3y axis * (1 - cos radians) + cos radians)
         (v3z axis * v3y axis * (1 - cos radians) - v3x axis * sin radians)
         (v3x axis * v3z axis * (1 - cos radians) - v3y axis * sin radians)
         (v3y axis * v3z axis * (1 - cos radians) + v3x axis * sin radians)
         (v3z axis * v3z axis * (1 - cos radians) + cos radians)"
  by (simp add: rotation_def Let_def)

lemma transposed_mk3: "transposed (mk3 a b c d e f g h i) = mk3 a d g b e h c f i"
  unfolding transposed_eq by (simp add: elem_def mk3_def)

text \<open>
  C19 (rotation). For a unit axis, \<open>rotation( axis, radians )\<close> is orthonormal with
  determinant 1: its transpose times itself is \<open>identity()\<close>.
\<close>

theorem rotation_orthonormal:
  assumes "v3x axis ^ 2 + v3y axis ^ 2 + v3z axis ^ 2 = 1"
  shows "mulM (transposed (rotation axis radians)) (rotation axis radians) = identity \<and>
         determinant (rotation axis radians) = 1"
proof -
  have sc: "sin radians ^ 2 + cos radians ^ 2 = 1"
    by simp
  show ?thesis
    unfolding rotation_mk3 transposed_mk3 mulM_mk3 identity_mk3 determinant_mk3
    unfolding mk3_def list.inject determinant3x3_def
    by (intro conjI; (rule refl | (insert assms sc, algebra)))
qed

lemma rotateZ_add: "mulM (rotateZ a) (rotateZ b) = rotateZ (a + b)"
  unfolding rotateZ_def Let_def mulM_mk3 by (simp add: cos_add sin_add algebra_simps)

lemma mulVec_mk3:
  "mulVec (mk3 a b c d e f g h i) v =
     \<lparr>v3x = a * v3x v + b * v3y v + c * v3z v, v3y = d * v3x v + e * v3y v + f * v3z v,
      v3z = g * v3x v + h * v3y v + i * v3z v\<rparr>"
  by (simp add: mulVec_def upt3 vec3Upd_def vec3Nth_def elem_def mk3_def)

text \<open>
  (rectangle mapping). \<open>scaleTranslate\<close> maps the source rectangle's origin to
  the destination origin and its opposite corner to the destination's opposite
  corner, when the source extents are non-zero.
\<close>

theorem scaleTranslate_corners:
  assumes "v2x srcSize \<noteq> 0" and "v2y srcSize \<noteq> 0"
  shows "transformPoint (scaleTranslate srcOrigin srcSize dstOrigin dstSize) srcOrigin = dstOrigin \<and>
         transformPoint (scaleTranslate srcOrigin srcSize dstOrigin dstSize)
           \<lparr>v2x = v2x srcOrigin + v2x srcSize, v2y = v2y srcOrigin + v2y srcSize\<rparr> =
         \<lparr>v2x = v2x dstOrigin + v2x dstSize, v2y = v2y dstOrigin + v2y dstSize\<rparr>"
  using assms
  unfolding scaleTranslate_def Let_def translation_def scaling_def mulM_mk3 transformPoint_def mulVec_mk3
  by (simp add: field_simps)


subsection \<open>The storage type\<close>

lemma length_foldl_inv: "(\<And>m x. length (f m x) = length m) \<Longrightarrow> length (foldl f m xs) = length m"
  by (induction xs arbitrary: m) simp_all

lemma length_setElem [simp]: "length (setElem m i j a) = length m"
  by (simp add: setElem_def)

lemma length_setRow [simp]: "length (setRow m i v) = length m"
  by (simp add: setRow_def)

lemma length_setCol [simp]: "length (setCol m j v) = length m"
  by (simp add: setCol_def Let_def)

lemma length_zeroMatrix [simp]: "length zeroMatrix = 9"
  by (simp add: zeroMatrix_def fillMatrix_def length_foldl_inv)

lemma length_mk3 [simp]: "length (mk3 a b c d e f g h i) = 9"
  by (simp add: mk3_def)

lemma length_mulM [simp]: "length (mulM x y) = 9"
  by (simp add: mulM_def length_foldl_inv)

end
