(* ===== verification/Vector4f.thy ===== *)
theory Vector4f
  imports Matrix3f
begin

text \<open>
  src/core/src/vecmath/Vector4f.cpp: a four-component vector, the array
  \<open>m_elements[ 4 ]\<close> viewed through the union members \<open>x\<close>, \<open>y\<close>, \<open>z\<close>, \<open>w\<close>. The
  vector is a record of four reals (\<open>float\<close> is modelled by exact real arithmetic,
  \<open>sqrt\<close> by the real square root); \<open>Vector2f\<close> and \<open>Vector3f\<close> are the records of
  \<open>Matrix3f\<close>. The arithmetic operators \<open>lerp\<close> uses are in \<open>Vector4f.inl\<close>, and
  \<open>Vector4d\<close>, \<open>Vector4i\<close> and \<open>Arithmetic::floorToInt\<close> are declared in headers whose bodies are
  not in this repository: they are modelled from their declarations (component-wise
  operators, integer components, rounding down). The lemmas show that \<open>normalized\<close>
  has unit norm, that \<open>homogenized\<close> divides by \<open>w\<close> exactly when \<open>w \<noteq> 0\<close>, that the
  in-place members agree with the copying ones, and the bounds of \<open>floored\<close>.
\<close>

record Vector4f =
  v4x :: real
  v4y :: real
  v4z :: real
  v4w :: real

record Vector4d =
  v4dx :: real
  v4dy :: real
  v4dz :: real
  v4dw :: real

record Vector4i =
  v4ix :: int
  v4iy :: int
  v4iz :: int
  v4iw :: int

subsection \<open>Constructors\<close>

text \<open>\<open>Vector4f()\<close>, \<open>Vector4f( f )\<close>, \<open>Vector4f( fx, fy, fz, fw )\<close>, \<open>Vector4f( buffer )\<close>.\<close>

definition zeroVector4f :: Vector4f where
  "zeroVector4f = \<lparr>v4x = 0, v4y = 0, v4z = 0, v4w = 0\<rparr>"

definition fillVector4f :: "real \<Rightarrow> Vector4f" where
  "fillVector4f f = \<lparr>v4x = f, v4y = f, v4z = f, v4w = f\<rparr>"

definition mkVector4f :: "real \<Rightarrow> real \<Rightarrow> real \<Rightarrow> real \<Rightarrow> Vector4f" where
  "mkVector4f fx fy fz fw = \<lparr>v4x = fx, v4y = fy, v4z = fz, v4w = fw\<rparr>"

definition fromBuffer :: "real list \<Rightarrow> Vector4f" where
  "fromBuffer buffer = \<lparr>v4x = buffer ! 0, v4y = buffer ! 1, v4z = buffer ! 2, v4w = buffer ! 3\<rparr>"

text \<open>The constructors from a \<open>Vector2f\<close> or a \<open>Vector3f\<close> and scalars.\<close>

definition fromXY_Z_W :: "Vector2f \<Rightarrow> real \<Rightarrow> real \<Rightarrow> Vector4f" where
  "fromXY_Z_W xy z w = \<lparr>v4x = v2x xy, v4y = v2y xy, v4z = z, v4w = w\<rparr>"

definition fromX_YZ_W :: "real \<Rightarrow> Vector2f \<Rightarrow> real \<Rightarrow> Vector4f" where
  "fromX_YZ_W x yz w = \<lparr>v4x = x, v4y = v2x yz, v4z = v2y yz, v4w = w\<rparr>"

definition fromX_Y_ZW :: "real \<Rightarrow> real \<Rightarrow> Vector2f \<Rightarrow> Vector4f" where
  "fromX_Y_ZW x y zw = \<lparr>v4x = x, v4y = y, v4z = v2x zw, v4w = v2y zw\<rparr>"

definition fromXY_ZW :: "Vector2f \<Rightarrow> Vector2f \<Rightarrow> Vector4f" where
  "fromXY_ZW xy zw = \<lparr>v4x = v2x xy, v4y = v2y xy, v4z = v2x zw, v4w = v2y zw\<rparr>"

definition fromXYZ_W :: "Vector3f \<Rightarrow> real \<Rightarrow> Vector4f" where
  "fromXYZ_W xyz w = \<lparr>v4x = v3x xyz, v4y = v3y xyz, v4z = v3z xyz, v4w = w\<rparr>"

definition fromX_YZW :: "real \<Rightarrow> Vector3f \<Rightarrow> Vector4f" where
  "fromX_YZW x yzw = \<lparr>v4x = x, v4y = v3x yzw, v4z = v3y yzw, v4w = v3z yzw\<rparr>"

text \<open>\<open>Vector4f( const Vector4d& )\<close>: each \<open>double\<close> component cast to \<open>float\<close>; both are
  exact reals here, so the cast's rounding is not modelled.\<close>

definition fromVector4d :: "Vector4d \<Rightarrow> Vector4f" where
  "fromVector4d rv = \<lparr>v4x = v4dx rv, v4y = v4dy rv, v4z = v4dz rv, v4w = v4dw rv\<rparr>"

text \<open>\<open>Vector4f( const Vector4i& )\<close>: each integer component converted to \<open>float\<close>.\<close>

definition fromVector4i :: "Vector4i \<Rightarrow> Vector4f" where
  "fromVector4i rv = \<lparr>v4x = of_int (v4ix rv), v4y = of_int (v4iy rv), v4z = of_int (v4iz rv), v4w = of_int (v4iw rv)\<rparr>"

text \<open>The copy assignment: the target keeps its elements when both are one object.\<close>

definition assignVector4f :: "bool \<Rightarrow> Vector4f \<Rightarrow> Vector4f \<Rightarrow> Vector4f" where
  "assignVector4f same a rv = (if same then a else \<lparr>v4x = v4x rv, v4y = v4y rv, v4z = v4z rv, v4w = v4w rv\<rparr>)"

subsection \<open>Element access and swizzles\<close>

text \<open>\<open>operator[]( i )\<close>, read and assigned, for \<open>i < 4\<close>.\<close>

definition vec4Nth :: "Vector4f \<Rightarrow> nat \<Rightarrow> real" where
  "vec4Nth v i = (if i = 0 then v4x v else if i = 1 then v4y v else if i = 2 then v4z v else v4w v)"

definition vec4Upd :: "Vector4f \<Rightarrow> nat \<Rightarrow> real \<Rightarrow> Vector4f" where
  "vec4Upd v i a =
     (if i = 0 then v\<lparr>v4x := a\<rparr> else if i = 1 then v\<lparr>v4y := a\<rparr> else if i = 2 then v\<lparr>v4z := a\<rparr> else v\<lparr>v4w := a\<rparr>)"

definition swizzle_xy :: "Vector4f \<Rightarrow> Vector2f" where "swizzle_xy v = \<lparr>v2x = v4x v, v2y = v4y v\<rparr>"
definition swizzle_yz :: "Vector4f \<Rightarrow> Vector2f" where "swizzle_yz v = \<lparr>v2x = v4y v, v2y = v4z v\<rparr>"
definition swizzle_zw :: "Vector4f \<Rightarrow> Vector2f" where "swizzle_zw v = \<lparr>v2x = v4z v, v2y = v4w v\<rparr>"
definition swizzle_wx :: "Vector4f \<Rightarrow> Vector2f" where "swizzle_wx v = \<lparr>v2x = v4w v, v2y = v4x v\<rparr>"
definition swizzle_xyz :: "Vector4f \<Rightarrow> Vector3f" where "swizzle_xyz v = \<lparr>v3x = v4x v, v3y = v4y v, v3z = v4z v\<rparr>"
definition swizzle_yzw :: "Vector4f \<Rightarrow> Vector3f" where "swizzle_yzw v = \<lparr>v3x = v4y v, v3y = v4z v, v3z = v4w v\<rparr>"
definition swizzle_zwx :: "Vector4f \<Rightarrow> Vector3f" where "swizzle_zwx v = \<lparr>v3x = v4z v, v3y = v4w v, v3z = v4x v\<rparr>"
definition swizzle_wxy :: "Vector4f \<Rightarrow> Vector3f" where "swizzle_wxy v = \<lparr>v3x = v4w v, v3y = v4x v, v3z = v4y v\<rparr>"
definition swizzle_xyw :: "Vector4f \<Rightarrow> Vector3f" where "swizzle_xyw v = \<lparr>v3x = v4x v, v3y = v4y v, v3z = v4w v\<rparr>"
definition swizzle_yzx :: "Vector4f \<Rightarrow> Vector3f" where "swizzle_yzx v = \<lparr>v3x = v4y v, v3y = v4z v, v3z = v4x v\<rparr>"
definition swizzle_zwy :: "Vector4f \<Rightarrow> Vector3f" where "swizzle_zwy v = \<lparr>v3x = v4z v, v3y = v4w v, v3z = v4y v\<rparr>"
definition swizzle_wxz :: "Vector4f \<Rightarrow> Vector3f" where "swizzle_wxz v = \<lparr>v3x = v4w v, v3y = v4x v, v3z = v4z v\<rparr>"

subsection \<open>Norms, normalisation, homogenisation\<close>

definition normSquared :: "Vector4f \<Rightarrow> real" where
  "normSquared v = v4x v * v4x v + v4y v * v4y v + v4z v * v4z v + v4w v * v4w v"

definition norm4 :: "Vector4f \<Rightarrow> real" where
  "norm4 v = sqrt (normSquared v)"

text \<open>\<open>abs()\<close> and \<open>absSquared()\<close> forward to \<open>norm()\<close> and \<open>normSquared()\<close>.\<close>

definition abs4 :: "Vector4f \<Rightarrow> real" where
  "abs4 v = norm4 v"

definition absSquared :: "Vector4f \<Rightarrow> real" where
  "absSquared v = normSquared v"

text \<open>\<open>normalize()\<close> (\<open>normalize4\<close>; like \<open>norm4\<close>, \<open>abs4\<close>, \<open>dot4\<close> and \<open>lerp4\<close> it
  is suffixed, the plain name being a HOL constant): the reciprocal of the norm is
  taken once, then each component is scaled in turn; \<open>normalized()\<close> builds the
  scaled copy.\<close>

definition normalize4 :: "Vector4f \<Rightarrow> Vector4f" where
  "normalize4 v0 =
     (let rcpNorm = 1 / norm4 v0;
          v1 = v0\<lparr>v4x := v4x v0 * rcpNorm\<rparr>;
          v2 = v1\<lparr>v4y := v4y v1 * rcpNorm\<rparr>;
          v3 = v2\<lparr>v4z := v4z v2 * rcpNorm\<rparr>
      in v3\<lparr>v4w := v4w v3 * rcpNorm\<rparr>)"

definition normalized :: "Vector4f \<Rightarrow> Vector4f" where
  "normalized v =
     (let rcpNorm = 1 / norm4 v in mkVector4f (v4x v * rcpNorm) (v4y v * rcpNorm) (v4z v * rcpNorm) (v4w v * rcpNorm))"

text \<open>\<open>homogenize()\<close> and \<open>homogenized()\<close>: divide by \<open>w\<close> when it is non-zero.\<close>

definition homogenize :: "Vector4f \<Rightarrow> Vector4f" where
  "homogenize v0 =
     (if v4w v0 \<noteq> 0 then
        (let rcpW = 1 / v4w v0;
             v1 = v0\<lparr>v4x := v4x v0 * rcpW\<rparr>;
             v2 = v1\<lparr>v4y := v4y v1 * rcpW\<rparr>;
             v3 = v2\<lparr>v4z := v4z v2 * rcpW\<rparr>
         in v3\<lparr>v4w := 1\<rparr>)
      else v0)"

definition homogenized :: "Vector4f \<Rightarrow> Vector4f" where
  "homogenized v =
     (if v4w v \<noteq> 0 then (let rcpW = 1 / v4w v in mkVector4f (rcpW * v4x v) (rcpW * v4y v) (rcpW * v4z v) 1)
      else mkVector4f (v4x v) (v4y v) (v4z v) (v4w v))"

definition negate :: "Vector4f \<Rightarrow> Vector4f" where
  "negate v0 =
     (let v1 = v0\<lparr>v4x := - v4x v0\<rparr>; v2 = v1\<lparr>v4y := - v4y v1\<rparr>; v3 = v2\<lparr>v4z := - v4z v2\<rparr>
      in v3\<lparr>v4w := - v4w v3\<rparr>)"

text \<open>\<open>floored()\<close> with \<open>Arithmetic::floorToInt\<close>, rounding down.\<close>

definition floorToInt :: "real \<Rightarrow> int" where
  "floorToInt x = \<lfloor>x\<rfloor>"

definition floored :: "Vector4f \<Rightarrow> Vector4i" where
  "floored v = \<lparr>v4ix = floorToInt (v4x v), v4iy = floorToInt (v4y v), v4iz = floorToInt (v4z v), v4iw = floorToInt (v4w v)\<rparr>"

subsection \<open>Static functions and the operators they use\<close>

definition dot4 :: "Vector4f \<Rightarrow> Vector4f \<Rightarrow> real" where
  "dot4 v0 v1 = v4x v0 * v4x v1 + v4y v0 * v4y v1 + v4z v0 * v4z v1 + v4w v0 * v4w v1"

text \<open>\<open>operator +\<close>, \<open>operator -\<close> and \<open>operator *( float, Vector4f )\<close>, component-wise.\<close>

definition addV4 :: "Vector4f \<Rightarrow> Vector4f \<Rightarrow> Vector4f" where
  "addV4 v0 v1 = mkVector4f (v4x v0 + v4x v1) (v4y v0 + v4y v1) (v4z v0 + v4z v1) (v4w v0 + v4w v1)"

definition subV4 :: "Vector4f \<Rightarrow> Vector4f \<Rightarrow> Vector4f" where
  "subV4 v0 v1 = mkVector4f (v4x v0 - v4x v1) (v4y v0 - v4y v1) (v4z v0 - v4z v1) (v4w v0 - v4w v1)"

definition scaleV4 :: "real \<Rightarrow> Vector4f \<Rightarrow> Vector4f" where
  "scaleV4 f v = mkVector4f (f * v4x v) (f * v4y v) (f * v4z v) (f * v4w v)"

definition lerp4 :: "Vector4f \<Rightarrow> Vector4f \<Rightarrow> real \<Rightarrow> Vector4f" where
  "lerp4 v0 v1 alpha = addV4 (scaleV4 alpha (subV4 v1 v0)) v0"

subsection \<open>Properties\<close>

lemma Vector4f_eqI:
  "v4x u = v4x v \<Longrightarrow> v4y u = v4y v \<Longrightarrow> v4z u = v4z v \<Longrightarrow> v4w u = v4w v \<Longrightarrow> u = (v :: Vector4f)"
  by simp

lemma normSquared_nonneg: "0 \<le> normSquared v"
  by (simp add: normSquared_def)

lemma dot4_self: "dot4 v v = normSquared v"
  by (simp add: dot4_def normSquared_def)

lemma normalize4_eq_normalized: "normalize4 v = normalized v"
  by (simp add: normalize4_def normalized_def mkVector4f_def Let_def)

lemma homogenize_eq_homogenized: "homogenize v = homogenized v"
  by (simp add: homogenize_def homogenized_def mkVector4f_def Let_def mult.commute)

lemma lerp4_endpoints: "lerp4 v0 v1 0 = v0 \<and> lerp4 v0 v1 1 = v1"
  by (simp add: lerp4_def addV4_def scaleV4_def subV4_def mkVector4f_def)

lemma floored_bounds:
  "of_int (v4ix (floored v)) \<le> v4x v \<and> v4x v < of_int (v4ix (floored v)) + 1 \<and>
   of_int (v4iw (floored v)) \<le> v4w v \<and> v4w v < of_int (v4iw (floored v)) + 1"
  by (simp add: floored_def floorToInt_def)

text \<open>
  (unit norm). For a non-zero vector, \<open>normalized()\<close> has squared norm 1,
  and scaling it by \<open>norm()\<close> gives the vector back; \<open>normalize()\<close> in place gives the
  same vector.
\<close>

theorem normalized_unit:
  assumes "normSquared v \<noteq> 0"
  shows "normSquared (normalized v) = 1 \<and> scaleV4 (norm4 v) (normalized v) = v \<and> normalize4 v = normalized v"
proof -
  have pos: "0 < normSquared v"
    using assms normSquared_nonneg [of v] by linarith
  then have n: "norm4 v \<noteq> 0" and sq: "norm4 v * norm4 v = normSquared v"
    by (simp_all add: norm4_def)
  have "normSquared (normalized v) = normSquared v / (norm4 v * norm4 v)"
    using n by (simp add: normalized_def normSquared_def mkVector4f_def Let_def field_simps)
  then have "normSquared (normalized v) = 1"
    using sq pos by simp
  moreover have "scaleV4 (norm4 v) (normalized v) = v"
    using n by (simp add: scaleV4_def normalized_def mkVector4f_def Let_def)
  ultimately show ?thesis
    using normalize4_eq_normalized by simp
qed

text \<open>
  (homogenisation). For \<open>w \<noteq> 0\<close>, \<open>homogenized()\<close> has \<open>w = 1\<close>
  and is the vector divided by its \<open>w\<close>: scaling it by the old \<open>w\<close> gives the vector back;
  \<open>homogenize()\<close> in place gives the same vector.
\<close>

theorem homogenized_projective:
  assumes "v4w v \<noteq> 0"
  shows "v4w (homogenized v) = 1 \<and> scaleV4 (v4w v) (homogenized v) = v \<and> homogenize v = homogenized v"
  using assms homogenize_eq_homogenized
  by (simp add: homogenized_def scaleV4_def mkVector4f_def Let_def)

end
