(* ===== verification/DeviceArray2D.thy ===== *)
theory DeviceArray2D
  imports Prelude
begin

text \<open>
  src/cuda/src/DeviceArray2D.inl: a pitched 2D array in GPU memory. Its state is
  \<open>m_size\<close> (a \<open>Vector2i\<close>), \<open>m_stride\<close> (element and row stride in bytes) and
  \<open>m_devicePointer\<close>. Device memory is an explicit store: the blocks allocated by
  \<open>cudaMallocPitch\<close>, each a list of bytes, named by a block number; a device pointer
  is a block number (\<open>None\<close> is \<open>nullptr\<close>), an element pointer a block and a byte
  offset. The CUDA runtime is the environment: \<open>cudaEnv\<close> says whether allocations
  succeed and the alignment the driver rounds a pitch up to. \<open>cudaMemcpy2D\<close> fails on a
  width wider than a pitch, as CUDA does, and on a copy outside a block (an illegal
  address). \<open>sizeof( T )\<close> is the parameter \<open>sizeofT\<close>. The sizes are \<open>int\<close>s that stay
  far below the 32-bit limit in every statement here, so they are modelled as
  integers. The \<open>Vector2i{ 0 }\<close> defaults of the header (not in this repository) are
  assumed for a new object. A \<open>cudaArray_t\<close> is its row width in bytes, its height
  and its bytes; \<open>Array2D\<close> and \<open>KernelArray2D\<close> (not in this repository) are
  modelled from their use. The last section proves what the operations store.
\<close>

record DeviceArray2D =
  da_size :: "int \<times> int"
  da_stride :: "int \<times> int"
  da_ptr :: "nat option"

record Device =
  dev_blocks :: "nat \<Rightarrow> byte list option"
  dev_next :: nat

text \<open>A host view (\<open>Array2DView< T >\<close>): null or not, size, row stride in bytes,
  whether its elements are packed, and the bytes it shows.\<close>

record HostArray2D =
  h_null :: bool
  h_size :: "int \<times> int"
  h_rowStride :: nat
  h_packed :: bool
  h_data :: "byte list"

record CudaEnv =
  malloc_ok :: bool
  pitch_align :: nat

text \<open>A new object: null, size and stride zero.\<close>

definition nullArray :: DeviceArray2D where
  "nullArray = \<lparr>da_size = (0, 0), da_stride = (0, 0), da_ptr = None\<rparr>"

subsection \<open>The CUDA runtime calls\<close>

text \<open>\<open>cudaMallocPitch( &ptr, &pitch, widthBytes, height )\<close>: a fresh block of \<open>pitch * height\<close>
  bytes, the pitch being the width rounded up to the alignment.\<close>

definition roundUp :: "nat \<Rightarrow> nat \<Rightarrow> nat" where
  "roundUp w a = (if a = 0 then w else (w + a - 1) div a * a)"

definition cudaMallocPitch :: "CudaEnv \<Rightarrow> nat \<Rightarrow> nat \<Rightarrow> Device \<Rightarrow> (nat \<times> nat) option \<times> Device" where
  "cudaMallocPitch env widthBytes height dev =
     (if malloc_ok env then
        (let pitch = roundUp widthBytes (pitch_align env); b = dev_next dev
         in (Some (b, pitch), dev\<lparr>dev_blocks := (dev_blocks dev)(b \<mapsto> replicate (pitch * height) 0),
                                 dev_next := Suc b\<rparr>))
      else (None, dev))"

definition cudaFree :: "nat \<Rightarrow> Device \<Rightarrow> bool \<times> Device" where
  "cudaFree b dev =
     (if dev_blocks dev b = None then (False, dev) else (True, dev\<lparr>dev_blocks := (dev_blocks dev)(b := None)\<rparr>))"

text \<open>\<open>cudaMemcpy2D( dst, dpitch, src, spitch, width, height )\<close> between byte lists:
  row \<open>r\<close> of \<open>width\<close> bytes goes from offset \<open>r * spitch\<close> to offset \<open>r * dpitch\<close>.\<close>

definition copyRow :: "nat \<Rightarrow> nat \<Rightarrow> nat \<Rightarrow> byte list \<Rightarrow> byte list \<Rightarrow> nat \<Rightarrow> byte list" where
  "copyRow dpitch spitch width src dst r =
     take (r * dpitch) dst @ take width (drop (r * spitch) src) @ drop (r * dpitch + width) dst"

definition inBlock :: "nat \<Rightarrow> nat \<Rightarrow> nat \<Rightarrow> byte list \<Rightarrow> bool" where
  "inBlock pitch width height bs \<longleftrightarrow> width \<le> pitch \<and> (height = 0 \<or> (height - 1) * pitch + width \<le> length bs)"

definition memcpy2D :: "byte list \<Rightarrow> nat \<Rightarrow> byte list \<Rightarrow> nat \<Rightarrow> nat \<Rightarrow> nat \<Rightarrow> byte list option" where
  "memcpy2D dst dpitch src spitch width height =
     (if inBlock dpitch width height dst \<and> inBlock spitch width height src
      then Some (foldl (copyRow dpitch spitch width src) dst [0..<height]) else None)"

subsection \<open>Queries\<close>

definition isNull :: "DeviceArray2D \<Rightarrow> bool" where
  "isNull a \<longleftrightarrow> da_ptr a = None"

definition notNull :: "DeviceArray2D \<Rightarrow> bool" where
  "notNull a \<longleftrightarrow> da_ptr a \<noteq> None"

text \<open>\<open>width()\<close>, \<open>height()\<close> and \<open>size()\<close> (\<open>widthD\<close>, \<open>heightD\<close>, \<open>sizeD\<close>: \<open>size\<close>
  names the size function of HOL) read \<open>m_size\<close>.\<close>

definition widthD :: "DeviceArray2D \<Rightarrow> int" where
  "widthD a = fst (da_size a)"

definition heightD :: "DeviceArray2D \<Rightarrow> int" where
  "heightD a = snd (da_size a)"

definition sizeD :: "DeviceArray2D \<Rightarrow> int \<times> int" where
  "sizeD a = da_size a"

definition numElements :: "DeviceArray2D \<Rightarrow> int" where
  "numElements a = fst (da_size a) * snd (da_size a)"

definition elementStrideBytes :: "DeviceArray2D \<Rightarrow> int" where
  "elementStrideBytes a = fst (da_stride a)"

definition rowStrideBytes :: "DeviceArray2D \<Rightarrow> int" where
  "rowStrideBytes a = snd (da_stride a)"

definition sizeInBytes :: "DeviceArray2D \<Rightarrow> int" where
  "sizeInBytes a = snd (da_stride a) * snd (da_size a)"

definition widthInBytes :: "nat \<Rightarrow> DeviceArray2D \<Rightarrow> int" where
  "widthInBytes sizeofT a = fst (da_size a) * int sizeofT"

text \<open>\<open>elementPointer( xy )\<close>: \<open>m_devicePointer + Vector2i::dot( xy, m_stride )\<close>;
  \<open>rowPointer( y )\<close> is the element pointer of \<open>(0, y)\<close>.\<close>

definition elementPointer :: "DeviceArray2D \<Rightarrow> int \<times> int \<Rightarrow> (nat \<times> int) option" where
  "elementPointer a xy =
     map_option (\<lambda>b. (b, fst xy * fst (da_stride a) + snd xy * snd (da_stride a))) (da_ptr a)"

definition rowPointer :: "DeviceArray2D \<Rightarrow> nat \<Rightarrow> (nat \<times> int) option" where
  "rowPointer a y = elementPointer a (0, int y)"

subsection \<open>Life cycle\<close>

text \<open>\<open>destroy()\<close>: free the block if there is one; size and stride become zero.\<close>

definition destroy :: "DeviceArray2D \<Rightarrow> Device \<Rightarrow> bool \<times> DeviceArray2D \<times> Device" where
  "destroy a dev =
     (let (succeeded, dev') = (case da_ptr a of None \<Rightarrow> (True, dev) | Some b \<Rightarrow> cudaFree b dev)
      in (succeeded, a\<lparr>da_ptr := None, da_size := (0, 0), da_stride := (0, 0)\<rparr>, dev'))"

text \<open>
  \<open>resize( size )\<close> (the argument is \<open>newSize\<close>). After \<open>destroy()\<close> the code passes \<open>m_size.x * sizeof( T )\<close> and
  \<open>m_size.y\<close>, the size just reset to zero, to \<open>cudaMallocPitch\<close>, and only then sets
  \<open>m_size = size\<close>. A failed allocation leaves the array destroyed.
\<close>

definition resize :: "nat \<Rightarrow> CudaEnv \<Rightarrow> int \<times> int \<Rightarrow> DeviceArray2D \<Rightarrow> Device \<Rightarrow> bool \<times> DeviceArray2D \<times> Device" where
  "resize sizeofT env newSize a dev =
     (if newSize = da_size a then (True, a, dev)
      else if fst newSize \<le> 0 \<or> snd newSize \<le> 0 then (False, a, dev)
      else (case destroy a dev of (_, a1, dev1) \<Rightarrow>
            case cudaMallocPitch env (nat (fst (da_size a1)) * sizeofT) (nat (snd (da_size a1))) dev1 of
              (None, dev2) \<Rightarrow> (False, a1, dev2)
            | (Some (b, pitch), dev2) \<Rightarrow>
                (True, a1\<lparr>da_ptr := Some b, da_size := newSize, da_stride := (int sizeofT, int pitch)\<rparr>, dev2)))"

text \<open>\<open>DeviceArray2D( size )\<close>: a new object resized.\<close>

definition construct :: "nat \<Rightarrow> CudaEnv \<Rightarrow> int \<times> int \<Rightarrow> Device \<Rightarrow> DeviceArray2D \<times> Device" where
  "construct sizeofT env newSize dev = (case resize sizeofT env newSize nullArray dev of (_, a, dev') \<Rightarrow> (a, dev'))"

text \<open>Device memory behind an array: its block, when it has one that is allocated.\<close>

definition blockOf :: "Device \<Rightarrow> DeviceArray2D \<Rightarrow> byte list option" where
  "blockOf dev a = (case da_ptr a of None \<Rightarrow> None | Some b \<Rightarrow> dev_blocks dev b)"

definition storeBlock :: "Device \<Rightarrow> DeviceArray2D \<Rightarrow> byte list \<Rightarrow> Device" where
  "storeBlock dev a bs = (case da_ptr a of None \<Rightarrow> dev | Some b \<Rightarrow> dev\<lparr>dev_blocks := (dev_blocks dev)(b \<mapsto> bs)\<rparr>)"

text \<open>\<open>copyFromDevice( src )\<close>: both arrays must be non-null; resize to the source's
  size, then one \<open>cudaMemcpy2D\<close> of \<open>src.height()\<close> rows of \<open>src.widthInBytes()\<close> bytes.\<close>

definition copyFromDevice :: "nat \<Rightarrow> CudaEnv \<Rightarrow> DeviceArray2D \<Rightarrow> DeviceArray2D \<Rightarrow> Device \<Rightarrow> bool \<times> DeviceArray2D \<times> Device" where
  "copyFromDevice sizeofT env a src dev =
     (if isNull a \<or> isNull src then (False, a, dev) else
      case resize sizeofT env (da_size src) a dev of (succeeded, a1, dev1) \<Rightarrow>
        if \<not> succeeded then (False, a1, dev1) else
        (case (blockOf dev1 a1, blockOf dev1 src) of
           (Some dst, Some s) \<Rightarrow>
             (case memcpy2D dst (nat (rowStrideBytes a1)) s (nat (snd (da_stride src)))
                     (nat (widthInBytes sizeofT src)) (nat (snd (da_size src))) of
                None \<Rightarrow> (False, a1, dev1)
              | Some dst' \<Rightarrow> (True, a1, storeBlock dev1 a1 dst'))
         | _ \<Rightarrow> (False, a1, dev1)))"

text \<open>The copy constructor runs \<open>copyFromDevice( copy )\<close> on a new object; the copy
  assignment does so on the target unless both are one object (\<open>same\<close>).\<close>

definition copyConstruct :: "nat \<Rightarrow> CudaEnv \<Rightarrow> DeviceArray2D \<Rightarrow> Device \<Rightarrow> DeviceArray2D \<times> Device" where
  "copyConstruct sizeofT env src dev =
     (case copyFromDevice sizeofT env nullArray src dev of (_, a, dev') \<Rightarrow> (a, dev'))"

definition copyAssign :: "nat \<Rightarrow> CudaEnv \<Rightarrow> bool \<Rightarrow> DeviceArray2D \<Rightarrow> DeviceArray2D \<Rightarrow> Device \<Rightarrow> DeviceArray2D \<times> Device" where
  "copyAssign sizeofT env same a src dev =
     (if same then (a, dev) else (case copyFromDevice sizeofT env a src dev of (_, a', dev') \<Rightarrow> (a', dev')))"

text \<open>The move constructor and move assignment; results: (target, source, device).\<close>

definition moveConstruct :: "DeviceArray2D \<Rightarrow> DeviceArray2D \<times> DeviceArray2D" where
  "moveConstruct src =
     (\<lparr>da_size = da_size src, da_stride = da_stride src, da_ptr = da_ptr src\<rparr>,
      src\<lparr>da_size := (0, 0), da_stride := (0, 0), da_ptr := None\<rparr>)"

definition moveAssign :: "bool \<Rightarrow> DeviceArray2D \<Rightarrow> DeviceArray2D \<Rightarrow> Device \<Rightarrow> DeviceArray2D \<times> DeviceArray2D \<times> Device" where
  "moveAssign same a src dev =
     (if same then (a, src, dev)
      else (case destroy a dev of (_, a1, dev1) \<Rightarrow>
            (a1\<lparr>da_size := da_size src, da_stride := da_stride src, da_ptr := da_ptr src\<rparr>,
             src\<lparr>da_size := (0, 0), da_stride := (0, 0), da_ptr := None\<rparr>, dev1)))"

subsection \<open>Host transfers and element access\<close>

text \<open>\<open>copyFromHost( src )\<close>: a non-null view with packed elements; resize to its
  size, then copy \<open>src.height()\<close> rows of \<open>src.width() * sizeof( T )\<close> bytes from the
  view's row stride to the array's.\<close>

definition copyFromHost :: "nat \<Rightarrow> CudaEnv \<Rightarrow> HostArray2D \<Rightarrow> DeviceArray2D \<Rightarrow> Device \<Rightarrow> bool \<times> DeviceArray2D \<times> Device" where
  "copyFromHost sizeofT env src a dev =
     (if h_null src then (False, a, dev) else
      if \<not> h_packed src then (False, a, dev) else
      case resize sizeofT env (h_size src) a dev of (succeeded, a1, dev1) \<Rightarrow>
        if \<not> succeeded then (False, a1, dev1) else
        (case blockOf dev1 a1 of
           None \<Rightarrow> (False, a1, dev1)
         | Some dst \<Rightarrow>
             (case memcpy2D dst (nat (rowStrideBytes a1)) (h_data src) (h_rowStride src)
                     (nat (fst (h_size src)) * sizeofT) (nat (snd (h_size src))) of
                None \<Rightarrow> (False, a1, dev1)
              | Some dst' \<Rightarrow> (True, a1, storeBlock dev1 a1 dst'))))"

text \<open>\<open>copyToHost( dst )\<close>: the destination pitch passed to \<open>cudaMemcpy2D\<close> is
  \<open>dst.width() * sizeof( T )\<close>.\<close>

definition copyToHost :: "nat \<Rightarrow> DeviceArray2D \<Rightarrow> HostArray2D \<Rightarrow> Device \<Rightarrow> bool \<times> HostArray2D" where
  "copyToHost sizeofT a dst dev =
     (if isNull a \<or> h_null dst \<or> da_size a \<noteq> h_size dst then (False, dst) else
      case blockOf dev a of
        None \<Rightarrow> (False, dst)
      | Some s \<Rightarrow>
          (case memcpy2D (h_data dst) (nat (fst (h_size dst)) * sizeofT) s (nat (snd (da_stride a)))
                  (nat (widthInBytes sizeofT a)) (nat (snd (da_size a))) of
             None \<Rightarrow> (False, dst)
           | Some d \<Rightarrow> (True, dst\<lparr>h_data := d\<rparr>)))"

text \<open>\<open>get( xy )\<close> and \<open>set( xy, value )\<close> (\<open>getD\<close>, \<open>setD\<close>: \<open>set\<close> names the elements of a list): one \<open>cudaMemcpy\<close> of \<open>sizeof( T )\<close> bytes at
  the element pointer, under \<open>checkCudaErrors\<close>: a failure aborts (\<open>None\<close>).\<close>

definition getD :: "nat \<Rightarrow> DeviceArray2D \<Rightarrow> int \<times> int \<Rightarrow> Device \<Rightarrow> byte list option" where
  "getD sizeofT a xy dev =
     (case elementPointer a xy of
        None \<Rightarrow> None
      | Some (b, off) \<Rightarrow>
          (case dev_blocks dev b of
             None \<Rightarrow> None
           | Some bs \<Rightarrow> if 0 \<le> off \<and> nat off + sizeofT \<le> length bs then Some (take sizeofT (drop (nat off) bs)) else None))"

definition setD :: "nat \<Rightarrow> DeviceArray2D \<Rightarrow> int \<times> int \<Rightarrow> byte list \<Rightarrow> Device \<Rightarrow> Device option" where
  "setD sizeofT a xy value dev =
     (case elementPointer a xy of
        None \<Rightarrow> None
      | Some (b, off) \<Rightarrow>
          (case dev_blocks dev b of
             None \<Rightarrow> None
           | Some bs \<Rightarrow>
               if 0 \<le> off \<and> nat off + sizeofT \<le> length bs \<and> length value = sizeofT
               then Some (dev\<lparr>dev_blocks := (dev_blocks dev)(b \<mapsto> take (nat off) bs @ value @ drop (nat off + sizeofT) bs)\<rparr>)
               else None))"

text \<open>\<open>clear()\<close>: \<open>cudaMemset2D\<close> of the rows to zero, under \<open>checkCudaErrors\<close>.\<close>

definition clear :: "nat \<Rightarrow> DeviceArray2D \<Rightarrow> Device \<Rightarrow> Device option" where
  "clear sizeofT a dev =
     (case blockOf dev a of
        None \<Rightarrow> None
      | Some bs \<Rightarrow>
          (let pitch = nat (rowStrideBytes a); width = nat (widthInBytes sizeofT a); height = nat (snd (da_size a))
           in if inBlock pitch width height bs
              then Some (storeBlock dev a (foldl (\<lambda>bs r. take (r * pitch) bs @ replicate width 0 @ drop (r * pitch + width) bs)
                                           bs [0..<height]))
              else None))"

subsection \<open>Views, fill and CUDA arrays\<close>

text \<open>\<open>stride()\<close> returns \<open>m_stride\<close>; \<open>pointer()\<close> the device pointer.\<close>

definition stride :: "DeviceArray2D \<Rightarrow> int \<times> int" where
  "stride a = da_stride a"

definition pointer :: "DeviceArray2D \<Rightarrow> nat option" where
  "pointer a = da_ptr a"

text \<open>\<open>resourceDesc()\<close>: a pitched 2D resource description (\<open>cudaResourceTypePitch2D\<close>)
  of the device pointer, the size in elements and the row pitch in bytes.\<close>

record ResourceDesc =
  rd_devPtr :: "nat option"
  rd_width :: int
  rd_height :: int
  rd_pitchInBytes :: int

definition resourceDesc :: "DeviceArray2D \<Rightarrow> ResourceDesc" where
  "resourceDesc a =
     \<lparr>rd_devPtr = da_ptr a, rd_width = fst (da_size a), rd_height = snd (da_size a),
      rd_pitchInBytes = snd (da_stride a)\<rparr>"

text \<open>\<open>readView()\<close> and \<open>writeView()\<close>: a \<open>KernelArray2D\<close> of the pointer, the size and
  the row stride \<open>m_stride.y\<close>.\<close>

record KernelArray2D =
  ka_ptr :: "nat option"
  ka_size :: "int \<times> int"
  ka_rowStride :: int

definition readView :: "DeviceArray2D \<Rightarrow> KernelArray2D" where
  "readView a = \<lparr>ka_ptr = pointer a, ka_size = (fst (da_size a), snd (da_size a)), ka_rowStride = snd (da_stride a)\<rparr>"

definition writeView :: "DeviceArray2D \<Rightarrow> KernelArray2D" where
  "writeView a = \<lparr>ka_ptr = pointer a, ka_size = (fst (da_size a), snd (da_size a)), ka_rowStride = snd (da_stride a)\<rparr>"

text \<open>\<open>Array2D< T >( width, height, value )\<close> (core, not in this repository): a new,
  non-null host array, packed, its rows \<open>width * sizeof( T )\<close> bytes apart, every
  element \<open>value\<close>.\<close>

definition filledHostArray :: "nat \<Rightarrow> int \<times> int \<Rightarrow> byte list \<Rightarrow> HostArray2D" where
  "filledHostArray sizeofT sz value =
     \<lparr>h_null = False, h_size = sz, h_rowStride = nat (fst sz) * sizeofT, h_packed = True,
      h_data = concat (replicate (nat (fst sz) * nat (snd sz)) value)\<rparr>"

text \<open>\<open>fill( value )\<close>: a host array of the array's size filled with \<open>value\<close>, then
  \<open>copyFromHost\<close>, whose result is dropped.\<close>

definition fill :: "nat \<Rightarrow> CudaEnv \<Rightarrow> byte list \<Rightarrow> DeviceArray2D \<Rightarrow> Device \<Rightarrow> DeviceArray2D \<times> Device" where
  "fill sizeofT env value a dev =
     (case copyFromHost sizeofT env (filledHostArray sizeofT (da_size a) value) a dev of (_, a', dev') \<Rightarrow> (a', dev'))"

text \<open>A \<open>cudaArray_t\<close> (opaque CUDA array memory): its row width in bytes, its
  height, and its bytes, row after row. \<open>cudaMemcpy2DToArray( dst, 0, 0, src, spitch,
  width, height )\<close> and \<open>cudaMemcpy2DFromArray( dst, dpitch, src, 0, 0, width, height )\<close>
  are \<open>cudaMemcpy2D\<close> with the array's row width as its pitch.\<close>

record CudaArray =
  ca_width :: nat
  ca_height :: nat
  ca_data :: "byte list"

text \<open>\<open>copyFromArray( src )\<close>: rows of \<open>widthInBytes()\<close> bytes from the CUDA array to
  the array's block; a null pointer or a copy out of bounds is an error.\<close>

definition copyFromArray :: "nat \<Rightarrow> CudaArray \<Rightarrow> DeviceArray2D \<Rightarrow> Device \<Rightarrow> bool \<times> Device" where
  "copyFromArray sizeofT src a dev =
     (case blockOf dev a of
        None \<Rightarrow> (False, dev)
      | Some dst \<Rightarrow>
          (case memcpy2D dst (nat (rowStrideBytes a)) (ca_data src) (ca_width src)
                  (nat (widthInBytes sizeofT a)) (nat (snd (da_size a))) of
             None \<Rightarrow> (False, dev)
           | Some dst' \<Rightarrow> (True, storeBlock dev a dst')))"

text \<open>\<open>copyToArray( dst )\<close>: the same rows from the array's block to the CUDA array.\<close>

definition copyToArray :: "nat \<Rightarrow> DeviceArray2D \<Rightarrow> CudaArray \<Rightarrow> Device \<Rightarrow> bool \<times> CudaArray" where
  "copyToArray sizeofT a dst dev =
     (case blockOf dev a of
        None \<Rightarrow> (False, dst)
      | Some s \<Rightarrow>
          (case memcpy2D (ca_data dst) (ca_width dst) s (nat (rowStrideBytes a))
                  (nat (widthInBytes sizeofT a)) (nat (snd (da_size a))) of
             None \<Rightarrow> (False, dst)
           | Some d \<Rightarrow> (True, dst\<lparr>ca_data := d\<rparr>)))"

subsection \<open>Objects over a program run\<close>

text \<open>
  A program holds any number of arrays (object slots) over one device. Constructors
  run on a new object (a slot holding the null array); the copy constructor and the
  move constructor take another object; assignments and the other members act on
  existing objects, the destructor is \<open>destroy()\<close>.
\<close>

record DeviceSystem =
  objs :: "nat \<Rightarrow> DeviceArray2D"
  device :: Device

definition initialSystem :: DeviceSystem where
  "initialSystem = \<lparr>objs = (\<lambda>_. nullArray), device = \<lparr>dev_blocks = Map.empty, dev_next = 0\<rparr>\<rparr>"

inductive daReach :: "nat \<Rightarrow> DeviceSystem \<Rightarrow> bool" for sizeofT :: nat where
  da_init: "daReach sizeofT initialSystem"
| da_construct: "daReach sizeofT S \<Longrightarrow> objs S i = nullArray \<Longrightarrow> construct sizeofT env sz (device S) = (a, dev') \<Longrightarrow>
    daReach sizeofT \<lparr>objs = (objs S)(i := a), device = dev'\<rparr>"
| da_resize: "daReach sizeofT S \<Longrightarrow> resize sizeofT env sz (objs S i) (device S) = (ok, a, dev') \<Longrightarrow>
    daReach sizeofT \<lparr>objs = (objs S)(i := a), device = dev'\<rparr>"
| da_destroy: "daReach sizeofT S \<Longrightarrow> destroy (objs S i) (device S) = (ok, a, dev') \<Longrightarrow>
    daReach sizeofT \<lparr>objs = (objs S)(i := a), device = dev'\<rparr>"
| da_copyConstruct: "daReach sizeofT S \<Longrightarrow> objs S i = nullArray \<Longrightarrow> i \<noteq> j \<Longrightarrow>
    copyConstruct sizeofT env (objs S j) (device S) = (a, dev') \<Longrightarrow>
    daReach sizeofT \<lparr>objs = (objs S)(i := a), device = dev'\<rparr>"
| da_copyAssign: "daReach sizeofT S \<Longrightarrow> copyAssign sizeofT env (i = j) (objs S i) (objs S j) (device S) = (a, dev') \<Longrightarrow>
    daReach sizeofT \<lparr>objs = (objs S)(i := a), device = dev'\<rparr>"
| da_moveConstruct: "daReach sizeofT S \<Longrightarrow> objs S i = nullArray \<Longrightarrow> i \<noteq> j \<Longrightarrow> moveConstruct (objs S j) = (a, src') \<Longrightarrow>
    daReach sizeofT \<lparr>objs = (objs S)(i := a, j := src'), device = device S\<rparr>"
| da_moveAssign: "daReach sizeofT S \<Longrightarrow> moveAssign (i = j) (objs S i) (objs S j) (device S) = (a, src', dev') \<Longrightarrow>
    daReach sizeofT \<lparr>objs = (objs S)(i := a, j := src'), device = dev'\<rparr>"
| da_copyFromHost: "daReach sizeofT S \<Longrightarrow> copyFromHost sizeofT env h (objs S i) (device S) = (ok, a, dev') \<Longrightarrow>
    daReach sizeofT \<lparr>objs = (objs S)(i := a), device = dev'\<rparr>"
| da_set: "daReach sizeofT S \<Longrightarrow> setD sizeofT (objs S i) xy v (device S) = Some dev' \<Longrightarrow>
    daReach sizeofT (S\<lparr>device := dev'\<rparr>)"
| da_clear: "daReach sizeofT S \<Longrightarrow> clear sizeofT (objs S i) (device S) = Some dev' \<Longrightarrow>
    daReach sizeofT (S\<lparr>device := dev'\<rparr>)"
| da_fill: "daReach sizeofT S \<Longrightarrow> fill sizeofT env v (objs S i) (device S) = (a, dev') \<Longrightarrow>
    daReach sizeofT \<lparr>objs = (objs S)(i := a), device = dev'\<rparr>"
| da_copyFromArray: "daReach sizeofT S \<Longrightarrow> copyFromArray sizeofT arr (objs S i) (device S) = (True, dev') \<Longrightarrow>
    daReach sizeofT (S\<lparr>device := dev'\<rparr>)"

text \<open>
  Ownership: every non-null array points to an allocated block below the next fresh
  block number, no two objects share a block, and no block at or above the next
  number is allocated.
\<close>

definition daInv :: "DeviceSystem \<Rightarrow> bool" where
  "daInv S \<longleftrightarrow>
     (\<forall>i b. da_ptr (objs S i) = Some b \<longrightarrow> dev_blocks (device S) b \<noteq> None \<and> b < dev_next (device S)) \<and>
     (\<forall>i j b. i \<noteq> j \<longrightarrow> da_ptr (objs S i) = Some b \<longrightarrow> da_ptr (objs S j) \<noteq> Some b) \<and>
     (\<forall>b. dev_next (device S) \<le> b \<longrightarrow> dev_blocks (device S) b = None)"

text \<open>Every allocated block of a device is empty.\<close>

definition emptyBlocks :: "Device \<Rightarrow> bool" where
  "emptyBlocks dev \<longleftrightarrow> (\<forall>b bs. dev_blocks dev b = Some bs \<longrightarrow> bs = [])"

text \<open>What an operation on one object may do to the device: allocate fresh blocks,
  change the allocation of its own block only, and leave it pointing to its own
  block, to a fresh one, or to nothing.\<close>

definition localStep :: "DeviceArray2D \<Rightarrow> Device \<Rightarrow> DeviceArray2D \<Rightarrow> Device \<Rightarrow> bool" where
  "localStep a dev a' dev' \<longleftrightarrow>
     dev_next dev \<le> dev_next dev' \<and>
     (\<forall>b. dev_next dev' \<le> b \<longrightarrow> dev_blocks dev' b = dev_blocks dev b) \<and>
     (\<forall>b. b < dev_next dev \<longrightarrow> da_ptr a \<noteq> Some b \<longrightarrow> (dev_blocks dev' b = None) = (dev_blocks dev b = None)) \<and>
     (\<forall>b. da_ptr a' = Some b \<longrightarrow> (da_ptr a = Some b \<or> dev_next dev \<le> b) \<and> b < dev_next dev' \<and> dev_blocks dev' b \<noteq> None)"

text \<open>An array points, if anywhere, to an allocated block below the next fresh number.\<close>

definition wfArray :: "DeviceArray2D \<Rightarrow> Device \<Rightarrow> bool" where
  "wfArray a dev \<longleftrightarrow> (\<forall>b. da_ptr a = Some b \<longrightarrow> dev_blocks dev b \<noteq> None \<and> b < dev_next dev)"


subsection \<open>The ownership invariant\<close>

text \<open>Each operation on one object is a local step (\<open>localStep\<close>), and a local step of
  one object preserves the invariant; moves hand a block from one object to another.\<close>
lemma daInv_wfArray: "daInv S \<Longrightarrow> wfArray (objs S i) (device S)"
  by (simp add: daInv_def wfArray_def)

lemma localStep_refl: "wfArray a dev \<Longrightarrow> localStep a dev a dev"
  by (simp add: localStep_def wfArray_def)

lemma localStep_daInv:
  assumes inv: "daInv S" and step: "localStep (objs S i) (device S) a' dev'"
  shows "daInv \<lparr>objs = (objs S)(i := a'), device = dev'\<rparr>"
proof -
  let ?O = "(objs S)(i := a')" and ?d = "device S"
  have live: "dev_blocks ?d b \<noteq> None \<and> b < dev_next ?d" if "da_ptr (objs S k) = Some b" for k b
    using inv that by (auto simp: daInv_def)
  have uniq: "da_ptr (objs S l) \<noteq> Some b" if "k \<noteq> l" and "da_ptr (objs S k) = Some b" for k l b
    using inv that by (auto simp: daInv_def)
  have fresh: "dev_blocks ?d b = None" if "dev_next ?d \<le> b" for b
    using inv that by (auto simp: daInv_def)
  have s1: "dev_next ?d \<le> dev_next dev'"
    and s2: "\<And>b. dev_next dev' \<le> b \<Longrightarrow> dev_blocks dev' b = dev_blocks ?d b"
    and s3: "\<And>b. b < dev_next ?d \<Longrightarrow> da_ptr (objs S i) \<noteq> Some b \<Longrightarrow> (dev_blocks dev' b = None) = (dev_blocks ?d b = None)"
    and s4: "\<And>b. da_ptr a' = Some b \<Longrightarrow> (da_ptr (objs S i) = Some b \<or> dev_next ?d \<le> b) \<and> b < dev_next dev' \<and> dev_blocks dev' b \<noteq> None"
    using step by (simp_all add: localStep_def)
  have c1: "dev_blocks dev' b \<noteq> None \<and> b < dev_next dev'" if "da_ptr (?O k) = Some b" for k b
  proof (cases "k = i")
    case True
    then show ?thesis using that s4 by simp
  next
    case False
    then have "da_ptr (objs S k) = Some b" using that by simp
    moreover from this False have "da_ptr (objs S i) \<noteq> Some b" by (intro uniq) simp_all
    ultimately show ?thesis using live [of k b] s3 [of b] s1 by auto
  qed
  have c2: "da_ptr (?O l) \<noteq> Some b" if "k \<noteq> l" and "da_ptr (?O k) = Some b" for k l b
  proof (cases "k = i")
    case True
    then have "da_ptr a' = Some b" using that by simp
    with s4 have "da_ptr (objs S i) = Some b \<or> dev_next ?d \<le> b" by blast
    then show ?thesis
      using that True uniq [of i l b] live [of l b] by auto
  next
    case False
    then have k: "da_ptr (objs S k) = Some b" using that by simp
    show ?thesis
    proof (cases "l = i")
      case True
      have "da_ptr (objs S i) \<noteq> Some b" using k False by (intro uniq) simp_all
      moreover have "b < dev_next ?d" using live [OF k] by simp
      ultimately show ?thesis using True s4 [of b] by auto
    next
      case False
      then show ?thesis using k that uniq by simp
    qed
  qed
  have c3: "dev_blocks dev' b = None" if "dev_next dev' \<le> b" for b
    using that s1 s2 fresh by simp
  show ?thesis
    unfolding daInv_def using c1 c2 c3 by simp
qed


lemma destroy_localStep:
  assumes "wfArray a dev" and "destroy a dev = (ok, a', dev')"
  shows "localStep a dev a' dev'"
  using assms by (auto simp: destroy_def cudaFree_def localStep_def wfArray_def split: option.splits if_splits)

lemma destroy_ptr: "destroy a dev = (ok, a', dev') \<Longrightarrow> da_ptr a' = None \<and> da_size a' = (0, 0) \<and> dev_next dev' = dev_next dev"
  by (auto simp: destroy_def cudaFree_def split: option.splits if_splits)

lemma localStep_malloc:
  assumes "localStep a dev a1 dev1" and "da_ptr a1 = None"
    and "cudaMallocPitch env w h dev1 = (Some (b, pitch), dev2)"
  shows "localStep a dev (a1\<lparr>da_ptr := Some b, da_size := sz, da_stride := st\<rparr>) dev2"
  using assms by (auto simp: localStep_def cudaMallocPitch_def Let_def split: if_splits)

lemma localStep_malloc_fail:
  assumes "localStep a dev a1 dev1" and "cudaMallocPitch env w h dev1 = (None, dev2)"
  shows "localStep a dev a1 dev2"
  using assms by (auto simp: cudaMallocPitch_def Let_def split: if_splits)

lemma resize_localStep:
  assumes "wfArray a dev" and "resize sizeofT env sz a dev = (ok, a', dev')"
  shows "localStep a dev a' dev'"
proof (cases "sz = da_size a \<or> fst sz \<le> 0 \<or> snd sz \<le> 0")
  case True
  then show ?thesis using assms by (auto simp: resize_def localStep_refl split: if_splits)
next
  case False
  obtain ok1 a1 dev1 where d: "destroy a dev = (ok1, a1, dev1)"
    by (cases "destroy a dev") auto
  have l1: "localStep a dev a1 dev1" and p1: "da_ptr a1 = None"
    using destroy_localStep [OF assms(1) d] destroy_ptr [OF d] by simp_all
  obtain r dev2 where m: "cudaMallocPitch env (nat (fst (da_size a1)) * sizeofT) (nat (snd (da_size a1))) dev1 = (r, dev2)"
    by (cases "cudaMallocPitch env (nat (fst (da_size a1)) * sizeofT) (nat (snd (da_size a1))) dev1") auto
  show ?thesis
  proof (cases r)
    case None
    then show ?thesis
      using assms(2) False d m localStep_malloc_fail [OF l1] by (auto simp: resize_def)
  next
    case (Some bp)
    then obtain b pitch where bp: "r = Some (b, pitch)" by (cases bp) auto
    have "localStep a dev (a1\<lparr>da_ptr := Some b, da_size := sz, da_stride := (int sizeofT, int pitch)\<rparr>) dev2"
      using m bp by (intro localStep_malloc [OF l1 p1]) simp
    then show ?thesis
      using assms(2) False d m bp by (auto simp: resize_def)
  qed
qed

lemma localStep_store:
  assumes "localStep a dev a1 dev1" and "blockOf dev1 a1 = Some x"
  shows "localStep a dev a1 (storeBlock dev1 a1 y)"
  using assms by (auto simp: localStep_def storeBlock_def blockOf_def split: option.splits)

lemma copyFromDevice_localStep:
  assumes "wfArray a dev" and "copyFromDevice sizeofT env a src dev = (ok, a', dev')"
  shows "localStep a dev a' dev'"
proof (cases "isNull a \<or> isNull src")
  case True
  then show ?thesis using assms by (auto simp: copyFromDevice_def localStep_refl)
next
  case False
  obtain ok1 a1 dev1 where r: "resize sizeofT env (da_size src) a dev = (ok1, a1, dev1)"
    by (cases "resize sizeofT env (da_size src) a dev") auto
  have l1: "localStep a dev a1 dev1"
    using resize_localStep [OF assms(1) r] .
  show ?thesis
    using assms(2) False r l1 localStep_store [OF l1]
    by (auto simp: copyFromDevice_def split: option.splits if_splits)
qed

lemma copyFromHost_localStep:
  assumes "wfArray a dev" and "copyFromHost sizeofT env h a dev = (ok, a', dev')"
  shows "localStep a dev a' dev'"
proof (cases "h_null h \<or> \<not> h_packed h")
  case True
  then show ?thesis using assms by (auto simp: copyFromHost_def localStep_refl split: if_splits)
next
  case False
  obtain ok1 a1 dev1 where r: "resize sizeofT env (h_size h) a dev = (ok1, a1, dev1)"
    by (cases "resize sizeofT env (h_size h) a dev") auto
  have l1: "localStep a dev a1 dev1"
    using resize_localStep [OF assms(1) r] .
  show ?thesis
    using assms(2) False r l1 localStep_store [OF l1]
    by (auto simp: copyFromHost_def split: option.splits if_splits)
qed


lemma status_daInv:
  assumes "daInv S" and "dev_next dev' = dev_next (device S)"
    and "\<And>b. (dev_blocks dev' b = None) = (dev_blocks (device S) b = None)"
  shows "daInv (S\<lparr>device := dev'\<rparr>)"
  using assms by (simp add: daInv_def)

lemma setD_status:
  "setD sizeofT a xy v dev = Some dev' \<Longrightarrow>
   dev_next dev' = dev_next dev \<and> (\<forall>b. (dev_blocks dev' b = None) = (dev_blocks dev b = None))"
  by (auto simp: setD_def elementPointer_def split: option.splits if_splits)

lemma clear_status:
  "clear sizeofT a dev = Some dev' \<Longrightarrow>
   dev_next dev' = dev_next dev \<and> (\<forall>b. (dev_blocks dev' b = None) = (dev_blocks dev b = None))"
  by (auto simp: clear_def storeBlock_def blockOf_def Let_def split: option.splits if_splits)

lemma copyFromArray_status:
  "copyFromArray sizeofT arr a dev = (ok, dev') \<Longrightarrow>
   dev_next dev' = dev_next dev \<and> (\<forall>b. (dev_blocks dev' b = None) = (dev_blocks dev b = None))"
  by (auto simp: copyFromArray_def storeBlock_def blockOf_def split: option.splits if_splits)

lemma move_daInv:
  assumes inv: "daInv S" and "da_ptr (objs S i) = None" and "i \<noteq> j"
  shows "daInv \<lparr>objs = (objs S)(i := \<lparr>da_size = da_size (objs S j), da_stride = da_stride (objs S j), da_ptr = da_ptr (objs S j)\<rparr>,
                               j := (objs S j)\<lparr>da_size := (0, 0), da_stride := (0, 0), da_ptr := None\<rparr>),
                 device = device S\<rparr>"
proof -
  have live: "dev_blocks (device S) b \<noteq> None \<and> b < dev_next (device S)" if "da_ptr (objs S k) = Some b" for k b
    using inv that by (auto simp: daInv_def)
  have uniq: "da_ptr (objs S l) \<noteq> Some b" if "k \<noteq> l" and "da_ptr (objs S k) = Some b" for k l b
    using inv that by (auto simp: daInv_def)
  have fresh: "dev_blocks (device S) b = None" if "dev_next (device S) \<le> b" for b
    using inv that by (auto simp: daInv_def)
  show ?thesis
    unfolding daInv_def using assms live uniq fresh by auto
qed

lemma moveAssign_daInv:
  assumes inv: "daInv S" and "moveAssign (i = j) (objs S i) (objs S j) (device S) = (a, src', dev')"
  shows "daInv \<lparr>objs = (objs S)(i := a, j := src'), device = dev'\<rparr>"
proof (cases "i = j")
  case True
  then have "a = objs S i" "src' = objs S i" "dev' = device S"
    using assms(2) by (auto simp: moveAssign_def)
  then show ?thesis
    using inv True by (cases S) simp
next
  case False
  obtain ok a1 dev1 where d: "destroy (objs S i) (device S) = (ok, a1, dev1)"
    by (cases "destroy (objs S i) (device S)") auto
  let ?S1 = "\<lparr>objs = (objs S)(i := a1), device = dev1\<rparr>"
  have inv1: "daInv ?S1"
    using inv destroy_localStep [OF daInv_wfArray [OF inv] d] by (rule localStep_daInv)
  have p1: "da_ptr (objs ?S1 i) = None"
    using destroy_ptr [OF d] by simp
  have "a = a1\<lparr>da_size := da_size (objs S j), da_stride := da_stride (objs S j), da_ptr := da_ptr (objs S j)\<rparr>"
    and "src' = (objs S j)\<lparr>da_size := (0, 0), da_stride := (0, 0), da_ptr := None\<rparr>" and "dev' = dev1"
    using assms(2) False d by (simp_all add: moveAssign_def)
  moreover have "a1\<lparr>da_size := da_size (objs S j), da_stride := da_stride (objs S j), da_ptr := da_ptr (objs S j)\<rparr> =
      \<lparr>da_size = da_size (objs S j), da_stride = da_stride (objs S j), da_ptr = da_ptr (objs S j)\<rparr>"
    by simp
  ultimately show ?thesis
    using move_daInv [OF inv1 p1 False] False by (simp add: fun_upd_twist)
qed

text \<open>C5: in every run of constructors, resizes, destructors, copies, moves,
  host uploads, fills, uploads from CUDA arrays, element writes and clears, every non-null array points to its own
  allocated block: no two objects share a block and none points to a freed one.\<close>

theorem daReach_daInv:
  assumes "daReach sizeofT S"
  shows "daInv S"
  using assms
proof (induction rule: daReach.induct)
  case da_init
  then show ?case by (simp add: daInv_def initialSystem_def nullArray_def)
next
  case (da_construct S i env sz a dev')
  then obtain ok where "resize sizeofT env sz (objs S i) (device S) = (ok, a, dev')"
    by (auto simp: construct_def split: prod.splits)
  then show ?case
    using da_construct.IH by (intro localStep_daInv resize_localStep daInv_wfArray)
next
  case (da_resize S env sz i ok a dev')
  then show ?case by (intro localStep_daInv resize_localStep daInv_wfArray)
next
  case (da_destroy S i ok a dev')
  then show ?case by (intro localStep_daInv destroy_localStep daInv_wfArray)
next
  case (da_copyConstruct S i j env a dev')
  then obtain ok where "copyFromDevice sizeofT env (objs S i) (objs S j) (device S) = (ok, a, dev')"
    by (auto simp: copyConstruct_def split: prod.splits)
  then show ?case
    using da_copyConstruct.IH by (intro localStep_daInv copyFromDevice_localStep daInv_wfArray)
next
  case (da_copyAssign S env i j a dev')
  show ?case
  proof (cases "i = j")
    case True
    then have "a = objs S i" "dev' = device S"
      using da_copyAssign.hyps(2) by (simp_all add: copyAssign_def)
    moreover have "localStep (objs S i) (device S) (objs S i) (device S)"
      using da_copyAssign.IH by (intro localStep_refl daInv_wfArray)
    ultimately show ?thesis
      using da_copyAssign.IH localStep_daInv by blast
  next
    case False
    then obtain ok where "copyFromDevice sizeofT env (objs S i) (objs S j) (device S) = (ok, a, dev')"
      using da_copyAssign.hyps(2) by (auto simp: copyAssign_def split: prod.splits)
    then show ?thesis
      using da_copyAssign.IH by (intro localStep_daInv copyFromDevice_localStep daInv_wfArray)
  qed
next
  case (da_moveConstruct S i j a src')
  then show ?case
    using move_daInv [of S i j] by (simp add: moveConstruct_def nullArray_def)
next
  case (da_moveAssign S i j a src' dev')
  then show ?case by (intro moveAssign_daInv)
next
  case (da_copyFromHost S env h i ok a dev')
  then show ?case by (intro localStep_daInv copyFromHost_localStep daInv_wfArray)
next
  case (da_set S i xy v dev')
  then show ?case using setD_status by (intro status_daInv) blast+
next
  case (da_clear S i dev')
  then show ?case using clear_status by (intro status_daInv) blast+
next
  case (da_fill S env v i a dev')
  then obtain ok where "copyFromHost sizeofT env (filledHostArray sizeofT (da_size (objs S i)) v) (objs S i) (device S) = (ok, a, dev')"
    by (auto simp: fill_def split: prod.splits)
  then show ?case
    using da_fill.IH by (intro localStep_daInv copyFromHost_localStep daInv_wfArray)
next
  case (da_copyFromArray S arr i dev')
  then show ?case using copyFromArray_status by (intro status_daInv) blast+
qed

subsection \<open>Row layout of 2D copies and the life-cycle defects\<close>

text \<open>\<open>cudaMemcpy2D\<close> copies byte j of row r from \<open>r * spitch + j\<close> to \<open>r * dpitch + j\<close>
  and keeps the destination's length.\<close>

lemma copyRow_length:
  assumes "r * dp + w \<le> length dst" and "r * sp + w \<le> length src"
  shows "length (copyRow dp sp w src dst r) = length dst"
  using assms by (simp add: copyRow_def)

lemma copyRow_nth:
  assumes "r * dp + w \<le> length dst" and "r * sp + w \<le> length src" and "k < length dst"
  shows "copyRow dp sp w src dst r ! k = (if r * dp \<le> k \<and> k < r * dp + w then src ! (r * sp + (k - r * dp)) else dst ! k)"
proof -
  have lw: "length (take w (drop (r * sp) src)) = w"
    using assms(2) by simp
  have "r * dp \<le> length dst"
    using assms(1) by simp
  then show ?thesis
    using assms(1,3) lw by (auto simp: copyRow_def nth_append)
qed

lemma memcpy2D_rows:
  assumes "memcpy2D dst dp src sp w h = Some d"
  shows "length d = length dst \<and> (\<forall>r j. r < h \<longrightarrow> j < w \<longrightarrow> d ! (r * dp + j) = src ! (r * sp + j))"
proof -
  have wd: "w \<le> dp" and ws: "w \<le> sp"
    and bd: "h = 0 \<or> (h - 1) * dp + w \<le> length dst" and bs: "h = 0 \<or> (h - 1) * sp + w \<le> length src"
    and d: "d = foldl (copyRow dp sp w src) dst [0..<h]"
    using assms by (auto simp: memcpy2D_def inBlock_def split: if_splits)
  have "g \<le> h \<Longrightarrow> length (foldl (copyRow dp sp w src) dst [0..<g]) = length dst \<and>
        (\<forall>r j. r < g \<longrightarrow> j < w \<longrightarrow> foldl (copyRow dp sp w src) dst [0..<g] ! (r * dp + j) = src ! (r * sp + j))" for g
  proof (induction g)
    case 0
    then show ?case by simp
  next
    case (Suc g)
    let ?F = "foldl (copyRow dp sp w src) dst [0..<g]"
    have IH: "length ?F = length dst" "\<And>r j. r < g \<Longrightarrow> j < w \<Longrightarrow> ?F ! (r * dp + j) = src ! (r * sp + j)"
      using Suc by simp_all
    have "g \<le> h - 1"
      using Suc.prems by simp
    then have m1: "g * dp + w \<le> (h - 1) * dp + w" and m2: "g * sp + w \<le> (h - 1) * sp + w"
      by (simp_all add: mult_le_mono1)
    have "(h - 1) * dp + w \<le> length dst" "(h - 1) * sp + w \<le> length src"
      using bd bs Suc.prems by auto
    then have b1: "g * dp + w \<le> length ?F" and b2: "g * sp + w \<le> length src"
      using m1 m2 IH(1) by linarith+
    have len: "length (copyRow dp sp w src ?F g) = length dst"
      using copyRow_length [OF b1 b2] IH(1) by simp
    have "copyRow dp sp w src ?F g ! (r * dp + j) = src ! (r * sp + j)" if "r < Suc g" "j < w" for r j
    proof (cases "r = g")
      case True
      then show ?thesis using that b1 b2 by (simp add: copyRow_nth)
    next
      case False
      then have "r < g" using that by simp
      then have "Suc r * dp \<le> g * dp"
        by (simp only: Suc_le_eq [symmetric] mult_le_mono1)
      then have "r * dp + j < g * dp"
        using that wd by simp
      moreover have "r * dp + j < length ?F"
        using calculation b1 by simp
      ultimately show ?thesis
        using b1 b2 IH(2) [OF \<open>r < g\<close> \<open>j < w\<close>] by (simp add: copyRow_nth)
    qed
    then show ?case
      using len by simp
  qed
  then show ?thesis
    using d by simp
qed


lemma nat_mult_of_nat [simp]: "nat (x * int n) = nat x * n"
proof (cases "0 \<le> x")
  case True
  then show ?thesis by (simp add: nat_mult_distrib)
next
  case False
  then have "x * int n \<le> 0"
    by (simp add: mult_nonpos_nonneg)
  then show ?thesis
    using False by simp
qed

lemma roundUp_0 [simp]: "roundUp 0 al = 0"
  by (simp add: roundUp_def)

text \<open>C11: a resize to a new size that succeeds allocates with the size
  the array had after destroy(), zero by zero: the array takes the new size, its row
  stride is zero, its block is empty and no element can be read.\<close>

theorem resize_allocates_nothing:
  assumes "resize sizeofT env sz a dev = (True, a', dev')" and "sz \<noteq> da_size a" and "0 < sizeofT"
  shows "da_size a' = sz \<and> rowStrideBytes a' = 0 \<and> blockOf dev' a' = Some [] \<and> (\<forall>xy. getD sizeofT a' xy dev' = None)"
proof -
  obtain ok a1 dev1 where d: "destroy a dev = (ok, a1, dev1)"
    by (cases "destroy a dev") auto
  have a1: "da_size a1 = (0, 0)"
    using destroy_ptr [OF d] by simp
  have m: "malloc_ok env" and pos: "\<not> (fst sz \<le> 0 \<or> snd sz \<le> 0)"
    and a': "a' = a1\<lparr>da_ptr := Some (dev_next dev1), da_size := sz, da_stride := (int sizeofT, 0)\<rparr>"
    and dev': "dev' = dev1\<lparr>dev_blocks := (dev_blocks dev1)(dev_next dev1 \<mapsto> []), dev_next := Suc (dev_next dev1)\<rparr>"
    using assms(1,2) d a1 by (auto simp: resize_def cudaMallocPitch_def Let_def split: if_splits)
  have blk: "blockOf dev' a' = Some []"
    using a' dev' by (simp add: blockOf_def)
  have "getD sizeofT a' xy dev' = None" for xy
    using a' dev' assms(3) by (auto simp: getD_def elementPointer_def)
  then show ?thesis
    using a' blk by (simp add: rowStrideBytes_def)
qed

text \<open>C13: the copy constructor runs copyFromDevice on a new object, which is
  null, so the copy fails at once: the new object is the null array and the device is
  unchanged, whatever the source holds.\<close>

theorem copyConstruct_null: "copyConstruct sizeofT env src dev = (nullArray, dev)"
  by (simp add: copyConstruct_def copyFromDevice_def isNull_def nullArray_def)

text \<open>C20: a successful copyToHost puts element byte j of row r of the
  array at byte r * (width * sizeof(T)) + j of the destination view, whatever the view's
  row stride, and keeps the length of the view's bytes.\<close>

theorem copyToHost_row_layout:
  assumes "copyToHost sizeofT a dst dev = (True, dst')" and "blockOf dev a = Some s"
    and "r < nat (snd (da_size a))" and "j < nat (fst (da_size a)) * sizeofT"
  shows "length (h_data dst') = length (h_data dst) \<and>
         h_data dst' ! (r * (nat (fst (h_size dst)) * sizeofT) + j) = s ! (r * nat (rowStrideBytes a) + j)"
proof -
  obtain d where m: "memcpy2D (h_data dst) (nat (fst (h_size dst)) * sizeofT) s (nat (snd (da_stride a)))
                  (nat (widthInBytes sizeofT a)) (nat (snd (da_size a))) = Some d" and d: "h_data dst' = d"
    using assms(1,2) by (auto simp: copyToHost_def split: if_splits option.splits)
  have "nat (widthInBytes sizeofT a) = nat (fst (da_size a)) * sizeofT"
    by (simp add: widthInBytes_def)
  then show ?thesis
    using memcpy2D_rows [OF m] d assms(3,4) by (simp add: rowStrideBytes_def)
qed


subsection \<open>CUDA arrays, fill, and what a run stores\<close>

text \<open>A 2D copy succeeds only inside both blocks, and a copy of rows that already
  hold the source's bytes changes nothing.\<close>

lemma memcpy2D_inBlock:
  "memcpy2D dst dp src sp w h = Some d \<Longrightarrow> inBlock dp w h dst \<and> inBlock sp w h src"
  by (simp add: memcpy2D_def split: if_splits)

lemma inBlock_length: "length xs = length ys \<Longrightarrow> inBlock p w h xs = inBlock p w h ys"
  by (simp add: inBlock_def)

lemma copyRow_same:
  assumes "r * dp + w \<le> length dst" and "r * sp + w \<le> length src"
    and "\<And>j. j < w \<Longrightarrow> src ! (r * sp + j) = dst ! (r * dp + j)"
  shows "copyRow dp sp w src dst r = dst"
proof -
  have "take w (drop (r * sp) src) = take w (drop (r * dp) dst)"
    using assms by (intro nth_equalityI) (simp_all add: add.commute)
  then show ?thesis
    by (simp add: copyRow_def take_add [symmetric] append_assoc [symmetric] del: append_assoc)
qed

lemma memcpy2D_same:
  assumes "memcpy2D dst dp src sp w h = Some d"
    and "\<And>r j. r < h \<Longrightarrow> j < w \<Longrightarrow> src ! (r * sp + j) = dst ! (r * dp + j)"
  shows "d = dst"
proof -
  have bd: "h = 0 \<or> (h - 1) * dp + w \<le> length dst" and bs: "h = 0 \<or> (h - 1) * sp + w \<le> length src"
    and d: "d = foldl (copyRow dp sp w src) dst [0..<h]"
    using assms(1) by (auto simp: memcpy2D_def inBlock_def split: if_splits)
  have "g \<le> h \<Longrightarrow> foldl (copyRow dp sp w src) dst [0..<g] = dst" for g
  proof (induction g)
    case 0
    then show ?case by simp
  next
    case (Suc g)
    have "g \<le> h - 1"
      using Suc.prems by simp
    then have "g * dp \<le> (h - 1) * dp" "g * sp \<le> (h - 1) * sp"
      by (simp_all add: mult_le_mono1)
    moreover have "(h - 1) * dp + w \<le> length dst" "(h - 1) * sp + w \<le> length src"
      using bd bs Suc.prems by auto
    ultimately have "g * dp + w \<le> length dst" "g * sp + w \<le> length src"
      by linarith+
    then show ?case
      using Suc assms(2) [of g] by (simp add: copyRow_same)
  qed
  then show ?thesis
    using d by simp
qed

lemma blockOf_storeBlock: "blockOf dev a = Some s \<Longrightarrow> blockOf (storeBlock dev a d) a = Some d"
  by (auto simp: blockOf_def storeBlock_def split: option.splits)

text \<open>C21 (upload from a CUDA array). A successful copyFromArray stores byte j of
  row r of the CUDA array at byte \<open>r * rowStrideBytes() + j\<close> of the array's block, for
  every row of \<open>height()\<close> and every byte of \<open>widthInBytes()\<close>; copyToArray back into the
  same CUDA array then succeeds and leaves it unchanged.\<close>

theorem copyFromArray_copyToArray:
  assumes "copyFromArray sizeofT arr a dev = (True, dev')"
  shows "(\<exists>bs'. blockOf dev' a = Some bs' \<and>
            (\<forall>r j. r < nat (snd (da_size a)) \<longrightarrow> j < nat (widthInBytes sizeofT a) \<longrightarrow>
               bs' ! (r * nat (rowStrideBytes a) + j) = ca_data arr ! (r * ca_width arr + j))) \<and>
         copyToArray sizeofT a arr dev' = (True, arr)"
proof -
  let ?p = "nat (rowStrideBytes a)" and ?w = "nat (widthInBytes sizeofT a)" and ?h = "nat (snd (da_size a))"
  obtain s d where b: "blockOf dev a = Some s"
    and m: "memcpy2D s ?p (ca_data arr) (ca_width arr) ?w ?h = Some d" and dev': "dev' = storeBlock dev a d"
    using assms by (auto simp: copyFromArray_def split: option.splits)
  have b': "blockOf dev' a = Some d"
    using b dev' by (simp add: blockOf_storeBlock)
  have rows: "length d = length s" "\<And>r j. r < ?h \<Longrightarrow> j < ?w \<Longrightarrow> d ! (r * ?p + j) = ca_data arr ! (r * ca_width arr + j)"
    using memcpy2D_rows [OF m] by simp_all
  have "inBlock (ca_width arr) ?w ?h (ca_data arr)" "inBlock ?p ?w ?h d"
    using memcpy2D_inBlock [OF m] inBlock_length [OF rows(1)] by simp_all
  then have m2: "memcpy2D (ca_data arr) (ca_width arr) d ?p ?w ?h =
                 Some (foldl (copyRow (ca_width arr) ?p ?w d) (ca_data arr) [0..<?h])"
    by (simp add: memcpy2D_def)
  have "foldl (copyRow (ca_width arr) ?p ?w d) (ca_data arr) [0..<?h] = ca_data arr"
    using memcpy2D_same [OF m2] rows(2) by simp
  then have "copyToArray sizeofT a arr dev' = (True, arr)"
    using b' m2 by (simp add: copyToArray_def)
  then show ?thesis
    using b' rows(2) by blast
qed

text \<open>Element (x, y) of the filled host array lies at byte \<open>(y * width + x) * sizeof( T )\<close>.\<close>

lemma nth_concat_replicate:
  "q < n \<Longrightarrow> k < length xs \<Longrightarrow> concat (replicate n xs) ! (q * length xs + k) = xs ! k"
proof (induction n arbitrary: q)
  case 0
  then show ?case by simp
next
  case (Suc n)
  then show ?case
    by (cases q) (simp_all add: nth_append add.assoc)
qed

lemma index2_less: "X < W \<Longrightarrow> Y < H \<Longrightarrow> Y * W + X < W * (H::nat)"
proof -
  assume "X < W" and "Y < H"
  then have "Y * W + X < Suc Y * W" and "Suc Y * W \<le> H * W"
    by (simp, intro mult_le_mono1 Suc_leI)
  then show ?thesis
    by (simp add: mult.commute)
qed

lemma pred_mult: "n \<noteq> 0 \<Longrightarrow> (n - 1) * c + c = n * (c::nat)"
  by (cases n) simp_all

lemma resize_same: "resize sizeofT env (da_size a) a dev = (True, a, dev)"
  by (simp add: resize_def)

lemma getD_block:
  assumes "da_ptr a = Some b" and "dev_blocks dev b = Some bs" and "da_stride a = (int s, int p)"
    and "X * s + Y * p + s \<le> length bs"
  shows "getD s a (int X, int Y) dev = Some (take s (drop (Y * p + X * s) bs))"
  using assms by (simp add: getD_def elementPointer_def nat_add_distrib nat_mult_distrib add.commute)

text \<open>C22 (fill). On an array whose block holds its rows (a row
  stride at least the row width and a block of \<open>(height - 1) * pitch + width\<close> bytes),
  fill( value ) keeps the array and makes get() return value at every element.\<close>

theorem fill_sets_elements:
  assumes b: "blockOf dev a = Some bs" and st: "da_stride a = (int sizeofT, int pitch)"
    and len: "length val = sizeofT"
    and fits: "inBlock pitch (nat (fst (da_size a)) * sizeofT) (nat (snd (da_size a))) bs"
    and f: "fill sizeofT env val a dev = (a', dev')"
  shows "a' = a \<and> (\<forall>x y. 0 \<le> x \<longrightarrow> x < fst (da_size a) \<longrightarrow> 0 \<le> y \<longrightarrow> y < snd (da_size a) \<longrightarrow>
           getD sizeofT a (x, y) dev' = Some val)"
proof -
  let ?W = "nat (fst (da_size a))" and ?H = "nat (snd (da_size a))"
  let ?data = "concat (replicate (?W * ?H) val)"
  have ldata: "length ?data = ?H * (?W * sizeofT)"
    using len by (simp add: length_concat sum_list_replicate)
  have "inBlock (?W * sizeofT) (?W * sizeofT) ?H ?data"
  proof -
    have "?H = 0 \<or> (?H - 1) * (?W * sizeofT) + ?W * sizeofT \<le> length ?data"
      using ldata pred_mult [of ?H "?W * sizeofT"] by (metis order_refl)
    then show ?thesis
      unfolding inBlock_def by blast
  qed
  then obtain d where m: "memcpy2D bs pitch ?data (?W * sizeofT) (?W * sizeofT) ?H = Some d"
    using fits by (simp add: memcpy2D_def)
  have rows: "length d = length bs" "\<And>r j. r < ?H \<Longrightarrow> j < ?W * sizeofT \<Longrightarrow> d ! (r * pitch + j) = ?data ! (r * (?W * sizeofT) + j)"
    using memcpy2D_rows [OF m] by simp_all
  obtain blk where p: "da_ptr a = Some blk" and blk: "dev_blocks dev blk = Some bs"
    using b by (auto simp: blockOf_def split: option.splits)
  have "a' = a \<and> dev' = storeBlock dev a d"
    using f b m st by (auto simp: fill_def copyFromHost_def filledHostArray_def resize_same rowStrideBytes_def)
  then have a': "a' = a" and dev': "dev' = storeBlock dev a d"
    by simp_all
  have el: "getD sizeofT a (int X, int Y) dev' = Some val" if x: "X < ?W" and y: "Y < ?H" for X Y
  proof -
    have "Suc X \<le> ?W" "Y \<le> ?H - 1"
      using x y by simp_all
    then have xs: "X * sizeofT + sizeofT \<le> ?W * sizeofT" and "Y * pitch \<le> (?H - 1) * pitch"
      using mult_le_mono1 [of "Suc X" ?W sizeofT] by (simp_all add: mult_le_mono1)
    moreover have "(?H - 1) * pitch + ?W * sizeofT \<le> length bs"
      using fits y by (auto simp: inBlock_def)
    ultimately have room: "X * sizeofT + Y * pitch + sizeofT \<le> length d"
      using rows(1) by linarith
    have g: "getD sizeofT a (int X, int Y) dev' = Some (take sizeofT (drop (Y * pitch + X * sizeofT) d))"
    proof (rule getD_block [OF p _ st])
      show "dev_blocks dev' blk = Some d"
        using p dev' by (simp add: storeBlock_def)
    qed (use room in simp)
    have "d ! (Y * pitch + X * sizeofT + k) = val ! k" if "k < sizeofT" for k
    proof -
      have "X * sizeofT + k < ?W * sizeofT"
        using xs that by linarith
      then have "d ! (Y * pitch + (X * sizeofT + k)) = ?data ! (Y * (?W * sizeofT) + (X * sizeofT + k))"
        by (rule rows(2) [OF y])
      moreover have "Y * (?W * sizeofT) + (X * sizeofT + k) = (Y * ?W + X) * length val + k"
        using len by (simp add: algebra_simps)
      ultimately have "d ! (Y * pitch + (X * sizeofT + k)) = ?data ! ((Y * ?W + X) * length val + k)"
        by simp
      moreover have "Y * ?W + X < ?W * ?H"
        by (rule index2_less [OF x y])
      ultimately show ?thesis
        using nth_concat_replicate [of "Y * ?W + X" "?W * ?H" k val] that len by (simp add: add.assoc)
    qed
    then have "take sizeofT (drop (Y * pitch + X * sizeofT) d) = val"
      using room len by (intro nth_equalityI) simp_all
    then show ?thesis
      using g by simp
  qed
  have "getD sizeofT a (x, y) dev' = Some val"
    if "0 \<le> x" "x < fst (da_size a)" "0 \<le> y" "y < snd (da_size a)" for x y
    using el [of "nat x" "nat y"] that by simp
  then show ?thesis
    using a' by simp
qed

lemma emptyBlocksD: "emptyBlocks dev \<Longrightarrow> dev_blocks dev b = Some bs \<Longrightarrow> bs = []"
  by (simp add: emptyBlocks_def)

text \<open>Every operation keeps every allocated block empty: allocations are made with the
  size destroy() has reset, and every copy, write and clear keeps a block's length.\<close>

lemma store_emptyBlocks:
  assumes e: "emptyBlocks dev" and b: "dev_blocks dev b = Some bs" and l: "length bs' = length bs"
  shows "emptyBlocks (dev\<lparr>dev_blocks := (dev_blocks dev)(b \<mapsto> bs')\<rparr>)"
proof -
  have "bs = []"
    by (rule emptyBlocksD [OF e b])
  then have "bs' = []"
    using l by simp
  then show ?thesis
    using e by (simp add: emptyBlocks_def)
qed

lemma storeBlock_emptyBlocks:
  assumes e: "emptyBlocks dev" and b: "blockOf dev a = Some bs" and l: "length d = length bs"
  shows "emptyBlocks (storeBlock dev a d)"
proof -
  obtain blk where "da_ptr a = Some blk" and "dev_blocks dev blk = Some bs"
    using b by (auto simp: blockOf_def split: option.splits)
  then show ?thesis
    using store_emptyBlocks [OF e _ l] by (simp add: storeBlock_def)
qed

lemma memcpy2D_length: "memcpy2D dst dp src sp w h = Some d \<Longrightarrow> length d = length dst"
  using memcpy2D_rows by blast

lemma destroy_emptyBlocks: "emptyBlocks dev \<Longrightarrow> destroy a dev = (ok, a', dev') \<Longrightarrow> emptyBlocks dev'"
  by (auto simp: emptyBlocks_def destroy_def cudaFree_def split: option.splits if_splits)

lemma resize_emptyBlocks:
  assumes "emptyBlocks dev" and "resize sizeofT env sz a dev = (ok, a', dev')"
  shows "emptyBlocks dev'"
proof (cases "sz = da_size a \<or> fst sz \<le> 0 \<or> snd sz \<le> 0")
  case True
  then show ?thesis using assms by (auto simp: resize_def split: if_splits)
next
  case False
  obtain ok1 a1 dev1 where d: "destroy a dev = (ok1, a1, dev1)"
    by (cases "destroy a dev") auto
  have e1: "emptyBlocks dev1" and z: "da_size a1 = (0, 0)"
    using destroy_emptyBlocks [OF assms(1) d] destroy_ptr [OF d] by simp_all
  then show ?thesis
    using assms(2) False d by (auto simp: resize_def cudaMallocPitch_def emptyBlocks_def Let_def split: if_splits)
qed

lemma copyFromDevice_emptyBlocks:
  assumes "emptyBlocks dev" and "copyFromDevice sizeofT env a src dev = (ok, a', dev')"
  shows "emptyBlocks dev'"
proof -
  obtain ok1 a1 dev1 where r: "resize sizeofT env (da_size src) a dev = (ok1, a1, dev1)"
    by (cases "resize sizeofT env (da_size src) a dev") auto
  have "emptyBlocks dev1"
    using resize_emptyBlocks [OF assms(1) r] .
  then show ?thesis
    using assms r by (auto simp: copyFromDevice_def dest: memcpy2D_length intro: storeBlock_emptyBlocks split: if_splits option.splits)
qed

lemma copyFromHost_emptyBlocks:
  assumes "emptyBlocks dev" and "copyFromHost sizeofT env h a dev = (ok, a', dev')"
  shows "emptyBlocks dev'"
proof -
  obtain ok1 a1 dev1 where r: "resize sizeofT env (h_size h) a dev = (ok1, a1, dev1)"
    by (cases "resize sizeofT env (h_size h) a dev") auto
  have "emptyBlocks dev1"
    using resize_emptyBlocks [OF assms(1) r] .
  then show ?thesis
    using assms r by (auto simp: copyFromHost_def dest: memcpy2D_length intro: storeBlock_emptyBlocks split: if_splits option.splits)
qed

lemma copyFromArray_emptyBlocks:
  "emptyBlocks dev \<Longrightarrow> copyFromArray sizeofT arr a dev = (ok, dev') \<Longrightarrow> emptyBlocks dev'"
  by (auto simp: copyFromArray_def dest: memcpy2D_length intro: storeBlock_emptyBlocks split: option.splits)

lemma foldl_keep [simp]: "foldl (\<lambda>bs r. bs) bs rs = bs"
  by (induction rs) simp_all

lemma clear_emptyBlocks:
  assumes "emptyBlocks dev" and "clear sizeofT a dev = Some dev'"
  shows "emptyBlocks dev'"
proof -
  obtain bs where b: "blockOf dev a = Some bs"
    using assms(2) by (auto simp: clear_def split: option.splits)
  have "bs = []"
    using assms(1) b by (auto simp: emptyBlocks_def blockOf_def split: option.splits)
  then show ?thesis
    using assms b by (auto simp: clear_def Let_def inBlock_def intro: storeBlock_emptyBlocks split: if_splits)
qed

text \<open>C12 (no element is ever stored). In every run of the
  DeviceArray2D operations from no allocation, every allocated block is empty, so for
  any element type get() fails on every element of every object: no run of the class
  can store data on the device.\<close>

theorem daReach_nothing_stored:
  assumes "daReach sizeofT S"
  shows "emptyBlocks (device S) \<and> (0 < sizeofT \<longrightarrow> (\<forall>i xy. getD sizeofT (objs S i) xy (device S) = None))"
proof -
  have e: "emptyBlocks (device S)"
    using assms
  proof (induction rule: daReach.induct)
    case da_init
    then show ?case by (simp add: emptyBlocks_def initialSystem_def)
  next
    case (da_construct S i env sz a dev')
    then show ?case by (auto simp: construct_def intro: resize_emptyBlocks split: prod.splits)
  next
    case (da_copyConstruct S i j env a dev')
    then show ?case by (auto simp: copyConstruct_def intro: copyFromDevice_emptyBlocks split: prod.splits)
  next
    case (da_copyAssign S env i j a dev')
    then show ?case by (auto simp: copyAssign_def intro: copyFromDevice_emptyBlocks split: prod.splits if_splits)
  next
    case (da_moveAssign S i j a src' dev')
    then show ?case by (auto simp: moveAssign_def intro: destroy_emptyBlocks split: prod.splits if_splits)
  next
    case (da_fill S env v i a dev')
    then show ?case by (auto simp: fill_def intro: copyFromHost_emptyBlocks split: prod.splits)
  next
    case (da_set S i xy v dev')
    then obtain b off bs where blk: "dev_blocks (device S) b = Some bs"
      and ok: "nat off + sizeofT \<le> length bs" "length v = sizeofT"
      and d: "dev' = (device S)\<lparr>dev_blocks := (dev_blocks (device S))(b \<mapsto> take (nat off) bs @ v @ drop (nat off + sizeofT) bs)\<rparr>"
      by (auto simp: setD_def split: option.splits if_splits)
    then show ?case
      using store_emptyBlocks [OF da_set.IH blk] by simp
  qed (auto intro: resize_emptyBlocks destroy_emptyBlocks copyFromHost_emptyBlocks
                   clear_emptyBlocks copyFromArray_emptyBlocks)
  have "getD sizeofT (objs S i) xy (device S) = None" if "0 < sizeofT" for i xy
    using emptyBlocksD [OF e] that by (fastforce simp: getD_def split: option.splits)
  then show ?thesis
    using e by simp
qed

end
