(* ===== verification/Geometry2D.thy ===== *)
theory Geometry2D
  imports Matrix3f
begin

text \<open>
  The planar routines of src/core/src/geometry/GeometryUtils.cpp: triangle bounding
  boxes and centroids, the edge tests and the two rasterisers \<open>pixelsInTriangle\<close> and
  \<open>pixelsInTriangleConservative\<close>, the inside test \<open>pointInTriangle\<close>, barycentric
  coordinates, closest points on segments and triangles, ray/ray and line/segment
  intersection, and the sampling of segments. Out-parameters are explicit: a routine
  takes their previous value and returns the new one, unchanged on the paths that do
  not write them. \<open>Rect2f\<close>, \<open>Rect2i\<close>, \<open>Matrix2f::inverse\<close> and \<open>for2D\<close> (whose
  bodies are not in this repository) are modelled from their declarations: a
  rectangle is an origin and a size, \<open>enlargedToInt\<close> rounds the corners outwards,
  \<open>for2D\<close> visits a rectangle row by row. \<open>float\<close> division is real division; at a
  zero divisor IEEE gives an infinity or NaN where the model gives 0, so the lemmas
  assume the divisors of the paths they speak of non-zero.
\<close>

text \<open>\<open>GeometryUtils::EPSILON = 0.0001f\<close>.\<close>

definition geomEpsilon :: real where
  "geomEpsilon = 1 / 10000"

record Rect2f =
  r_origin :: Vector2f
  r_size :: Vector2f

record Rect2i =
  ri_origin :: "int \<times> int"
  ri_size :: "int \<times> int"

subsection \<open>Bounding box, centroid, edge tests\<close>

definition triangleBoundingBox :: "Vector2f \<Rightarrow> Vector2f \<Rightarrow> Vector2f \<Rightarrow> Rect2f" where
  "triangleBoundingBox v0 v1 v2 =
     (let minX = min (min (v2x v0) (v2x v1)) (v2x v2);
          minY = min (min (v2y v0) (v2y v1)) (v2y v2);
          maxX = max (max (v2x v0) (v2x v1)) (v2x v2);
          maxY = max (max (v2y v0) (v2y v1)) (v2y v2)
      in \<lparr>r_origin = \<lparr>v2x = minX, v2y = minY\<rparr>, r_size = \<lparr>v2x = maxX - minX, v2y = maxY - minY\<rparr>\<rparr>)"

definition triangleCentroid :: "Vector2f \<Rightarrow> Vector2f \<Rightarrow> Vector2f \<Rightarrow> Vector2f" where
  "triangleCentroid v0 v1 v2 = div2 (add2 (add2 v0 v1) v2) 3"

definition edgeTest :: "Vector2f \<Rightarrow> Vector2f \<Rightarrow> Vector2f \<Rightarrow> real" where
  "edgeTest edgeNormal edgeOrigin point = dot2 edgeNormal (sub2 point edgeOrigin)"

definition edgeTestConservative :: "Vector2f \<Rightarrow> Vector2f \<Rightarrow> Vector2f \<Rightarrow> real" where
  "edgeTestConservative edgeNormal edgeOrigin point =
     (let tx = (if 0 \<le> v2x edgeNormal then 1 / 2 else - 1 / 2);
          ty = (if 0 \<le> v2y edgeNormal then 1 / 2 else - 1 / 2);
          offset = \<lparr>v2x = tx, v2y = ty\<rparr>
      in dot2 edgeNormal point + edgeTest edgeNormal edgeOrigin offset)"

subsection \<open>Inside test and barycentric coordinates\<close>

definition pointsOnSameSide :: "Vector2f \<Rightarrow> Vector2f \<Rightarrow> Vector2f \<Rightarrow> Vector2f \<Rightarrow> bool" where
  "pointsOnSameSide p0 p1 v0 v1 =
     (let edge = sub2 v1 v0; d0 = sub2 p0 v0; d1 = sub2 p1 v0;
          crossProduct0 = cross2 edge d0; crossProduct1 = cross2 edge d1
      in 0 \<le> dot3 crossProduct0 crossProduct1)"

definition pointInTriangle :: "Vector2f \<Rightarrow> Vector2f \<Rightarrow> Vector2f \<Rightarrow> Vector2f \<Rightarrow> bool" where
  "pointInTriangle point v0 v1 v2 =
     (let edge0 = pointsOnSameSide point v0 v1 v2;
          edge1 = pointsOnSameSide point v1 v2 v0;
          edge2 = pointsOnSameSide point v2 v0 v1
      in edge0 \<and> edge1 \<and> edge2)"

text \<open>\<open>Matrix2f( m00, m01, m10, m11 )\<close> (arguments row by row, storage column-major),
  \<open>Matrix2f::inverse( isSingular, epsilon )\<close> as \<open>Matrix3f::inverse\<close> does it (the
  zero matrix when \<open>|det| < epsilon\<close>, else the adjugate over the determinant), and
  \<open>Matrix2f * Vector2f\<close>. The default \<open>epsilon\<close> is in \<open>Matrix2f.h\<close>, not in this
  repository: it is the parameter \<open>eps\<close> of the routines that use the default.\<close>

definition mk2 :: "real \<Rightarrow> real \<Rightarrow> real \<Rightarrow> real \<Rightarrow> Matrix2f" where
  "mk2 m00 m01 m10 m11 = [m00, m10, m01, m11]"

definition inverse2 :: "Matrix2f \<Rightarrow> real \<Rightarrow> Matrix2f \<times> bool" where
  "inverse2 m epsilon =
     (let det = determinant2x2 (elem2 m 0 0) (elem2 m 0 1) (elem2 m 1 0) (elem2 m 1 1)
      in if \<bar>det\<bar> < epsilon then (mk2 0 0 0 0, True)
         else (mk2 (elem2 m 1 1 / det) (- elem2 m 0 1 / det) (- elem2 m 1 0 / det) (elem2 m 0 0 / det), False))"

definition mulVec2 :: "Matrix2f \<Rightarrow> Vector2f \<Rightarrow> Vector2f" where
  "mulVec2 m v =
     \<lparr>v2x = elem2 m 0 0 * v2x v + elem2 m 0 1 * v2y v, v2y = elem2 m 1 0 * v2x v + elem2 m 1 1 * v2y v\<rparr>"

text \<open>\<open>euclideanToBarycentric\<close>: solve the 2 x 2 system for \<open>l0\<close>, \<open>l1\<close>; the \<open>assert\<close>
  on singularity is compiled out of release builds and is not modelled.\<close>

definition euclideanToBarycentric :: "real \<Rightarrow> Vector2f \<Rightarrow> Vector2f \<Rightarrow> Vector2f \<Rightarrow> Vector2f \<Rightarrow> Vector3f" where
  "euclideanToBarycentric eps p v0 v1 v2 =
     (let a = mk2 (v2x v0 - v2x v2) (v2x v1 - v2x v2) (v2y v0 - v2y v2) (v2y v1 - v2y v2);
          b = \<lparr>v2x = v2x p - v2x v2, v2y = v2y p - v2y v2\<rparr>;
          (ai, bSingular) = inverse2 a eps;
          l0l1 = mulVec2 ai b
      in \<lparr>v3x = v2x l0l1, v3y = v2y l0l1, v3z = 1 - v2x l0l1 - v2y l0l1\<rparr>)"

definition barycentricToEuclidean2 :: "Vector3f \<Rightarrow> Vector2f \<Rightarrow> Vector2f \<Rightarrow> Vector2f \<Rightarrow> Vector2f" where
  "barycentricToEuclidean2 b v0 v1 v2 = add2 (add2 (scale2 (v3x b) v0) (scale2 (v3y b) v1)) (scale2 (v3z b) v2)"

subsection \<open>Rasterisation\<close>

text \<open>\<open>Rect2f::enlargedToInt()\<close>: the smallest integer rectangle containing the
  rectangle; \<open>for2D( first, count, f )\<close>: the points of the integer rectangle, row by
  row; \<open>xy + 0.5f\<close>: the centre of pixel \<open>xy\<close>.\<close>

definition enlargedToInt :: "Rect2f \<Rightarrow> Rect2i" where
  "enlargedToInt r =
     (let x0 = \<lfloor>v2x (r_origin r)\<rfloor>; y0 = \<lfloor>v2y (r_origin r)\<rfloor>;
          x1 = \<lceil>v2x (r_origin r) + v2x (r_size r)\<rceil>; y1 = \<lceil>v2y (r_origin r) + v2y (r_size r)\<rceil>
      in \<lparr>ri_origin = (x0, y0), ri_size = (x1 - x0, y1 - y0)\<rparr>)"

definition for2DPoints :: "Rect2i \<Rightarrow> (int \<times> int) list" where
  "for2DPoints r =
     (let (x0, y0) = ri_origin r; (w, h) = ri_size r
      in concat (map (\<lambda>y. map (\<lambda>x. (x, y)) [x0..x0 + w - 1]) [y0..y0 + h - 1]))"

definition pixelCenter :: "int \<times> int \<Rightarrow> Vector2f" where
  "pixelCenter xy = \<lparr>v2x = of_int (fst xy) + 1 / 2, v2y = of_int (snd xy) + 1 / 2\<rparr>"

definition pixelsInTriangle :: "Vector2f \<Rightarrow> Vector2f \<Rightarrow> Vector2f \<Rightarrow> Vector2f list" where
  "pixelsInTriangle v0 v1 v2 =
     (let bbox = enlargedToInt (triangleBoundingBox v0 v1 v2)
      in filter (\<lambda>p. pointInTriangle p v0 v1 v2) (map pixelCenter (for2DPoints bbox)))"

definition pixelsInTriangleConservative :: "Vector2f \<Rightarrow> Vector2f \<Rightarrow> Vector2f \<Rightarrow> Vector2f list" where
  "pixelsInTriangleConservative v0 v1 v2 =
     (let edge01 = sub2 v1 v0; edge12 = sub2 v2 v1; edge20 = sub2 v0 v2;
          normal01 = normal2 edge01; normal12 = normal2 edge12; normal20 = normal2 edge20;
          bbox = enlargedToInt (triangleBoundingBox v0 v1 v2)
      in filter (\<lambda>p. 0 < edgeTestConservative normal01 v0 p \<and> 0 < edgeTestConservative normal12 v1 p \<and>
                      0 < edgeTestConservative normal20 v2 p)
           (map pixelCenter (for2DPoints bbox)))"

subsection \<open>Closest points\<close>

definition closestPointOnSegment2 :: "Vector2f \<Rightarrow> Vector2f \<Rightarrow> Vector2f \<Rightarrow> Vector2f" where
  "closestPointOnSegment2 p v0 v1 =
     (let v01 = sub2 v1 v0; d = dot2 v01 (sub2 p v0); t = d / normSquared2 v01;
          t = (if t < 0 then 0 else if t > 1 then 1 else t)
      in add2 v0 (scale2 t v01))"

definition closestPointOnTriangle :: "Vector2f \<Rightarrow> Vector2f \<Rightarrow> Vector2f \<Rightarrow> Vector2f \<Rightarrow> Vector2f" where
  "closestPointOnTriangle p v0 v1 v2 =
     (let closest0 = closestPointOnSegment2 p v0 v1;
          closest1 = closestPointOnSegment2 p v1 v2;
          closest2 = closestPointOnSegment2 p v2 v0;
          d0Squared = normSquared2 (sub2 closest0 p);
          d1Squared = normSquared2 (sub2 closest1 p);
          d2Squared = normSquared2 (sub2 closest2 p)
      in if d0Squared < d1Squared then (if d0Squared < d2Squared then closest0 else closest2)
         else (if d2Squared < d1Squared then closest2 else closest1))"

subsection \<open>Intersections\<close>

text \<open>\<open>rayRayIntersection\<close> and \<open>lineLineSegmentIntersection\<close>: the result and the new
  value of \<open>outIntersection\<close>.\<close>

definition rayRayIntersection :: "Vector2f \<Rightarrow> Vector2f \<Rightarrow> Vector2f \<Rightarrow> Vector2f \<Rightarrow> Vector2f \<Rightarrow> bool \<times> Vector2f" where
  "rayRayIntersection p1 dir1 p2 dir2 outIntersection =
     (let dir90 = \<lparr>v2x = - v2y dir1, v2y = v2x dir1\<rparr>; dirCross = dot2 dir2 dir90
      in if \<bar>dirCross\<bar> < geomEpsilon then (False, outIntersection)
         else (let param = dot2 (sub2 p1 p2) dir90 / dirCross
               in if param < 0 then (False, outIntersection)
                  else (let out = add2 p2 (scale2 param dir2) in (0 \<le> dot2 (sub2 out p1) dir1, out))))"

definition lineLineSegmentIntersection :: "Vector2f \<Rightarrow> Vector2f \<Rightarrow> Vector2f \<Rightarrow> Vector2f \<Rightarrow> Vector2f \<Rightarrow> bool \<times> Vector2f" where
  "lineLineSegmentIntersection p dir p1 p2 outIntersection =
     (let segDir = sub2 p2 p1; segDirLen = norm2 segDir
      in if segDirLen < geomEpsilon then (False, outIntersection)
         else (let segDir = div2 segDir segDirLen;
                   dir90 = \<lparr>v2x = - v2y dir, v2y = v2x dir\<rparr>;
                   dirCross = dot2 segDir dir90
               in if \<bar>dirCross\<bar> < geomEpsilon then (False, outIntersection)
                  else (let param = dot2 (sub2 p p1) dir90 / dirCross
                        in if param < 0 \<or> param > segDirLen then (False, outIntersection)
                           else (True, add2 p1 (scale2 param segDir)))))"

subsection \<open>Sampling\<close>

text \<open>\<open>uniformSampleLineSegment\<close>: \<open>std::vector( nSamples )\<close> throws on a negative
  count (\<open>None\<close>); then sample \<open>i\<close> is \<open>p0 + i * sampleSpacing * unit\<close>.\<close>

definition uniformSampleLineSegment2 :: "Vector2f \<Rightarrow> Vector2f \<Rightarrow> int \<Rightarrow> Vector2f list option" where
  "uniformSampleLineSegment2 p0 p1 nSamples =
     (if nSamples < 0 then None else
      (let unit = normalized2 (sub2 p1 p0);
           sampleSpacing = norm2 (sub2 p1 p0) / of_int (nSamples - 1)
       in Some (map (\<lambda>i. add2 p0 (scale2 (of_nat i * sampleSpacing) unit)) [0..<nat nSamples])))"

text \<open>\<open>uniformSampleBoxAroundLineSegment\<close>: a vector of \<open>nSamplesWidth * nSamplesLength\<close>
  zero vectors, entry \<open>w * nSamplesLength + l\<close> written by the two loops.\<close>

definition uniformSampleBoxAroundLineSegment ::
    "Vector2f \<Rightarrow> Vector2f \<Rightarrow> real \<Rightarrow> int \<Rightarrow> int \<Rightarrow> Vector2f list option" where
  "uniformSampleBoxAroundLineSegment p0 p1 width nSamplesWidth nSamplesLength =
     (if nSamplesWidth * nSamplesLength < 0 then None else
      (let unitLength = normalized2 (sub2 p1 p0);
           unitWidth = normalized2 (normal2 unitLength);
           sampleSpacingW = width / of_int (nSamplesWidth - 1);
           sampleSpacingL = norm2 (sub2 p1 p0) / of_int (nSamplesLength - 1);
           origin = sub2 p0 (scale2 (1 / 2 * width) unitWidth);
           samples0 = replicate (nat (nSamplesWidth * nSamplesLength)) \<lparr>v2x = 0, v2y = 0\<rparr>
       in Some (foldl (\<lambda>samples w. foldl (\<lambda>samples l.
                   samples[nat (w * nSamplesLength + l) :=
                     add2 (add2 origin (scale2 (of_int w * sampleSpacingW) unitWidth)) (scale2 (of_int l * sampleSpacingL) unitLength)])
                 samples [0..nSamplesLength - 1]) samples0 [0..nSamplesWidth - 1])))"

text \<open>The signed double area of the triangle \<open>a b c\<close>, positive when it turns
  counter-clockwise; the inside test and the barycentric coordinates are its ratios.\<close>

definition orient2 :: "Vector2f \<Rightarrow> Vector2f \<Rightarrow> Vector2f \<Rightarrow> real" where
  "orient2 a b c = (v2x b - v2x a) * (v2y c - v2y a) - (v2y b - v2y a) * (v2x c - v2x a)"

subsection \<open>Orientation, the inside test and barycentric coordinates\<close>

lemma pointsOnSameSide_orient:
  "pointsOnSameSide p0 p1 v0 v1 \<longleftrightarrow> 0 \<le> orient2 v0 v1 p0 * orient2 v0 v1 p1"
  by (simp add: pointsOnSameSide_def orient2_def vec_defs)

lemma orient2_rotate: "orient2 v1 v2 v0 = orient2 v0 v1 v2" "orient2 v2 v0 v1 = orient2 v0 v1 v2"
  by (simp_all add: orient2_def algebra_simps)

lemma orient2_sum: "orient2 v1 v2 p + orient2 v2 v0 p + orient2 v0 v1 p = orient2 v0 v1 v2"
  by (simp add: orient2_def algebra_simps)

lemma orient2_combination:
  "orient2 v1 v2 p * v2x v0 + orient2 v2 v0 p * v2x v1 + orient2 v0 v1 p * v2x v2 = orient2 v0 v1 v2 * v2x p"
  "orient2 v1 v2 p * v2y v0 + orient2 v2 v0 p * v2y v1 + orient2 v0 v1 p * v2y v2 = orient2 v0 v1 v2 * v2y p"
  by (simp_all add: orient2_def algebra_simps)

lemma pointInTriangle_orient:
  "pointInTriangle p v0 v1 v2 \<longleftrightarrow>
     0 \<le> orient2 v1 v2 p * orient2 v0 v1 v2 \<and> 0 \<le> orient2 v2 v0 p * orient2 v0 v1 v2 \<and>
     0 \<le> orient2 v0 v1 p * orient2 v0 v1 v2"
  by (simp add: pointInTriangle_def pointsOnSameSide_orient orient2_rotate)

lemma divide_combination:
  "a / A * x + - b / A * y = (a * x - b * y) / (A :: real)"
  "- a / A * x + b / A * y = (b * y - a * x) / (A :: real)"
  by (simp_all add: diff_divide_distrib)

lemma inverse2_mk2:
  assumes "\<not> \<bar>a * d - b * c\<bar> < eps"
  shows "inverse2 (mk2 a b c d) eps =
    (mk2 (d / (a * d - b * c)) (- b / (a * d - b * c)) (- c / (a * d - b * c)) (a / (a * d - b * c)), False)"
  using assms by (simp add: inverse2_def mk2_def elem2_def determinant2x2_def Let_def)

lemma mulVec2_mk2: "mulVec2 (mk2 a b c d) v = \<lparr>v2x = a * v2x v + b * v2y v, v2y = c * v2x v + d * v2y v\<rparr>"
  by (simp add: mulVec2_def mk2_def elem2_def)

lemma euclideanToBarycentric_orient:
  assumes "eps \<le> \<bar>orient2 v0 v1 v2\<bar>" and "orient2 v0 v1 v2 \<noteq> 0"
  shows "euclideanToBarycentric eps p v0 v1 v2 =
    \<lparr>v3x = orient2 v1 v2 p / orient2 v0 v1 v2, v3y = orient2 v2 v0 p / orient2 v0 v1 v2,
     v3z = orient2 v0 v1 p / orient2 v0 v1 v2\<rparr>"
proof -
  let ?A = "orient2 v0 v1 v2"
  have D: "(v2x v0 - v2x v2) * (v2y v1 - v2y v2) - (v2x v1 - v2x v2) * (v2y v0 - v2y v2) = ?A"
    by (simp add: orient2_def algebra_simps)
  have inv: "inverse2 (mk2 (v2x v0 - v2x v2) (v2x v1 - v2x v2) (v2y v0 - v2y v2) (v2y v1 - v2y v2)) eps =
    (mk2 ((v2y v1 - v2y v2) / ?A) (- (v2x v1 - v2x v2) / ?A) (- (v2y v0 - v2y v2) / ?A) ((v2x v0 - v2x v2) / ?A), False)"
    using inverse2_mk2 [of "v2x v0 - v2x v2" "v2y v1 - v2y v2" "v2x v1 - v2x v2" "v2y v0 - v2y v2" eps] assms(1)
    unfolding D by simp
  have n0: "(v2y v1 - v2y v2) / ?A * (v2x p - v2x v2) + - (v2x v1 - v2x v2) / ?A * (v2y p - v2y v2) = orient2 v1 v2 p / ?A"
    unfolding divide_combination by (simp add: orient2_def algebra_simps)
  have n1: "- (v2y v0 - v2y v2) / ?A * (v2x p - v2x v2) + (v2x v0 - v2x v2) / ?A * (v2y p - v2y v2) = orient2 v2 v0 p / ?A"
    unfolding divide_combination by (simp add: orient2_def algebra_simps)
  have s: "1 - orient2 v1 v2 p / ?A - orient2 v2 v0 p / ?A = orient2 v0 v1 p / ?A"
  proof -
    have s: "orient2 v0 v1 p = ?A - orient2 v1 v2 p - orient2 v2 v0 p"
      using orient2_sum [of v1 v2 p v0] by linarith
    show ?thesis
      using assms(2) by (simp add: s diff_divide_distrib)
  qed
  show ?thesis
    unfolding euclideanToBarycentric_def Let_def inv prod.case mulVec2_mk2 Vector2f.select_convs n0 n1 s
    by (rule refl)
qed


lemma zero_le_mult_iff_divide: "0 \<le> x * A \<longleftrightarrow> 0 \<le> x / (A :: real)"
  by (simp add: zero_le_mult_iff zero_le_divide_iff)

text \<open>
  C31 (inside test). For a triangle whose doubled signed area is
  non-zero and at least \<open>eps\<close> in magnitude, \<open>pointInTriangle\<close> (three same-side tests of
  cross products) holds exactly when the three barycentric coordinates that
  \<open>euclideanToBarycentric\<close> computes are non-negative.
\<close>

theorem pointInTriangle_barycentric:
  assumes "eps \<le> \<bar>orient2 v0 v1 v2\<bar>" and "orient2 v0 v1 v2 \<noteq> 0"
  shows "pointInTriangle p v0 v1 v2 \<longleftrightarrow>
    0 \<le> v3x (euclideanToBarycentric eps p v0 v1 v2) \<and> 0 \<le> v3y (euclideanToBarycentric eps p v0 v1 v2) \<and>
    0 \<le> v3z (euclideanToBarycentric eps p v0 v1 v2)"
  by (simp add: euclideanToBarycentric_orient [OF assms] pointInTriangle_orient zero_le_mult_iff_divide)

lemma barycentricToEuclidean2_orient:
  assumes "orient2 v0 v1 v2 \<noteq> 0"
  shows "barycentricToEuclidean2
     \<lparr>v3x = orient2 v1 v2 p / orient2 v0 v1 v2, v3y = orient2 v2 v0 p / orient2 v0 v1 v2,
      v3z = orient2 v0 v1 p / orient2 v0 v1 v2\<rparr> v0 v1 v2 = p"
proof (rule Vector2f_eqI)
  let ?A = "orient2 v0 v1 v2"
  show "v2x (barycentricToEuclidean2 \<lparr>v3x = orient2 v1 v2 p / ?A, v3y = orient2 v2 v0 p / ?A,
      v3z = orient2 v0 v1 p / ?A\<rparr> v0 v1 v2) = v2x p"
    using orient2_combination(1) [of v1 v2 p v0] assms
    by (simp add: barycentricToEuclidean2_def vec_defs add_divide_distrib [symmetric] times_divide_eq_left
        nonzero_eq_divide_eq mult.commute)
  show "v2y (barycentricToEuclidean2 \<lparr>v3x = orient2 v1 v2 p / ?A, v3y = orient2 v2 v0 p / ?A,
      v3z = orient2 v0 v1 p / ?A\<rparr> v0 v1 v2) = v2y p"
    using orient2_combination(2) [of v1 v2 p v0] assms
    by (simp add: barycentricToEuclidean2_def vec_defs add_divide_distrib [symmetric] times_divide_eq_left
        nonzero_eq_divide_eq mult.commute)
qed

theorem barycentric_roundtrip:
  assumes "eps \<le> \<bar>orient2 v0 v1 v2\<bar>" and "orient2 v0 v1 v2 \<noteq> 0"
  shows "barycentricToEuclidean2 (euclideanToBarycentric eps p v0 v1 v2) v0 v1 v2 = p"
  unfolding euclideanToBarycentric_orient [OF assms] using assms(2) by (rule barycentricToEuclidean2_orient)

lemma orient2_barycentricToEuclidean2:
  assumes "v3x b + v3y b + v3z b = 1"
  shows "orient2 v1 v2 (barycentricToEuclidean2 b v0 v1 v2) = v3x b * orient2 v0 v1 v2"
    "orient2 v2 v0 (barycentricToEuclidean2 b v0 v1 v2) = v3y b * orient2 v0 v1 v2"
    "orient2 v0 v1 (barycentricToEuclidean2 b v0 v1 v2) = v3z b * orient2 v0 v1 v2"
proof -
  have z: "v3z b = 1 - v3x b - v3y b"
    using assms by linarith
  show "orient2 v1 v2 (barycentricToEuclidean2 b v0 v1 v2) = v3x b * orient2 v0 v1 v2"
    "orient2 v2 v0 (barycentricToEuclidean2 b v0 v1 v2) = v3y b * orient2 v0 v1 v2"
    "orient2 v0 v1 (barycentricToEuclidean2 b v0 v1 v2) = v3z b * orient2 v0 v1 v2"
    by (simp_all add: z orient2_def barycentricToEuclidean2_def vec_defs algebra_simps)
qed

text \<open>
  (barycentric round trip). For such a triangle and
  coordinates summing to 1, \<open>euclideanToBarycentric\<close> of the point
  \<open>barycentricToEuclidean\<close> gives back the coordinates.
\<close>

theorem euclideanToBarycentric_roundtrip:
  assumes "eps \<le> \<bar>orient2 v0 v1 v2\<bar>" and "orient2 v0 v1 v2 \<noteq> 0" and "v3x b + v3y b + v3z b = 1"
  shows "euclideanToBarycentric eps (barycentricToEuclidean2 b v0 v1 v2) v0 v1 v2 = b"
  using assms(2) by (simp add: euclideanToBarycentric_orient [OF assms(1,2)] orient2_barycentricToEuclidean2 [OF assms(3)])

theorem pointInTriangle_degenerate:
  assumes "orient2 v0 v1 v2 = 0"
  shows "pointInTriangle p v0 v1 v2"
  using assms by (simp add: pointInTriangle_orient)


lemma convex3_bounds:
  fixes a b c x y z :: real
  assumes "0 \<le> a" "0 \<le> b" "0 \<le> c" "a + b + c = 1"
  shows "min (min x y) z \<le> a * x + b * y + c * z \<and> a * x + b * y + c * z \<le> max (max x y) z"
proof -
  let ?m = "min (min x y) z" and ?M = "max (max x y) z"
  have "a * ?m \<le> a * x" "b * ?m \<le> b * y" "c * ?m \<le> c * z"
    using assms by (simp_all add: mult_left_mono)
  moreover have "a * x \<le> a * ?M" "b * y \<le> b * ?M" "c * z \<le> c * ?M"
    using assms by (simp_all add: mult_left_mono)
  moreover have "a * ?m + b * ?m + c * ?m = ?m" "a * ?M + b * ?M + c * ?M = ?M"
    using assms(4) by (simp_all add: distrib_right [symmetric])
  ultimately show ?thesis
    by linarith
qed

lemma pointInTriangle_convex:
  assumes "pointInTriangle p v0 v1 v2" and "orient2 v0 v1 v2 \<noteq> 0"
  shows "\<exists>a b c. 0 \<le> a \<and> 0 \<le> b \<and> 0 \<le> c \<and> a + b + c = 1 \<and>
           v2x p = a * v2x v0 + b * v2x v1 + c * v2x v2 \<and> v2y p = a * v2y v0 + b * v2y v1 + c * v2y v2"
proof -
  let ?A = "orient2 v0 v1 v2"
  let ?a = "orient2 v1 v2 p / ?A" and ?b = "orient2 v2 v0 p / ?A" and ?c = "orient2 v0 v1 p / ?A"
  have nn: "0 \<le> ?a" "0 \<le> ?b" "0 \<le> ?c"
    using assms(1) by (simp_all add: pointInTriangle_orient zero_le_mult_iff_divide)
  have "?a + ?b + ?c = 1"
    using assms(2) orient2_sum [of v1 v2 p v0] by (simp add: add_divide_distrib [symmetric])
  moreover have "v2x p = ?a * v2x v0 + ?b * v2x v1 + ?c * v2x v2" "v2y p = ?a * v2y v0 + ?b * v2y v1 + ?c * v2y v2"
    using arg_cong [OF barycentricToEuclidean2_orient [OF assms(2), of p], of v2x]
      arg_cong [OF barycentricToEuclidean2_orient [OF assms(2), of p], of v2y]
    by (simp_all add: barycentricToEuclidean2_def vec_defs)
  ultimately show ?thesis
    using nn by blast
qed


lemma for2DPoints_mem:
  "(x, y) \<in> set (for2DPoints r) \<longleftrightarrow>
     fst (ri_origin r) \<le> x \<and> x \<le> fst (ri_origin r) + fst (ri_size r) - 1 \<and>
     snd (ri_origin r) \<le> y \<and> y \<le> snd (ri_origin r) + snd (ri_size r) - 1"
  by (cases "ri_origin r"; cases "ri_size r") (force simp: for2DPoints_def)

lemma pixel_in_enlarged:
  fixes lo hi :: real
  shows "lo \<le> of_int x + 1 / 2 \<Longrightarrow> of_int x + 1 / 2 \<le> hi \<Longrightarrow> \<lfloor>lo\<rfloor> \<le> x \<and> x \<le> \<lceil>hi\<rceil> - 1"
proof -
  assume lo: "lo \<le> of_int x + 1 / 2" and hi: "of_int x + 1 / 2 \<le> hi"
  have "\<lfloor>lo\<rfloor> \<le> x"
    using lo by (simp add: floor_le_iff)
  moreover have "x < \<lceil>hi\<rceil>"
    using hi by (simp add: less_ceiling_iff)
  ultimately show ?thesis
    by simp
qed

lemma pixelCenter_in_bbox:
  assumes "pointInTriangle (pixelCenter xy) v0 v1 v2" and "orient2 v0 v1 v2 \<noteq> 0"
  shows "xy \<in> set (for2DPoints (enlargedToInt (triangleBoundingBox v0 v1 v2)))"
proof -
  obtain x y where xy: "xy = (x, y)"
    by (cases xy)
  obtain a b c where abc: "0 \<le> a" "0 \<le> b" "0 \<le> c" "a + b + c = 1"
    and px: "of_int x + 1 / 2 = a * v2x v0 + b * v2x v1 + c * v2x v2"
    and py: "of_int y + 1 / 2 = a * v2y v0 + b * v2y v1 + c * v2y v2"
    using pointInTriangle_convex [OF assms] xy by (auto simp: pixelCenter_def)
  have "\<lfloor>min (min (v2x v0) (v2x v1)) (v2x v2)\<rfloor> \<le> x \<and> x \<le> \<lceil>max (max (v2x v0) (v2x v1)) (v2x v2)\<rceil> - 1"
    using convex3_bounds [OF abc, of "v2x v0" "v2x v1" "v2x v2"] px by (intro pixel_in_enlarged) simp_all
  moreover have "\<lfloor>min (min (v2y v0) (v2y v1)) (v2y v2)\<rfloor> \<le> y \<and> y \<le> \<lceil>max (max (v2y v0) (v2y v1)) (v2y v2)\<rceil> - 1"
    using convex3_bounds [OF abc, of "v2y v0" "v2y v1" "v2y v2"] py by (intro pixel_in_enlarged) simp_all
  ultimately show ?thesis
    by (simp add: xy for2DPoints_mem enlargedToInt_def triangleBoundingBox_def Let_def)
qed

text \<open>
  C32 (rasterisation). For a non-degenerate triangle, the points
  \<open>pixelsInTriangle\<close> returns are exactly the pixel centres \<open>xy + 0.5\<close> that
  \<open>pointInTriangle\<close> accepts: the enlarged integer bounding box loses none.
\<close>

theorem pixelsInTriangle_iff:
  assumes "orient2 v0 v1 v2 \<noteq> 0"
  shows "p \<in> set (pixelsInTriangle v0 v1 v2) \<longleftrightarrow> (\<exists>xy. p = pixelCenter xy) \<and> pointInTriangle p v0 v1 v2"
  using pixelCenter_in_bbox [OF _ assms] by (auto simp: pixelsInTriangle_def Let_def)


lemma half_sign_mult: "x * (if 0 \<le> x then 1 / 2 else - 1 / 2) = \<bar>x\<bar> / (2 :: real)"
  by simp

lemma edgeTestConservative_eq:
  "edgeTestConservative n a p = dot2 n (sub2 p a) + (\<bar>v2x n\<bar> + \<bar>v2y n\<bar>) / 2"
proof -
  have "edgeTestConservative n a p =
      dot2 n (sub2 p a) + v2x n * (if 0 \<le> v2x n then 1 / 2 else - 1 / 2) + v2y n * (if 0 \<le> v2y n then 1 / 2 else - 1 / 2)"
    by (simp add: edgeTestConservative_def edgeTest_def vec_defs Let_def algebra_simps)
  then show ?thesis
    unfolding half_sign_mult by simp
qed

lemma edgeTestConservative_normal:
  "edgeTestConservative (normal2 (sub2 b a)) a p =
     orient2 a b p + (\<bar>v2y b - v2y a\<bar> + \<bar>v2x b - v2x a\<bar>) / 2"
proof -
  have "dot2 (normal2 (sub2 b a)) (sub2 p a) = orient2 a b p"
    by (simp add: vec_defs orient2_def algebra_simps)
  then show ?thesis
    by (simp add: edgeTestConservative_eq vec_defs abs_minus_commute add.commute)
qed

lemma orient2_same: "orient2 a a c = 0" "orient2 a b a = 0" "orient2 a b b = 0"
  by (simp_all add: orient2_def)

lemma margin_pos:
  assumes "a \<noteq> (b :: Vector2f)"
  shows "0 < (\<bar>v2y b - v2y a\<bar> + \<bar>v2x b - v2x a\<bar>) / 2"
proof -
  have "v2x b - v2x a \<noteq> 0 \<or> v2y b - v2y a \<noteq> 0"
  proof (rule ccontr)
    assume "\<not> (v2x b - v2x a \<noteq> 0 \<or> v2y b - v2y a \<noteq> 0)"
    then have "a = b"
      by (intro Vector2f_eqI) simp_all
    with assms show False
      by simp
  qed
  then have "0 < \<bar>v2y b - v2y a\<bar> + \<bar>v2x b - v2x a\<bar>"
    by (metis abs_ge_zero add_nonneg_pos add_pos_nonneg zero_less_abs_iff)
  then show ?thesis
    by simp
qed

lemma pixelsInTriangle_filter: "pixelsInTriangle v0 v1 v2 = filter (\<lambda>p. pointInTriangle p v0 v1 v2) (map pixelCenter (for2DPoints (enlargedToInt (triangleBoundingBox v0 v1 v2))))"
  unfolding pixelsInTriangle_def Let_def by (rule refl)
lemma pixelsInTriangleConservative_filter: "pixelsInTriangleConservative v0 v1 v2 = filter (\<lambda>p. 0 < edgeTestConservative (normal2 (sub2 v1 v0)) v0 p \<and> 0 < edgeTestConservative (normal2 (sub2 v2 v1)) v1 p \<and>
        0 < edgeTestConservative (normal2 (sub2 v0 v2)) v2 p) (map pixelCenter (for2DPoints (enlargedToInt (triangleBoundingBox v0 v1 v2))))"
  unfolding pixelsInTriangleConservative_def Let_def by (rule refl)

lemma pixelsInTriangle_subset_conservative:
  assumes t: "\<And>p. pointInTriangle p v0 v1 v2 \<Longrightarrow> 0 < edgeTestConservative (normal2 (sub2 v1 v0)) v0 p \<and>
    0 < edgeTestConservative (normal2 (sub2 v2 v1)) v1 p \<and> 0 < edgeTestConservative (normal2 (sub2 v0 v2)) v2 p"
  shows "set (pixelsInTriangle v0 v1 v2) \<subseteq> set (pixelsInTriangleConservative v0 v1 v2)"
  unfolding pixelsInTriangle_filter pixelsInTriangleConservative_filter set_filter
  using t by (simp add: subset_iff del: set_map)

text \<open>
  For a counter-clockwise
  triangle, every pixel centre \<open>pixelsInTriangle\<close> returns is also returned by
  \<open>pixelsInTriangleConservative\<close>.
\<close>

theorem pixelsInTriangle_conservative:
  assumes "0 < orient2 v0 v1 v2"
  shows "set (pixelsInTriangle v0 v1 v2) \<subseteq> set (pixelsInTriangleConservative v0 v1 v2)"
proof -
  have d: "v0 \<noteq> v1" "v1 \<noteq> v2" "v2 \<noteq> v0"
    using assms by (auto simp: orient2_same)
  have t: "0 < edgeTestConservative (normal2 (sub2 v1 v0)) v0 p \<and> 0 < edgeTestConservative (normal2 (sub2 v2 v1)) v1 p \<and>
        0 < edgeTestConservative (normal2 (sub2 v0 v2)) v2 p"
    if "pointInTriangle p v0 v1 v2" for p
  proof -
    have "0 \<le> orient2 v1 v2 p" "0 \<le> orient2 v2 v0 p" "0 \<le> orient2 v0 v1 p"
      using that assms by (simp_all add: pointInTriangle_orient zero_le_mult_iff)
    then show ?thesis
      unfolding edgeTestConservative_normal
      using margin_pos [OF d(1)] margin_pos [OF d(2)] margin_pos [OF d(3)]
      by (intro conjI add_nonneg_pos) simp_all
  qed
  show ?thesis
    by (rule pixelsInTriangle_subset_conservative) (rule t)
qed


lemma normSquared2_segment_point:
  "normSquared2 (sub2 p (add2 v0 (scale2 s e))) =
     normSquared2 (sub2 p v0) + (s * s * normSquared2 e - 2 * s * dot2 e (sub2 p v0))"
  by (simp add: vec_defs algebra_simps)

lemma closestPointOnSegment2_clamp:
  "closestPointOnSegment2 p v0 v1 =
     add2 v0 (scale2 (clamp01 (dot2 (sub2 v1 v0) (sub2 p v0) / normSquared2 (sub2 v1 v0))) (sub2 v1 v0))"
  by (simp add: closestPointOnSegment2_def clamp01_def Let_def)

theorem closestPointOnSegment2_optimal:
  assumes "v0 \<noteq> (v1 :: Vector2f)"
  shows "(\<exists>t. 0 \<le> t \<and> t \<le> 1 \<and> closestPointOnSegment2 p v0 v1 = add2 v0 (scale2 t (sub2 v1 v0))) \<and>
         (\<forall>s. 0 \<le> s \<longrightarrow> s \<le> 1 \<longrightarrow>
            normSquared2 (sub2 p (closestPointOnSegment2 p v0 v1)) \<le> normSquared2 (sub2 p (add2 v0 (scale2 s (sub2 v1 v0)))))"
proof -
  let ?e = "sub2 v1 v0" and ?w = "sub2 p v0"
  have E: "0 < normSquared2 ?e"
  proof -
    have "\<not> (v2x v1 - v2x v0 = 0 \<and> v2y v1 - v2y v0 = 0)"
    proof
      assume "v2x v1 - v2x v0 = 0 \<and> v2y v1 - v2y v0 = 0"
      then have "v0 = v1"
        by (intro Vector2f_eqI) simp_all
      with assms show False
        by simp
    qed
    then have "normSquared2 ?e \<noteq> 0"
      by (simp add: sub2_def)
    then show ?thesis
      using normSquared2_nonneg [of ?e] by linarith
  qed
  let ?t = "clamp01 (dot2 ?e ?w / normSquared2 ?e)"
  show ?thesis
  proof (intro conjI allI impI)
    show "\<exists>t. 0 \<le> t \<and> t \<le> 1 \<and> closestPointOnSegment2 p v0 v1 = add2 v0 (scale2 t ?e)"
      using clamp01_bounds [of "dot2 ?e ?w / normSquared2 ?e"] unfolding closestPointOnSegment2_clamp by blast
  next
    fix s :: real
    assume "0 \<le> s" "s \<le> 1"
    then show "normSquared2 (sub2 p (closestPointOnSegment2 p v0 v1)) \<le> normSquared2 (sub2 p (add2 v0 (scale2 s ?e)))"
      unfolding closestPointOnSegment2_clamp normSquared2_segment_point
      using clamp01_quadratic_min [OF E, of s "dot2 ?e ?w"] by linarith
  qed
qed


lemma closestPointOnTriangle_cases:
  "let c = closestPointOnTriangle p v0 v1 v2 in
     (c = closestPointOnSegment2 p v0 v1 \<or> c = closestPointOnSegment2 p v1 v2 \<or> c = closestPointOnSegment2 p v2 v0) \<and>
     normSquared2 (sub2 p c) \<le> normSquared2 (sub2 p (closestPointOnSegment2 p v0 v1)) \<and>
     normSquared2 (sub2 p c) \<le> normSquared2 (sub2 p (closestPointOnSegment2 p v1 v2)) \<and>
     normSquared2 (sub2 p c) \<le> normSquared2 (sub2 p (closestPointOnSegment2 p v2 v0))"
  by (simp add: closestPointOnTriangle_def Let_def normSquared2_sub_commute [of p])

text \<open>The point \<open>closestPointOnSegment\<close> returns lies on the segment: its parameter is
  clamped to [0, 1].\<close>

lemma closestPointOnSegment2_on:
  "\<exists>t. 0 \<le> t \<and> t \<le> 1 \<and> closestPointOnSegment2 p v0 v1 = add2 v0 (scale2 t (sub2 v1 v0))"
  unfolding closestPointOnSegment2_def Let_def
  by (rule exI [of _ "let t = dot2 (sub2 v1 v0) (sub2 p v0) / normSquared2 (sub2 v1 v0)
                      in if t < 0 then 0 else if t > 1 then 1 else t"]) (simp add: Let_def)

text \<open>
  C33 (closest point). For a triangle with distinct vertices, the point
  \<open>closestPointOnTriangle\<close> returns lies on one of the three edges, and it is at
  least as close to \<open>p\<close> as every point of each of the three edges: it is a closest
  point of the triangle's boundary.
\<close>

theorem closestPointOnTriangle_optimal:
  assumes "v0 \<noteq> v1" and "v1 \<noteq> v2" and "v2 \<noteq> (v0 :: Vector2f)" and "0 \<le> s" and "s \<le> 1"
  shows "normSquared2 (sub2 p (closestPointOnTriangle p v0 v1 v2)) \<le> normSquared2 (sub2 p (add2 v0 (scale2 s (sub2 v1 v0)))) \<and>
         normSquared2 (sub2 p (closestPointOnTriangle p v0 v1 v2)) \<le> normSquared2 (sub2 p (add2 v1 (scale2 s (sub2 v2 v1)))) \<and>
         normSquared2 (sub2 p (closestPointOnTriangle p v0 v1 v2)) \<le> normSquared2 (sub2 p (add2 v2 (scale2 s (sub2 v0 v2)))) \<and>
         (\<exists>t. 0 \<le> t \<and> t \<le> 1 \<and>
            (closestPointOnTriangle p v0 v1 v2 = add2 v0 (scale2 t (sub2 v1 v0)) \<or>
             closestPointOnTriangle p v0 v1 v2 = add2 v1 (scale2 t (sub2 v2 v1)) \<or>
             closestPointOnTriangle p v0 v1 v2 = add2 v2 (scale2 t (sub2 v0 v2))))"
proof -
  have opt: "normSquared2 (sub2 p (closestPointOnTriangle p v0 v1 v2)) \<le> normSquared2 (sub2 p (add2 v0 (scale2 s (sub2 v1 v0)))) \<and>
         normSquared2 (sub2 p (closestPointOnTriangle p v0 v1 v2)) \<le> normSquared2 (sub2 p (add2 v1 (scale2 s (sub2 v2 v1)))) \<and>
         normSquared2 (sub2 p (closestPointOnTriangle p v0 v1 v2)) \<le> normSquared2 (sub2 p (add2 v2 (scale2 s (sub2 v0 v2))))"
    using closestPointOnTriangle_cases [of p v0 v1 v2]
      closestPointOnSegment2_optimal [OF assms(1), of p] closestPointOnSegment2_optimal [OF assms(2), of p]
      closestPointOnSegment2_optimal [OF assms(3), of p] assms(4,5)
    unfolding Let_def by (meson order_trans)
  obtain t0 t1 t2 where
    "0 \<le> t0 \<and> t0 \<le> 1 \<and> closestPointOnSegment2 p v0 v1 = add2 v0 (scale2 t0 (sub2 v1 v0))"
    "0 \<le> t1 \<and> t1 \<le> 1 \<and> closestPointOnSegment2 p v1 v2 = add2 v1 (scale2 t1 (sub2 v2 v1))"
    "0 \<le> t2 \<and> t2 \<le> 1 \<and> closestPointOnSegment2 p v2 v0 = add2 v2 (scale2 t2 (sub2 v0 v2))"
    using closestPointOnSegment2_on by metis
  then have "\<exists>t. 0 \<le> t \<and> t \<le> 1 \<and>
            (closestPointOnTriangle p v0 v1 v2 = add2 v0 (scale2 t (sub2 v1 v0)) \<or>
             closestPointOnTriangle p v0 v1 v2 = add2 v1 (scale2 t (sub2 v2 v1)) \<or>
             closestPointOnTriangle p v0 v1 v2 = add2 v2 (scale2 t (sub2 v0 v2)))"
    using closestPointOnTriangle_cases [of p v0 v1 v2] by metis
  with opt show ?thesis
    by blast
qed

lemma perp_decomp2:
  assumes "dot2 w (normal2 d) = 0" and "normSquared2 d \<noteq> 0"
  shows "w = scale2 (dot2 w d / normSquared2 d) d"
proof (rule Vector2f_eqI)
  have "normSquared2 d * v2x w = dot2 w d * v2x d" "normSquared2 d * v2y w = dot2 w d * v2y d"
    using assms(1) by (simp_all add: vec_defs algebra_simps)
  then show "v2x w = v2x (scale2 (dot2 w d / normSquared2 d) d)" "v2y w = v2y (scale2 (dot2 w d / normSquared2 d) d)"
    using assms(2) by (simp_all add: scale2_def field_simps)
qed


lemma geomEpsilon_pos: "0 < geomEpsilon"
  by (simp add: geomEpsilon_def)

theorem rayRayIntersection_sound:
  assumes "rayRayIntersection p1 dir1 p2 dir2 out = (True, x)"
  shows "(\<exists>a \<ge> 0. x = add2 p2 (scale2 a dir2)) \<and> (\<exists>b \<ge> 0. x = add2 p1 (scale2 b dir1))"
proof -
  let ?d90 = "normal2 dir1"
  let ?c = "dot2 dir2 ?d90"
  let ?param = "dot2 (sub2 p1 p2) ?d90 / ?c"
  have c: "\<not> \<bar>?c\<bar> < geomEpsilon" and par: "0 \<le> ?param" and x: "x = add2 p2 (scale2 ?param dir2)"
    and fwd: "0 \<le> dot2 (sub2 x p1) dir1"
    using assms by (auto simp: rayRayIntersection_def normal2_def Let_def split: if_splits)
  have c0: "?c \<noteq> 0"
    using c geomEpsilon_pos by auto
  have "normSquared2 dir1 \<noteq> 0"
    using c0 by (auto simp: vec_defs)
  moreover have "dot2 (sub2 x p1) ?d90 = 0"
    using c0 unfolding x by (simp add: vec_defs field_simps)
  ultimately have "sub2 x p1 = scale2 (dot2 (sub2 x p1) dir1 / normSquared2 dir1) dir1"
    by (intro perp_decomp2)
  then have "x = add2 p1 (scale2 (dot2 (sub2 x p1) dir1 / normSquared2 dir1) dir1)"
    by (simp add: vec_defs Vector2f.equality)
  moreover have "0 \<le> dot2 (sub2 x p1) dir1 / normSquared2 dir1"
    using fwd by simp
  ultimately show ?thesis
    using par x by blast
qed


lemma dot2_line_param:
  assumes "dot2 u n \<noteq> 0"
  shows "dot2 (sub2 (add2 p1 (scale2 (dot2 (sub2 p p1) n / dot2 u n) u)) p) n = 0"
proof -
  let ?c = "dot2 (sub2 p p1) n / dot2 u n"
  have "\<And>c. dot2 (sub2 (add2 p1 (scale2 c u)) p) n = - dot2 (sub2 p p1) n + c * dot2 u n"
    by (simp add: vec_defs algebra_simps)
  then have "dot2 (sub2 (add2 p1 (scale2 ?c u)) p) n = - dot2 (sub2 p p1) n + ?c * dot2 u n" .
  moreover have "?c * dot2 u n = dot2 (sub2 p p1) n"
    using assms by simp
  ultimately show ?thesis
    by simp
qed

theorem lineLineSegmentIntersection_sound:
  assumes "lineLineSegmentIntersection p dir p1 p2 out = (True, x)"
  shows "(\<exists>a. 0 \<le> a \<and> a \<le> 1 \<and> x = add2 p1 (scale2 a (sub2 p2 p1))) \<and> dot2 (sub2 x p) (normal2 dir) = 0"
proof -
  let ?len = "norm2 (sub2 p2 p1)"
  let ?u = "div2 (sub2 p2 p1) ?len"
  let ?c = "dot2 ?u (normal2 dir)"
  let ?param = "dot2 (sub2 p p1) (normal2 dir) / ?c"
  have len: "\<not> ?len < geomEpsilon" and c: "\<not> \<bar>?c\<bar> < geomEpsilon"
    and par: "0 \<le> ?param" "?param \<le> ?len" and x: "x = add2 p1 (scale2 ?param ?u)"
    using assms by (auto simp: lineLineSegmentIntersection_def normal2_def Let_def split: if_splits)
  have len0: "0 < ?len" and c0: "?c \<noteq> 0"
    using len c geomEpsilon_pos by auto
  have "x = add2 p1 (scale2 (?param / ?len) (sub2 p2 p1))"
    unfolding x by (simp add: vec_defs)
  moreover have "0 \<le> ?param / ?len \<and> ?param / ?len \<le> 1"
    using divide_nonneg_pos [OF par(1) len0] divide_le_eq_1_pos [OF len0] par(2) by blast
  moreover have "dot2 (sub2 x p) (normal2 dir) = 0"
    unfolding x using c0 by (rule dot2_line_param)
  ultimately show ?thesis
    by blast
qed

lemma uniformSampleLineSegment2_nth:
  assumes "2 \<le> nSamples" and "p0 \<noteq> (p1 :: Vector2f)"
  shows "uniformSampleLineSegment2 p0 p1 nSamples =
     Some (map (\<lambda>i. add2 p0 (scale2 (of_nat i / of_int (nSamples - 1)) (sub2 p1 p0))) [0..<nat nSamples])"
proof -
  have "normSquared2 (sub2 p1 p0) \<noteq> 0"
  proof
    assume "normSquared2 (sub2 p1 p0) = 0"
    then have "p0 = p1"
      by (intro Vector2f_eqI) (simp_all add: sub2_def)
    with assms(2) show False
      by simp
  qed
  then have n: "norm2 (sub2 p1 p0) \<noteq> 0"
    by (simp add: norm2_def)
  have "scale2 (of_nat i * (norm2 (sub2 p1 p0) / of_int (nSamples - 1))) (normalized2 (sub2 p1 p0)) =
        scale2 (of_nat i / of_int (nSamples - 1)) (sub2 p1 p0)" for i
    using n by (simp add: normalized2_def vec_defs)
  then show ?thesis
    using assms(1) by (simp add: uniformSampleLineSegment2_def Let_def)
qed

theorem uniformSampleLineSegment2_endpoints:
  assumes "2 \<le> nSamples" and "p0 \<noteq> (p1 :: Vector2f)"
  shows "\<exists>samples. uniformSampleLineSegment2 p0 p1 nSamples = Some samples \<and> length samples = nat nSamples \<and>
           hd samples = p0 \<and> last samples = p1 \<and>
           (\<forall>i. Suc i < length samples \<longrightarrow> sub2 (samples ! Suc i) (samples ! i) = div2 (sub2 p1 p0) (of_int (nSamples - 1)))"
proof -
  let ?f = "\<lambda>i. add2 p0 (scale2 (of_nat i / of_int (nSamples - 1)) (sub2 p1 p0))"
  let ?ss = "map ?f [0..<nat nSamples]"
  have n1: "of_int (nSamples - 1) \<noteq> (0 :: real)"
    using assms(1) by simp
  have len: "length ?ss = nat nSamples" and ne: "?ss \<noteq> []"
    using assms(1) by simp_all
  have "hd ?ss = p0"
    using assms(1) by (simp add: hd_map vec_defs upt_conv_Cons)
  moreover have "last ?ss = p1"
  proof -
    have "last ?ss = ?f (nat nSamples - 1)"
      using assms(1) by (simp add: last_map)
    moreover have "of_nat (nat nSamples - 1) = (of_int (nSamples - 1) :: real)"
      using assms(1) by (simp add: of_nat_diff)
    ultimately show ?thesis
      using n1 by (simp add: vec_defs)
  qed
  moreover have "sub2 (?ss ! Suc i) (?ss ! i) = div2 (sub2 p1 p0) (of_int (nSamples - 1))" if "Suc i < length ?ss" for i
  proof -
    have "?ss ! Suc i = ?f (Suc i)" "?ss ! i = ?f i"
      using that by (simp_all del: upt_Suc)
    moreover have "sub2 (?f (Suc i)) (?f i) = div2 (sub2 p1 p0) (of_int (nSamples - 1))"
      by (simp add: vec_defs divide_inverse algebra_simps)
    ultimately show ?thesis
      by simp
  qed
  ultimately show ?thesis
    using uniformSampleLineSegment2_nth [OF assms] len by blast
qed

end
