(* ===== verification/Matrix4f.thy ===== *)
theory Matrix4f
  imports Vector4f
begin

text \<open>
  The part of \<open>Matrix4f\<close> that the geometry and mesh code call (the class is not in
  this repository): sixteen real entries in column-major order like \<open>Matrix3f\<close>, the
  identity and zero matrices, translation and uniform scaling, the product with a
  matrix and with a vector, and the upper-left 3 x 3 block read and written.
\<close>

type_synonym Matrix4f = "real list"

definition elem4 :: "Matrix4f \<Rightarrow> nat \<Rightarrow> nat \<Rightarrow> real" where
  "elem4 m i j = m ! (j * 4 + i)"

definition identity4 :: Matrix4f where
  "identity4 = concat (map (\<lambda>j. map (\<lambda>i. if i = j then 1 else 0) [0..<4]) [0..<4])"

definition zeroMatrix4 :: Matrix4f where
  "zeroMatrix4 = replicate 16 0"

definition translation4 :: "Vector3f \<Rightarrow> Matrix4f" where
  "translation4 v = identity4[12 := v3x v, 13 := v3y v, 14 := v3z v]"

definition uniformScaling4 :: "real \<Rightarrow> Matrix4f" where
  "uniformScaling4 s = identity4[0 := s, 5 := s, 10 := s]"

definition mul4 :: "Matrix4f \<Rightarrow> Matrix4f \<Rightarrow> Matrix4f" where
  "mul4 x y = concat (map (\<lambda>k. map (\<lambda>i. sum_list (map (\<lambda>j. elem4 x i j * elem4 y j k) [0..<4])) [0..<4]) [0..<4])"

definition mulVec4 :: "Matrix4f \<Rightarrow> Vector4f \<Rightarrow> Vector4f" where
  "mulVec4 m v =
     (let r = (\<lambda>i. elem4 m i 0 * v4x v + elem4 m i 1 * v4y v + elem4 m i 2 * v4z v + elem4 m i 3 * v4w v)
      in \<lparr>v4x = r 0, v4y = r 1, v4z = r 2, v4w = r 3\<rparr>)"

definition getSubmatrix3x3 :: "Matrix4f \<Rightarrow> nat \<Rightarrow> nat \<Rightarrow> Matrix3f" where
  "getSubmatrix3x3 m i0 j0 = concat (map (\<lambda>j. map (\<lambda>i. elem4 m (i + i0) (j + j0)) [0..<3]) [0..<3])"

definition setSubmatrix3x3 :: "Matrix4f \<Rightarrow> nat \<Rightarrow> nat \<Rightarrow> Matrix3f \<Rightarrow> Matrix4f" where
  "setSubmatrix3x3 m i0 j0 s =
     foldl (\<lambda>m i. foldl (\<lambda>m j. m[(j + j0) * 4 + (i + i0) := elem s i j]) m [0..<3]) m [0..<3]"

lemma upt4: "[0..<4] = [0, 1, 2, 3::nat]"
  by code_simp

end
