(* ===== verification/Geometry3D.thy ===== *)
theory Geometry3D
  imports Geometry2D Matrix4f
begin

text \<open>
  The spatial routines of src/core/src/geometry/GeometryUtils.cpp: the bounding box of
  a point set, barycentric interpolation, orthonormal bases, sphere tests, closest
  points, ray/plane, ray/triangle (Moeller-Trumbore) and ray/sphere intersection, the
  separating-axis box/triangle overlap test with its \<open>AXISTEST\<close> macros, and the
  point/plane, point/line and point/segment distances. Out-parameters are explicit as
  in \<open>Geometry2D\<close>; an out-pointer that may be \<open>nullptr\<close> is an option, \<open>None\<close> for
  \<open>nullptr\<close>. \<open>Box3f\<close> and \<open>Plane3f\<close> (not in this repository) are an origin and a
  size, and the coefficients \<open>a b c d\<close> of \<open>a x + b y + c z + d = 0\<close>. Default
  arguments declared in \<open>GeometryUtils.h\<close> (not in this repository) are parameters.
  A \<open>float\<close> division whose divisor is zero on every input of a branch gives no finite
  number: the model returns \<open>None\<close> there; other divisions are real divisions and the
  lemmas assume their divisors non-zero.
\<close>

record Box3f =
  b_origin :: Vector3f
  b_size :: Vector3f

record Plane3f =
  pl_a :: real
  pl_b :: real
  pl_c :: real
  pl_d :: real

text \<open>\<open>Box3f()\<close>, \<open>Box3f::center()\<close> and \<open>Plane3f::normal()\<close>.\<close>

definition emptyBox :: Box3f where
  "emptyBox = \<lparr>b_origin = \<lparr>v3x = 0, v3y = 0, v3z = 0\<rparr>, b_size = \<lparr>v3x = 0, v3y = 0, v3z = 0\<rparr>\<rparr>"

definition boxCenter :: "Box3f \<Rightarrow> Vector3f" where
  "boxCenter b = add3 (b_origin b) (scale3 (1 / 2) (b_size b))"

definition planeNormal :: "Plane3f \<Rightarrow> Vector3f" where
  "planeNormal pl = \<lparr>v3x = pl_a pl, v3y = pl_b pl, v3z = pl_c pl\<rparr>"

subsection \<open>Bounding box of a point set\<close>

text \<open>One iteration of the loop of \<open>boundingBoxForPoints\<close>: the six \<open>if\<close>s on the running
  minimum and maximum.\<close>

definition bboxStep :: "Vector3f \<times> Vector3f \<Rightarrow> Vector3f \<Rightarrow> Vector3f \<times> Vector3f" where
  "bboxStep mm xyz =
     (let (minimum, maximum) = mm; x = v3x xyz; y = v3y xyz; z = v3z xyz;
          minimum = (if x < v3x minimum then minimum\<lparr>v3x := x\<rparr> else minimum);
          maximum = (if x > v3x maximum then maximum\<lparr>v3x := x\<rparr> else maximum);
          minimum = (if y < v3y minimum then minimum\<lparr>v3y := y\<rparr> else minimum);
          maximum = (if y > v3y maximum then maximum\<lparr>v3y := y\<rparr> else maximum);
          minimum = (if z < v3z minimum then minimum\<lparr>v3z := z\<rparr> else minimum);
          maximum = (if z > v3z maximum then maximum\<lparr>v3z := z\<rparr> else maximum)
      in (minimum, maximum))"

definition boundingBoxForPoints :: "Vector3f list \<Rightarrow> Box3f" where
  "boundingBoxForPoints points =
     (if points = [] then emptyBox
      else (let (minimum, maximum) = foldl bboxStep (hd points, hd points) (tl points)
            in \<lparr>b_origin = minimum, b_size = sub3 maximum minimum\<rparr>))"

definition barycentricToEuclidean3 :: "Vector3f \<Rightarrow> Vector3f \<Rightarrow> Vector3f \<Rightarrow> Vector3f \<Rightarrow> Vector3f" where
  "barycentricToEuclidean3 b v0 v1 v2 = add3 (add3 (scale3 (v3x b) v0) (scale3 (v3y b) v1)) (scale3 (v3z b) v2)"

subsection \<open>Bases\<close>

text \<open>\<open>getBasis( n, b0, b1, epsilon )\<close>: the new values of \<open>b0\<close> and \<open>b1\<close>.\<close>

definition getBasis :: "real \<Rightarrow> Vector3f \<Rightarrow> Vector3f \<times> Vector3f" where
  "getBasis epsilon n =
     (if normSquared3 n < epsilon then (\<lparr>v3x = 1, v3y = 0, v3z = 0\<rparr>, \<lparr>v3x = 0, v3y = 1, v3z = 0\<rparr>)
      else (let axis = (if \<bar>v3x n\<bar> \<le> \<bar>v3y n\<bar> \<and> \<bar>v3x n\<bar> \<le> \<bar>v3z n\<bar> then \<lparr>v3x = 1, v3y = 0, v3z = 0\<rparr>
                        else if \<bar>v3y n\<bar> \<le> \<bar>v3z n\<bar> then \<lparr>v3x = 0, v3y = 1, v3z = 0\<rparr>
                        else \<lparr>v3x = 0, v3y = 0, v3z = 1\<rparr>);
                b0 = normalized3 (cross3 n axis);
                b1 = normalized3 (cross3 n b0)
            in (b0, b1)))"

text \<open>\<open>Matrix3f( x, y, z )\<close> with the columns \<open>x\<close>, \<open>y\<close>, \<open>z\<close> (the default \<open>setColumns\<close>).\<close>

definition columns3 :: "Vector3f \<Rightarrow> Vector3f \<Rightarrow> Vector3f \<Rightarrow> Matrix3f" where
  "columns3 x y z = fromVectors x y z True"

definition getRightHandedBasis :: "real \<Rightarrow> Vector3f \<Rightarrow> Matrix3f" where
  "getRightHandedBasis epsilon z =
     (let z2 = normalized3 z; (x, y) = getBasis epsilon z2; m = columns3 x y z2
      in if determinant m < 0 then columns3 y x z2 else m)"

text \<open>\<open>getRightHandedBasis( const Vector4f& z )\<close>: the 3 x 3 basis of \<open>z.xyz\<close> in the
  upper-left block of a zero \<open>Matrix4f\<close>, and \<open>output( 3, 3 ) = 1\<close>.\<close>

definition getRightHandedBasis4 :: "real \<Rightarrow> Vector4f \<Rightarrow> Matrix4f" where
  "getRightHandedBasis4 epsilon z =
     (let m = getRightHandedBasis epsilon (swizzle_xyz z); output = setSubmatrix3x3 zeroMatrix4 0 0 m
      in output[3 * 4 + 3 := 1])"

definition getRightHandedBasisWithPreferredUp :: "Vector3f \<Rightarrow> Vector3f \<Rightarrow> Matrix3f" where
  "getRightHandedBasisWithPreferredUp z preferredY =
     (let z2 = normalized3 z; x = normalized3 (cross3 preferredY z); y2 = cross3 z2 x
      in columns3 x y2 z2)"

subsection \<open>Spheres, closest points and planes\<close>

definition pointInsideSphere :: "Vector3f \<Rightarrow> Vector3f \<Rightarrow> real \<Rightarrow> bool" where
  "pointInsideSphere crPoint crSphereCenter sphereRadius =
     (let diff = sub3 crPoint crSphereCenter in normSquared3 diff < sphereRadius * sphereRadius)"

definition closestPointOnSegment3 :: "Vector3f \<Rightarrow> Vector3f \<Rightarrow> Vector3f \<Rightarrow> Vector3f" where
  "closestPointOnSegment3 p v0 v1 =
     (let v01 = sub3 v1 v0; d = dot3 v01 (sub3 p v0); t = d / normSquared3 v01;
          t = (if t < 0 then 0 else if t > 1 then 1 else t)
      in add3 v0 (scale3 t v01))"

text \<open>\<open>rayPlaneIntersection\<close>: the result and the new value of \<open>t\<close>.\<close>

definition rayPlaneIntersection :: "Vector3f \<Rightarrow> Vector3f \<Rightarrow> Plane3f \<Rightarrow> real \<Rightarrow> bool \<times> real" where
  "rayPlaneIntersection rayOrigin rayDirection plane t =
     (let den = dot3 rayDirection (planeNormal plane)
      in if \<bar>den\<bar> > geomEpsilon then
           (let num = - dot3 rayOrigin (planeNormal plane) - pl_d plane; t = num / den in (t > 0, t))
         else (False, t))"

text \<open>\<open>rayTriangleIntersection\<close> (front faces only, the \<open>#if 1\<close> branch): the result
  and the new values of \<open>t\<close> and \<open>barycentrics\<close>.\<close>

definition rayTriangleIntersection ::
    "Vector3f \<Rightarrow> Vector3f \<Rightarrow> Vector3f \<Rightarrow> Vector3f \<Rightarrow> Vector3f \<Rightarrow> real \<Rightarrow> Vector3f \<Rightarrow> bool \<times> real \<times> Vector3f" where
  "rayTriangleIntersection rayOrigin rayDirection v0 v1 v2 t barycentrics =
     (let edge0 = sub3 v1 v0; edge1 = sub3 v2 v0;
          pvec = cross3 rayDirection edge1; det = dot3 edge0 pvec
      in if det < geomEpsilon then (False, t, barycentrics)
         else (let tvec = sub3 rayOrigin v0; u = dot3 tvec pvec
               in if u < 0 \<or> u > det then (False, t, barycentrics)
                  else (let qvec = cross3 tvec edge0; v = dot3 rayDirection qvec
                        in if v < 0 \<or> u + v > det then (False, t, barycentrics)
                           else (let t = dot3 edge1 qvec; inv_det = 1 / det;
                                     t = t * inv_det; u = u * inv_det; v = v * inv_det
                                 in (True, t, \<lparr>v3x = 1 - u - v, v3y = u, v3z = v\<rparr>)))))"

subsection \<open>Box/triangle overlap\<close>

text \<open>\<open>minMax3\<close>: the minimum and maximum of three values by four \<open>if\<close>s.\<close>

definition minMax3 :: "real \<Rightarrow> real \<Rightarrow> real \<Rightarrow> real \<times> real" where
  "minMax3 x0 x1 x2 =
     (let minOut = x0; maxOut = x0;
          minOut = (if x1 < minOut then x1 else minOut);
          maxOut = (if x1 > maxOut then x1 else maxOut);
          minOut = (if x2 < minOut then x2 else minOut);
          maxOut = (if x2 > maxOut then x2 else maxOut)
      in (minOut, maxOut))"

definition planeBoxOverlap :: "Vector3f \<Rightarrow> Vector3f \<Rightarrow> Vector3f \<Rightarrow> bool" where
  "planeBoxOverlap normal vert maxbox =
     (let vq = (\<lambda>q. let v = vec3Nth vert q
                   in if vec3Nth normal q > 0 then (- vec3Nth maxbox q - v, vec3Nth maxbox q - v)
                      else (vec3Nth maxbox q - v, - vec3Nth maxbox q - v));
          vmin = \<lparr>v3x = fst (vq 0), v3y = fst (vq 1), v3z = fst (vq 2)\<rparr>;
          vmax = \<lparr>v3x = snd (vq 0), v3y = snd (vq 1), v3z = snd (vq 2)\<rparr>
      in if dot3 normal vmin > 0 then False else if dot3 normal vmax \<ge> 0 then True else False)"

text \<open>The \<open>AXISTEST\<close> macros: true when the projections of the triangle on the axis
  overlap the box's (the macro's \<open>return false\<close> is \<open>False\<close>).\<close>

definition overlapTest :: "real \<Rightarrow> real \<Rightarrow> real \<Rightarrow> bool" where
  "overlapTest pa pb rad = (let (mn, mx) = (if pa < pb then (pa, pb) else (pb, pa)) in \<not> (mn > rad \<or> mx < - rad))"

definition axisTestX01 :: "real \<Rightarrow> real \<Rightarrow> real \<Rightarrow> real \<Rightarrow> Vector3f \<Rightarrow> Vector3f \<Rightarrow> Vector3f \<Rightarrow> bool" where
  "axisTestX01 a b fa fb v0 v2 h =
     overlapTest (a * v3y v0 - b * v3z v0) (a * v3y v2 - b * v3z v2) (fa * v3y h + fb * v3z h)"

definition axisTestX2 :: "real \<Rightarrow> real \<Rightarrow> real \<Rightarrow> real \<Rightarrow> Vector3f \<Rightarrow> Vector3f \<Rightarrow> Vector3f \<Rightarrow> bool" where
  "axisTestX2 a b fa fb v0 v1 h =
     overlapTest (a * v3y v0 - b * v3z v0) (a * v3y v1 - b * v3z v1) (fa * v3y h + fb * v3z h)"

definition axisTestY02 :: "real \<Rightarrow> real \<Rightarrow> real \<Rightarrow> real \<Rightarrow> Vector3f \<Rightarrow> Vector3f \<Rightarrow> Vector3f \<Rightarrow> bool" where
  "axisTestY02 a b fa fb v0 v2 h =
     overlapTest (- a * v3x v0 + b * v3z v0) (- a * v3x v2 + b * v3z v2) (fa * v3x h + fb * v3z h)"

definition axisTestY1 :: "real \<Rightarrow> real \<Rightarrow> real \<Rightarrow> real \<Rightarrow> Vector3f \<Rightarrow> Vector3f \<Rightarrow> Vector3f \<Rightarrow> bool" where
  "axisTestY1 a b fa fb v0 v1 h =
     overlapTest (- a * v3x v0 + b * v3z v0) (- a * v3x v1 + b * v3z v1) (fa * v3x h + fb * v3z h)"

text \<open>\<open>AXISTEST_Z12\<close> orders \<open>p2\<close> before \<open>p1\<close>; the pair it forms is the same.\<close>

definition axisTestZ12 :: "real \<Rightarrow> real \<Rightarrow> real \<Rightarrow> real \<Rightarrow> Vector3f \<Rightarrow> Vector3f \<Rightarrow> Vector3f \<Rightarrow> bool" where
  "axisTestZ12 a b fa fb v1 v2 h =
     overlapTest (a * v3x v2 - b * v3y v2) (a * v3x v1 - b * v3y v1) (fa * v3x h + fb * v3y h)"

definition axisTestZ0 :: "real \<Rightarrow> real \<Rightarrow> real \<Rightarrow> real \<Rightarrow> Vector3f \<Rightarrow> Vector3f \<Rightarrow> Vector3f \<Rightarrow> bool" where
  "axisTestZ0 a b fa fb v0 v1 h =
     overlapTest (a * v3x v0 - b * v3y v0) (a * v3x v1 - b * v3y v1) (fa * v3x h + fb * v3y h)"

definition rangeTest :: "real \<times> real \<Rightarrow> real \<Rightarrow> bool" where
  "rangeTest mm h = (\<not> (fst mm > h \<or> snd mm < - h))"

text \<open>\<open>boxTriangleIntersection\<close> as written: the three moved vertices \<open>v0\<close>, \<open>v1\<close>,
  \<open>v2\<close> are all computed from \<open>u0\<close>.\<close>

definition boxTriangleIntersection :: "Vector3f \<Rightarrow> Vector3f \<Rightarrow> Vector3f \<Rightarrow> Box3f \<Rightarrow> bool" where
  "boxTriangleIntersection u0 u1 u2 box =
     (let boxCenter = boxCenter box; h = scale3 (1 / 2) (b_size box);
          v0 = sub3 u0 boxCenter; v1 = sub3 u0 boxCenter; v2 = sub3 u0 boxCenter;
          e0 = sub3 v1 v0; e1 = sub3 v2 v1; e2 = sub3 v0 v2
      in axisTestX01 (v3z e0) (v3y e0) (\<bar>v3z e0\<bar>) (\<bar>v3y e0\<bar>) v0 v2 h \<and>
         axisTestY02 (v3z e0) (v3x e0) (\<bar>v3z e0\<bar>) (\<bar>v3x e0\<bar>) v0 v2 h \<and>
         axisTestZ12 (v3y e0) (v3x e0) (\<bar>v3y e0\<bar>) (\<bar>v3x e0\<bar>) v1 v2 h \<and>
         axisTestX01 (v3z e1) (v3y e1) (\<bar>v3z e1\<bar>) (\<bar>v3y e1\<bar>) v0 v2 h \<and>
         axisTestY02 (v3z e1) (v3x e1) (\<bar>v3z e1\<bar>) (\<bar>v3x e1\<bar>) v0 v2 h \<and>
         axisTestZ0 (v3y e1) (v3x e1) (\<bar>v3y e1\<bar>) (\<bar>v3x e1\<bar>) v0 v1 h \<and>
         axisTestX2 (v3z e2) (v3y e2) (\<bar>v3z e2\<bar>) (\<bar>v3y e2\<bar>) v0 v1 h \<and>
         axisTestY1 (v3z e2) (v3x e2) (\<bar>v3z e2\<bar>) (\<bar>v3x e2\<bar>) v0 v1 h \<and>
         axisTestZ12 (v3y e2) (v3x e2) (\<bar>v3y e2\<bar>) (\<bar>v3x e2\<bar>) v1 v2 h \<and>
         rangeTest (minMax3 (v3x v0) (v3x v1) (v3x v2)) (v3x h) \<and>
         rangeTest (minMax3 (v3y v0) (v3y v1) (v3y v2)) (v3y h) \<and>
         rangeTest (minMax3 (v3z v0) (v3z v1) (v3z v2)) (v3z h) \<and>
         planeBoxOverlap (cross3 e0 e1) v0 h)"

subsection \<open>Distances\<close>

text \<open>\<open>pointToPlaneDistance( point, plane )\<close> with the plane as a \<open>Vector4f\<close>: a point
  on the plane from an intercept, then the projection on the unit normal. The third
  branch divides by \<open>plane[1]\<close>, which is zero there: no finite result.\<close>

definition pointToPlaneDistance :: "Vector3f \<Rightarrow> Vector4f \<Rightarrow> real option" where
  "pointToPlaneDistance point plane =
     (let pointOnPlane =
            (if v4x plane \<noteq> 0 then Some \<lparr>v3x = v4w plane / v4x plane, v3y = 0, v3z = 0\<rparr>
             else if v4y plane \<noteq> 0 then Some \<lparr>v3x = 0, v3y = v4w plane / v4y plane, v3z = 0\<rparr>
             else None)
      in map_option (\<lambda>pop. let vectorToPoint = sub3 point pop; unitNormal = normalized3 (swizzle_xyz plane)
                           in dot3 vectorToPoint unitNormal) pointOnPlane)"

text \<open>\<open>pointToLineDistanceSquared( point, linePoint, lineDir, pClosestPoint )\<close>: the
  squared distance and the new value of \<open>*pClosestPoint\<close> (\<open>None\<close> for \<open>nullptr\<close>).\<close>

definition pointToLineDistanceSquared :: "Vector3f \<Rightarrow> Vector3f \<Rightarrow> Vector3f \<Rightarrow> Vector3f option \<Rightarrow> real \<times> Vector3f option" where
  "pointToLineDistanceSquared point linePoint lineDir pClosestPoint =
     (let diff = sub3 point linePoint; dot = dot3 diff lineDir;
          distanceSquared = normSquared3 diff - dot * dot
      in (distanceSquared, map_option (\<lambda>_. add3 linePoint (scale3 dot lineDir)) pClosestPoint))"

definition pointToLineSegmentDistanceSquared :: "Vector3f \<Rightarrow> Vector3f \<Rightarrow> Vector3f \<Rightarrow> Vector3f option \<Rightarrow> real \<times> Vector3f option" where
  "pointToLineSegmentDistanceSquared p s0 s1 pClosestPoint =
     (let dir = sub3 s1 s0; dirs1 = sub3 s1 p
      in if dot3 dirs1 dir < 0 then (normSquared3 dirs1, map_option (\<lambda>_. s0) pClosestPoint)
         else (let dirs0 = sub3 p s0; dot = dot3 dirs0 dir
               in if dot \<le> 0 then (normSquared3 dirs0, map_option (\<lambda>_. s1) pClosestPoint)
                  else (let rcpDirNormSquared = 1 / normSquared3 dir
                        in (max 0 (normSquared3 dirs0 - dot * dot * rcpDirNormSquared),
                            map_option (\<lambda>_. scale3 rcpDirNormSquared (scale3 dot dir)) pClosestPoint))))"

definition lineToLineDistance :: "Vector3f \<Rightarrow> Vector3f \<Rightarrow> Vector3f \<Rightarrow> Vector3f \<Rightarrow> real" where
  "lineToLineDistance linePoint1 lineDir1 linePoint2 lineDir2 =
     (let dirCross = cross3 lineDir1 lineDir2; crossLength = norm3 dirCross
      in if crossLength < geomEpsilon
         then sqrt (fst (pointToLineDistanceSquared linePoint1 linePoint2 (normalized3 lineDir2) None))
         else \<bar>dot3 (sub3 linePoint2 linePoint1) dirCross / crossLength\<bar>)"

text \<open>\<open>raySphereIntersection\<close>: the result and the new value of \<open>*t\<close>.\<close>

definition raySphereIntersection :: "Vector3f \<Rightarrow> Vector3f \<Rightarrow> Vector3f \<Rightarrow> real \<Rightarrow> real \<Rightarrow> bool \<times> real" where
  "raySphereIntersection rayOrigin rayDirection sphereCenter sphereRadius t =
     (let deltaOrigin = sub3 rayOrigin sphereCenter;
          a = normSquared3 rayDirection;
          b = 2 * dot3 rayDirection deltaOrigin;
          c = normSquared3 deltaOrigin - sphereRadius * sphereRadius;
          discriminant = b * b - 4 * a * c
      in if discriminant < 0 then (False, t)
         else (let sqrtDiscriminant = sqrt discriminant; oneOverHalfA = (1 / 2) / a;
                   t0 = (- b + sqrtDiscriminant) * oneOverHalfA;
                   t1 = (- b - sqrtDiscriminant) * oneOverHalfA;
                   (t0, t1) = (if t0 > t1 then (t1, t0) else (t0, t1))
               in (True, if t0 > 0 then t0 else t1)))"

definition sphereSphereIntersection :: "Vector3f \<Rightarrow> real \<Rightarrow> Vector3f \<Rightarrow> real \<Rightarrow> bool" where
  "sphereSphereIntersection c0 r0 c1 r1 =
     (let centerDistanceSquared = normSquared3 (sub3 c0 c1); radiusSum = r0 + r1
      in centerDistanceSquared \<le> radiusSum * radiusSum)"

definition uniformSampleLineSegment3 :: "Vector3f \<Rightarrow> Vector3f \<Rightarrow> int \<Rightarrow> Vector3f list option" where
  "uniformSampleLineSegment3 p0 p1 nSamples =
     (if nSamples < 0 then None else
      (let unit = normalized3 (sub3 p1 p0);
           sampleSpacing = norm3 (sub3 p1 p0) / of_int (nSamples - 1)
       in Some (map (\<lambda>i. add3 p0 (scale3 (of_nat i * sampleSpacing) unit)) [0..<nat nSamples])))"

subsection \<open>Lemmas: Bounding box\<close>

lemma bboxStep_eq:
  "bboxStep (mn, mx) p =
     (\<lparr>v3x = min (v3x mn) (v3x p), v3y = min (v3y mn) (v3y p), v3z = min (v3z mn) (v3z p)\<rparr>,
      \<lparr>v3x = max (v3x mx) (v3x p), v3y = max (v3y mx) (v3y p), v3z = max (v3z mx) (v3z p)\<rparr>)"
  by (simp add: bboxStep_def Let_def min_def max_def)

lemma Min_insert_min: "finite S \<Longrightarrow> Min (insert (min a b) S) = Min (insert a (insert b (S :: real set)))"
  by (cases "S = {}") (simp_all add: min.assoc)

lemma Max_insert_max: "finite S \<Longrightarrow> Max (insert (max a b) S) = Max (insert a (insert b (S :: real set)))"
  by (cases "S = {}") (simp_all add: max.assoc)

lemma foldl_bboxStep:
  "foldl bboxStep (mn, mx) ps =
     (\<lparr>v3x = Min (insert (v3x mn) (v3x ` set ps)), v3y = Min (insert (v3y mn) (v3y ` set ps)),
       v3z = Min (insert (v3z mn) (v3z ` set ps))\<rparr>,
      \<lparr>v3x = Max (insert (v3x mx) (v3x ` set ps)), v3y = Max (insert (v3y mx) (v3y ` set ps)),
       v3z = Max (insert (v3z mx) (v3z ` set ps))\<rparr>)"
proof (induction ps arbitrary: mn mx)
  case Nil
  then show ?case by simp
next
  case (Cons p ps)
  show ?case
    by (simp add: bboxStep_eq Cons.IH Min_insert_min Max_insert_max insert_commute)
qed

text \<open>
  C28 (bounding box). For a non-empty point list, the box
  \<open>boundingBoxForPoints\<close> returns has as origin the componentwise minimum and as
  origin plus size the componentwise maximum of the points.
\<close>

theorem boundingBoxForPoints_tight:
  assumes "points \<noteq> []"
  shows "b_origin (boundingBoxForPoints points) =
           \<lparr>v3x = Min (v3x ` set points), v3y = Min (v3y ` set points), v3z = Min (v3z ` set points)\<rparr> \<and>
         add3 (b_origin (boundingBoxForPoints points)) (b_size (boundingBoxForPoints points)) =
           \<lparr>v3x = Max (v3x ` set points), v3y = Max (v3y ` set points), v3z = Max (v3z ` set points)\<rparr>"
proof -
  obtain p ps where p: "points = p # ps"
    using assms by (cases points) auto
  show ?thesis
    unfolding p by (simp add: boundingBoxForPoints_def foldl_bboxStep add3_def sub3_def)
qed

subsection \<open>Lemmas: Bases\<close>

lemma cross3_axis_nonzero:
  assumes "normSquared3 n \<noteq> 0"
  shows "normSquared3 (cross3 n (if \<bar>v3x n\<bar> \<le> \<bar>v3y n\<bar> \<and> \<bar>v3x n\<bar> \<le> \<bar>v3z n\<bar> then \<lparr>v3x = 1, v3y = 0, v3z = 0\<rparr>
                        else if \<bar>v3y n\<bar> \<le> \<bar>v3z n\<bar> then \<lparr>v3x = 0, v3y = 1, v3z = 0\<rparr>
                        else \<lparr>v3x = 0, v3y = 0, v3z = 1\<rparr>)) \<noteq> 0"
  using assms by (auto simp: cross3_def)

lemma getBasis_unit_orth:
  assumes "0 < epsilon" "epsilon \<le> normSquared3 n" "getBasis epsilon n = (b0, b1)"
  shows "normSquared3 b0 = 1 \<and> normSquared3 b1 = 1 \<and>
         dot3 n b0 = 0 \<and> dot3 n b1 = 0 \<and> dot3 b0 b1 = 0"
proof -
  have n: "normSquared3 n \<noteq> 0"
    using assms(1,2) by linarith
  define axis where "axis = (if \<bar>v3x n\<bar> \<le> \<bar>v3y n\<bar> \<and> \<bar>v3x n\<bar> \<le> \<bar>v3z n\<bar> then \<lparr>v3x = 1, v3y = 0, v3z = 0\<rparr>
                        else if \<bar>v3y n\<bar> \<le> \<bar>v3z n\<bar> then \<lparr>v3x = 0, v3y = 1, v3z = 0\<rparr>
                        else \<lparr>v3x = 0, v3y = 0, v3z = 1\<rparr>)"
  have b0: "b0 = normalized3 (cross3 n axis)" and b1: "b1 = normalized3 (cross3 n b0)"
    using assms(2,3) unfolding axis_def by (auto simp: getBasis_def Let_def)
  have c0: "normSquared3 (cross3 n axis) \<noteq> 0"
    unfolding axis_def by (rule cross3_axis_nonzero [OF n])
  have u0: "normSquared3 b0 = 1"
    unfolding b0 using c0 by (rule normSquared3_normalized3)
  have o0: "dot3 n b0 = 0"
    unfolding b0 normalized3_def dot3_div3_right dot3_cross3_left by simp
  have c1: "normSquared3 (cross3 n b0) \<noteq> 0"
    using n unfolding lagrange3 u0 o0 by simp
  show ?thesis
    using u0 o0 normSquared3_normalized3 [OF c1]
    unfolding b1 normalized3_def dot3_div3_right dot3_cross3_left dot3_cross3_right by simp
qed

text \<open>
  C29 (orthonormal basis). For a positive \<open>epsilon\<close> and a normal
  of squared norm at least \<open>epsilon\<close>, the two vectors \<open>getBasis\<close> returns are unit,
  orthogonal to the normal and to each other.
\<close>

theorem getBasis_orthonormal:
  assumes "0 < epsilon" "epsilon \<le> normSquared3 n" "getBasis epsilon n = (b0, b1)"
  shows "normSquared3 b0 = 1 \<and> normSquared3 b1 = 1 \<and>
         dot3 n b0 = 0 \<and> dot3 n b1 = 0 \<and> dot3 b0 b1 = 0"
  using assms by (rule getBasis_unit_orth)

lemma determinant_columns3: "determinant (columns3 x y z) = dot3 x (cross3 y z)"
  by (simp add: columns3_def fromVectors_def setCol_def determinant_def determinant3x3_def elem_def
      dot3_def cross3_def algebra_simps)

lemma getBasis_second:
  assumes "epsilon \<le> normSquared3 n" "getBasis epsilon n = (b0, b1)"
  shows "b1 = normalized3 (cross3 n b0)"
  using assms by (auto simp: getBasis_def Let_def)

text \<open>
  C30 (right-handed basis). For a non-zero \<open>z\<close> and
  \<open>0 < epsilon \<le> 1\<close>, \<open>getRightHandedBasis\<close> returns the columns \<open>getBasis\<close> gives
  and the normalised \<open>z\<close> unswapped, and its determinant is 1: the swapping branch
  is never taken.
\<close>

theorem getRightHandedBasis_det:
  assumes "0 < epsilon" "epsilon \<le> 1" "normSquared3 z \<noteq> 0" "getBasis epsilon (normalized3 z) = (x, y)"
  shows "getRightHandedBasis epsilon z = columns3 x y (normalized3 z) \<and>
         determinant (getRightHandedBasis epsilon z) = 1"
proof -
  let ?z = "normalized3 z"
  have uz: "normSquared3 ?z = 1"
    using assms(3) by (rule normSquared3_normalized3)
  have e: "epsilon \<le> normSquared3 ?z"
    using assms(2) uz by simp
  have b: "normSquared3 x = 1" "dot3 ?z x = 0"
    using getBasis_unit_orth [OF assms(1) e assms(4)] by simp_all
  have c: "normSquared3 (cross3 ?z x) = 1"
    unfolding lagrange3 uz b by simp
  have y: "y = cross3 ?z x"
    using getBasis_second [OF e assms(4)] c unfolding normalized3_def norm3_def
    by (simp add: div3_def)
  have d: "determinant (columns3 x y ?z) = 1"
    unfolding determinant_columns3 y triple_cross_cross uz b dot3_commute [of x] by simp
  then show ?thesis
    using assms(4) by (simp add: getRightHandedBasis_def)
qed

lemma length_getRightHandedBasis: "length (getRightHandedBasis epsilon z) = 9"
  by (simp add: getRightHandedBasis_def columns3_def fromVectors_def Let_def split_def)

lemma setSubmatrix3x3_block:
  assumes "length m = 9"
  shows "getSubmatrix3x3 ((setSubmatrix3x3 zeroMatrix4 0 0 m)[3 * 4 + 3 := 1]) 0 0 = m \<and>
         elem4 ((setSubmatrix3x3 zeroMatrix4 0 0 m)[3 * 4 + 3 := 1]) 3 3 = 1 \<and>
         (\<forall>i < 3. elem4 ((setSubmatrix3x3 zeroMatrix4 0 0 m)[3 * 4 + 3 := 1]) i 3 = 0 \<and>
                  elem4 ((setSubmatrix3x3 zeroMatrix4 0 0 m)[3 * 4 + 3 := 1]) 3 i = 0)"
proof -
  obtain a b c d e f g h k where m: "m = [a, b, c, d, e, f, g, h, k]"
    using assms by (auto simp: length_Suc_conv numeral_eq_Suc)
  have i3: "(\<forall>i < 3. P i) \<longleftrightarrow> P 0 \<and> P 1 \<and> P (2 :: nat)" for P
    by (auto simp: less_Suc_eq numeral_eq_Suc)
  show ?thesis
    unfolding m i3
    by (simp add: getSubmatrix3x3_def setSubmatrix3x3_def zeroMatrix4_def elem4_def elem_def upt3 eval_nat_numeral)
qed

lemma getRightHandedBasis4_block:
  "getSubmatrix3x3 (getRightHandedBasis4 epsilon z) 0 0 = getRightHandedBasis epsilon (swizzle_xyz z) \<and>
   elem4 (getRightHandedBasis4 epsilon z) 3 3 = 1 \<and>
   (\<forall>i < 3. elem4 (getRightHandedBasis4 epsilon z) i 3 = 0 \<and> elem4 (getRightHandedBasis4 epsilon z) 3 i = 0)"
  unfolding getRightHandedBasis4_def Let_def by (rule setSubmatrix3x3_block [OF length_getRightHandedBasis])

subsection \<open>Lemmas: Ray/triangle intersection\<close>

lemma mt_component:
  fixes D T U V r d v0 v1 v2 :: real
  assumes "D \<noteq> 0" and "D * (r - v0) = - T * d + U * (v1 - v0) + V * (v2 - v0)"
  shows "r + T * (1 / D) * d = (1 - U * (1 / D) - V * (1 / D)) * v0 + U * (1 / D) * v1 + V * (1 / D) * v2"
proof -
  define t u v where "t = T * (1 / D)" and "u = U * (1 / D)" and "v = V * (1 / D)"
  have T: "T = D * t" and U: "U = D * u" and V: "V = D * v"
    using assms(1) unfolding t_def u_def v_def by simp_all
  have "D * (r - v0) = D * (- t * d + u * (v1 - v0) + v * (v2 - v0))"
    using assms(2) unfolding T U V by (simp add: algebra_simps)
  then have "r - v0 = - t * d + u * (v1 - v0) + v * (v2 - v0)"
    using assms(1) by simp
  then show ?thesis
    unfolding t_def [symmetric] u_def [symmetric] v_def [symmetric] by (simp add: algebra_simps)
qed

text \<open>
  C27 (ray/triangle hit). When \<open>rayTriangleIntersection\<close>
  reports a hit with parameter \<open>t\<close> and barycentrics \<open>b\<close>, the ray point at \<open>t\<close> is the
  point with barycentrics \<open>b\<close> on the triangle, and \<open>b\<close> is a convex combination.
\<close>

theorem rayTriangleIntersection_sound:
  assumes "rayTriangleIntersection rayOrigin rayDirection v0 v1 v2 t barycentrics = (True, t', b)"
  shows "add3 rayOrigin (scale3 t' rayDirection) = barycentricToEuclidean3 b v0 v1 v2 \<and>
         0 \<le> v3x b \<and> 0 \<le> v3y b \<and> 0 \<le> v3z b \<and> v3x b + v3y b + v3z b = 1"
proof -
  define D where "D = dot3 (sub3 v1 v0) (cross3 rayDirection (sub3 v2 v0))"
  define U where "U = dot3 (sub3 rayOrigin v0) (cross3 rayDirection (sub3 v2 v0))"
  define V where "V = dot3 rayDirection (cross3 (sub3 rayOrigin v0) (sub3 v1 v0))"
  define T where "T = dot3 (sub3 v2 v0) (cross3 (sub3 rayOrigin v0) (sub3 v1 v0))"
  have det: "\<not> D < geomEpsilon" and u: "\<not> (U < 0 \<or> U > D)" and v: "\<not> (V < 0 \<or> U + V > D)"
    and t': "t' = T * (1 / D)" and b: "b = \<lparr>v3x = 1 - U * (1 / D) - V * (1 / D), v3y = U * (1 / D), v3z = V * (1 / D)\<rparr>"
    using assms unfolding D_def U_def V_def T_def by (auto simp: rayTriangleIntersection_def Let_def split: if_splits)
  have d0: "0 < D"
    using det geomEpsilon_pos by linarith
  have c: "scale3 D (sub3 rayOrigin v0) =
      add3 (add3 (scale3 (- T) rayDirection) (scale3 U (sub3 v1 v0))) (scale3 V (sub3 v2 v0))"
    unfolding D_def U_def V_def T_def by (rule cramer3)
  have "add3 rayOrigin (scale3 t' rayDirection) = barycentricToEuclidean3 b v0 v1 v2"
  proof (rule Vector3f_eqI)
    show "v3x (add3 rayOrigin (scale3 t' rayDirection)) = v3x (barycentricToEuclidean3 b v0 v1 v2)"
      using mt_component [OF _ arg_cong [OF c, of v3x, simplified add3_def scale3_def sub3_def Vector3f.select_convs]] d0
      unfolding t' b by (simp add: barycentricToEuclidean3_def add3_def scale3_def)
    show "v3y (add3 rayOrigin (scale3 t' rayDirection)) = v3y (barycentricToEuclidean3 b v0 v1 v2)"
      using mt_component [OF _ arg_cong [OF c, of v3y, simplified add3_def scale3_def sub3_def Vector3f.select_convs]] d0
      unfolding t' b by (simp add: barycentricToEuclidean3_def add3_def scale3_def)
    show "v3z (add3 rayOrigin (scale3 t' rayDirection)) = v3z (barycentricToEuclidean3 b v0 v1 v2)"
      using mt_component [OF _ arg_cong [OF c, of v3z, simplified add3_def scale3_def sub3_def Vector3f.select_convs]] d0
      unfolding t' b by (simp add: barycentricToEuclidean3_def add3_def scale3_def)
  qed
  moreover have "0 \<le> v3x b \<and> 0 \<le> v3y b \<and> 0 \<le> v3z b \<and> v3x b + v3y b + v3z b = 1"
  proof -
    have "U + V \<le> D" "0 \<le> U" "0 \<le> V"
      using u v by linarith+
    then have "U * (1 / D) + V * (1 / D) \<le> 1" "0 \<le> U * (1 / D)" "0 \<le> V * (1 / D)"
      using d0 by (simp_all add: divide_inverse [symmetric] add_divide_distrib [symmetric])
    then show ?thesis
      unfolding b by simp
  qed
  ultimately show ?thesis
    by blast
qed

subsection \<open>Lemmas: Box/triangle overlap\<close>

lemma overlapTest_zero: "overlapTest 0 0 0"
  by (simp add: overlapTest_def)

lemma rangeTest_same: "rangeTest (minMax3 a a a) h \<longleftrightarrow> \<bar>a\<bar> \<le> h"
  by (auto simp: rangeTest_def minMax3_def Let_def)

lemma planeBoxOverlap_zero: "planeBoxOverlap \<lparr>v3x = 0, v3y = 0, v3z = 0\<rparr> vert maxbox"
  by (simp add: planeBoxOverlap_def dot3_def Let_def)

text \<open>
  C35 (box/triangle test as written). Because the
  three translated vertices are all computed from \<open>u0\<close>, \<open>boxTriangleIntersection\<close>
  returns exactly whether \<open>u0\<close> lies in the box, whatever \<open>u1\<close> and \<open>u2\<close> are.
\<close>

theorem boxTriangleIntersection_first_vertex:
  "boxTriangleIntersection u0 u1 u2 box \<longleftrightarrow>
     \<bar>v3x u0 - v3x (boxCenter box)\<bar> \<le> v3x (b_size box) / 2 \<and>
     \<bar>v3y u0 - v3y (boxCenter box)\<bar> \<le> v3y (b_size box) / 2 \<and>
     \<bar>v3z u0 - v3z (boxCenter box)\<bar> \<le> v3z (b_size box) / 2"
proof -
  have e: "sub3 (sub3 u0 c) (sub3 u0 c) = \<lparr>v3x = 0, v3y = 0, v3z = 0\<rparr>" for c
    by (simp add: sub3_def)
  have x: "cross3 \<lparr>v3x = 0, v3y = 0, v3z = 0\<rparr> \<lparr>v3x = 0, v3y = 0, v3z = 0\<rparr> = \<lparr>v3x = 0, v3y = 0, v3z = 0\<rparr>"
    by (simp add: cross3_def)
  show ?thesis
    unfolding boxTriangleIntersection_def Let_def e x
    by (simp add: axisTestX01_def axisTestX2_def axisTestY02_def axisTestY1_def axisTestZ12_def axisTestZ0_def
        overlapTest_zero rangeTest_same planeBoxOverlap_zero scale3_def sub3_def)
qed

subsection \<open>Lemmas: Distances\<close>

text \<open>
  C36 (point/plane distance). \<open>pointToPlaneDistance\<close>
  returns the signed distance \<open>(p \<cdot> n - w) / |n|\<close> to the plane \<open>n \<cdot> x = w\<close> whenever
  the plane's \<open>x\<close> or \<open>y\<close> coefficient is non-zero; for a plane \<open>z = const\<close> its
  third branch divides by zero and gives no finite result.
\<close>

theorem pointToPlaneDistance_signed:
  "pointToPlaneDistance point plane =
     (if v4x plane = 0 \<and> v4y plane = 0 then None
      else Some ((dot3 point (swizzle_xyz plane) - v4w plane) / norm3 (swizzle_xyz plane)))"
proof (cases "v4x plane = 0 \<and> v4y plane = 0")
  case True
  then show ?thesis
    by (simp add: pointToPlaneDistance_def)
next
  case False
  then have "norm3 (swizzle_xyz plane) \<noteq> 0"
    using norm3_pos_iff [of "swizzle_xyz plane"] by (auto simp: swizzle_xyz_def)
  with False show ?thesis
    by (auto simp: pointToPlaneDistance_def normalized3_def swizzle_xyz_def vec_defs field_simps)
qed

lemma normSquared3_segment_point:
  "normSquared3 (sub3 p (add3 v0 (scale3 s e))) =
     normSquared3 (sub3 p v0) + (s * s * normSquared3 e - 2 * s * dot3 e (sub3 p v0))"
  by (simp add: vec_defs algebra_simps)

lemma closestPointOnSegment3_clamp:
  "closestPointOnSegment3 p v0 v1 =
     add3 v0 (scale3 (clamp01 (dot3 (sub3 v1 v0) (sub3 p v0) / normSquared3 (sub3 v1 v0))) (sub3 v1 v0))"
  by (simp add: closestPointOnSegment3_def clamp01_def Let_def)

text \<open>
  C34 (point/segment distance). For a segment
  of distinct end points, the squared distance \<open>pointToLineSegmentDistanceSquared\<close>
  returns is the squared distance from the point to the closest point of the segment.
\<close>

theorem pointToLineSegmentDistanceSquared_distance:
  assumes "s0 \<noteq> (s1 :: Vector3f)"
  shows "fst (pointToLineSegmentDistanceSquared p s0 s1 pClosestPoint) =
         normSquared3 (sub3 p (closestPointOnSegment3 p s0 s1))"
proof -
  let ?dir = "sub3 s1 s0" and ?w = "sub3 p s0"
  let ?E = "normSquared3 ?dir" and ?W = "dot3 ?dir ?w"
  have E: "0 < ?E"
    by (rule normSquared3_sub_pos [OF assms])
  have s1p: "dot3 (sub3 s1 p) ?dir = ?E - ?W"
    by (simp add: vec_defs algebra_simps)
  have w: "dot3 ?w ?dir = ?W"
    by (rule dot3_commute)
  consider (beyond) "dot3 (sub3 s1 p) ?dir < 0" | (before) "\<not> dot3 (sub3 s1 p) ?dir < 0" "?W \<le> 0"
    | (inside) "\<not> dot3 (sub3 s1 p) ?dir < 0" "\<not> ?W \<le> 0"
    by blast
  then show ?thesis
  proof cases
    case beyond
    then have "1 < ?W / ?E"
      using E s1p by (simp add: less_divide_eq)
    then have "clamp01 (?W / ?E) = 1"
      by (simp add: clamp01_def)
    then have "closestPointOnSegment3 p s0 s1 = s1"
      by (simp add: closestPointOnSegment3_clamp scale3_one add3_sub3_cancel)
    then show ?thesis
      using beyond by (simp add: pointToLineSegmentDistanceSquared_def normSquared3_sub_commute)
  next
    case before
    then have "?W / ?E \<le> 0"
      using E by (simp add: divide_nonpos_pos)
    then have "clamp01 (?W / ?E) = 0"
      by (simp add: clamp01_def)
    then show ?thesis
      using before w by (simp add: pointToLineSegmentDistanceSquared_def closestPointOnSegment3_clamp add3_scale3_zero Let_def)
  next
    case inside
    then have "?W / ?E \<le> 1" "0 < ?W / ?E"
      using E s1p by simp_all
    then have c: "clamp01 (?W / ?E) = ?W / ?E"
      by (simp add: clamp01_def)
    have val: "normSquared3 (sub3 p (closestPointOnSegment3 p s0 s1)) = normSquared3 ?w - ?W * ?W * (1 / ?E)"
      unfolding closestPointOnSegment3_clamp c normSquared3_segment_point
      using E by (simp add: field_simps)
    then have "0 \<le> normSquared3 ?w - ?W * ?W * (1 / ?E)"
      using normSquared3_nonneg by metis
    then show ?thesis
      using inside w val by (simp add: pointToLineSegmentDistanceSquared_def Let_def)
  qed
qed

lemma segment_endpoint_identities:
  "normSquared3 (sub3 p s0) = normSquared3 (sub3 s1 p) + 2 * dot3 (sub3 s1 p) (sub3 s1 s0) * (- 1) + normSquared3 (sub3 s1 s0)"
  "normSquared3 (sub3 p s1) = normSquared3 (sub3 p s0) - 2 * dot3 (sub3 p s0) (sub3 s1 s0) + normSquared3 (sub3 s1 s0)"
  by (simp_all add: vec_defs algebra_simps)

text \<open>
  C37 (reported closest point). The point
  \<open>pointToLineSegmentDistanceSquared\<close> writes to \<open>pClosestPoint\<close> is wrong: for a
  projection inside the segment it is the closest point minus \<open>s0\<close>, and past either
  end it is the far end point, strictly farther from \<open>p\<close> than the returned distance.
\<close>

theorem pointToLineSegmentDistanceSquared_reported_point:
  assumes "s0 \<noteq> (s1 :: Vector3f)" and "pointToLineSegmentDistanceSquared p s0 s1 (Some q) = (d, Some c)"
  shows "(0 < dot3 (sub3 p s0) (sub3 s1 s0) \<and> 0 \<le> dot3 (sub3 s1 p) (sub3 s1 s0) \<longrightarrow>
            c = sub3 (closestPointOnSegment3 p s0 s1) s0) \<and>
         (\<not> (0 < dot3 (sub3 p s0) (sub3 s1 s0) \<and> 0 \<le> dot3 (sub3 s1 p) (sub3 s1 s0)) \<longrightarrow>
            d < normSquared3 (sub3 p c))"
proof -
  let ?dir = "sub3 s1 s0" and ?w = "sub3 p s0"
  let ?E = "normSquared3 ?dir" and ?W = "dot3 ?w ?dir"
  have E: "0 < ?E"
    by (rule normSquared3_sub_pos [OF assms(1)])
  have s1p: "dot3 (sub3 s1 p) ?dir = ?E - ?W"
    by (simp add: vec_defs algebra_simps)
  consider (beyond) "dot3 (sub3 s1 p) ?dir < 0" | (before) "\<not> dot3 (sub3 s1 p) ?dir < 0" "?W \<le> 0"
    | (inside) "\<not> dot3 (sub3 s1 p) ?dir < 0" "\<not> ?W \<le> 0"
    by blast
  then show ?thesis
  proof cases
    case beyond
    then have "c = s0" "d = normSquared3 (sub3 s1 p)"
      using assms(2) by (simp_all add: pointToLineSegmentDistanceSquared_def)
    moreover have "normSquared3 (sub3 s1 p) < normSquared3 (sub3 p s0)"
      using segment_endpoint_identities(1) [of p s0 s1] beyond E by linarith
    ultimately show ?thesis
      using beyond by simp
  next
    case before
    then have "c = s1" "d = normSquared3 ?w"
      using assms(2) by (simp_all add: pointToLineSegmentDistanceSquared_def Let_def)
    moreover have "normSquared3 ?w < normSquared3 (sub3 p s1)"
      using segment_endpoint_identities(2) [of p s1 s0] before E by linarith
    ultimately show ?thesis
      using before by simp
  next
    case inside
    then have c: "c = scale3 (1 / ?E) (scale3 ?W ?dir)"
      using assms(2) by (simp add: pointToLineSegmentDistanceSquared_def Let_def)
    have "?W / ?E \<le> 1" "0 < ?W / ?E"
      using inside E s1p by simp_all
    then have "clamp01 (dot3 ?dir ?w / ?E) = ?W / ?E"
      by (simp add: clamp01_def dot3_commute)
    then have "sub3 (closestPointOnSegment3 p s0 s1) s0 = scale3 (?W / ?E) ?dir"
      by (simp add: closestPointOnSegment3_clamp vec_defs)
    then show ?thesis
      using inside c s1p by (simp add: vec_defs)
  qed
qed

subsection \<open>Lemmas: Ray/sphere intersection\<close>

lemma quadratic_root:
  fixes a b c t :: real
  assumes "a \<noteq> 0" "0 \<le> b * b - 4 * a * c"
    and "t = (- b + sqrt (b * b - 4 * a * c)) * ((1 / 2) / a) \<or> t = (- b - sqrt (b * b - 4 * a * c)) * ((1 / 2) / a)"
  shows "a * t * t + b * t + c = 0"
proof -
  define q where "q = sqrt (b * b - 4 * a * c)"
  have q: "q * q = b * b - 4 * a * c"
    using assms(2) unfolding q_def by simp
  have "2 * a * t + b = q \<or> 2 * a * t + b = - q"
    using assms(1,3) unfolding q_def [symmetric] by (auto simp: field_simps)
  then have "(2 * a * t + b) * (2 * a * t + b) = q * q"
    by auto
  then have "4 * a * (a * t * t + b * t + c) = 0"
    unfolding q by (simp add: algebra_simps)
  then show ?thesis
    using assms(1) by simp
qed

lemma normSquared3_ray_point:
  "normSquared3 (sub3 (add3 r (scale3 t d)) c) =
     normSquared3 d * t * t + 2 * dot3 d (sub3 r c) * t + normSquared3 (sub3 r c)"
  by (simp add: vec_defs algebra_simps)

text \<open>
  (ray/sphere hit). When
  \<open>raySphereIntersection\<close> reports a hit for a non-zero direction, the ray point at
  the returned parameter lies on the sphere.
\<close>

theorem raySphereIntersection_on_sphere:
  assumes "raySphereIntersection rayOrigin rayDirection sphereCenter sphereRadius t = (True, t')"
    and "normSquared3 rayDirection \<noteq> 0"
  shows "normSquared3 (sub3 (add3 rayOrigin (scale3 t' rayDirection)) sphereCenter) = sphereRadius * sphereRadius"
proof -
  let ?a = "normSquared3 rayDirection"
  let ?b = "2 * dot3 rayDirection (sub3 rayOrigin sphereCenter)"
  let ?c = "normSquared3 (sub3 rayOrigin sphereCenter) - sphereRadius * sphereRadius"
  have disc: "0 \<le> ?b * ?b - 4 * ?a * ?c"
    and t': "t' = (- ?b + sqrt (?b * ?b - 4 * ?a * ?c)) * ((1 / 2) / ?a) \<or>
             t' = (- ?b - sqrt (?b * ?b - 4 * ?a * ?c)) * ((1 / 2) / ?a)"
    using assms(1) by (auto simp: raySphereIntersection_def Let_def split: if_splits)
  have "?a * t' * t' + ?b * t' + ?c = 0"
    by (rule quadratic_root [OF assms(2) disc t'])
  then show ?thesis
    unfolding normSquared3_ray_point by (simp add: algebra_simps)
qed

text \<open>
  (hit behind the origin). A ray from the origin along
  \<open>+x\<close> and a unit sphere centred at \<open>x = -3\<close>, entirely behind it, are reported as
  intersecting, at \<open>t = -2\<close>.
\<close>

theorem raySphereIntersection_behind:
  "raySphereIntersection \<lparr>v3x = 0, v3y = 0, v3z = 0\<rparr> \<lparr>v3x = 1, v3y = 0, v3z = 0\<rparr>
     \<lparr>v3x = -3, v3y = 0, v3z = 0\<rparr> 1 t = (True, -2)"
proof -
  have "sqrt 4 = (2 :: real)"
    using real_sqrt_abs [of 2] by simp
  then show ?thesis
    by (simp add: raySphereIntersection_def vec_defs Let_def)
qed

end
