(* ===== verification/D3D11Mesh.thy ===== *)
theory D3D11Mesh
  imports Geometry3D "HOL-Library.Monad_Syntax"
begin

text \<open>
  src/QDirectX/D3D11/src/D3D11Mesh.cpp: a triangle mesh on the CPU (its vertex array,
  the vertex ranges of its material batches with their diffuse colours and textures,
  a world matrix and a bounding box) mirrored into a Direct3D vertex buffer. The
  Direct3D device is its reference count (\<open>AddRef\<close>/\<open>Release\<close>); the vertex buffer
  is its capacity and contents; a texture is the absolute file name it was loaded
  from. \<open>D3D11Mesh.h\<close>, the vertex type, \<open>BoundingBox3f\<close> and the OBJ
  loader's records are not in this repository: they are modelled from their use
  here. \<open>QVector::at\<close> with an index out of range is undefined behaviour: the OBJ
  constructor returns \<open>None\<close> there, as it does for a material name the file does not
  define (a null \<open>OBJMaterial\<close>). \<open>QHash::keys()\<close> has no specified order: the groups
  are the list in the order \<open>keys()\<close> returns them.
\<close>

subsection \<open>Vertices and boxes\<close>

text \<open>\<open>VertexPosition4fNormal3fTexture2f\<close>; value-initialised vertices are zero.\<close>

record Vertex =
  vx_position :: Vector4f
  vx_normal :: Vector3f
  vx_texcoord :: Vector2f

definition zero3 :: Vector3f where
  "zero3 = \<lparr>v3x = 0, v3y = 0, v3z = 0\<rparr>"

definition zero2 :: Vector2f where
  "zero2 = \<lparr>v2x = 0, v2y = 0\<rparr>"

definition defaultVertex :: Vertex where
  "defaultVertex = \<lparr>vx_position = zeroVector4f, vx_normal = zero3, vx_texcoord = zero2\<rparr>"

text \<open>\<open>BoundingBox3f( xMin, yMin, zMin, xMax, yMax, zMax )\<close>, \<open>center()\<close> and
  \<open>longestSideLength()\<close>; \<open>BoundingBox3f()\<close> is the box at the origin.\<close>

record BoundingBox3f =
  bb_min :: Vector3f
  bb_max :: Vector3f

definition defaultBoundingBox :: BoundingBox3f where
  "defaultBoundingBox = \<lparr>bb_min = zero3, bb_max = zero3\<rparr>"

definition bbCenter :: "BoundingBox3f \<Rightarrow> Vector3f" where
  "bbCenter b = scale3 (1 / 2) (add3 (bb_min b) (bb_max b))"

definition bbLongestSideLength :: "BoundingBox3f \<Rightarrow> real" where
  "bbLongestSideLength b =
     (let d = sub3 (bb_max b) (bb_min b) in max (max (v3x d) (v3y d)) (v3z d))"

text \<open>\<open>std::numeric_limits< float >::max()\<close>; \<open>lowest()\<close> is its negation.\<close>

definition fltMax :: real where
  "fltMax = (2 - 1 / 2 ^ 23) * 2 ^ 127"

subsection \<open>The mesh and the GPU buffer\<close>

text \<open>\<open>DynamicVertexBuffer\<close>: a capacity and its contents; a new buffer's contents are
  unspecified and modelled as default vertices.\<close>

record VertexBuffer =
  vb_capacity :: nat
  vb_contents :: "Vertex list"

definition newVertexBuffer :: "nat \<Rightarrow> VertexBuffer" where
  "newVertexBuffer n = \<lparr>vb_capacity = n, vb_contents = replicate n defaultVertex\<rparr>"

record D3D11Mesh =
  m_vertexArray :: "Vertex list"
  m_vertexRanges :: "(int \<times> int) list"
  m_diffuseColors :: "Vector3f list"
  m_diffuseTexturesRanges :: "string option list"
  m_diffuseTextures :: "string \<rightharpoonup> string"
  m_worldMatrix :: Matrix4f
  m_boundingBox :: BoundingBox3f
  m_pVertexBuffer :: "VertexBuffer option"

definition emptyMesh :: "Vertex list \<Rightarrow> D3D11Mesh" where
  "emptyMesh va =
     \<lparr>m_vertexArray = va, m_vertexRanges = [], m_diffuseColors = [], m_diffuseTexturesRanges = [],
      m_diffuseTextures = Map.empty, m_worldMatrix = identity4, m_boundingBox = defaultBoundingBox,
      m_pVertexBuffer = None\<rparr>"

text \<open>\<open>updateGPUBuffer()\<close>: a new buffer when there is none or it is too small, then the
  vertex array copied to its front.\<close>

definition updateGPUBuffer :: "D3D11Mesh \<Rightarrow> D3D11Mesh" where
  "updateGPUBuffer mesh =
     (let va = m_vertexArray mesh; n = length va;
          vb = (case m_pVertexBuffer mesh of None \<Rightarrow> newVertexBuffer n
                | Some b \<Rightarrow> if vb_capacity b < n then newVertexBuffer n else b)
      in mesh\<lparr>m_pVertexBuffer := Some (vb\<lparr>vb_contents := va @ drop n (vb_contents vb)\<rparr>)\<rparr>)"

text \<open>\<open>updateBoundingBox()\<close>: the loop's six \<open>if\<close>s are \<open>bboxStep\<close> of \<open>Geometry3D\<close> on the
  running minimum and maximum, which start at \<open>max()\<close> and \<open>lowest()\<close>.\<close>

definition updateBoundingBox :: "D3D11Mesh \<Rightarrow> D3D11Mesh" where
  "updateBoundingBox mesh =
     (let start = (\<lparr>v3x = fltMax, v3y = fltMax, v3z = fltMax\<rparr>, \<lparr>v3x = - fltMax, v3y = - fltMax, v3z = - fltMax\<rparr>);
          (mn, mx) = foldl (\<lambda>mm v. bboxStep mm (swizzle_xyz (vx_position v))) start (m_vertexArray mesh)
      in mesh\<lparr>m_boundingBox := \<lparr>bb_min = mn, bb_max = mx\<rparr>\<rparr>)"

text \<open>\<open>D3D11Mesh( pDevice, capacity )\<close>: the device's reference count goes up; a
  negative capacity makes the vector constructor throw.\<close>

definition meshWithCapacity :: "nat \<Rightarrow> int \<Rightarrow> (D3D11Mesh \<times> nat) option" where
  "meshWithCapacity refs capacity =
     (if capacity < 0 then None else Some (emptyMesh (replicate (nat capacity) defaultVertex), Suc refs))"

text \<open>\<open>~D3D11Mesh()\<close>: \<open>Release\<close>.\<close>

definition destroyMesh :: "nat \<Rightarrow> nat" where
  "destroyMesh refs = refs - 1"

text \<open>\<open>D3D11Mesh( pDevice, vertexArray, capacity )\<close>: the first \<open>capacity\<close> vertices
  copied, then \<open>updateGPUBuffer()\<close> and \<open>updateBoundingBox()\<close>.\<close>

definition meshFromArray :: "nat \<Rightarrow> Vertex list \<Rightarrow> int \<Rightarrow> (D3D11Mesh \<times> nat) option" where
  "meshFromArray refs vertexArray capacity =
     (if capacity < 0 \<or> length vertexArray < nat capacity then None
      else Some (updateBoundingBox (updateGPUBuffer (emptyMesh (take (nat capacity) vertexArray))), Suc refs))"

definition addVertexRange :: "int \<times> int \<Rightarrow> Vector3f \<Rightarrow> string option \<Rightarrow> D3D11Mesh \<Rightarrow> D3D11Mesh" where
  "addVertexRange vr kd pDiffuseTexture mesh =
     mesh\<lparr>m_vertexRanges := m_vertexRanges mesh @ [vr], m_diffuseColors := m_diffuseColors mesh @ [kd],
          m_diffuseTexturesRanges := m_diffuseTexturesRanges mesh @ [pDiffuseTexture]\<rparr>"

definition capacity :: "D3D11Mesh \<Rightarrow> int" where
  "capacity mesh = int (length (m_vertexArray mesh))"

definition setWorldMatrix :: "Matrix4f \<Rightarrow> D3D11Mesh \<Rightarrow> D3D11Mesh" where
  "setWorldMatrix m mesh = mesh\<lparr>m_worldMatrix := m\<rparr>"

text \<open>\<open>vertexArray()\<close> returns a mutable reference: a caller may replace the array.\<close>

definition setVertexArray :: "Vertex list \<Rightarrow> D3D11Mesh \<Rightarrow> D3D11Mesh" where
  "setVertexArray va mesh = mesh\<lparr>m_vertexArray := va\<rparr>"

text \<open>The getters: \<open>vertexRanges()\<close> and \<open>diffuseColors()\<close> return mutable references
  (a caller may change them apart from each other), the others copies or const references.\<close>

definition vertexRanges :: "D3D11Mesh \<Rightarrow> (int \<times> int) list" where
  "vertexRanges mesh = m_vertexRanges mesh"

definition diffuseColors :: "D3D11Mesh \<Rightarrow> Vector3f list" where
  "diffuseColors mesh = m_diffuseColors mesh"

definition vertexArray :: "D3D11Mesh \<Rightarrow> Vertex list" where
  "vertexArray mesh = m_vertexArray mesh"

definition boundingBox :: "D3D11Mesh \<Rightarrow> BoundingBox3f" where
  "boundingBox mesh = m_boundingBox mesh"

definition worldMatrix :: "D3D11Mesh \<Rightarrow> Matrix4f" where
  "worldMatrix mesh = m_worldMatrix mesh"

definition vertexBuffer :: "D3D11Mesh \<Rightarrow> VertexBuffer option" where
  "vertexBuffer mesh = m_pVertexBuffer mesh"

text \<open>Writes through the references \<open>vertexRanges()\<close> and \<open>diffuseColors()\<close> return:
  the caller may replace either vector.\<close>

definition setVertexRanges :: "(int \<times> int) list \<Rightarrow> D3D11Mesh \<Rightarrow> D3D11Mesh" where
  "setVertexRanges vrs mesh = mesh\<lparr>m_vertexRanges := vrs\<rparr>"

definition setDiffuseColors :: "Vector3f list \<Rightarrow> D3D11Mesh \<Rightarrow> D3D11Mesh" where
  "setDiffuseColors kds mesh = mesh\<lparr>m_diffuseColors := kds\<rparr>"

definition twoUnitCubeWorldMatrix :: "D3D11Mesh \<Rightarrow> Matrix4f" where
  "twoUnitCubeWorldMatrix mesh =
     (let tr = translation4 (scale3 (- 1) (bbCenter (m_boundingBox mesh)));
          s = uniformScaling4 (2 / bbLongestSideLength (m_boundingBox mesh))
      in mul4 s tr)"

text \<open>\<open>normalMatrix()\<close>: the inverse transpose of the upper 3 x 3 block of the world
  matrix, \<open>inverse()\<close> with the default \<open>epsilon\<close> as parameter.\<close>

definition normalMatrix :: "real \<Rightarrow> D3D11Mesh \<Rightarrow> Matrix3f" where
  "normalMatrix epsilon mesh = transposed (inverseM epsilon (getSubmatrix3x3 (m_worldMatrix mesh) 0 0))"

definition normalMatrix4x4 :: "real \<Rightarrow> D3D11Mesh \<Rightarrow> Matrix4f" where
  "normalMatrix4x4 epsilon mesh = setSubmatrix3x3 zeroMatrix4 0 0 (normalMatrix epsilon mesh)"

subsection \<open>The OBJ constructor\<close>

text \<open>The OBJ loader's records as the constructor reads them: a face's index lists, a
  material's diffuse texture file (\<open>None\<close> for a null \<open>QString\<close>) and colour, a group's
  flags, material names and faces per material, and the data's attribute arrays,
  groups (in \<open>keys()\<close> order) and materials by name.\<close>

record OBJFace =
  face_positionIndices :: "int list"
  face_normalIndices :: "int list"
  face_texcoordIndices :: "int list"

record OBJMaterial =
  mat_diffuseTexture :: "string option"
  mat_diffuseColor :: Vector3f

record OBJGroup =
  grp_hasNormals :: bool
  grp_hasTextureCoordinates :: bool
  grp_materials :: "string list"
  grp_facesForMaterial :: "OBJFace list list"

record OBJData =
  obj_positions :: "Vector3f list"
  obj_normals :: "Vector3f list"
  obj_texcoords :: "Vector2f list"
  obj_groups :: "OBJGroup list"
  obj_materials :: "string \<rightharpoonup> OBJMaterial"

text \<open>\<open>QVector::at( i )\<close>: \<open>None\<close> out of range.\<close>

definition qAt :: "'a list \<Rightarrow> int \<Rightarrow> 'a option" where
  "qAt xs i = (if 0 \<le> i \<and> nat i < length xs then Some (xs ! nat i) else None)"

definition at3 :: "'a list \<Rightarrow> int list \<Rightarrow> ('a \<times> 'a \<times> 'a) option" where
  "at3 xs idx = do { i0 \<leftarrow> qAt idx 0; i1 \<leftarrow> qAt idx 1; i2 \<leftarrow> qAt idx 2;
                     a0 \<leftarrow> qAt xs i0; a1 \<leftarrow> qAt xs i1; a2 \<leftarrow> qAt xs i2; Some (a0, a1, a2) }"

text \<open>The body of the face loop: the three vertices of one face, with the group's
  normals, or one generated per-face normal, or default (zero) normals, and the
  group's texture coordinates or zero ones.\<close>

definition faceVertices :: "OBJData \<Rightarrow> OBJGroup \<Rightarrow> bool \<Rightarrow> OBJFace \<Rightarrow> Vertex list option" where
  "faceVertices obj grp generatePerFaceNormalsIfNonExistent face =
     do { (p0, p1, p2) \<leftarrow> at3 (obj_positions obj) (face_positionIndices face);
          (n0, n1, n2) \<leftarrow> (if grp_hasNormals grp then at3 (obj_normals obj) (face_normalIndices face)
                           else if generatePerFaceNormalsIfNonExistent then
                             (let n0 = normalized3 (cross3 (sub3 p1 p0) (sub3 p2 p0)) in Some (n0, n0, n0))
                           else Some (zero3, zero3, zero3));
          (t0, t1, t2) \<leftarrow> (if grp_hasTextureCoordinates grp then at3 (obj_texcoords obj) (face_texcoordIndices face)
                           else Some (zero2, zero2, zero2));
          Some [\<lparr>vx_position = fromXYZ_W p0 1, vx_normal = n0, vx_texcoord = t0\<rparr>,
                \<lparr>vx_position = fromXYZ_W p1 1, vx_normal = n1, vx_texcoord = t1\<rparr>,
                \<lparr>vx_position = fromXYZ_W p2 1, vx_normal = n2, vx_texcoord = t2\<rparr>] }"

fun facesVertices :: "OBJData \<Rightarrow> OBJGroup \<Rightarrow> bool \<Rightarrow> OBJFace list \<Rightarrow> Vertex list option" where
  "facesVertices obj grp g [] = Some []"
| "facesVertices obj grp g (f # fs) =
     do { vs \<leftarrow> faceVertices obj grp g f; rest \<leftarrow> facesVertices obj grp g fs; Some (vs @ rest) }"

text \<open>The texture of a batch: \<open>None\<close> (a null pointer) when the material has no
  diffuse texture file, otherwise the texture of that file name, loaded from
  \<open>texturePath + name\<close> the first time the name is met.\<close>

definition loadDiffuseTexture :: "string \<Rightarrow> OBJMaterial \<Rightarrow> D3D11Mesh \<Rightarrow> D3D11Mesh \<times> string option" where
  "loadDiffuseTexture texturePath pBatchMaterial mesh =
     (case mat_diffuseTexture pBatchMaterial of
        None \<Rightarrow> (mesh, None)
      | Some diffuseTextureFilename \<Rightarrow>
          (let mesh = (if diffuseTextureFilename \<in> dom (m_diffuseTextures mesh) then mesh
                       else mesh\<lparr>m_diffuseTextures := (m_diffuseTextures mesh)(diffuseTextureFilename \<mapsto>
                                   texturePath @ diffuseTextureFilename)\<rparr>)
           in (mesh, m_diffuseTextures mesh diffuseTextureFilename)))"

text \<open>One batch (material \<open>m\<close> of a group): push the batch's vertices, load its
  texture, and add the vertex range. As in the code, the range starts at
  \<open>nVerticesTotal\<close>, which is never advanced from 0.\<close>

definition addBatch :: "OBJData \<Rightarrow> string \<Rightarrow> bool \<Rightarrow> OBJGroup \<Rightarrow> D3D11Mesh \<Rightarrow> nat \<Rightarrow> D3D11Mesh option" where
  "addBatch obj texturePath generatePerFaceNormalsIfNonExistent grp mesh m =
     do { materialName \<leftarrow> qAt (grp_materials grp) (int m);
          pBatchMaterial \<leftarrow> obj_materials obj materialName;
          faces \<leftarrow> qAt (grp_facesForMaterial grp) (int m);
          let nVerticesTotal = (0 :: int);
          let nVerticesInBatch = 3 * int (length faces);
          vs \<leftarrow> facesVertices obj grp generatePerFaceNormalsIfNonExistent faces;
          let mesh = mesh\<lparr>m_vertexArray := m_vertexArray mesh @ vs\<rparr>;
          let (mesh, diffuseTexture) = loadDiffuseTexture texturePath pBatchMaterial mesh;
          Some (addVertexRange (nVerticesTotal, nVerticesInBatch) (mat_diffuseColor pBatchMaterial) diffuseTexture mesh) }"

fun foldOpt :: "('s \<Rightarrow> 'a \<Rightarrow> 's option) \<Rightarrow> 's \<Rightarrow> 'a list \<Rightarrow> 's option" where
  "foldOpt f s [] = Some s"
| "foldOpt f s (x # xs) = do { s' \<leftarrow> f s x; foldOpt f s' xs }"

definition addGroup :: "OBJData \<Rightarrow> string \<Rightarrow> bool \<Rightarrow> D3D11Mesh \<Rightarrow> OBJGroup \<Rightarrow> D3D11Mesh option" where
  "addGroup obj texturePath g mesh grp = foldOpt (addBatch obj texturePath g grp) mesh [0..<length (grp_materials grp)]"

text \<open>\<open>D3D11Mesh( pDevice, pOBJData, texturePath, generatePerFaceNormalsIfNonExistent )\<close>.\<close>

definition meshFromOBJ :: "nat \<Rightarrow> OBJData \<Rightarrow> string \<Rightarrow> bool \<Rightarrow> (D3D11Mesh \<times> nat) option" where
  "meshFromOBJ refs obj texturePath generatePerFaceNormalsIfNonExistent =
     do { mesh \<leftarrow> foldOpt (addGroup obj texturePath generatePerFaceNormalsIfNonExistent) (emptyMesh []) (obj_groups obj);
          Some (updateBoundingBox (updateGPUBuffer mesh), Suc refs) }"

subsection \<open>Runs of the public members\<close>

text \<open>Every mesh a program holds: built by one of the constructors, then changed by
  the members that change state, in any order.\<close>

inductive meshReach :: "bool \<Rightarrow> D3D11Mesh \<Rightarrow> bool" where
  capacity: "meshWithCapacity refs c = Some (mesh, refs') \<Longrightarrow> meshReach True mesh"
| fromArray: "meshFromArray refs va c = Some (mesh, refs') \<Longrightarrow> meshReach True mesh"
| fromOBJ: "meshFromOBJ refs obj path g = Some (mesh, refs') \<Longrightarrow> meshReach True mesh"
| addRange: "meshReach k mesh \<Longrightarrow> meshReach k (addVertexRange vr kd tex mesh)"
| setWorld: "meshReach k mesh \<Longrightarrow> meshReach k (setWorldMatrix m mesh)"
| setArray: "meshReach k mesh \<Longrightarrow> meshReach k (setVertexArray va mesh)"
| setRanges: "meshReach k mesh \<Longrightarrow>
    meshReach (k \<and> length vrs = length (m_vertexRanges mesh)) (setVertexRanges vrs mesh)"
| setColors: "meshReach k mesh \<Longrightarrow>
    meshReach (k \<and> length kds = length (m_diffuseColors mesh)) (setDiffuseColors kds mesh)"
| gpu: "meshReach k mesh \<Longrightarrow> meshReach k (updateGPUBuffer mesh)"
| box: "meshReach k mesh \<Longrightarrow> meshReach k (updateBoundingBox mesh)"

text \<open>The GPU buffer, when there is one, holds exactly its capacity of vertices; the
  mesh invariant adds one colour and one texture per vertex range.\<close>

definition vertexBufferInv :: "D3D11Mesh \<Rightarrow> bool" where
  "vertexBufferInv mesh =
     (case m_pVertexBuffer mesh of None \<Rightarrow> True | Some b \<Rightarrow> length (vb_contents b) = vb_capacity b)"

definition meshInv :: "D3D11Mesh \<Rightarrow> bool" where
  "meshInv mesh =
     (length (m_diffuseColors mesh) = length (m_vertexRanges mesh) \<and>
      length (m_diffuseTexturesRanges mesh) = length (m_vertexRanges mesh) \<and>
      vertexBufferInv mesh)"


subsection \<open>Lemmas\<close>

lemma foldOpt_inv:
  assumes "\<And>s x s'. P s \<Longrightarrow> f s x = Some s' \<Longrightarrow> P s'" and "P s" and "foldOpt f s xs = Some s'"
  shows "P s'"
  using assms(2,3)
proof (induction xs arbitrary: s)
  case Nil
  then show ?case by simp
next
  case (Cons x xs)
  then obtain s1 where "f s x = Some s1" and "foldOpt f s1 xs = Some s'"
    by (auto split: Option.bind_splits)
  then show ?case
    using Cons.IH assms(1) Cons.prems(1) by blast
qed

lemma meshInv_addVertexRange: "meshInv mesh \<Longrightarrow> meshInv (addVertexRange vr kd tex mesh)"
  by (simp add: meshInv_def addVertexRange_def vertexBufferInv_def)

lemma vertexBufferInv_updateGPUBuffer: "vertexBufferInv mesh \<Longrightarrow> vertexBufferInv (updateGPUBuffer mesh)"
  by (auto simp: vertexBufferInv_def updateGPUBuffer_def newVertexBuffer_def Let_def split: option.splits)

lemma meshInv_updateGPUBuffer: "meshInv mesh \<Longrightarrow> meshInv (updateGPUBuffer mesh)"
  using vertexBufferInv_updateGPUBuffer [of mesh] by (simp add: meshInv_def updateGPUBuffer_def Let_def)

lemma vertexBufferInv_fields [simp]:
  "vertexBufferInv (addVertexRange vr kd tex mesh) = vertexBufferInv mesh"
  "vertexBufferInv (setWorldMatrix m mesh) = vertexBufferInv mesh"
  "vertexBufferInv (setVertexArray va mesh) = vertexBufferInv mesh"
  "vertexBufferInv (setVertexRanges vrs mesh) = vertexBufferInv mesh"
  "vertexBufferInv (setDiffuseColors kds mesh) = vertexBufferInv mesh"
  "vertexBufferInv (updateBoundingBox mesh) = vertexBufferInv mesh"
  by (simp_all add: vertexBufferInv_def addVertexRange_def setWorldMatrix_def setVertexArray_def
      setVertexRanges_def setDiffuseColors_def updateBoundingBox_def split_def Let_def)

lemma meshInv_setVertexRanges:
  "meshInv mesh \<Longrightarrow> length vrs = length (m_vertexRanges mesh) \<Longrightarrow> meshInv (setVertexRanges vrs mesh)"
  by (simp add: meshInv_def setVertexRanges_def vertexBufferInv_def)

lemma meshInv_setDiffuseColors:
  "meshInv mesh \<Longrightarrow> length kds = length (m_diffuseColors mesh) \<Longrightarrow> meshInv (setDiffuseColors kds mesh)"
  by (simp add: meshInv_def setDiffuseColors_def vertexBufferInv_def)

lemma meshInv_updateBoundingBox [simp]: "meshInv (updateBoundingBox mesh) = meshInv mesh"
  by (simp add: meshInv_def updateBoundingBox_def split_def Let_def vertexBufferInv_def)

lemma meshInv_setWorldMatrix [simp]: "meshInv (setWorldMatrix m mesh) = meshInv mesh"
  by (simp add: meshInv_def setWorldMatrix_def vertexBufferInv_def)

lemma meshInv_setVertexArray [simp]: "meshInv (setVertexArray va mesh) = meshInv mesh"
  by (simp add: meshInv_def setVertexArray_def vertexBufferInv_def)

lemma meshInv_emptyMesh: "meshInv (emptyMesh va)"
  by (simp add: meshInv_def emptyMesh_def vertexBufferInv_def)

lemma loadDiffuseTexture_fields [simp]:
  "m_vertexArray (fst (loadDiffuseTexture p mat mesh)) = m_vertexArray mesh"
  "m_vertexRanges (fst (loadDiffuseTexture p mat mesh)) = m_vertexRanges mesh"
  "m_diffuseColors (fst (loadDiffuseTexture p mat mesh)) = m_diffuseColors mesh"
  "m_diffuseTexturesRanges (fst (loadDiffuseTexture p mat mesh)) = m_diffuseTexturesRanges mesh"
  "m_pVertexBuffer (fst (loadDiffuseTexture p mat mesh)) = m_pVertexBuffer mesh"
  by (simp_all add: loadDiffuseTexture_def Let_def split: option.splits)

lemma addBatch_SomeD:
  assumes "addBatch obj path g grp mesh m = Some mesh'"
  obtains faces vs kd tex where "facesVertices obj grp g faces = Some vs"
    and "m_vertexArray mesh' = m_vertexArray mesh @ vs"
    and "m_vertexRanges mesh' = m_vertexRanges mesh @ [(0, 3 * int (length faces))]"
    and "m_diffuseColors mesh' = m_diffuseColors mesh @ [kd]"
    and "m_diffuseTexturesRanges mesh' = m_diffuseTexturesRanges mesh @ [tex]"
    and "m_pVertexBuffer mesh' = m_pVertexBuffer mesh"
proof -
  obtain name mat faces vs where "facesVertices obj grp g faces = Some vs"
    and m': "mesh' = addVertexRange (0, 3 * int (length faces)) (mat_diffuseColor mat)
               (snd (loadDiffuseTexture path mat (mesh\<lparr>m_vertexArray := m_vertexArray mesh @ vs\<rparr>)))
               (fst (loadDiffuseTexture path mat (mesh\<lparr>m_vertexArray := m_vertexArray mesh @ vs\<rparr>)))"
    using assms by (auto simp: addBatch_def Let_def split_def split: Option.bind_splits)
  then show thesis
    by (intro that) (simp_all add: addVertexRange_def)
qed

lemma meshInv_addBatch:
  assumes "meshInv mesh" and "addBatch obj path g grp mesh m = Some mesh'"
  shows "meshInv mesh'"
  using assms(2)
proof (rule addBatch_SomeD)
  fix faces vs kd tex
  assume "m_vertexRanges mesh' = m_vertexRanges mesh @ [(0, 3 * int (length faces))]"
    and "m_diffuseColors mesh' = m_diffuseColors mesh @ [kd]"
    and "m_diffuseTexturesRanges mesh' = m_diffuseTexturesRanges mesh @ [tex]"
    and "m_pVertexBuffer mesh' = m_pVertexBuffer mesh"
  then show "meshInv mesh'"
    using assms(1) by (simp add: meshInv_def vertexBufferInv_def)
qed

lemma meshInv_meshFromOBJ:
  assumes "meshFromOBJ refs obj path g = Some (mesh, refs')"
  shows "meshInv mesh"
proof -
  obtain mesh0 where f: "foldOpt (addGroup obj path g) (emptyMesh []) (obj_groups obj) = Some mesh0"
    and mesh: "mesh = updateBoundingBox (updateGPUBuffer mesh0)"
    using assms by (auto simp: meshFromOBJ_def split: Option.bind_splits)
  have "meshInv mesh0"
  proof (rule foldOpt_inv [where P = meshInv, OF _ meshInv_emptyMesh f])
    fix s grp s'
    assume a: "meshInv s" "addGroup obj path g s grp = Some s'"
    show "meshInv s'"
      by (rule foldOpt_inv [where P = meshInv and f = "addBatch obj path g grp", OF _ a(1) a(2) [unfolded addGroup_def]])
        (rule meshInv_addBatch)
  qed
  then show ?thesis
    unfolding mesh by (simp add: meshInv_updateGPUBuffer)
qed

text \<open>
  C6 (mesh invariant). Every mesh built by one of the three constructors and changed
  by any sequence of \<open>addVertexRange\<close>, \<open>setWorldMatrix\<close>, \<open>updateGPUBuffer\<close>,
  \<open>updateBoundingBox\<close> and writes through the references \<open>vertexArray()\<close>,
  \<open>vertexRanges()\<close> and \<open>diffuseColors()\<close> has a vertex buffer holding exactly its
  capacity; as long as the writes through \<open>vertexRanges()\<close> and \<open>diffuseColors()\<close>
  keep the length of the vector they replace, it also has one diffuse colour and one
  texture per vertex range (a write that changes a length breaks that, and nothing
  in the class restores it).
\<close>

theorem meshReach_meshInv: "meshReach k mesh \<Longrightarrow> vertexBufferInv mesh \<and> (k \<longrightarrow> meshInv mesh)"
proof (induction rule: meshReach.induct)
  case (capacity refs c mesh refs')
  then have "meshInv mesh"
    by (auto simp: meshWithCapacity_def meshInv_emptyMesh split: if_splits)
  then show ?case
    by (simp add: meshInv_def)
next
  case (fromArray refs va c mesh refs')
  then have "meshInv mesh"
    by (auto simp: meshFromArray_def meshInv_emptyMesh meshInv_updateGPUBuffer split: if_splits)
  then show ?case
    by (simp add: meshInv_def)
next
  case (fromOBJ refs obj path g mesh refs')
  then have "meshInv mesh"
    by (rule meshInv_meshFromOBJ)
  then show ?case
    by (simp add: meshInv_def)
next
  case (setRanges k mesh vrs)
  then show ?case
    by (auto intro: meshInv_setVertexRanges)
next
  case (setColors k mesh kds)
  then show ?case
    by (auto intro: meshInv_setDiffuseColors)
next
  case (gpu k mesh)
  then show ?case
    by (simp add: vertexBufferInv_updateGPUBuffer meshInv_updateGPUBuffer)
qed (simp_all add: meshInv_addVertexRange)

lemma updateGPUBuffer_fields [simp]:
  "m_vertexArray (updateGPUBuffer mesh) = m_vertexArray mesh"
  "m_vertexRanges (updateGPUBuffer mesh) = m_vertexRanges mesh"
  by (simp_all add: updateGPUBuffer_def Let_def)

lemma updateBoundingBox_fields [simp]:
  "m_vertexArray (updateBoundingBox mesh) = m_vertexArray mesh"
  "m_vertexRanges (updateBoundingBox mesh) = m_vertexRanges mesh"
  "m_pVertexBuffer (updateBoundingBox mesh) = m_pVertexBuffer mesh"
  by (simp_all add: updateBoundingBox_def Let_def split_def)

lemma faceVertices_length: "faceVertices obj grp g face = Some vs \<Longrightarrow> length vs = 3"
  by (auto simp: faceVertices_def split: Option.bind_splits prod.splits if_splits)

lemma facesVertices_length: "facesVertices obj grp g faces = Some vs \<Longrightarrow> length vs = 3 * length faces"
  by (induction faces arbitrary: vs) (auto split: Option.bind_splits dest: faceVertices_length)

definition rangesFromZero :: "D3D11Mesh \<Rightarrow> bool" where
  "rangesFromZero mesh =
     ((\<forall>vr \<in> set (m_vertexRanges mesh). fst vr = 0) \<and>
      sum_list (map snd (m_vertexRanges mesh)) = int (length (m_vertexArray mesh)))"

lemma rangesFromZero_addBatch:
  assumes "rangesFromZero mesh" and "addBatch obj path g grp mesh m = Some mesh'"
  shows "rangesFromZero mesh'"
  using assms(2)
proof (rule addBatch_SomeD)
  fix faces vs kd tex
  assume "facesVertices obj grp g faces = Some vs"
    and "m_vertexArray mesh' = m_vertexArray mesh @ vs"
    and "m_vertexRanges mesh' = m_vertexRanges mesh @ [(0, 3 * int (length faces))]"
  then show "rangesFromZero mesh'"
    using assms(1) facesVertices_length by (simp add: rangesFromZero_def)
qed

text \<open>
  C38 (batch ranges of an OBJ mesh). Every vertex range the
  OBJ constructor records starts at vertex 0, while the range lengths add up to the
  whole vertex array: \<open>nVerticesTotal\<close> is never advanced, so every batch after the
  first draws the first batch's vertices.
\<close>

theorem meshFromOBJ_vertexRanges:
  assumes "meshFromOBJ refs obj path g = Some (mesh, refs')"
  shows "(\<forall>vr \<in> set (m_vertexRanges mesh). fst vr = 0) \<and>
         sum_list (map snd (m_vertexRanges mesh)) = int (length (m_vertexArray mesh))"
proof -
  obtain mesh0 where f: "foldOpt (addGroup obj path g) (emptyMesh []) (obj_groups obj) = Some mesh0"
    and mesh: "mesh = updateBoundingBox (updateGPUBuffer mesh0)"
    using assms by (auto simp: meshFromOBJ_def split: Option.bind_splits)
  have "rangesFromZero mesh0"
  proof (rule foldOpt_inv [where P = rangesFromZero, OF _ _ f])
    show "rangesFromZero (emptyMesh [])"
      by (simp add: rangesFromZero_def emptyMesh_def)
    fix s grp s'
    assume a: "rangesFromZero s" "addGroup obj path g s grp = Some s'"
    show "rangesFromZero s'"
      by (rule foldOpt_inv [where P = rangesFromZero and f = "addBatch obj path g grp", OF _ a(1) a(2) [unfolded addGroup_def]])
        (rule rangesFromZero_addBatch)
  qed
  then show ?thesis
    unfolding mesh by (simp add: rangesFromZero_def)
qed

lemma Min_insert_above: "finite S \<Longrightarrow> S \<noteq> {} \<Longrightarrow> \<forall>x \<in> S. x \<le> a \<Longrightarrow> Min (insert a S) = Min (S :: real set)"
  using Min_in [of S] by (simp add: min_absorb2)

lemma Max_insert_below: "finite S \<Longrightarrow> S \<noteq> {} \<Longrightarrow> \<forall>x \<in> S. a \<le> x \<Longrightarrow> Max (insert a S) = Max (S :: real set)"
  using Max_in [of S] by (simp add: max_absorb2)

lemma updateBoundingBox_fold:
  "m_boundingBox (updateBoundingBox mesh) =
     (let (mn, mx) = foldl bboxStep (\<lparr>v3x = fltMax, v3y = fltMax, v3z = fltMax\<rparr>, \<lparr>v3x = - fltMax, v3y = - fltMax, v3z = - fltMax\<rparr>)
                       (map (\<lambda>v. swizzle_xyz (vx_position v)) (m_vertexArray mesh))
      in \<lparr>bb_min = mn, bb_max = mx\<rparr>)"
  by (simp add: updateBoundingBox_def foldl_map split_def Let_def)

text \<open>
  For a non-empty vertex array whose
  coordinates are finite floats, \<open>updateBoundingBox\<close> sets the box to the componentwise
  minimum and maximum of the vertex positions.
\<close>

theorem updateBoundingBox_tight:
  assumes "m_vertexArray mesh \<noteq> []"
    and "\<forall>v \<in> set (m_vertexArray mesh). \<bar>v4x (vx_position v)\<bar> \<le> fltMax \<and> \<bar>v4y (vx_position v)\<bar> \<le> fltMax \<and>
           \<bar>v4z (vx_position v)\<bar> \<le> fltMax"
  shows "bb_min (m_boundingBox (updateBoundingBox mesh)) =
           \<lparr>v3x = Min ((\<lambda>v. v4x (vx_position v)) ` set (m_vertexArray mesh)),
            v3y = Min ((\<lambda>v. v4y (vx_position v)) ` set (m_vertexArray mesh)),
            v3z = Min ((\<lambda>v. v4z (vx_position v)) ` set (m_vertexArray mesh))\<rparr> \<and>
         bb_max (m_boundingBox (updateBoundingBox mesh)) =
           \<lparr>v3x = Max ((\<lambda>v. v4x (vx_position v)) ` set (m_vertexArray mesh)),
            v3y = Max ((\<lambda>v. v4y (vx_position v)) ` set (m_vertexArray mesh)),
            v3z = Max ((\<lambda>v. v4z (vx_position v)) ` set (m_vertexArray mesh))\<rparr>"
proof -
  let ?S = "\<lambda>c. (\<lambda>v. c (vx_position v)) ` set (m_vertexArray mesh)"
  have ne: "?S c \<noteq> {}" for c
    using assms(1) by simp
  have bx: "\<forall>x \<in> ?S v4x. x \<le> fltMax" "\<forall>x \<in> ?S v4y. x \<le> fltMax" "\<forall>x \<in> ?S v4z. x \<le> fltMax"
    and by': "\<forall>x \<in> ?S v4x. - fltMax \<le> x" "\<forall>x \<in> ?S v4y. - fltMax \<le> x" "\<forall>x \<in> ?S v4z. - fltMax \<le> x"
    using assms(2) by (auto simp: abs_le_iff)
  have img: "v3x ` set (map (\<lambda>v. swizzle_xyz (vx_position v)) (m_vertexArray mesh)) = ?S v4x"
    "v3y ` set (map (\<lambda>v. swizzle_xyz (vx_position v)) (m_vertexArray mesh)) = ?S v4y"
    "v3z ` set (map (\<lambda>v. swizzle_xyz (vx_position v)) (m_vertexArray mesh)) = ?S v4z"
    by (auto simp: swizzle_xyz_def image_image)
  show ?thesis
    unfolding updateBoundingBox_fold foldl_bboxStep img
    using Min_insert_above [OF _ ne bx(1)] Min_insert_above [OF _ ne bx(2)] Min_insert_above [OF _ ne bx(3)]
      Max_insert_below [OF _ ne by'(1)] Max_insert_below [OF _ ne by'(2)] Max_insert_below [OF _ ne by'(3)]
    by simp
qed

lemma updateBoundingBox_empty:
  "m_vertexArray mesh = [] \<Longrightarrow>
     bbLongestSideLength (m_boundingBox (updateBoundingBox mesh)) = - 2 * fltMax"
  by (simp add: updateBoundingBox_fold bbLongestSideLength_def sub3_def)

theorem updateGPUBuffer_mirrors:
  "\<exists>b. m_pVertexBuffer (updateGPUBuffer mesh) = Some b \<and>
       take (length (m_vertexArray mesh)) (vb_contents b) = m_vertexArray mesh \<and>
       length (m_vertexArray mesh) \<le> vb_capacity b \<and>
       (\<forall>b0. m_pVertexBuffer mesh = Some b0 \<and> length (m_vertexArray mesh) \<le> vb_capacity b0 \<longrightarrow>
              vb_capacity b = vb_capacity b0)"
  by (auto simp: updateGPUBuffer_def newVertexBuffer_def Let_def split: option.splits)

lemma faceVertices_generated_normal:
  assumes "faceVertices obj grp True face = Some vs" and "\<not> grp_hasNormals grp"
    and "at3 (obj_positions obj) (face_positionIndices face) = Some (p0, p1, p2)"
  shows "\<forall>v \<in> set vs. vx_normal v = normalized3 (cross3 (sub3 p1 p0) (sub3 p2 p0))"
  using assms by (auto simp: faceVertices_def Let_def split: Option.bind_splits prod.splits if_splits)

theorem faceVertices_normals_perpendicular:
  assumes "faceVertices obj grp True face = Some vs" and "\<not> grp_hasNormals grp"
    and "at3 (obj_positions obj) (face_positionIndices face) = Some (p0, p1, p2)"
    and "normSquared3 (cross3 (sub3 p1 p0) (sub3 p2 p0)) \<noteq> 0"
  shows "\<forall>v \<in> set vs. normSquared3 (vx_normal v) = 1 \<and>
           dot3 (vx_normal v) (sub3 p1 p0) = 0 \<and> dot3 (vx_normal v) (sub3 p2 p0) = 0"
proof -
  let ?c = "cross3 (sub3 p1 p0) (sub3 p2 p0)"
  have l: "dot3 (div3 v k) u = dot3 v u / k" for v k u
    by (simp add: vec_defs add_divide_distrib)
  have "dot3 ?c (sub3 p1 p0) = 0" "dot3 ?c (sub3 p2 p0) = 0"
    by (simp_all add: vec_defs algebra_simps)
  then have "dot3 (normalized3 ?c) (sub3 p1 p0) = 0" "dot3 (normalized3 ?c) (sub3 p2 p0) = 0"
    unfolding normalized3_def l by simp_all
  then show ?thesis
    using faceVertices_generated_normal [OF assms(1-3)] normSquared3_normalized3 [OF assms(4)] by simp
qed


lemma twoUnitCubeWorldMatrix_eq:
  "twoUnitCubeWorldMatrix mesh =
     (let k = 2 / bbLongestSideLength (m_boundingBox mesh); c = bbCenter (m_boundingBox mesh)
      in [k, 0, 0, 0, 0, k, 0, 0, 0, 0, k, 0, - (k * v3x c), - (k * v3y c), - (k * v3z c), 1])"
  by (simp add: twoUnitCubeWorldMatrix_def mul4_def elem4_def translation4_def uniformScaling4_def identity4_def
      upt4 scale3_def Let_def)

lemma unit_cube_coord:
  fixes L a b x :: real
  assumes "0 < L" "a \<le> x" "x \<le> b" "b - a \<le> L"
  shows "\<bar>2 / L * x - 2 / L * (1 / 2 * (a + b))\<bar> \<le> 1"
proof -
  have e: "2 / L * x - 2 / L * (1 / 2 * (a + b)) = (2 * x - a - b) / L"
    by (simp add: diff_divide_distrib add_divide_distrib)
  have "\<bar>2 * x - a - b\<bar> \<le> L"
    using assms(2-4) by (simp add: abs_le_iff)
  then have "\<bar>2 * x - a - b\<bar> / L \<le> 1"
    using divide_le_eq_1_pos [OF assms(1)] by blast
  then show ?thesis
    unfolding e abs_divide abs_of_pos [OF assms(1)] .
qed

text \<open>
  For a box with a
  positive longest side, \<open>twoUnitCubeWorldMatrix\<close> maps every point of the box into the
  cube \<open>[-1, 1]\<^sup>3\<close> and keeps \<open>w = 1\<close>.
\<close>

theorem twoUnitCubeWorldMatrix_unit_cube:
  assumes "0 < bbLongestSideLength (m_boundingBox mesh)"
    and "v3x (bb_min (m_boundingBox mesh)) \<le> v3x p" "v3x p \<le> v3x (bb_max (m_boundingBox mesh))"
    and "v3y (bb_min (m_boundingBox mesh)) \<le> v3y p" "v3y p \<le> v3y (bb_max (m_boundingBox mesh))"
    and "v3z (bb_min (m_boundingBox mesh)) \<le> v3z p" "v3z p \<le> v3z (bb_max (m_boundingBox mesh))"
  shows "\<bar>v4x (mulVec4 (twoUnitCubeWorldMatrix mesh) (fromXYZ_W p 1))\<bar> \<le> 1 \<and>
         \<bar>v4y (mulVec4 (twoUnitCubeWorldMatrix mesh) (fromXYZ_W p 1))\<bar> \<le> 1 \<and>
         \<bar>v4z (mulVec4 (twoUnitCubeWorldMatrix mesh) (fromXYZ_W p 1))\<bar> \<le> 1 \<and>
         v4w (mulVec4 (twoUnitCubeWorldMatrix mesh) (fromXYZ_W p 1)) = 1"
proof -
  let ?B = "m_boundingBox mesh"
  let ?L = "bbLongestSideLength ?B"
  have side: "v3x (bb_max ?B) - v3x (bb_min ?B) \<le> ?L" "v3y (bb_max ?B) - v3y (bb_min ?B) \<le> ?L"
    "v3z (bb_max ?B) - v3z (bb_min ?B) \<le> ?L"
    by (simp_all add: bbLongestSideLength_def sub3_def)
  show ?thesis
    using unit_cube_coord [OF assms(1) assms(2,3) side(1)] unit_cube_coord [OF assms(1) assms(4,5) side(2)]
      unit_cube_coord [OF assms(1) assms(6,7) side(3)]
    by (simp add: twoUnitCubeWorldMatrix_eq mulVec4_def elem4_def fromXYZ_W_def bbCenter_def Let_def
        scale3_def add3_def)
qed

end
