(* ===== verification/Spec2Isabelle.thy ===== *)
theory Spec2Isabelle
  imports Converter BitPacking Matrix3f Vector4f DeviceArray2D Geometry3D D3D11Mesh
begin

text \<open>
  \<^bold>\<open>A verification library for libcgt's RGBD stream container and its neighbours.\<close>

  \<^emph>\<open>The program.\<close> libcgt is a collection of graphics utilities. The part with
  state, a wire format and failure handling is the RGBD stream container of
  src/camera_wrappers/RGBDStream.cpp: \<open>RGBDOutputStream\<close> writes a header (magic
  \<open>rgbd\<close>, version 1, stream count, one metadata record per stream) and then one
  record per frame (stream id, frame index, timestamp, raw payload);
  \<open>RGBDInputStream\<close> parses the header, in the current or the legacy V1 metadata
  schema, allocates one scratch buffer per stream, and decodes one record per
  \<open>read\<close>. The converter src/apps/rgbd_stream_converter/src/main.cpp reads a V1 file
  and writes every record to a file in the current schema. Reader and writer meet
  only in the byte layout of the file. Self-contained libraries sit beside it:
  the bit packing of src/core/src/math/BitPacking.inl (byte swaps and Morton codes),
  the 3 x 3 matrices of src/core/src/vecmath/Matrix3f.cpp, the four-component vectors
  of src/core/src/vecmath/Vector4f.cpp, the geometry routines of
  src/core/src/geometry/GeometryUtils.cpp, which call the matrices and vectors, and
  the pitched GPU array \<open>DeviceArray2D\<close> of src/cuda/src/DeviceArray2D.inl, whose
  objects share one device memory.

  \<^emph>\<open>The theories.\<close>
  \<^item> \<open>Prelude\<close>: machine types as words (\<open>int32\<close>, \<open>uint32\<close>, \<open>int64\<close>, \<open>byte\<close>),
    the little-endian layout \<open>word_bytes\<close>/\<open>bytes_word\<close> and its two round trips,
    the fact collection \<open>stream_simps\<close>, bit-position lists for word proofs.
  \<^item> \<open>BinaryStream\<close>: the file streams the container uses (not in this repository,
    modelled from the specification): an input stream is an open flag and the
    unread bytes, a short read fails and leaves the stream at end of file; an
    output stream is an open flag, the bytes written and the room the file system
    still has for the file; a write that does not fit writes what fits and fails
    (a short write, section 7 of the specification).
  \<^item> \<open>PixelFormat\<close>: the \<open>StreamType\<close> and \<open>PixelFormat\<close> enumerations and
    \<open>pixelSizeBytes\<close> (headers not in this repository: constructors as the code and
    specification name them, codes in declaration order), the two metadata records
    with raw 32-bit enum codes as the struct holds them, \<open>bufferSize\<close> (the constructor's
    \<open>pixelSizeBytes * size.x * size.y\<close> in wrapping 32-bit \<open>int\<close>), and \<open>v1StreamType\<close>
    and \<open>convertV1\<close> (the V1 post-pass).
  \<^item> \<open>RGBDInput\<close>: the reader's state record \<open>RGBDInputStream\<close>, the constructor
    \<open>rgbdInputStream\<close> (with its metadata loop \<open>readStreams\<close>), \<open>isValidIn\<close>, the
    \<open>metadata()\<close> getter \<open>metadataIn\<close> and \<open>rgbdRead\<close>; the reader invariant \<open>inputInv\<close> (one buffer per stream, of exactly
    the stream's payload size), established by the constructor and kept by every
    read; what a read decodes and what a failed read leaves unchanged; the headers
    the constructor accepts.
  \<^item> \<open>RGBDOutput\<close>: the writer's state, the constructor \<open>rgbdOutputStream\<close>,
    \<open>rgbdWrite\<close>, \<open>closeOut\<close>, \<open>isValidOut\<close>, the move constructor and move assignment,
    and the destructor \<open>destroyOut\<close>; \<open>outputReach\<close> is the inductive relation of all
    runs, in which the file system may change the room left for the file at any
    step, with a flag saying whether every write returned true or was rejected before
    writing. Its lemmas: every file is the header followed by prefixes of records of
    streams in range (\<open>outputFramed\<close>), and by whole records while the flag holds
    (\<open>outputWellFormed\<close>); a short write leaves a torn record and a writer that stays
    valid and accepts later writes (below).
  \<^item> \<open>Converter\<close>: the reader's loop \<open>readFrames\<close> and the converter's loop
    \<open>convertLoop\<close>, both \<^theory_text>\<open>function\<close>s whose termination measure is the number of
    unread bytes (a successful read consumes at least 16), the program
    \<open>rgbdStreamConverter\<close> with its exit codes, the files a correct producer writes,
    and \<open>toZeroFilledString\<close> (defined in main.cpp, not called), which reads back
    to its number and has the requested width.
  \<^item> \<open>BitPacking\<close>: \<open>byteSwap16/32/64\<close> on words, the in-place \<open>byteSwap16\<close> over an
    array (its 64-bit fast path \<open>swapLoop\<close> and its scalar tail), the 2D Morton
    \<open>mortonPack2D\<close>/\<open>mortonUnpack2D\<close> by magic masks, and the 3D 5-bit and 10-bit
    codes by magic multiplications (\<open>spread5\<close>, \<open>spread10\<close>) and masks
    (\<open>compact5\<close>, \<open>compact10\<close>). Its lemmas show the fast paths equal the simple
    definitions (each byte swapped, bits interleaved one by one) and the pack/unpack
    round trips in both directions, on the bits the codes keep.
  \<^item> \<open>Matrix3f\<close>: a matrix is its nine entries in column-major order, as the
    class stores \<open>m_elements\<close>; entries are exact reals, so the lemmas state the
    algebra the float code approximates. Element access, rows and columns, the
    determinant, \<open>inverse\<close> with its singularity threshold, \<open>transpose\<close> and
    \<open>transposed\<close>, the arithmetic operators, the loop of \<open>operator *\<close>, and the
    factories (\<open>rotateX/Y/Z\<close>, \<open>rotation\<close>, \<open>scaling\<close>, \<open>translation\<close>,
    \<open>scaleTranslate\<close>, \<open>fromQuat\<close>). Its lemmas: the product computes the matrix
    product, the determinant is multiplicative, the in-place transpose equals the
    copying one, a non-singular \<open>inverse\<close> is a two-sided inverse, \<open>rotation\<close> is
    orthonormal with determinant 1, \<open>scaleTranslate\<close> maps the source rectangle's
    corners to the destination's.
  \<^item> \<open>Vector4f\<close>: the members of src/core/src/vecmath/Vector4f.cpp over exact reals
    (constructors, the \<open>Vector4d\<close> one included, indexing, swizzles, norms, \<open>normalize\<close>/\<open>normalized\<close>,
    \<open>homogenize\<close>/\<open>homogenized\<close>, \<open>negate\<close>, \<open>floored\<close>, \<open>dot\<close>, \<open>lerp\<close>). Its
    lemmas: a normalised non-zero vector has unit norm, homogenisation divides by
    \<open>w\<close> when it is non-zero, and the in-place members agree with the copying ones.
  \<^item> \<open>Vecmath\<close>: the records \<open>Vector2f\<close>, \<open>Vector3f\<close>, \<open>Quat4f\<close> and the
    operators of the vecmath headers (not in this repository: component-wise
    arithmetic, \<open>dot\<close>, \<open>cross\<close>, norms, \<open>normal\<close>), with the identities the geometry
    proofs share (Lagrange's identity, Cramer's rule in triple-product form, the
    minimum of a clamped quadratic).
  \<^item> \<open>Matrix4f\<close>: the part of the 4 x 4 matrix class (not in this repository) that
    the geometry and mesh code call, column-major like \<open>Matrix3f\<close>.
  \<^item> \<open>Geometry2D\<close>: the planar routines of GeometryUtils.cpp: bounding box and
    centroid of a triangle, the same-side inside test, barycentric coordinates by a
    2 x 2 inverse, the two rasterisers over the integer bounding box (\<open>for2D\<close> as a
    list of pixels), closest points on a segment and a triangle, ray/ray and
    line/segment intersection, uniform sampling. The signed area \<open>orient2\<close> links
    them: the inside test is a sign condition on it, the barycentric coordinates are
    its ratios. Its lemmas: inside test and barycentric coordinates agree, the two
    barycentric conversions are inverse, the rasteriser returns exactly the pixel
    centres inside, the conservative one returns a superset, the closest point beats
    every edge point, intersections lie on both objects.
  \<^item> \<open>Geometry3D\<close>: the spatial routines: the bounding box of a point list (its
    loop body \<open>bboxStep\<close> folded over the points), bases, sphere tests, closest
    points, ray/plane, ray/triangle (Moeller-Trumbore), ray/sphere, the separating
    axis box/triangle test with its \<open>AXISTEST\<close> macros, and the point/plane, line and
    segment distances. Its lemmas: the box is the componentwise minimum and maximum,
    \<open>getBasis\<close> is orthonormal and \<open>getRightHandedBasis\<close> has determinant 1, a reported
    ray/triangle hit is the point with the reported barycentrics, a ray/sphere hit
    lies on the sphere, the segment distance is the distance to the closest point,
    and the defects below.
  \<^item> \<open>D3D11Mesh\<close>: the Direct3D mesh of src/QDirectX/D3D11/src/D3D11Mesh.cpp as a
    record of its members; the device is its reference count, the vertex buffer its
    capacity and contents, a texture the file it was loaded from. The three
    constructors (the OBJ one with its group, material and face loops as folds in
    the option monad, \<open>None\<close> for an out-of-range \<open>at()\<close> or an unknown material),
    the getters, \<open>addVertexRange\<close>, \<open>updateGPUBuffer\<close>, \<open>updateBoundingBox\<close> (the loop body is
    \<open>bboxStep\<close> of \<open>Geometry3D\<close>), the world and normal matrices (the latter through
    \<open>Matrix3f\<close>'s \<open>inverse\<close> and \<open>transposed\<close>) and \<open>twoUnitCubeWorldMatrix\<close>;
    \<open>meshReach\<close> is the inductive relation of all runs, writes through the mutable
    references \<open>vertexArray()\<close>, \<open>vertexRanges()\<close> and \<open>diffuseColors()\<close> included,
    with a flag saying whether every reference write kept the length of the vector it
    replaced. Its lemmas: by rule induction, every run keeps the vertex buffer
    holding its capacity (\<open>vertexBufferInv\<close>), and runs whose reference writes keep
    the lengths keep one colour and one texture per range (\<open>meshInv\<close>); the GPU buffer mirrors the vertex array after an
    update, the box is the componentwise extent, the normalising matrix maps the box
    into \<open>[-1, 1]\<^sup>3\<close>, generated normals are perpendicular to their face, and the
    batch ranges of an OBJ mesh all start at 0 (below).
  \<^item> \<open>DeviceArray2D\<close>: device memory as a store of blocks (lists of bytes) named by
    number; the CUDA runtime (\<open>cudaMallocPitch\<close>, \<open>cudaFree\<close>, \<open>cudaMemcpy2D\<close>) as
    functions of an environment record that decides whether allocations succeed and
    the pitch alignment; a \<open>cudaArray_t\<close> (\<open>CudaArray\<close>) as its row width, height and
    bytes, copied to and from by \<open>cudaMemcpy2D\<close> with the row width as pitch. Every
    member is a definition: the queries, \<open>stride\<close>, \<open>pointer\<close>, \<open>resourceDesc\<close> and the
    kernel views return the fields they read; every member that changes state
    (including \<open>fill\<close>, through the host array \<open>filledHostArray\<close>, and
    \<open>copyFromArray\<close>) is a function returning the new object and device.
    \<open>daReach\<close> is the inductive relation of all runs over any number of objects. Its
    lemmas: the ownership invariant \<open>daInv\<close> by rule induction over \<open>daReach\<close>, the
    row layout of \<open>cudaMemcpy2D\<close>, the bytes \<open>copyFromArray\<close> stores (and that
    \<open>copyToArray\<close> gives them back), \<open>fill\<close> on an array whose block holds
    its rows, and four defects of the code (below).
  \<^item> this theory: the properties spanning writer, reader and converter, the
    agreement of the mesh's bounding box with \<open>GeometryUtils::boundingBoxForPoints\<close>,
    and the witnesses of the properties with hypotheses, at concrete inputs.

  \<^emph>\<open>Modelling choices.\<close> C++ integers are words of their width and are read signed
  with \<open>sint\<close> where the code compares them signed; the product of \<open>bufferSize\<close>
  wraps at 32 bits as two's complement hardware does. Every failure of the code is
  a value: a null view is \<open>None\<close>, \<open>false\<close> results are \<open>False\<close>, and allocating a
  scratch buffer of negative size (undefined by this repository) is the error
  \<open>NegativeBufferSize\<close>. Allocation of non-negative buffers is assumed to succeed.
  The file streams' own behaviour and the numeric enum codes are modelled from the
  specification. The room the file system has for an output file is part of the
  stream's state: unlimited when the file is created, and changed by the
  environment in the writer's run relation, so that short writes are reachable. No loop needs fuel: the loops over streams recurse on the count,
  the loops over records on the unread bytes.

  \<^emph>\<open>What the device-array lemmas show of the code.\<close> \<open>resize\<close> calls
  \<open>destroy()\<close> and then allocates with \<open>m_size\<close>, which \<open>destroy()\<close> has just
  reset to zero: a successful resize to a new size leaves an empty block, a zero row
  stride, and no readable element. The copy constructor calls \<open>copyFromDevice\<close> on
  an object that is still null, which fails at once: a copy is always null.
  \<open>copyToHost\<close> writes the rows at \<open>width * sizeof( T )\<close>, ignoring the row stride
  of the destination view. Together these make the class unable to hold data: in every run of
  \<open>daReach\<close> every allocated block is empty (\<open>emptyBlocks\<close>, by rule induction), so
  \<open>fill\<close>, the uploads and \<open>set\<close> store nothing and \<open>get\<close> fails everywhere. The
  \<open>fill\<close> lemma is therefore stated for an array whose block holds its rows, the
  state the code means \<open>resize\<close> to produce; \<open>fill\<close> itself drops the result of
  its upload.

  \<^emph>\<open>What the geometry lemmas show of the code.\<close> \<open>boxTriangleIntersection\<close>
  computes all three translated vertices from \<open>u0\<close>, so it only tests whether the
  first vertex lies in the box. \<open>pointToPlaneDistance\<close> divides by \<open>plane[1]\<close>
  instead of \<open>plane[2]\<close> for planes \<open>z = const\<close>. \<open>pointToLineSegmentDistanceSquared\<close>
  returns the right distance but reports the two end points swapped and the interior
  point without its origin. \<open>raySphereIntersection\<close> reports spheres behind the ray
  with a negative parameter, \<open>pointInTriangle\<close> accepts every point for a degenerate
  triangle, and the swap branch of \<open>getRightHandedBasis\<close> is dead. Coordinates are
  exact reals: a \<open>float\<close> division whose divisor is zero on every input of a branch
  is \<open>None\<close>; the lemmas assume the other divisors non-zero (distinct end points,
  non-degenerate triangles, a positive determinant threshold).

  \<^emph>\<open>What the writer lemmas show of the code.\<close> A short write returns \<open>false\<close> but
  leaves the writer valid (\<open>isValid()\<close> is only \<open>m_stream.isOpen()\<close>) and nothing
  refuses later writes: once there is room again the next record is appended after
  the torn one, which the specification says must not happen (a failure is fatal
  for the remainder of the stream).

  \<^emph>\<open>What the mesh lemmas show of the code.\<close> \<open>vertexRanges()\<close> and
  \<open>diffuseColors()\<close> hand out mutable references to two of three parallel vectors:
  a caller can change their lengths and nothing restores the alignment. The OBJ constructor never advances
  \<open>nVerticesTotal\<close>: every batch's vertex range starts at vertex 0, so every batch
  after the first draws the first batch's triangles. \<open>updateBoundingBox\<close> leaves an
  empty mesh with an inverted box. The box bound \<open>fltMax\<close> is the exact value of
  \<open>FLT_MAX\<close>; the box lemma assumes the coordinates finite floats.

  \<^emph>\<open>Not modelled.\<close> Headers whose implementation is not in this repository:
  \<open>Arithmetic.h\<close>, \<open>Box3i.h\<close>, \<open>ArrayUtils.h\<close> and \<open>ForND.h\<close> declare functions whose
  \<open>.cpp\<close> and \<open>.inl\<close> files are absent, so there is no code to translate (the
  documented predicates of \<open>Box3i\<close> contradict each other, see the manifest);
  \<open>GLTexture.h\<close> and the other GPU wrappers are calls into OpenGL, CUDA and Direct3D;
  the Kinect and camera drivers and the image I/O are device and file I/O. The quaternion
  and other vector libraries beyond what the matrices and geometry use and the
  compiled-out or commented-out code (\<open>tripleSphereIntersection\<close>,
  \<open>GMatrixd::homography\<close>, \<open>morton1\<close>/\<open>morton2\<close>) are not modelled, nor are the
  pointer conversion operators, which expose the element arrays the records stand for; logging, \<open>toString\<close> and
  \<open>printf\<close> output are not modelled. Floating-point rounding of the matrix, vector,
  geometry and mesh code is not modelled.
\<close>

definition exampleMetadata :: "StreamMetadata list" where
  "exampleMetadata =
     [\<lparr>sm_type = streamTypeCode DEPTH, sm_format = pixelFormatCode DEPTH_MM_U16, sm_size = (4, 3)\<rparr>,
      \<lparr>sm_type = streamTypeCode COLOR, sm_format = pixelFormatCode RGBA_U8888, sm_size = (4, 3)\<rparr>]"

definition exampleFrames :: "Frame list" where
  "exampleFrames =
     [\<lparr>f_streamId = 0, f_frameIndex = 0, f_timestamp = 1000, f_data = replicate 24 7\<rparr>,
      \<lparr>f_streamId = 1, f_frameIndex = 0, f_timestamp = 1000, f_data = replicate 48 9\<rparr>]"

definition exampleReader :: RGBDInputStream where
  "exampleReader =
     \<lparr>m_stream = \<lparr>in_open = True, in_rest = concat (map encodeFrame exampleFrames)\<rparr>,
      m_metadata = exampleMetadata, m_buffers = map initialBuffer exampleMetadata, m_valid = True\<rparr>"

definition exampleMetadataV1 :: "StreamMetadataV1 list" where
  "exampleMetadataV1 =
     [\<lparr>v1_format = pixelFormatCode DEPTH_MM_U16, v1_size = (4, 3)\<rparr>,
      \<lparr>v1_format = pixelFormatCode RGBA_U8888, v1_size = (4, 3)\<rparr>]"

text \<open>A CUDA runtime whose allocations succeed with a 512-byte pitch alignment, and a
  2 x 2 byte array with a 4-byte row pitch next to a host view whose rows are 8 bytes apart.\<close>

definition exampleEnv :: CudaEnv where
  "exampleEnv = \<lparr>malloc_ok = True, pitch_align = 512\<rparr>"

definition exampleDevice :: Device where
  "exampleDevice = \<lparr>dev_blocks = [0 \<mapsto> [1, 2, 0, 0, 3, 4, 0, 0]], dev_next = 1\<rparr>"

definition exampleDeviceArray :: DeviceArray2D where
  "exampleDeviceArray = \<lparr>da_size = (2, 2), da_stride = (1, 4), da_ptr = Some 0\<rparr>"

definition exampleHostView :: HostArray2D where
  "exampleHostView = \<lparr>h_null = False, h_size = (2, 2), h_rowStride = 8, h_packed = True, h_data = replicate 16 0\<rparr>"

text \<open>A 2 x 2 CUDA array of bytes.\<close>

definition exampleCudaArray :: CudaArray where
  "exampleCudaArray = \<lparr>ca_width = 2, ca_height = 2, ca_data = [5, 6, 7, 8]\<rparr>"

text \<open>An OBJ file with one group of two materials, one triangle each, and two vertices.\<close>

definition exampleOBJ :: OBJData where
  "exampleOBJ =
     \<lparr>obj_positions = [\<lparr>v3x = 0, v3y = 0, v3z = 0\<rparr>, \<lparr>v3x = 1, v3y = 0, v3z = 0\<rparr>, \<lparr>v3x = 0, v3y = 1, v3z = 0\<rparr>],
      obj_normals = [], obj_texcoords = [],
      obj_groups = [\<lparr>grp_hasNormals = False, grp_hasTextureCoordinates = False, grp_materials = [''a'', ''b''],
        grp_facesForMaterial = [[\<lparr>face_positionIndices = [0, 1, 2], face_normalIndices = [], face_texcoordIndices = []\<rparr>],
                                [\<lparr>face_positionIndices = [2, 1, 0], face_normalIndices = [], face_texcoordIndices = []\<rparr>]]\<rparr>],
      obj_materials = [''a'' \<mapsto> \<lparr>mat_diffuseTexture = None, mat_diffuseColor = \<lparr>v3x = 1, v3y = 0, v3z = 0\<rparr>\<rparr>,
                       ''b'' \<mapsto> \<lparr>mat_diffuseTexture = None, mat_diffuseColor = \<lparr>v3x = 0, v3y = 0, v3z = 1\<rparr>\<rparr>]\<rparr>"

definition exampleVertices :: "Vertex list" where
  "exampleVertices =
     [defaultVertex\<lparr>vx_position := \<lparr>v4x = 1, v4y = 5, v4z = 0, v4w = 1\<rparr>\<rparr>,
      defaultVertex\<lparr>vx_position := \<lparr>v4x = 3, v4y = 2, v4z = -1, v4w = 1\<rparr>\<rparr>]"

section \<open>Writer and reader together\<close>

text \<open>
  C1 (round trip). A writer constructed with valid metadata, given frames that fit
  their streams, produces a file that a reader of the current schema opens as valid,
  with the same metadata, and from which it reads back exactly the frames written,
  in order, before its first null view.
\<close>

theorem rgbd_roundtrip:
  assumes "validMetadata md" and "framesFit md fs"
  shows "\<exists>r. rgbdInputStream (Some (out_file (o_stream (writeFrames fs (rgbdOutputStream md True))))) False = Inr r \<and>
             isValidIn r \<and> m_metadata r = md \<and> fst (readFrames r) = fs"
proof -
  have "out_file (o_stream (writeFrames fs (rgbdOutputStream md True))) = encodeHeader md @ concat (map encodeFrame fs)"
    using assms by (simp add: writeFrames_file)
  then show ?thesis
    using read_encoded_file [OF assms] by simp
qed

theorem rgbd_roundtrip_witness:
  "validMetadata exampleMetadata \<and> framesFit exampleMetadata exampleFrames \<and>
   (\<exists>r. rgbdInputStream (Some (out_file (o_stream (writeFrames exampleFrames (rgbdOutputStream exampleMetadata True))))) False = Inr r \<and>
        isValidIn r \<and> m_metadata r = exampleMetadata \<and> fst (readFrames r) = exampleFrames)"
proof -
  have v: "validMetadata exampleMetadata"
    by (simp add: validMetadata_def exampleMetadata_def bufferSize_def pixelSizeBytes_def decodePixelFormat_def allPixelFormats_def)
  have f: "framesFit exampleMetadata exampleFrames"
    by (simp add: framesFit_def exampleMetadata_def exampleFrames_def bufferSize_def pixelSizeBytes_def decodePixelFormat_def allPixelFormats_def)
  show ?thesis
    using v f rgbd_roundtrip [OF v f] by blast
qed

text \<open>
  C2 (migration by the converter). Run on a V1 file written by a correct producer,
  the converter exits with 0, and its destination is a current-schema file that a
  reader opens as valid, with the V1 metadata converted (type derived from format)
  and exactly the source's frames.
\<close>

theorem rgbd_converter_migration:
  assumes "3 \<le> argc" and "validMetadata (map convertV1 md)" and "framesFit (map convertV1 md) fs"
  shows "\<exists>w r. rgbdStreamConverter argc (Some (encodeHeaderV1 md @ concat (map encodeFrame fs))) True = Inr (0, Some w) \<and>
               rgbdInputStream (Some (out_file (o_stream w))) False = Inr r \<and>
               isValidIn r \<and> m_metadata r = map convertV1 md \<and> fst (readFrames r) = fs"
proof -
  obtain w where w: "rgbdStreamConverter argc (Some (encodeHeaderV1 md @ concat (map encodeFrame fs))) True = Inr (0, Some w)"
    and out: "out_file (o_stream w) = encodeHeader (map convertV1 md) @ concat (map encodeFrame fs)"
    using rgbdStreamConverter_encoded [OF assms] by blast
  show ?thesis
    using w out read_encoded_file [OF assms(2,3)] by auto
qed

theorem rgbd_converter_migration_witness:
  "3 \<le> (3::nat) \<and> validMetadata (map convertV1 exampleMetadataV1) \<and> framesFit (map convertV1 exampleMetadataV1) exampleFrames \<and>
   (\<exists>w r. rgbdStreamConverter 3 (Some (encodeHeaderV1 exampleMetadataV1 @ concat (map encodeFrame exampleFrames))) True = Inr (0, Some w) \<and>
          rgbdInputStream (Some (out_file (o_stream w))) False = Inr r \<and>
          isValidIn r \<and> m_metadata r = map convertV1 exampleMetadataV1 \<and> fst (readFrames r) = exampleFrames)"
proof -
  have v: "validMetadata (map convertV1 exampleMetadataV1)"
    by (simp add: validMetadata_def exampleMetadataV1_def convertV1_def bufferSize_def pixelSizeBytes_def decodePixelFormat_def allPixelFormats_def)
  have f: "framesFit (map convertV1 exampleMetadataV1) exampleFrames"
    by (simp add: framesFit_def exampleMetadataV1_def exampleFrames_def convertV1_def bufferSize_def pixelSizeBytes_def decodePixelFormat_def allPixelFormats_def)
  show ?thesis
    using v f rgbd_converter_migration [OF _ v f, of 3] by simp
qed

section \<open>Mesh and geometry together\<close>

lemma bboxStep_start:
  assumes "\<bar>v3x p\<bar> \<le> fltMax" "\<bar>v3y p\<bar> \<le> fltMax" "\<bar>v3z p\<bar> \<le> fltMax"
  shows "bboxStep (\<lparr>v3x = fltMax, v3y = fltMax, v3z = fltMax\<rparr>, \<lparr>v3x = - fltMax, v3y = - fltMax, v3z = - fltMax\<rparr>) p = (p, p)"
  using assms by (simp add: bboxStep_eq abs_le_iff min_def max_def)

text \<open>
  C39 (mesh box and geometry box). The mesh's
  \<open>updateBoundingBox\<close>, which starts from \<open>max()\<close> and \<open>lowest()\<close>, computes the same box
  as \<open>GeometryUtils::boundingBoxForPoints\<close>, which starts from the first point, on the
  vertex positions of a non-empty mesh with finite float coordinates.
\<close>

theorem updateBoundingBox_boundingBoxForPoints:
  assumes "m_vertexArray mesh \<noteq> []"
    and "\<forall>v \<in> set (m_vertexArray mesh). \<bar>v4x (vx_position v)\<bar> \<le> fltMax \<and> \<bar>v4y (vx_position v)\<bar> \<le> fltMax \<and>
           \<bar>v4z (vx_position v)\<bar> \<le> fltMax"
  shows "bb_min (m_boundingBox (updateBoundingBox mesh)) =
           b_origin (boundingBoxForPoints (map (\<lambda>v. swizzle_xyz (vx_position v)) (m_vertexArray mesh))) \<and>
         bb_max (m_boundingBox (updateBoundingBox mesh)) =
           add3 (b_origin (boundingBoxForPoints (map (\<lambda>v. swizzle_xyz (vx_position v)) (m_vertexArray mesh))))
                (b_size (boundingBoxForPoints (map (\<lambda>v. swizzle_xyz (vx_position v)) (m_vertexArray mesh))))"
proof -
  obtain v vs where va: "m_vertexArray mesh = v # vs"
    using assms(1) by (cases "m_vertexArray mesh") auto
  have s: "bboxStep (\<lparr>v3x = fltMax, v3y = fltMax, v3z = fltMax\<rparr>, \<lparr>v3x = - fltMax, v3y = - fltMax, v3z = - fltMax\<rparr>)
             (swizzle_xyz (vx_position v)) = (swizzle_xyz (vx_position v), swizzle_xyz (vx_position v))"
    using assms(2) unfolding va by (intro bboxStep_start) (simp_all add: swizzle_xyz_def)
  show ?thesis
    unfolding updateBoundingBox_fold va
    by (simp add: s boundingBoxForPoints_def split_def Let_def add3_sub3_cancel)
qed

theorem updateBoundingBox_boundingBoxForPoints_witness:
  "bb_min (m_boundingBox (updateBoundingBox (emptyMesh exampleVertices))) =
     b_origin (boundingBoxForPoints (map (\<lambda>v. swizzle_xyz (vx_position v)) exampleVertices))"
  using updateBoundingBox_boundingBoxForPoints [of "emptyMesh exampleVertices"]
  by (simp add: emptyMesh_def exampleVertices_def defaultVertex_def fltMax_def)

section \<open>The claims at concrete inputs\<close>

text \<open>
  Each property with a hypothesis, applied where its hypotheses hold: the example
  streams above (a 4 x 3 depth stream and a 4 x 3 RGBA stream, one frame each).
\<close>

lemma exampleMetadata_valid: "validMetadata exampleMetadata"
  by (simp add: validMetadata_def exampleMetadata_def bufferSize_def pixelSizeBytes_def decodePixelFormat_def allPixelFormats_def)

lemma exampleReader_opened:
  "rgbdInputStream (Some (encodeHeader exampleMetadata @ concat (map encodeFrame exampleFrames))) False = Inr exampleReader"
  using exampleMetadata_valid unfolding exampleReader_def validMetadata_def by (intro rgbdInputStream_encodeHeader) simp_all

lemma exampleReader_inv: "inputInv exampleReader"
  by (simp add: inputInv_def exampleReader_def exampleMetadata_def initialBuffer_def nth_Cons' bufferSize_def
      pixelSizeBytes_def decodePixelFormat_def allPixelFormats_def)

lemma exampleReader_read:
  "rgbdRead exampleReader =
     (Some (hd exampleFrames),
      exampleReader\<lparr>m_stream := \<lparr>in_open = True, in_rest = concat (map encodeFrame (tl exampleFrames))\<rparr>,
        m_buffers := (m_buffers exampleReader)[unat (f_streamId (hd exampleFrames)) := f_data (hd exampleFrames)]\<rparr>)"
  by (rule rgbdRead_encodeFrame)
     (simp_all add: exampleReader_def isValidIn_def exampleFrames_def exampleMetadata_def initialBuffer_def bufferSize_def
      pixelSizeBytes_def decodePixelFormat_def allPixelFormats_def)

theorem inputReach_inputInv_witness: "inputReach exampleReader \<and> inputInv exampleReader"
proof -
  have "inputReach exampleReader"
    using exampleReader_opened by (rule inputReach.reach_open)
  then show ?thesis
    using RGBDInput.inputReach_inputInv by blast
qed

theorem outputReach_wellFormed_witness:
  "outputReach True (snd (rgbdWrite 7 0 0 [] (rgbdOutputStream exampleMetadata True))) \<and>
   outputFramed (snd (rgbdWrite 7 0 0 [] (rgbdOutputStream exampleMetadata True))) \<and>
   outputWellFormed (snd (rgbdWrite 7 0 0 [] (rgbdOutputStream exampleMetadata True)))"
proof -
  have "outputReach (True \<and> (False \<or> length (o_metadata (rgbdOutputStream exampleMetadata True)) \<le> unat (7 :: uint32) \<or>
          \<not> isValidOut (rgbdOutputStream exampleMetadata True)))
          (snd (rgbdWrite 7 0 0 [] (rgbdOutputStream exampleMetadata True)))"
    by (rule outputReach.reach_write [OF outputReach.reach_construct])
      (simp add: rgbdWrite_def rgbdOutputStream_def exampleMetadata_def Let_def)
  then have r: "outputReach True (snd (rgbdWrite 7 0 0 [] (rgbdOutputStream exampleMetadata True)))"
    by (simp add: rgbdOutputStream_def exampleMetadata_def Let_def)
  show ?thesis
    using RGBDOutput.outputReach_wellFormed [OF r] r by simp
qed

theorem rgbdWrite_short_witness:
  "isValidOut ((rgbdOutputStream exampleMetadata True)\<lparr>o_stream := (o_stream (rgbdOutputStream exampleMetadata True))\<lparr>out_space := Some 5\<rparr>\<rparr>) \<and>
   unat (0 :: uint32) < length (o_metadata (rgbdOutputStream exampleMetadata True)) \<and>
   (5::nat) < length (encodeFrame \<lparr>f_streamId = 0, f_frameIndex = 0, f_timestamp = 1000, f_data = replicate 24 0\<rparr>) \<and>
   \<not> fst (rgbdWrite 0 0 1000 (replicate 24 0)
          ((rgbdOutputStream exampleMetadata True)\<lparr>o_stream := (o_stream (rgbdOutputStream exampleMetadata True))\<lparr>out_space := Some 5\<rparr>\<rparr>)) \<and>
   isValidOut (snd (rgbdWrite 0 0 1000 (replicate 24 0)
          ((rgbdOutputStream exampleMetadata True)\<lparr>o_stream := (o_stream (rgbdOutputStream exampleMetadata True))\<lparr>out_space := Some 5\<rparr>\<rparr>)))"
proof -
  let ?w = "(rgbdOutputStream exampleMetadata True)\<lparr>o_stream := (o_stream (rgbdOutputStream exampleMetadata True))\<lparr>out_space := Some 5\<rparr>\<rparr>"
  have v: "isValidOut ?w" and i: "unat (0 :: uint32) < length (o_metadata ?w)" and sp: "out_space (o_stream ?w) = Some 5"
    by (simp_all add: rgbdOutputStream_def exampleMetadata_def Let_def isValidOut_def writeAll_open openOutput_def)
  have n: "(5::nat) < length (encodeFrame \<lparr>f_streamId = 0, f_frameIndex = 0, f_timestamp = 1000, f_data = replicate 24 0\<rparr>)"
    by (simp add: encodeFrame_def)
  have "\<not> fst (rgbdWrite 0 0 1000 (replicate 24 0) ?w) \<and> isValidOut (snd (rgbdWrite 0 0 1000 (replicate 24 0) ?w))"
    using RGBDOutput.rgbdWrite_short [OF v i sp n prod.collapse [symmetric]] by blast
  then show ?thesis
    using v i n by (simp add: rgbdOutputStream_def exampleMetadata_def Let_def)
qed

theorem rgbdRead_payload_size_witness:
  "inputInv exampleReader \<and> rgbdRead exampleReader = (Some (hd exampleFrames), snd (rgbdRead exampleReader)) \<and>
   unat (f_streamId (hd exampleFrames)) < length (m_metadata exampleReader) \<and>
   int (length (f_data (hd exampleFrames))) =
     bufferSize (sm_format (m_metadata exampleReader ! unat (f_streamId (hd exampleFrames))))
       (sm_size (m_metadata exampleReader ! unat (f_streamId (hd exampleFrames))))"
proof -
  have rd: "rgbdRead exampleReader = (Some (hd exampleFrames), snd (rgbdRead exampleReader))"
    by (simp add: exampleReader_read)
  show ?thesis
    using exampleReader_inv rd RGBDInput.rgbdRead_payload_size [OF exampleReader_inv rd] by blast
qed

theorem rgbdInputStream_rejected_header_witness:
  "8 \<le> length (replicate 8 (0 :: byte)) \<and>
   take 4 (replicate 8 (0 :: byte)) \<noteq> rgbdMagic \<and>
   rgbdInputStream (Some (replicate 8 0)) False =
     Inr \<lparr>m_stream = \<lparr>in_open = True, in_rest = drop 8 (replicate 8 0)\<rparr>, m_metadata = [], m_buffers = [],
          m_valid = True\<rparr>"
proof -
  have h: "take 4 (replicate 8 (0 :: byte)) \<noteq> rgbdMagic"
    by code_simp
  show ?thesis
    using h RGBDInput.rgbdInputStream_rejected_header [of "replicate 8 0" False] by simp
qed

theorem rgbdInputStream_nonpositive_count_witness:
  "12 \<le> length (encodeHeader []) \<and> take 4 (encodeHeader []) = rgbdMagic \<and>
   bytes_word (take 4 (drop 4 (encodeHeader []))) = FORMAT_VERSION \<and>
   sint (bytes_word (take 4 (drop 8 (encodeHeader []))) :: int32) \<le> 0 \<and>
   rgbdInputStream (Some (encodeHeader [])) True =
     Inr \<lparr>m_stream = \<lparr>in_open = True, in_rest = drop 12 (encodeHeader [])\<rparr>, m_metadata = [], m_buffers = [],
          m_valid = True\<rparr>"
proof -
  have h: "12 \<le> length (encodeHeader [])" "take 4 (encodeHeader []) = rgbdMagic"
    "bytes_word (take 4 (drop 4 (encodeHeader []))) = FORMAT_VERSION"
    "sint (bytes_word (take 4 (drop 8 (encodeHeader []))) :: int32) \<le> 0"
    by (simp_all add: encodeHeader_def rgbdMagic_def)
  show ?thesis
    using h RGBDInput.rgbdInputStream_nonpositive_count [OF h, of True] by simp
qed

theorem rgbdRead_out_of_range_witness:
  "isValidIn (exampleReader\<lparr>m_stream := \<lparr>in_open = True, in_rest = word_bytes (5 :: uint32)\<rparr>\<rparr>) \<and>
   length (m_buffers exampleReader) \<le> unat (5 :: uint32) \<and>
   rgbdRead (exampleReader\<lparr>m_stream := \<lparr>in_open = True, in_rest = word_bytes (5 :: uint32)\<rparr>\<rparr>) =
     (None, exampleReader\<lparr>m_stream := \<lparr>in_open = True, in_rest = []\<rparr>\<rparr>)"
proof -
  let ?r = "exampleReader\<lparr>m_stream := \<lparr>in_open = True, in_rest = word_bytes (5 :: uint32)\<rparr>\<rparr>"
  have v: "isValidIn ?r"
    by (simp add: isValidIn_def exampleReader_def)
  have l: "length (m_buffers ?r) \<le> unat (5 :: uint32)"
    by (simp add: exampleReader_def exampleMetadata_def)
  have "in_rest (m_stream ?r) = word_bytes (5 :: uint32) @ []"
    by simp
  from RGBDInput.rgbdRead_out_of_range [OF v this l] v l show ?thesis
    by (simp add: exampleReader_def)
qed

theorem rgbdWrite_out_of_range_witness:
  "length (o_metadata (rgbdOutputStream exampleMetadata True)) \<le> unat (2 :: uint32) \<and>
   rgbdWrite 2 0 0 [1, 2, 3] (rgbdOutputStream exampleMetadata True) = (False, rgbdOutputStream exampleMetadata True)"
proof -
  have h: "length (o_metadata (rgbdOutputStream exampleMetadata True)) \<le> unat (2 :: uint32)"
    by (simp add: rgbdOutputStream_def Let_def exampleMetadata_def)
  show ?thesis
    using h RGBDOutput.rgbdWrite_out_of_range [OF h, of 0 0 "[1, 2, 3]"] by simp
qed

theorem rgbdWrite_closed_witness:
  "\<not> isValidOut (rgbdOutputStream exampleMetadata False) \<and>
   rgbdWrite 0 0 0 [1, 2, 3] (rgbdOutputStream exampleMetadata False) = (False, rgbdOutputStream exampleMetadata False)"
proof -
  have h: "\<not> isValidOut (rgbdOutputStream exampleMetadata False)"
    by (simp add: rgbdOutputStream_def isValidOut_def Let_def writeAll_closed openOutput_def closedOutput_def)
  show ?thesis
    using h RGBDOutput.rgbdWrite_closed [OF h, of 0 0 0 "[1, 2, 3]"] by simp
qed

theorem rgbdOutputMove_transfers_witness:
  "rgbdOutputMove (rgbdOutputStream exampleMetadata True) =
     (fst (rgbdOutputMove (rgbdOutputStream exampleMetadata True)), snd (rgbdOutputMove (rgbdOutputStream exampleMetadata True))) \<and>
   o_stream (fst (rgbdOutputMove (rgbdOutputStream exampleMetadata True))) = o_stream (rgbdOutputStream exampleMetadata True) \<and>
   o_metadata (fst (rgbdOutputMove (rgbdOutputStream exampleMetadata True))) = exampleMetadata \<and>
   \<not> isValidOut (snd (rgbdOutputMove (rgbdOutputStream exampleMetadata True)))"
proof -
  let ?w = "rgbdOutputStream exampleMetadata True"
  have e: "rgbdOutputMove ?w = (fst (rgbdOutputMove ?w), snd (rgbdOutputMove ?w))"
    by simp
  have m: "o_metadata ?w = exampleMetadata"
    by (simp add: rgbdOutputStream_def Let_def)
  show ?thesis
    using e m RGBDOutput.rgbdOutputMove_transfers [OF e] by simp
qed

theorem rgbdOutputMoveAssign_transfers_witness:
  "rgbdOutputMoveAssign False defaultOutput (rgbdOutputStream exampleMetadata True) =
     (fst (rgbdOutputMoveAssign False defaultOutput (rgbdOutputStream exampleMetadata True)),
      snd (rgbdOutputMoveAssign False defaultOutput (rgbdOutputStream exampleMetadata True))) \<and>
   o_metadata (fst (rgbdOutputMoveAssign False defaultOutput (rgbdOutputStream exampleMetadata True))) = exampleMetadata \<and>
   \<not> isValidOut (snd (rgbdOutputMoveAssign False defaultOutput (rgbdOutputStream exampleMetadata True)))"
proof -
  let ?m = "rgbdOutputMoveAssign False defaultOutput (rgbdOutputStream exampleMetadata True)"
  have e: "?m = (fst ?m, snd ?m)"
    by simp
  have m: "o_metadata (rgbdOutputStream exampleMetadata True) = exampleMetadata"
    by (simp add: rgbdOutputStream_def Let_def)
  show ?thesis
    using e m RGBDOutput.rgbdOutputMoveAssign_transfers [OF e] by simp
qed

theorem rgbdStreamConverter_bad_magic_witness:
  "3 \<le> (3::nat) \<and> 8 \<le> length (replicate 8 (0 :: byte)) \<and> take 4 (replicate 8 (0 :: byte)) \<noteq> rgbdMagic \<and>
   rgbdStreamConverter 3 (Some (replicate 8 0)) True = Inr (2, Some \<lparr>o_stream = closedOutput, o_metadata = []\<rparr>)"
proof -
  have h: "take 4 (replicate 8 (0 :: byte)) \<noteq> rgbdMagic"
    by code_simp
  show ?thesis
    using h Converter.rgbdStreamConverter_bad_magic [of 3 "replicate 8 0" True] by simp
qed

theorem bufferSize_exact_witness:
  "- (2 ^ 31) \<le> pixelSizeBytes (pixelFormatCode RGBA_U8888) * sint (640 :: int32) * sint (480 :: int32) \<and>
   pixelSizeBytes (pixelFormatCode RGBA_U8888) * sint (640 :: int32) * sint (480 :: int32) < 2 ^ 31 \<and>
   bufferSize (pixelFormatCode RGBA_U8888) (640, 480) = 1228800"
proof -
  have h: "- (2 ^ 31) \<le> pixelSizeBytes (pixelFormatCode RGBA_U8888) * sint (640 :: int32) * sint (480 :: int32)"
    "pixelSizeBytes (pixelFormatCode RGBA_U8888) * sint (640 :: int32) * sint (480 :: int32) < 2 ^ 31"
    by (simp_all del: pixelSizeBytes_code add: pixelSizeBytes_def decodePixelFormat_def allPixelFormats_def)
  show ?thesis
    using h PixelFormat.bufferSize_exact [OF h]
    by (simp del: pixelSizeBytes_code add: pixelSizeBytes_def decodePixelFormat_def allPixelFormats_def)
qed


subsection \<open>Witnesses of the matrix and device-array properties\<close>

theorem mulM_elem_witness:
  "(0::nat) < 3 \<and> (1::nat) < 3 \<and> elem (mulM (rotateZ 0) identity) 0 1 = (\<Sum>j < 3. elem (rotateZ 0) 0 j * elem identity j 1)"
  using mulM_elem [of 0 1 "rotateZ 0" identity] by simp

theorem inverseEps_correct_witness:
  "0 < (1 / 2 :: real) \<and> inverseEps (mk3 2 0 0 0 2 0 0 0 2) (1 / 2) = (mk3 (1 / 2) 0 0 0 (1 / 2) 0 0 0 (1 / 2), False) \<and>
   mulM (mk3 (1 / 2) 0 0 0 (1 / 2) 0 0 0 (1 / 2)) (mk3 2 0 0 0 2 0 0 0 2) = identity \<and>
   mulM (mk3 2 0 0 0 2 0 0 0 2) (mk3 (1 / 2) 0 0 0 (1 / 2) 0 0 0 (1 / 2)) = identity"
proof -
  have i: "inverseEps (mk3 2 0 0 0 2 0 0 0 2) (1 / 2) = (mk3 (1 / 2) 0 0 0 (1 / 2) 0 0 0 (1 / 2), False)"
    by (simp add: inverseEps_mk3 determinant3x3_def)
  show ?thesis
    using inverseEps_correct [OF _ i] i by simp
qed

theorem rotation_orthonormal_witness:
  "v3x \<lparr>v3x = 0, v3y = 0, v3z = 1\<rparr> ^ 2 + v3y \<lparr>v3x = 0, v3y = 0, v3z = 1\<rparr> ^ 2 + v3z \<lparr>v3x = 0, v3y = 0, v3z = (1::real)\<rparr> ^ 2 = 1 \<and>
   mulM (transposed (rotation \<lparr>v3x = 0, v3y = 0, v3z = 1\<rparr> (pi / 2))) (rotation \<lparr>v3x = 0, v3y = 0, v3z = 1\<rparr> (pi / 2)) = identity \<and>
   determinant (rotation \<lparr>v3x = 0, v3y = 0, v3z = 1\<rparr> (pi / 2)) = 1"
  using rotation_orthonormal [of "\<lparr>v3x = 0, v3y = 0, v3z = 1\<rparr>" "pi / 2"] by simp

theorem scaleTranslate_corners_witness:
  "v2x \<lparr>v2x = 2, v2y = 4\<rparr> \<noteq> (0::real) \<and> v2y \<lparr>v2x = 2, v2y = 4\<rparr> \<noteq> (0::real) \<and>
   transformPoint (scaleTranslate \<lparr>v2x = 1, v2y = 1\<rparr> \<lparr>v2x = 2, v2y = 4\<rparr> \<lparr>v2x = 0, v2y = 0\<rparr> \<lparr>v2x = 640, v2y = 480\<rparr>) \<lparr>v2x = 1, v2y = 1\<rparr> = \<lparr>v2x = 0, v2y = 0\<rparr> \<and>
   transformPoint (scaleTranslate \<lparr>v2x = 1, v2y = 1\<rparr> \<lparr>v2x = 2, v2y = 4\<rparr> \<lparr>v2x = 0, v2y = 0\<rparr> \<lparr>v2x = 640, v2y = 480\<rparr>)
     \<lparr>v2x = 1 + 2, v2y = 1 + 4\<rparr> = \<lparr>v2x = 0 + 640, v2y = 0 + 480\<rparr>"
  using scaleTranslate_corners [of "\<lparr>v2x = 2, v2y = 4\<rparr>" "\<lparr>v2x = 1, v2y = 1\<rparr>" "\<lparr>v2x = 0, v2y = 0\<rparr>" "\<lparr>v2x = 640, v2y = 480\<rparr>"]
  by simp

theorem daReach_daInv_witness:
  "daReach 4 \<lparr>objs = (objs initialSystem)(0 := fst (DeviceArray2D.construct 4 exampleEnv (640, 480) (device initialSystem))),
              device = snd (DeviceArray2D.construct 4 exampleEnv (640, 480) (device initialSystem))\<rparr> \<and>
   daInv \<lparr>objs = (objs initialSystem)(0 := fst (DeviceArray2D.construct 4 exampleEnv (640, 480) (device initialSystem))),
              device = snd (DeviceArray2D.construct 4 exampleEnv (640, 480) (device initialSystem))\<rparr>"
proof -
  have "daReach 4 \<lparr>objs = (objs initialSystem)(0 := fst (DeviceArray2D.construct 4 exampleEnv (640, 480) (device initialSystem))),
              device = snd (DeviceArray2D.construct 4 exampleEnv (640, 480) (device initialSystem))\<rparr>"
    by (rule da_construct [OF da_init]) (simp_all add: initialSystem_def)
  then show ?thesis
    using daReach_daInv by blast
qed

theorem resize_allocates_nothing_witness:
  "resize 4 exampleEnv (640, 480) nullArray \<lparr>dev_blocks = Map.empty, dev_next = 0\<rparr> =
     (True, \<lparr>da_size = (640, 480), da_stride = (4, 0), da_ptr = Some 0\<rparr>, \<lparr>dev_blocks = [0 \<mapsto> []], dev_next = 1\<rparr>) \<and>
   (640, 480) \<noteq> da_size nullArray \<and> (0::nat) < 4 \<and>
   da_size \<lparr>da_size = (640, 480), da_stride = (4, 0), da_ptr = Some 0\<rparr> = (640, 480) \<and>
   rowStrideBytes \<lparr>da_size = (640, 480), da_stride = (4, 0), da_ptr = Some 0\<rparr> = 0 \<and>
   blockOf \<lparr>dev_blocks = [0 \<mapsto> []], dev_next = 1\<rparr> \<lparr>da_size = (640, 480), da_stride = (4, 0), da_ptr = Some 0\<rparr> = Some [] \<and>
   (\<forall>xy. getD 4 \<lparr>da_size = (640, 480), da_stride = (4, 0), da_ptr = Some 0\<rparr> xy \<lparr>dev_blocks = [0 \<mapsto> []], dev_next = 1\<rparr> = None)"
proof -
  have r: "resize 4 exampleEnv (640, 480) nullArray \<lparr>dev_blocks = Map.empty, dev_next = 0\<rparr> =
     (True, \<lparr>da_size = (640, 480), da_stride = (4, 0), da_ptr = Some 0\<rparr>, \<lparr>dev_blocks = [0 \<mapsto> []], dev_next = 1\<rparr>)"
    by (simp add: resize_def nullArray_def destroy_def cudaMallocPitch_def exampleEnv_def)
  have "(640, 480) \<noteq> da_size nullArray"
    by (simp add: nullArray_def)
  then show ?thesis
    using resize_allocates_nothing [OF r] r by simp
qed

theorem copyToHost_row_layout_witness:
  "copyToHost 1 exampleDeviceArray exampleHostView exampleDevice =
     (True, exampleHostView\<lparr>h_data := [1, 2, 3, 4] @ replicate 12 0\<rparr>) \<and>
   blockOf exampleDevice exampleDeviceArray = Some [1, 2, 0, 0, 3, 4, 0, 0] \<and>
   1 < nat (snd (da_size exampleDeviceArray)) \<and> 0 < nat (fst (da_size exampleDeviceArray)) * 1 \<and>
   length (h_data (exampleHostView\<lparr>h_data := [1, 2, 3, 4] @ replicate 12 0\<rparr>)) = length (h_data exampleHostView) \<and>
   h_data (exampleHostView\<lparr>h_data := [1, 2, 3, 4] @ replicate 12 0\<rparr>) ! (1 * (nat (fst (h_size exampleHostView)) * 1) + 0) =
     [1, 2, 0, 0, 3, 4, 0, 0] ! (1 * nat (rowStrideBytes exampleDeviceArray) + 0)"
proof -
  have c: "copyToHost 1 exampleDeviceArray exampleHostView exampleDevice =
     (True, exampleHostView\<lparr>h_data := [1, 2, 3, 4] @ replicate 12 0\<rparr>)"
    by code_simp
  have b: "blockOf exampleDevice exampleDeviceArray = Some [1, 2, 0, 0, 3, 4, 0, 0]"
    by (simp add: blockOf_def exampleDevice_def exampleDeviceArray_def)
  have "1 < nat (snd (da_size exampleDeviceArray))" "0 < nat (fst (da_size exampleDeviceArray)) * 1"
    by (simp_all add: exampleDeviceArray_def)
  then show ?thesis
    using copyToHost_row_layout [OF c b] c b by blast
qed

theorem normalized_unit_witness:
  "normSquared (mkVector4f 0 3 0 4) \<noteq> 0 \<and>
   normSquared (normalized (mkVector4f 0 3 0 4)) = 1 \<and> scaleV4 (norm4 (mkVector4f 0 3 0 4)) (normalized (mkVector4f 0 3 0 4)) = mkVector4f 0 3 0 4 \<and>
   normalize4 (mkVector4f 0 3 0 4) = normalized (mkVector4f 0 3 0 4)"
proof -
  have h: "normSquared (mkVector4f 0 3 0 4) \<noteq> 0"
    by (simp add: normSquared_def mkVector4f_def)
  show ?thesis
    using normalized_unit [OF h] h by blast
qed

theorem homogenized_projective_witness:
  "v4w (mkVector4f 2 4 6 2) \<noteq> 0 \<and>
   v4w (homogenized (mkVector4f 2 4 6 2)) = 1 \<and> scaleV4 (v4w (mkVector4f 2 4 6 2)) (homogenized (mkVector4f 2 4 6 2)) = mkVector4f 2 4 6 2 \<and>
   homogenize (mkVector4f 2 4 6 2) = homogenized (mkVector4f 2 4 6 2)"
proof -
  have h: "v4w (mkVector4f 2 4 6 2) \<noteq> 0"
    by (simp add: mkVector4f_def)
  show ?thesis
    using homogenized_projective [OF h] h by blast
qed

theorem copyFromArray_copyToArray_witness:
  "copyFromArray 1 exampleCudaArray exampleDeviceArray exampleDevice = (True, \<lparr>dev_blocks = [0 \<mapsto> [5, 6, 0, 0, 7, 8, 0, 0]], dev_next = 1\<rparr>) \<and>
   copyToArray 1 exampleDeviceArray exampleCudaArray \<lparr>dev_blocks = [0 \<mapsto> [5, 6, 0, 0, 7, 8, 0, 0]], dev_next = 1\<rparr> = (True, exampleCudaArray)"
proof -
  have c: "copyFromArray 1 exampleCudaArray exampleDeviceArray exampleDevice = (True, \<lparr>dev_blocks = [0 \<mapsto> [5, 6, 0, 0, 7, 8, 0, 0]], dev_next = 1\<rparr>)"
    by (simp add: copyFromArray_def exampleDeviceArray_def exampleCudaArray_def exampleDevice_def blockOf_def storeBlock_def
        memcpy2D_def inBlock_def rowStrideBytes_def widthInBytes_def copyRow_def upt_rec)
  then show ?thesis
    using DeviceArray2D.copyFromArray_copyToArray [OF c] by blast
qed

theorem fill_sets_elements_witness:
  "blockOf exampleDevice exampleDeviceArray = Some [1, 2, 0, 0, 3, 4, 0, 0] \<and>
   da_stride exampleDeviceArray = (int 1, int 4) \<and> length [7::byte] = 1 \<and>
   inBlock 4 (nat (fst (da_size exampleDeviceArray)) * 1) (nat (snd (da_size exampleDeviceArray))) [1, 2, 0, 0, 3, 4, 0, 0] \<and>
   fill 1 exampleEnv [7] exampleDeviceArray exampleDevice = (exampleDeviceArray, \<lparr>dev_blocks = [0 \<mapsto> [7, 7, 0, 0, 7, 7, 0, 0]], dev_next = 1\<rparr>) \<and>
   getD 1 exampleDeviceArray (1, 1) \<lparr>dev_blocks = [0 \<mapsto> [7, 7, 0, 0, 7, 7, 0, 0]], dev_next = 1\<rparr> = Some [7]"
proof -
  have b: "blockOf exampleDevice exampleDeviceArray = Some [1, 2, 0, 0, 3, 4, 0, 0]"
    and st: "da_stride exampleDeviceArray = (int 1, int 4)"
    and fits: "inBlock 4 (nat (fst (da_size exampleDeviceArray)) * 1) (nat (snd (da_size exampleDeviceArray))) [1, 2, 0, 0, 3, 4, 0, 0]"
    by (simp_all add: blockOf_def exampleDevice_def exampleDeviceArray_def inBlock_def)
  have f: "fill 1 exampleEnv [7] exampleDeviceArray exampleDevice = (exampleDeviceArray, \<lparr>dev_blocks = [0 \<mapsto> [7, 7, 0, 0, 7, 7, 0, 0]], dev_next = 1\<rparr>)"
    by (simp add: fill_def copyFromHost_def filledHostArray_def resize_def exampleDeviceArray_def exampleDevice_def blockOf_def
        storeBlock_def memcpy2D_def inBlock_def rowStrideBytes_def copyRow_def upt_rec numeral_2_eq_2)
  have "getD 1 exampleDeviceArray (1, 1) \<lparr>dev_blocks = [0 \<mapsto> [7, 7, 0, 0, 7, 7, 0, 0]], dev_next = 1\<rparr> = Some [7]"
    using fill_sets_elements [OF b st _ fits f] by (simp add: exampleDeviceArray_def)
  then show ?thesis
    using b st fits f by simp
qed

theorem daReach_nothing_stored_witness:
  "daReach 4 \<lparr>objs = (objs initialSystem)(0 := fst (DeviceArray2D.construct 4 exampleEnv (640, 480) (device initialSystem))),
              device = snd (DeviceArray2D.construct 4 exampleEnv (640, 480) (device initialSystem))\<rparr> \<and>
   getD 4 (fst (DeviceArray2D.construct 4 exampleEnv (640, 480) (device initialSystem))) (0, 0)
     (snd (DeviceArray2D.construct 4 exampleEnv (640, 480) (device initialSystem))) = None"
proof -
  have r: "daReach 4 \<lparr>objs = (objs initialSystem)(0 := fst (DeviceArray2D.construct 4 exampleEnv (640, 480) (device initialSystem))),
              device = snd (DeviceArray2D.construct 4 exampleEnv (640, 480) (device initialSystem))\<rparr>"
    by (rule da_construct [OF da_init]) (simp_all add: initialSystem_def)
  let ?S = "\<lparr>objs = (objs initialSystem)(0 := fst (DeviceArray2D.construct 4 exampleEnv (640, 480) (device initialSystem))),
              device = snd (DeviceArray2D.construct 4 exampleEnv (640, 480) (device initialSystem))\<rparr>"
  have "getD 4 (objs ?S 0) (0, 0) (device ?S) = None"
    by (rule daReach_nothing_stored [OF r, THEN conjunct2, rule_format]) simp
  then show ?thesis
    using r by simp
qed

subsection \<open>Witnesses of the geometry properties\<close>

theorem rayTriangleIntersection_sound_witness:
  "rayTriangleIntersection \<lparr>v3x = 1 / 4, v3y = 1 / 4, v3z = 1\<rparr> \<lparr>v3x = 0, v3y = 0, v3z = -1\<rparr>
     \<lparr>v3x = 0, v3y = 0, v3z = 0\<rparr> \<lparr>v3x = 1, v3y = 0, v3z = 0\<rparr> \<lparr>v3x = 0, v3y = 1, v3z = 0\<rparr> 0
     \<lparr>v3x = 0, v3y = 0, v3z = 0\<rparr> = (True, 1, \<lparr>v3x = 1 / 2, v3y = 1 / 4, v3z = 1 / 4\<rparr>) \<and>
   add3 \<lparr>v3x = 1 / 4, v3y = 1 / 4, v3z = 1\<rparr> (scale3 1 \<lparr>v3x = 0, v3y = 0, v3z = -1\<rparr>) =
     barycentricToEuclidean3 \<lparr>v3x = 1 / 2, v3y = 1 / 4, v3z = 1 / 4\<rparr>
       \<lparr>v3x = 0, v3y = 0, v3z = 0\<rparr> \<lparr>v3x = 1, v3y = 0, v3z = 0\<rparr> \<lparr>v3x = 0, v3y = 1, v3z = 0\<rparr>"
  using rayTriangleIntersection_sound [of "\<lparr>v3x = 1 / 4, v3y = 1 / 4, v3z = 1\<rparr>" "\<lparr>v3x = 0, v3y = 0, v3z = -1\<rparr>"
      "\<lparr>v3x = 0, v3y = 0, v3z = 0\<rparr>" "\<lparr>v3x = 1, v3y = 0, v3z = 0\<rparr>" "\<lparr>v3x = 0, v3y = 1, v3z = 0\<rparr>" 0
      "\<lparr>v3x = 0, v3y = 0, v3z = 0\<rparr>" 1 "\<lparr>v3x = 1 / 2, v3y = 1 / 4, v3z = 1 / 4\<rparr>"]
  by (simp add: rayTriangleIntersection_def vec_defs geomEpsilon_def Let_def)

theorem boundingBoxForPoints_tight_witness:
  "[\<lparr>v3x = 1, v3y = 5, v3z = 0\<rparr>, \<lparr>v3x = 3, v3y = 2, v3z = -1\<rparr>] \<noteq> [] \<and>
   b_origin (boundingBoxForPoints [\<lparr>v3x = 1, v3y = 5, v3z = 0\<rparr>, \<lparr>v3x = 3, v3y = 2, v3z = -1\<rparr>]) =
     \<lparr>v3x = 1, v3y = 2, v3z = -1\<rparr>"
  using boundingBoxForPoints_tight [of "[\<lparr>v3x = 1, v3y = 5, v3z = 0\<rparr>, \<lparr>v3x = 3, v3y = 2, v3z = -1\<rparr>]"]
  by simp

theorem getBasis_orthonormal_witness:
  "0 < geomEpsilon \<and> geomEpsilon \<le> normSquared3 \<lparr>v3x = 0, v3y = 0, v3z = 1\<rparr> \<and>
   getBasis geomEpsilon \<lparr>v3x = 0, v3y = 0, v3z = 1\<rparr> = (\<lparr>v3x = 0, v3y = 1, v3z = 0\<rparr>, \<lparr>v3x = -1, v3y = 0, v3z = 0\<rparr>) \<and>
   dot3 \<lparr>v3x = 0, v3y = 1, v3z = 0\<rparr> \<lparr>v3x = -1, v3y = 0, v3z = 0\<rparr> = 0"
  using getBasis_orthonormal [of geomEpsilon "\<lparr>v3x = 0, v3y = 0, v3z = 1\<rparr>"
      "\<lparr>v3x = 0, v3y = 1, v3z = 0\<rparr>" "\<lparr>v3x = -1, v3y = 0, v3z = 0\<rparr>"]
  by (simp add: getBasis_def geomEpsilon_def normalized3_def norm3_def vec_defs)

theorem getRightHandedBasis_det_witness:
  "getBasis geomEpsilon (normalized3 \<lparr>v3x = 0, v3y = 0, v3z = 2\<rparr>) = (\<lparr>v3x = 0, v3y = 1, v3z = 0\<rparr>, \<lparr>v3x = -1, v3y = 0, v3z = 0\<rparr>) \<and>
   determinant (getRightHandedBasis geomEpsilon \<lparr>v3x = 0, v3y = 0, v3z = 2\<rparr>) = 1"
proof -
  have b: "getBasis geomEpsilon (normalized3 \<lparr>v3x = 0, v3y = 0, v3z = 2\<rparr>) = (\<lparr>v3x = 0, v3y = 1, v3z = 0\<rparr>, \<lparr>v3x = -1, v3y = 0, v3z = 0\<rparr>)"
    by (simp add: getBasis_def geomEpsilon_def normalized3_def norm3_def vec_defs)
  have "determinant (getRightHandedBasis geomEpsilon \<lparr>v3x = 0, v3y = 0, v3z = 2\<rparr>) = 1"
    using getRightHandedBasis_det [OF _ _ _ b, THEN conjunct2] by (simp add: geomEpsilon_def normSquared3_def)
  with b show ?thesis
    by simp
qed

theorem pointInTriangle_barycentric_witness:
  "pointInTriangle \<lparr>v2x = 1 / 2, v2y = 1 / 2\<rparr> \<lparr>v2x = 0, v2y = 0\<rparr> \<lparr>v2x = 2, v2y = 0\<rparr> \<lparr>v2x = 0, v2y = 2\<rparr> \<and>
   0 \<le> v3x (euclideanToBarycentric geomEpsilon \<lparr>v2x = 1 / 2, v2y = 1 / 2\<rparr> \<lparr>v2x = 0, v2y = 0\<rparr> \<lparr>v2x = 2, v2y = 0\<rparr> \<lparr>v2x = 0, v2y = 2\<rparr>)"
  using pointInTriangle_barycentric [of geomEpsilon "\<lparr>v2x = 0, v2y = 0\<rparr>" "\<lparr>v2x = 2, v2y = 0\<rparr>" "\<lparr>v2x = 0, v2y = 2\<rparr>" "\<lparr>v2x = 1 / 2, v2y = 1 / 2\<rparr>"]
  by (simp add: orient2_def geomEpsilon_def pointInTriangle_def pointsOnSameSide_def Let_def vec_defs)

theorem euclideanToBarycentric_roundtrip_witness:
  "euclideanToBarycentric geomEpsilon (barycentricToEuclidean2 \<lparr>v3x = 1 / 2, v3y = 1 / 4, v3z = 1 / 4\<rparr> \<lparr>v2x = 0, v2y = 0\<rparr> \<lparr>v2x = 2, v2y = 0\<rparr> \<lparr>v2x = 0, v2y = 2\<rparr>) \<lparr>v2x = 0, v2y = 0\<rparr> \<lparr>v2x = 2, v2y = 0\<rparr> \<lparr>v2x = 0, v2y = 2\<rparr> =
     \<lparr>v3x = 1 / 2, v3y = 1 / 4, v3z = 1 / 4\<rparr>"
  using euclideanToBarycentric_roundtrip [of geomEpsilon "\<lparr>v2x = 0, v2y = 0\<rparr>" "\<lparr>v2x = 2, v2y = 0\<rparr>" "\<lparr>v2x = 0, v2y = 2\<rparr>" "\<lparr>v3x = 1 / 2, v3y = 1 / 4, v3z = 1 / 4\<rparr>"]
  by (simp add: orient2_def geomEpsilon_def)

theorem pixelsInTriangle_iff_witness:
  "\<lparr>v2x = 1 / 2, v2y = 1 / 2\<rparr> \<in> set (pixelsInTriangle \<lparr>v2x = 0, v2y = 0\<rparr> \<lparr>v2x = 2, v2y = 0\<rparr> \<lparr>v2x = 0, v2y = 2\<rparr>)"
proof -
  have "\<lparr>v2x = 1 / 2, v2y = 1 / 2\<rparr> = pixelCenter (0, 0)"
    by (simp add: pixelCenter_def)
  moreover have "pointInTriangle \<lparr>v2x = 1 / 2, v2y = 1 / 2\<rparr> \<lparr>v2x = 0, v2y = 0\<rparr> \<lparr>v2x = 2, v2y = 0\<rparr> \<lparr>v2x = 0, v2y = 2\<rparr>"
    by (simp add: pointInTriangle_def pointsOnSameSide_def Let_def vec_defs)
  ultimately show ?thesis
    using pixelsInTriangle_iff [of "\<lparr>v2x = 0, v2y = 0\<rparr>" "\<lparr>v2x = 2, v2y = 0\<rparr>" "\<lparr>v2x = 0, v2y = 2\<rparr>" "\<lparr>v2x = 1 / 2, v2y = 1 / 2\<rparr>"] by (auto simp: orient2_def)
qed

theorem pixelsInTriangle_conservative_witness:
  "set (pixelsInTriangle \<lparr>v2x = 0, v2y = 0\<rparr> \<lparr>v2x = 2, v2y = 0\<rparr> \<lparr>v2x = 0, v2y = 2\<rparr>) \<subseteq> set (pixelsInTriangleConservative \<lparr>v2x = 0, v2y = 0\<rparr> \<lparr>v2x = 2, v2y = 0\<rparr> \<lparr>v2x = 0, v2y = 2\<rparr>)"
  using pixelsInTriangle_conservative [of "\<lparr>v2x = 0, v2y = 0\<rparr>" "\<lparr>v2x = 2, v2y = 0\<rparr>" "\<lparr>v2x = 0, v2y = 2\<rparr>"] by (simp add: orient2_def)

theorem closestPointOnTriangle_optimal_witness:
  "normSquared2 (sub2 \<lparr>v2x = 2, v2y = 2\<rparr> (closestPointOnTriangle \<lparr>v2x = 2, v2y = 2\<rparr> \<lparr>v2x = 0, v2y = 0\<rparr> \<lparr>v2x = 2, v2y = 0\<rparr> \<lparr>v2x = 0, v2y = 2\<rparr>)) \<le>
     normSquared2 (sub2 \<lparr>v2x = 2, v2y = 2\<rparr> (add2 \<lparr>v2x = 2, v2y = 0\<rparr> (scale2 (1 / 4) (sub2 \<lparr>v2x = 0, v2y = 2\<rparr> \<lparr>v2x = 2, v2y = 0\<rparr>))))"
  using closestPointOnTriangle_optimal [of "\<lparr>v2x = 0, v2y = 0\<rparr>" "\<lparr>v2x = 2, v2y = 0\<rparr>" "\<lparr>v2x = 0, v2y = 2\<rparr>" "1 / 4" "\<lparr>v2x = 2, v2y = 2\<rparr>"]
  by simp

theorem pointToLineSegmentDistanceSquared_distance_witness:
  "fst (pointToLineSegmentDistanceSquared \<lparr>v3x = 1, v3y = 1, v3z = 0\<rparr> \<lparr>v3x = 0, v3y = 0, v3z = 0\<rparr>
        \<lparr>v3x = 2, v3y = 0, v3z = 0\<rparr> None) =
   normSquared3 (sub3 \<lparr>v3x = 1, v3y = 1, v3z = 0\<rparr>
     (closestPointOnSegment3 \<lparr>v3x = 1, v3y = 1, v3z = 0\<rparr> \<lparr>v3x = 0, v3y = 0, v3z = 0\<rparr> \<lparr>v3x = 2, v3y = 0, v3z = 0\<rparr>))"
  using pointToLineSegmentDistanceSquared_distance [of "\<lparr>v3x = 0, v3y = 0, v3z = 0\<rparr>" "\<lparr>v3x = 2, v3y = 0, v3z = 0\<rparr>"
      "\<lparr>v3x = 1, v3y = 1, v3z = 0\<rparr>" None]
  by simp

theorem pointToLineSegmentDistanceSquared_reported_point_witness:
  "pointToLineSegmentDistanceSquared \<lparr>v3x = 3, v3y = 1, v3z = 0\<rparr> \<lparr>v3x = 0, v3y = 0, v3z = 0\<rparr>
     \<lparr>v3x = 2, v3y = 0, v3z = 0\<rparr> (Some \<lparr>v3x = 0, v3y = 0, v3z = 0\<rparr>) = (2, Some \<lparr>v3x = 0, v3y = 0, v3z = 0\<rparr>) \<and>
   2 < normSquared3 (sub3 \<lparr>v3x = 3, v3y = 1, v3z = 0\<rparr> \<lparr>v3x = 0, v3y = 0, v3z = 0\<rparr>)"
proof -
  have h: "pointToLineSegmentDistanceSquared \<lparr>v3x = 3, v3y = 1, v3z = 0\<rparr> \<lparr>v3x = 0, v3y = 0, v3z = 0\<rparr>
     \<lparr>v3x = 2, v3y = 0, v3z = 0\<rparr> (Some \<lparr>v3x = 0, v3y = 0, v3z = 0\<rparr>) = (2, Some \<lparr>v3x = 0, v3y = 0, v3z = 0\<rparr>)"
    by (simp add: pointToLineSegmentDistanceSquared_def Let_def vec_defs)
  have "2 < normSquared3 (sub3 \<lparr>v3x = 3, v3y = 1, v3z = 0\<rparr> \<lparr>v3x = 0, v3y = 0, v3z = 0\<rparr>)"
    using pointToLineSegmentDistanceSquared_reported_point [OF _ h, THEN conjunct2] by (simp add: vec_defs)
  with h show ?thesis
    by simp
qed

theorem raySphereIntersection_on_sphere_witness:
  "raySphereIntersection \<lparr>v3x = 0, v3y = 0, v3z = 0\<rparr> \<lparr>v3x = 1, v3y = 0, v3z = 0\<rparr> \<lparr>v3x = 3, v3y = 0, v3z = 0\<rparr> 1 0 =
     (True, 2) \<and>
   normSquared3 (sub3 (add3 \<lparr>v3x = 0, v3y = 0, v3z = 0\<rparr> (scale3 2 \<lparr>v3x = 1, v3y = 0, v3z = 0\<rparr>))
     \<lparr>v3x = 3, v3y = 0, v3z = 0\<rparr>) = 1 * 1"
proof -
  have "sqrt 4 = (2 :: real)"
    using real_sqrt_abs [of 2] by simp
  then have h: "raySphereIntersection \<lparr>v3x = 0, v3y = 0, v3z = 0\<rparr> \<lparr>v3x = 1, v3y = 0, v3z = 0\<rparr>
      \<lparr>v3x = 3, v3y = 0, v3z = 0\<rparr> 1 0 = (True, 2)"
    by (simp add: raySphereIntersection_def vec_defs Let_def)
  show ?thesis
    using h raySphereIntersection_on_sphere [OF h] by (simp add: normSquared3_def)
qed


subsection \<open>Witnesses of the mesh properties\<close>

theorem meshReach_meshInv_witness:
  "meshReach True (setVertexRanges [(0, 2)] (addVertexRange (0, 2) zero3 None (emptyMesh (replicate 2 defaultVertex)))) \<and>
   vertexBufferInv (setVertexRanges [(0, 2)] (addVertexRange (0, 2) zero3 None (emptyMesh (replicate 2 defaultVertex)))) \<and>
   meshInv (setVertexRanges [(0, 2)] (addVertexRange (0, 2) zero3 None (emptyMesh (replicate 2 defaultVertex))))"
proof -
  have "meshReach True (emptyMesh (replicate 2 defaultVertex))"
    by (rule meshReach.capacity [of 0 2 _ 1]) (simp add: meshWithCapacity_def)
  then have "meshReach True (addVertexRange (0, 2) zero3 None (emptyMesh (replicate 2 defaultVertex)))"
    by (rule meshReach.addRange)
  then have "meshReach (True \<and> length [(0::int, 2::int)] = length (m_vertexRanges (addVertexRange (0, 2) zero3 None (emptyMesh (replicate 2 defaultVertex)))))
      (setVertexRanges [(0, 2)] (addVertexRange (0, 2) zero3 None (emptyMesh (replicate 2 defaultVertex))))"
    by (rule meshReach.setRanges)
  then have r: "meshReach True (setVertexRanges [(0, 2)] (addVertexRange (0, 2) zero3 None (emptyMesh (replicate 2 defaultVertex))))"
    by (simp add: addVertexRange_def emptyMesh_def)
  with meshReach_meshInv [OF r] show ?thesis
    by simp
qed

lemma exampleOBJ_mesh:
  "\<exists>mesh. meshFromOBJ 0 exampleOBJ [] False = Some (mesh, 1) \<and> length (m_vertexArray mesh) = 6 \<and>
     length (m_vertexRanges mesh) = 2"
  by (simp add: meshFromOBJ_def exampleOBJ_def addGroup_def addBatch_def qAt_def at3_def faceVertices_def
      loadDiffuseTexture_def addVertexRange_def emptyMesh_def)

theorem meshFromOBJ_vertexRanges_witness:
  "\<exists>mesh. meshFromOBJ 0 exampleOBJ [] False = Some (mesh, 1) \<and> length (m_vertexArray mesh) = 6 \<and>
     map fst (m_vertexRanges mesh) = [0, 0] \<and> sum_list (map snd (m_vertexRanges mesh)) = 6"
proof -
  obtain mesh where m: "meshFromOBJ 0 exampleOBJ [] False = Some (mesh, 1)" and l: "length (m_vertexArray mesh) = 6"
    and n: "length (m_vertexRanges mesh) = 2"
    using exampleOBJ_mesh by blast
  obtain r0 r1 where rs: "m_vertexRanges mesh = [r0, r1]"
    using n by (auto simp: length_Suc_conv numeral_2_eq_2)
  have h: "map fst (m_vertexRanges mesh) = [0, 0]" "sum_list (map snd (m_vertexRanges mesh)) = 6"
    using meshFromOBJ_vertexRanges [OF m] l unfolding rs by auto
  show ?thesis
    by (rule exI [of _ mesh]) (simp add: m l h)
qed

theorem updateBoundingBox_tight_witness:
  "exampleVertices \<noteq> [] \<and>
   bb_min (m_boundingBox (updateBoundingBox (emptyMesh exampleVertices))) = \<lparr>v3x = 1, v3y = 2, v3z = -1\<rparr> \<and>
   bb_max (m_boundingBox (updateBoundingBox (emptyMesh exampleVertices))) = \<lparr>v3x = 3, v3y = 5, v3z = 0\<rparr>"
  using updateBoundingBox_tight [of "emptyMesh exampleVertices"]
  by (simp add: emptyMesh_def exampleVertices_def defaultVertex_def fltMax_def)

theorem twoUnitCubeWorldMatrix_unit_cube_witness:
  "\<bar>v4x (mulVec4 (twoUnitCubeWorldMatrix ((emptyMesh [])\<lparr>m_boundingBox :=
      \<lparr>bb_min = \<lparr>v3x = 0, v3y = 0, v3z = 0\<rparr>, bb_max = \<lparr>v3x = 2, v3y = 1, v3z = 1\<rparr>\<rparr>\<rparr>))
      (fromXYZ_W \<lparr>v3x = 2, v3y = 1, v3z = 0\<rparr> 1))\<bar> \<le> 1"
  using twoUnitCubeWorldMatrix_unit_cube [of "(emptyMesh [])\<lparr>m_boundingBox :=
      \<lparr>bb_min = \<lparr>v3x = 0, v3y = 0, v3z = 0\<rparr>, bb_max = \<lparr>v3x = 2, v3y = 1, v3z = 1\<rparr>\<rparr>\<rparr>" "\<lparr>v3x = 2, v3y = 1, v3z = 0\<rparr>"]
  by (simp add: bbLongestSideLength_def sub3_def)

end
